(* ===== verification/Prelude.thy ===== *)
theory Prelude
  imports Main "HOL-Library.AList" "HOL-Library.Sublist"
begin

text \<open>
  Shared vocabulary of the development.

  \<^item> Python text is a \<^typ>\<open>string\<close> (one \<^typ>\<open>char\<close> per byte of its UTF-8 encoding; the
    names, digests and keywords the code compares are ASCII, where the two views agree).
  \<^item> A Python \<open>dict\<close> is an association list in insertion order: \<open>d[k] = v\<close> is
    \<^const>\<open>AList.update\<close> (an existing key keeps its place, a new one goes to the end),
    \<open>d.pop(k, None)\<close> is \<^const>\<open>AList.delete\<close>, \<open>d.get(k)\<close> is \<^const>\<open>map_of\<close>.
  \<^item> A call that may raise returns \<open>'e + 'a\<close>: \<^term>\<open>Inl e\<close> for the exception.
\<close>

section \<open>Automation collections\<close>

named_theorems py_simps \<open>executable equations of the Python string and dict operations\<close>
named_theorems inv_intros \<open>preservation of the component invariants\<close>

section \<open>Dictionaries\<close>

type_synonym ('k, 'v) dict = "('k \<times> 'v) list"

definition dict_ok :: "('k, 'v) dict \<Rightarrow> bool" where
  "dict_ok d = distinct (map fst d)"

definition dict_all :: "('k \<Rightarrow> 'v \<Rightarrow> bool) \<Rightarrow> ('k, 'v) dict \<Rightarrow> bool" where
  "dict_all P d = list_all (\<lambda>(k, v). P k v) d"

lemma map_of_AList_update [simp]: "map_of (AList.update k v d) = (map_of d)(k \<mapsto> v)"
  by (rule update_conv')

lemma map_of_AList_delete [simp]: "map_of (AList.delete k d) = (map_of d)(k := None)"
  by (rule delete_conv')

lemma map_upd_same_eq [simp]: "m(k \<mapsto> a) = m(k \<mapsto> b) \<longleftrightarrow> a = b"
  by (metis fun_upd_same option.inject)

lemma dict_ok_Nil [simp, inv_intros]: "dict_ok []"
  by (simp add: dict_ok_def)

lemma dict_ok_update [simp, inv_intros]: "dict_ok d \<Longrightarrow> dict_ok (AList.update k v d)"
  by (simp add: dict_ok_def distinct_update)

lemma dict_ok_delete [simp, inv_intros]: "dict_ok d \<Longrightarrow> dict_ok (AList.delete k d)"
  by (simp add: dict_ok_def distinct_delete)

lemma dict_all_Nil [simp]: "dict_all P []"
  by (simp add: dict_all_def)

lemma dict_all_Cons [simp]: "dict_all P ((k, v) # d) = (P k v \<and> dict_all P d)"
  by (simp add: dict_all_def)

lemma dict_all_update [inv_intros]: "dict_all P d \<Longrightarrow> P k v \<Longrightarrow> dict_all P (AList.update k v d)"
proof (induction d)
  case (Cons kv d)
  then show ?case by (cases kv) simp
qed simp

lemma dict_all_delete [inv_intros]: "dict_all P d \<Longrightarrow> dict_all P (AList.delete k d)"
  by (induction d) auto

lemma dict_allD: "dict_all P d \<Longrightarrow> map_of d k = Some v \<Longrightarrow> P k v"
  by (auto simp: dict_all_def list_all_iff dest: map_of_SomeD)

lemma dict_all_map_of: "dict_ok d \<Longrightarrow> dict_all P d = (\<forall>k v. map_of d k = Some v \<longrightarrow> P k v)"
  by (auto simp: dict_all_def list_all_iff dict_ok_def)

section \<open>Results of calls that may raise\<close>

definition bindR :: "'e + 'a \<Rightarrow> ('a \<Rightarrow> 'e + 'b) \<Rightarrow> 'e + 'b" where
  "bindR r f = (case r of Inl e \<Rightarrow> Inl e | Inr a \<Rightarrow> f a)"

lemma bindR_simps [simp]: "bindR (Inl e) f = Inl e" "bindR (Inr a) f = f a"
  by (simp_all add: bindR_def)

lemma bindR_eq_Inr: "bindR r f = Inr b \<longleftrightarrow> (\<exists>a. r = Inr a \<and> f a = Inr b)"
  by (cases r) simp_all

lemma bindR_eq_Inl: "bindR r f = Inl e \<longleftrightarrow> r = Inl e \<or> (\<exists>a. r = Inr a \<and> f a = Inl e)"
  by (cases r) auto

definition ensure :: "bool \<Rightarrow> 'e \<Rightarrow> 'e + unit" where
  "ensure b e = (if b then Inr () else Inl e)"

lemma ensure_simps [simp]: "ensure True e = Inr ()" "ensure False e = Inl e"
  by (simp_all add: ensure_def)

lemma ensure_eq_Inr [simp]: "ensure b e = Inr u \<longleftrightarrow> b"
  by (simp add: ensure_def)

lemma ensure_eq_Inl [simp]: "ensure b e = Inl e' \<longleftrightarrow> \<not> b \<and> e = e'"
  by (simp add: ensure_def)

section \<open>Python string operations\<close>

definition ccode :: "char \<Rightarrow> nat" where
  "ccode c = of_char c"

definition newline :: char where
  "newline = CHR 0x0A"

definition carriage_return :: char where
  "carriage_return = CHR 0x0D"

definition is_upper :: "char \<Rightarrow> bool" where
  "is_upper c = (65 \<le> ccode c \<and> ccode c \<le> 90)"

definition is_lower :: "char \<Rightarrow> bool" where
  "is_lower c = (97 \<le> ccode c \<and> ccode c \<le> 122)"

definition is_digit :: "char \<Rightarrow> bool" where
  "is_digit c = (48 \<le> ccode c \<and> ccode c \<le> 57)"

definition to_upper :: "char \<Rightarrow> char" where
  "to_upper c = (if is_lower c then char_of (ccode c - 32) else c)"

definition to_lower :: "char \<Rightarrow> char" where
  "to_lower c = (if is_upper c then char_of (ccode c + 32) else c)"

definition py_upper :: "string \<Rightarrow> string" where
  "py_upper s = map to_upper s"

definition py_lower :: "string \<Rightarrow> string" where
  "py_lower s = map to_lower s"

definition startswith :: "string \<Rightarrow> string \<Rightarrow> bool" where
  "startswith s p = prefix p s"

definition endswith :: "string \<Rightarrow> string \<Rightarrow> bool" where
  "endswith s p = suffix p s"

definition rstrip_chars :: "(char \<Rightarrow> bool) \<Rightarrow> string \<Rightarrow> string" where
  "rstrip_chars P s = rev (dropWhile P (rev s))"

definition lstrip_chars :: "(char \<Rightarrow> bool) \<Rightarrow> string \<Rightarrow> string" where
  "lstrip_chars P s = dropWhile P s"

definition is_space :: "char \<Rightarrow> bool" where
  "is_space c = (ccode c = 32 \<or> (9 \<le> ccode c \<and> ccode c \<le> 13) \<or> (28 \<le> ccode c \<and> ccode c \<le> 31))"

definition py_strip :: "string \<Rightarrow> string" where
  "py_strip s = lstrip_chars is_space (rstrip_chars is_space s)"

lemmas char_class_defs =
  ccode_def is_upper_def is_lower_def is_digit_def to_upper_def to_lower_def newline_def
  carriage_return_def is_space_def

declare char_class_defs [py_simps] py_upper_def [py_simps] py_lower_def [py_simps]
  startswith_def [py_simps] endswith_def [py_simps]

lemma rstrip_chars_not_last:
  "rstrip_chars P s = [] \<or> \<not> P (last (rstrip_chars P s))"
proof (cases "dropWhile P (rev s)")
  case (Cons c cs)
  then have "\<not> P c" by (metis hd_dropWhile list.distinct(1) list.sel(1))
  with Cons show ?thesis by (simp add: rstrip_chars_def)
qed (simp add: rstrip_chars_def)

lemma prefix_rstrip_chars: "prefix (rstrip_chars P s) s"
  unfolding rstrip_chars_def
  by (metis suffix_dropWhile suffix_to_prefix rev_rev_ident)

lemma rstrip_chars_id: "(s = [] \<or> \<not> P (last s)) \<Longrightarrow> rstrip_chars P s = s"
  by (cases s rule: rev_cases) (simp_all add: rstrip_chars_def)

text \<open>\<open>str\<close> of an integer.\<close>

definition digit_char :: "nat \<Rightarrow> char" where
  "digit_char n = char_of (48 + n)"

fun nat_str :: "nat \<Rightarrow> string" where
  "nat_str n = (if n < 10 then [digit_char n] else nat_str (n div 10) @ [digit_char (n mod 10)])"

declare nat_str.simps [simp del]

definition int_str :: "int \<Rightarrow> string" where
  "int_str i = (if i < 0 then CHR ''-'' # nat_str (nat (- i)) else nat_str (nat i))"

text \<open>\<open>Path.suffix\<close> of a file name: the last dot and what follows, unless either side is empty.\<close>

definition path_suffix :: "string \<Rightarrow> string" where
  "path_suffix f =
     (if CHR ''.'' \<notin> set f then []
      else let ext = rev (takeWhile (\<lambda>c. c \<noteq> CHR ''.'') (rev f));
               stem = take (length f - length ext - 1) f
           in if ext = [] \<or> stem = [] then [] else CHR ''.'' # ext)"

definition path_stem :: "string \<Rightarrow> string" where
  "path_stem f = take (length f - length (path_suffix f)) f"

text \<open>\<open>int\<close> of a text: surrounding white space, a sign, digits with single underscores between them.\<close>

fun py_digits :: "nat \<Rightarrow> bool \<Rightarrow> string \<Rightarrow> nat option" where
  "py_digits acc after_digit [] = (if after_digit then Some acc else None)"
| "py_digits acc after_digit (c # s) =
     (if is_digit c then py_digits (acc * 10 + (ccode c - 48)) True s
      else if c = CHR ''_'' \<and> after_digit then py_digits acc False s
      else None)"

definition py_int :: "string \<Rightarrow> int option" where
  "py_int s =
     (case py_strip s of
        [] \<Rightarrow> None
      | c # r \<Rightarrow>
          if c = CHR ''-'' then map_option (\<lambda>n. - int n) (py_digits 0 False r)
          else if c = CHR ''+'' then map_option int (py_digits 0 False r)
          else map_option int (py_digits 0 False (c # r)))"

lemma digit_char_digit: "d < 10 \<Longrightarrow> ccode (digit_char d) = 48 + d"
  by (simp add: digit_char_def ccode_def)

lemma py_digits_nat_str:
  "py_digits acc b (nat_str n @ s) = py_digits (acc * 10 ^ length (nat_str n) + n) True s"
proof (induction n arbitrary: acc b s rule: nat_str.induct)
  case (1 n)
  show ?case
  proof (cases "n < 10")
    case True
    then show ?thesis by (simp add: nat_str.simps digit_char_digit is_digit_def)
  next
    case False
    have step: "py_digits a b (digit_char k # s) = py_digits (a * 10 + k) True s" if "k < 10" for a b k
      using that by (simp add: digit_char_digit is_digit_def)
    have str: "nat_str n = nat_str (n div 10) @ [digit_char (n mod 10)]"
      using False by (subst nat_str.simps) simp
    have "(acc * 10 ^ length (nat_str (n div 10)) + n div 10) * 10 + n mod 10 = acc * 10 ^ length (nat_str n) + n"
      by (simp add: str algebra_simps)
    then show ?thesis
      using 1 [OF False, of acc b "digit_char (n mod 10) # s"] by (simp add: str step ac_simps del: py_digits.simps)
  qed
qed

lemma nat_str_digits: "c \<in> set (nat_str n) \<Longrightarrow> is_digit c"
proof (induction n rule: nat_str.induct)
  case (1 n)
  have "is_digit (digit_char d)" if "d < 10" for d
    using that by (simp add: is_digit_def digit_char_digit)
  then show ?case
    using 1 by (subst (asm) (2) nat_str.simps) (auto split: if_splits)
qed

lemma nat_str_not_Nil [simp]: "nat_str n \<noteq> []"
  by (subst nat_str.simps) simp

lemma py_strip_id: "s \<noteq> [] \<Longrightarrow> \<not> is_space (hd s) \<Longrightarrow> \<not> is_space (last s) \<Longrightarrow> py_strip s = s"
  by (cases s) (simp_all add: py_strip_def rstrip_chars_id lstrip_chars_def)

lemma py_int_int_str [simp]: "py_int (int_str i) = Some i"
proof -
  have sp: "\<not> is_space c" if "is_digit c" for c
    using that by (auto simp: is_digit_def is_space_def)
  have nd: "\<not> is_digit (CHR ''-'')" "\<not> is_digit (CHR ''+'')"
    by (simp_all add: is_digit_def ccode_def)
  have ends: "hd (nat_str n) \<in> set (nat_str n)" "last (nat_str n) \<in> set (nat_str n)" for n
    by simp_all
  show ?thesis
  proof (cases "i < 0")
    case True
    have "\<not> is_space (CHR ''-'')" by (simp add: is_space_def ccode_def)
    then have "py_strip (int_str i) = CHR ''-'' # nat_str (nat (- i))"
      using True sp [OF nat_str_digits [OF ends(2)]] by (simp add: int_str_def py_strip_id)
    with True show ?thesis
      using py_digits_nat_str [of 0 False "nat (- i)" "[]"] by (simp add: py_int_def)
  next
    case False
    obtain c r where cr: "nat_str (nat i) = c # r" by (cases "nat_str (nat i)") auto
    have "py_strip (int_str i) = nat_str (nat i)"
      using False sp [OF nat_str_digits [OF ends(1)]] sp [OF nat_str_digits [OF ends(2)]]
      by (simp add: int_str_def py_strip_id)
    moreover have "c \<noteq> CHR ''-''" "c \<noteq> CHR ''+''"
      using nat_str_digits [of c "nat i"] nd cr by auto
    ultimately show ?thesis
      using False py_digits_nat_str [of 0 False "nat i" "[]"] cr by (simp add: py_int_def)
  qed
qed

section \<open>\<open>repr\<close>\<close>

text \<open>\<open>repr\<close> of a text, as the messages quote it.\<close>

definition hex_digit :: "nat \<Rightarrow> char" where
  "hex_digit n = char_of (if n < 10 then 48 + n else 87 + n)"

definition repr_char :: "char \<Rightarrow> char \<Rightarrow> string" where
  "repr_char q c =
     (if c = q \<or> c = CHR 0x5C then [CHR 0x5C, c]
      else if c = newline then [CHR 0x5C, CHR ''n'']
      else if c = carriage_return then [CHR 0x5C, CHR ''r'']
      else if ccode c = 9 then [CHR 0x5C, CHR ''t'']
      else if ccode c < 32 \<or> (127 \<le> ccode c \<and> ccode c \<le> 160) \<or> ccode c = 173
        then [CHR 0x5C, CHR ''x'', hex_digit (ccode c div 16), hex_digit (ccode c mod 16)]
      else [c])"

definition py_repr :: "string \<Rightarrow> string" where
  "py_repr s =
     (let q = (if CHR 0x27 \<in> set s \<and> CHR 0x22 \<notin> set s then CHR 0x22 else CHR 0x27)
      in q # concat (map (repr_char q) s) @ [q])"

section \<open>Lists\<close>

lemma filter_partition_length:
  "length (filter P xs) + length (filter (\<lambda>x. \<not> P x) xs) = length xs"
  by (rule sum_length_filter_compl)

lemma Option_case_neq_None: "(case x of None \<Rightarrow> False | Some v \<Rightarrow> P v) \<longleftrightarrow> (\<exists>v. x = Some v \<and> P v)"
  by (cases x) simp_all

end
