(* ===== verification/Script_Name.thy ===== *)
theory Script_Name
  imports Prelude
begin

text \<open>
  \<open>shared/script_name.py\<close>: the check that a script name is a safe file name, and the check the
  agent's endpoints make on their \<open>{name}\<close> path parameter (\<open>agent/main.py\<close>: the pattern of
  \<open>_SAFE_NAME\<close>, then \<open>validate_script_name\<close>).

  The two regular expressions look alike but end differently.  Python's \<open>re\<close> lets \<open>$\<close> match
  before a trailing newline, the engine behind a pydantic \<open>pattern\<close> does not; both are modelled
  as they behave.
\<close>

section \<open>The validator\<close>

datatype script_name_error =
    Name_Empty | Name_Too_Long | Name_Illegal_Char | Name_Only_Dots | Name_Trailing_Dot
  | Name_Reserved

definition MAX_SCRIPT_NAME_LENGTH :: nat where
  "MAX_SCRIPT_NAME_LENGTH = 100"

definition name_char :: "char \<Rightarrow> bool" where
  "name_char c = (is_upper c \<or> is_lower c \<or> is_digit c \<or> c = CHR ''_'' \<or> c = CHR ''.'' \<or> c = CHR ''-'')"

definition ALLOWED_match :: "string \<Rightarrow> bool" where
  "ALLOWED_match s =
     (let t = (if s \<noteq> [] \<and> last s = newline then butlast s else s)
      in t \<noteq> [] \<and> list_all name_char t)"

definition WINDOWS_RESERVED :: "string list" where
  "WINDOWS_RESERVED =
     [''CON'', ''PRN'', ''AUX'', ''NUL'']
     @ map (\<lambda>d. ''COM'' @ [d]) ''123456789''
     @ map (\<lambda>d. ''LPT'' @ [d]) ''123456789''"

definition name_stem :: "string \<Rightarrow> string" where
  "name_stem s = takeWhile (\<lambda>c. c \<noteq> CHR ''.'') s"

definition validate_script_name :: "string \<Rightarrow> script_name_error + string" where
  "validate_script_name name =
     (if name = [] then Inl Name_Empty
      else if length name > MAX_SCRIPT_NAME_LENGTH then Inl Name_Too_Long
      else if \<not> ALLOWED_match name then Inl Name_Illegal_Char
      else if list_all (\<lambda>c. c = CHR ''.'') name then Inl Name_Only_Dots
      else if endswith name ''.'' then Inl Name_Trailing_Dot
      else if py_upper (name_stem name) \<in> set WINDOWS_RESERVED then Inl Name_Reserved
      else Inr name)"

text \<open>\<open>_NAME\<close> of the agent's endpoints: the schema pattern, then the validator.\<close>

definition SAFE_NAME_pattern :: "string \<Rightarrow> bool" where
  "SAFE_NAME_pattern s = (s \<noteq> [] \<and> list_all name_char s)"

definition endpoint_name :: "string \<Rightarrow> script_name_error + string" where
  "endpoint_name s = (if SAFE_NAME_pattern s then validate_script_name s else Inl Name_Illegal_Char)"

section \<open>What a safe name is\<close>

definition safe_filename :: "string \<Rightarrow> bool" where
  "safe_filename s \<longleftrightarrow>
     s \<noteq> [] \<and> length s \<le> 100 \<and> (\<forall>c \<in> set s. name_char c) \<and> last s \<noteq> CHR ''.''
     \<and> py_upper (name_stem s) \<notin> set WINDOWS_RESERVED"

text \<open>The names only the validator's \<open>$\<close> lets through: legal characters, then one newline.\<close>

definition newline_name :: "string \<Rightarrow> bool" where
  "newline_name s \<longleftrightarrow>
     (\<exists>t. s = t @ [newline] \<and> t \<noteq> [] \<and> length t < 100 \<and> (\<forall>c \<in> set t. name_char c)
        \<and> (CHR ''.'' \<in> set t \<longrightarrow> py_upper (name_stem t) \<notin> set WINDOWS_RESERVED))"

lemma newline_not_name_char [simp]: "\<not> name_char newline"
  by (simp add: name_char_def char_class_defs)

lemma slash_not_name_char [simp]: "\<not> name_char (CHR ''/'')" "\<not> name_char (CHR 0x5C)"
  by (simp_all add: name_char_def char_class_defs)

lemma ALLOWED_match_iff:
  "ALLOWED_match s \<longleftrightarrow>
     SAFE_NAME_pattern s \<or> (\<exists>t. s = t @ [newline] \<and> SAFE_NAME_pattern t)"
proof (cases s rule: rev_cases)
  case (snoc t c)
  then show ?thesis
    by (cases "c = newline") (auto simp: ALLOWED_match_def SAFE_NAME_pattern_def)
qed (simp add: ALLOWED_match_def SAFE_NAME_pattern_def)

lemma endswith_dot: "s \<noteq> [] \<Longrightarrow> endswith s ''.'' \<longleftrightarrow> last s = CHR ''.''"
  by (cases s rule: rev_cases) (auto simp: endswith_def suffix_def)

lemma only_dots_trailing: "s \<noteq> [] \<Longrightarrow> list_all (\<lambda>c. c = CHR ''.'') s \<Longrightarrow> last s = CHR ''.''"
  by (simp add: list_all_iff)

lemma name_stem_no_dot: "CHR ''.'' \<notin> set s \<Longrightarrow> name_stem s = s"
  by (auto simp: name_stem_def takeWhile_eq_all_conv)

lemma name_stem_append: "CHR ''.'' \<in> set s \<Longrightarrow> name_stem (s @ t) = name_stem s"
  by (auto simp: name_stem_def takeWhile_append1)

lemma reserved_no_newline: "r \<in> set WINDOWS_RESERVED \<Longrightarrow> newline \<notin> set r"
  by (auto simp: WINDOWS_RESERVED_def newline_def)

lemma newline_in_upper: "newline \<in> set s \<Longrightarrow> newline \<in> set (py_upper s)"
  by (force simp: py_upper_def char_class_defs image_iff)

lemma validate_safe:
  assumes "SAFE_NAME_pattern s"
  shows "validate_script_name s = Inr r \<longleftrightarrow> r = s \<and> safe_filename s"
proof -
  have ne: "s \<noteq> []" and chars: "\<forall>c \<in> set s. name_char c"
    using assms by (simp_all add: SAFE_NAME_pattern_def list_all_iff)
  have allowed: "ALLOWED_match s"
    using assms by (simp add: ALLOWED_match_iff)
  show ?thesis
    using ne chars allowed endswith_dot [OF ne] only_dots_trailing [OF ne]
    unfolding validate_script_name_def safe_filename_def MAX_SCRIPT_NAME_LENGTH_def
    by (simp split: if_split) blast
qed

lemma validate_newline:
  assumes "SAFE_NAME_pattern t"
  shows "validate_script_name (t @ [newline]) = Inr r \<longleftrightarrow> r = t @ [newline] \<and> newline_name (t @ [newline])"
proof -
  have dots: "\<not> list_all (\<lambda>c. c = CHR ''.'') (t @ [newline])"
    by (simp add: newline_def)
  have trail: "\<not> endswith (t @ [newline]) ''.''"
    by (simp add: endswith_dot newline_def)
  have stem: "py_upper (name_stem (t @ [newline])) \<in> set WINDOWS_RESERVED \<longleftrightarrow>
      CHR ''.'' \<in> set t \<and> py_upper (name_stem t) \<in> set WINDOWS_RESERVED"
  proof (cases "CHR ''.'' \<in> set t")
    case True
    then show ?thesis by (simp add: name_stem_append)
  next
    case False
    then have "name_stem (t @ [newline]) = t @ [newline]"
      by (intro name_stem_no_dot) (simp add: newline_def)
    then have "newline \<in> set (py_upper (name_stem (t @ [newline])))"
      by (intro newline_in_upper) simp
    with False show ?thesis using reserved_no_newline by blast
  qed
  have allowed: "ALLOWED_match (t @ [newline])"
    using assms by (auto simp: ALLOWED_match_iff)
  have nn: "newline_name (t @ [newline]) \<longleftrightarrow> length t < 100
      \<and> (CHR ''.'' \<in> set t \<longrightarrow> py_upper (name_stem t) \<notin> set WINDOWS_RESERVED)"
    using assms by (simp add: newline_name_def SAFE_NAME_pattern_def list_all_iff)
  show ?thesis
    unfolding validate_script_name_def nn stem MAX_SCRIPT_NAME_LENGTH_def
    using dots trail allowed by (simp split: if_split) auto
qed

section \<open>Properties\<close>

lemma validate_Inr_pattern:
  "validate_script_name s = Inr r \<Longrightarrow>
     SAFE_NAME_pattern s \<or> (\<exists>t. s = t @ [newline] \<and> SAFE_NAME_pattern t)"
  by (auto simp: validate_script_name_def ALLOWED_match_iff split: if_splits)

lemma safe_filename_pattern: "safe_filename s \<Longrightarrow> SAFE_NAME_pattern s"
  by (simp add: safe_filename_def SAFE_NAME_pattern_def list_all_iff)

lemma endpoint_name_safe: "endpoint_name s = Inr r \<longleftrightarrow> r = s \<and> safe_filename s"
  using validate_safe safe_filename_pattern by (auto simp: endpoint_name_def)

lemma safe_filename_no_separator:
  "safe_filename s \<Longrightarrow> CHR ''/'' \<notin> set s \<and> CHR 0x5C \<notin> set s \<and> newline \<notin> set s"
  by (auto simp: safe_filename_def)

text \<open>
  C20. The validator accepts exactly the safe file names, returned unchanged, plus the names made
  of legal characters followed by one newline character.
\<close>

theorem validate_script_name_exact:
  "validate_script_name s = Inr r \<longleftrightarrow> r = s \<and> (safe_filename s \<or> newline_name s)"
proof -
  have "newline_name s \<Longrightarrow> \<exists>t. s = t @ [newline] \<and> SAFE_NAME_pattern t"
    by (auto simp: newline_name_def SAFE_NAME_pattern_def list_all_iff)
  moreover have "safe_filename (t @ [newline]) \<Longrightarrow> False" for t
    by (auto simp: safe_filename_def)
  moreover have "SAFE_NAME_pattern s \<Longrightarrow> \<not> newline_name s"
    by (auto simp: newline_name_def SAFE_NAME_pattern_def)
  ultimately show ?thesis
    using validate_Inr_pattern validate_safe validate_newline safe_filename_pattern by metis
qed

end
