(* ===== verification/Models.thy ===== *)
theory Models
  imports Complex_Main Prelude
begin

text \<open>
  \<open>shared/models.py\<close>: the enumerations and the request and response bodies both sides of the
  SSH tunnel exchange.  A \<open>datetime\<close> is an \<^typ>\<open>int\<close> (microseconds); \<open>None\<close> is
  \<^const>\<open>None\<close>.
\<close>

datatype approval_state = Absent | Pending | Approved | Update_Pending | Rejected

text \<open>The values of the enumeration, as \<open>str\<close> gives them.\<close>

definition approval_state_text :: "approval_state \<Rightarrow> string" where
  "approval_state_text s =
     (case s of Absent \<Rightarrow> ''absent'' | Pending \<Rightarrow> ''pending'' | Approved \<Rightarrow> ''approved''
      | Update_Pending \<Rightarrow> ''update_pending'' | Rejected \<Rightarrow> ''rejected'')"

datatype job_status = Job_Pending | Job_Running | Job_Completed | Job_Failed | Job_Killed

text \<open>
  JSON parameter values: \<open>str | int | float | bool\<close>.  A float is finite (kept as an exact
  rational), infinite or not-a-number; Python compares it exactly with an integer.
\<close>

datatype pyfloat = Fin rat | Pos_Inf | Neg_Inf | NaN

datatype param_value = PStr string | PInt int | PFloat pyfloat | PBool bool

type_synonym params = "(string, param_value) dict"

record job_request =
  q_job_uuid :: string
  q_script_name :: string
  q_params :: params
  q_persistent :: bool
  q_expected_md5 :: "string option"

record job_status_response =
  s_job_uuid :: string
  s_script_name :: string
  s_status :: job_status
  s_persistent :: bool
  s_started_at :: int
  s_ended_at :: "int option"
  s_exit_code :: "int option"

record agent_health =
  h_version :: string
  h_running_persistent_jobs :: nat
  h_idle_seconds :: rat

record script_descriptor =
  d_name :: string
  d_state :: approval_state
  d_persistent :: bool
  d_approved_md5 :: "string option"
  d_pending_md5 :: "string option"

record stage_script_request =
  g_content :: string
  g_md5 :: string
  g_meta_yaml :: "string option"

record stage_script_response =
  g_name :: string
  g_state :: approval_state

text \<open>The descriptor of a script the agent does not know: only name and state are given.\<close>

definition absent_descriptor :: "string \<Rightarrow> script_descriptor" where
  "absent_descriptor n =
     \<lparr>d_name = n, d_state = Absent, d_persistent = False, d_approved_md5 = None, d_pending_md5 = None\<rparr>"

text \<open>\<open>JobStatus.running\<close> and \<open>JobStatus.pending\<close> are the statuses that can still change.\<close>

definition terminal_status :: "job_status \<Rightarrow> bool" where
  "terminal_status s = (s \<in> {Job_Completed, Job_Failed, Job_Killed})"

lemma terminal_status_simps [simp]:
  "terminal_status Job_Completed" "terminal_status Job_Failed" "terminal_status Job_Killed"
  "\<not> terminal_status Job_Running" "\<not> terminal_status Job_Pending"
  by (simp_all add: terminal_status_def)

end
