(* ===== verification/Agent_Disk.thy ===== *)
theory Agent_Disk
  imports Models
begin

text \<open>
  The part of the target machine's disk the agent works on (\<open>agent/paths.py\<close>,
  \<open>CslPaths\<close>): the directories of scripts, of staged scripts and of logs, the file
  \<open>approvals.json\<close>, the clock that stamps its modification time, and the audit log.

  \<open>CslPaths\<close> keeps five paths; the model names the directories by a datatype, so it is a model of
  installations whose \<open>scripts_dir\<close>, \<open>pending_dir\<close> and \<open>logs_dir\<close> are different directories,
  as every default and derived configuration has them.

  \<open>approvals.json\<close> is written by pydantic (\<open>model_dump_json\<close>) and read by \<open>json.loads\<close> and
  pydantic's \<open>model_validate\<close>; the pair is the parameter \<open>codec\<close>, and \<open>codec_ok\<close> is the
  documented round trip the manager relies on.
\<close>

section \<open>Paths and files\<close>

datatype dir = Scripts_Dir | Pending_Dir | Logs_Dir

type_synonym files = "dir \<times> string \<rightharpoonup> string"

definition meta_name :: "string \<Rightarrow> string" where
  "meta_name n = n @ ''.meta.yaml''"

definition exists_file :: "files \<Rightarrow> dir \<Rightarrow> string \<Rightarrow> bool" where
  "exists_file fs d n = (fs (d, n) \<noteq> None)"

definition write_file :: "dir \<Rightarrow> string \<Rightarrow> string \<Rightarrow> files \<Rightarrow> files" where
  "write_file d n c fs = fs((d, n) \<mapsto> c)"

text \<open>\<open>Path.replace\<close>: an atomic rename; the source must exist.  \<open>Path.unlink\<close> removes.\<close>

definition replace_file :: "dir \<Rightarrow> dir \<Rightarrow> string \<Rightarrow> files \<Rightarrow> files" where
  "replace_file src dst n fs = (fs((dst, n) := fs (src, n)))((src, n) := None)"

definition unlink_file :: "dir \<Rightarrow> string \<Rightarrow> files \<Rightarrow> files" where
  "unlink_file d n fs = fs((d, n) := None)"

lemma meta_name_neq [simp]: "meta_name n \<noteq> n" "n \<noteq> meta_name n"
  by (simp_all add: meta_name_def)

lemma meta_name_inj [simp]: "meta_name a = meta_name b \<longleftrightarrow> a = b"
  by (simp add: meta_name_def)

lemmas file_defs = exists_file_def write_file_def replace_file_def unlink_file_def

section \<open>The approvals store as persisted\<close>

datatype approved_via = Via_Cli | Via_Auto

record script_record =
  r_state :: approval_state
  r_approved_md5 :: "string option"
  r_approved_at :: "int option"
  r_approved_via :: "approved_via option"
  r_pending_md5 :: "string option"
  r_rejected_at :: "int option"

type_synonym store = "(string, script_record) dict"

record 't codec =
  dump :: "store \<Rightarrow> 't"
  parse :: "'t \<Rightarrow> store option"
  text_size :: "'t \<Rightarrow> int"

definition codec_ok :: "'t codec \<Rightarrow> bool" where
  "codec_ok cd \<longleftrightarrow> (\<forall>s. parse cd (dump cd s) = Some s)"

lemma codec_okD: "codec_ok cd \<Longrightarrow> parse cd (dump cd s) = Some s"
  by (simp add: codec_ok_def)

datatype audit_action = Audit_Stage | Audit_Approve | Audit_Reject | Audit_Clear

record audit_entry =
  a_action :: audit_action
  a_script :: string
  a_from :: approval_state
  a_to :: approval_state

record 't disk =
  disk_files :: files
  approvals_json :: "('t \<times> int) option"
  clock :: int
  audit_log :: "audit_entry list"

text \<open>A codec that stores the value itself, for closed examples.\<close>

definition plain_codec :: "store codec" where
  "plain_codec = \<lparr>dump = (\<lambda>s. s), parse = Some, text_size = (\<lambda>s. int (length s))\<rparr>"

lemma plain_codec_ok [simp]: "codec_ok plain_codec"
  by (simp add: codec_ok_def plain_codec_def)

end
