(* ===== verification/Approvals.thy ===== *)
theory Approvals
  imports Agent_Disk
begin

text \<open>
  \<open>agent/approvals.py\<close>: the approval state machine.  A manager is the pair of its in-memory
  fields and the disk it shares with other processes (each \<open>csl-agent approvals\<close> command builds
  a manager of its own over the same files).  One definition per method; a method returns the
  manager, the disk and its value or the \<open>ApprovalError\<close> it raises.
\<close>

section \<open>State\<close>

record manager =
  auto_approve :: "string list"
  mem_store :: store
  sig :: "int \<times> int"

type_synonym 't mgr = "manager \<times> 't disk"

datatype approval_error =
    Err_Rejected string
  | Err_Not_Found string
  | Err_Cannot_Approve string approval_state
  | Err_Pending_File_Missing string
  | Err_Cannot_Reject string approval_state

section \<open>Reading and writing \<open>approvals.json\<close>\<close>

definition current_sig :: "'t codec \<Rightarrow> 't disk \<Rightarrow> int \<times> int" where
  "current_sig cd w =
     (case approvals_json w of None \<Rightarrow> (0, 0) | Some (t, mtime) \<Rightarrow> (mtime, text_size cd t))"

definition load_store :: "'t codec \<Rightarrow> 't disk \<Rightarrow> store" where
  "load_store cd w =
     (case approvals_json w of
        None \<Rightarrow> []
      | Some (t, _) \<Rightarrow> (case parse cd t of None \<Rightarrow> [] | Some s \<Rightarrow> s))"

definition new_manager :: "'t codec \<Rightarrow> string list \<Rightarrow> 't disk \<Rightarrow> 't mgr" where
  "new_manager cd auto w =
     (\<lparr>auto_approve = auto, mem_store = load_store cd w, sig = current_sig cd w\<rparr>, w)"

fun sync_from_disk :: "'t codec \<Rightarrow> 't mgr \<Rightarrow> 't mgr" where
  "sync_from_disk cd (m, w) =
     (let s = current_sig cd w
      in if s \<noteq> sig m then (m\<lparr>mem_store := load_store cd w, sig := s\<rparr>, w) else (m, w))"

fun save :: "'t codec \<Rightarrow> 't mgr \<Rightarrow> 't mgr" where
  "save cd (m, w) =
     (let w' = w\<lparr>approvals_json := Some (dump cd (mem_store m), clock w)\<rparr>
      in (m\<lparr>sig := current_sig cd w'\<rparr>, w'))"

definition log_audit :: "audit_action \<Rightarrow> string \<Rightarrow> approval_state \<Rightarrow> approval_state \<Rightarrow> 't mgr \<Rightarrow> 't mgr" where
  "log_audit a n from_s to_s p =
     (fst p, (snd p)\<lparr>audit_log := audit_log (snd p)
        @ [\<lparr>a_action = a, a_script = n, a_from = from_s, a_to = to_s\<rparr>]\<rparr>)"

text \<open>The tail of every mutating method: store the record, \<open>_save\<close>, \<open>_audit\<close>.\<close>

definition commit ::
  "'t codec \<Rightarrow> store \<Rightarrow> files \<Rightarrow> audit_action \<Rightarrow> string \<Rightarrow> approval_state \<Rightarrow> approval_state \<Rightarrow> 't mgr \<Rightarrow> 't mgr"
where
  "commit cd st fs a n from_s to_s p =
     log_audit a n from_s to_s
       (save cd ((fst p)\<lparr>mem_store := st\<rparr>, (snd p)\<lparr>disk_files := fs\<rparr>))"

section \<open>Public read operations\<close>

definition descriptor :: "string \<Rightarrow> script_record \<Rightarrow> script_descriptor" where
  "descriptor n r =
     \<lparr>d_name = n, d_state = r_state r, d_persistent = False,
      d_approved_md5 = r_approved_md5 r, d_pending_md5 = r_pending_md5 r\<rparr>"

definition get_state :: "'t codec \<Rightarrow> string \<Rightarrow> 't mgr \<Rightarrow> 't mgr \<times> script_descriptor" where
  "get_state cd n p =
     (let p' = sync_from_disk cd p
      in (p', case map_of (mem_store (fst p')) n of
                None \<Rightarrow> absent_descriptor n
              | Some r \<Rightarrow> descriptor n r))"

definition list_all_scripts :: "'t codec \<Rightarrow> 't mgr \<Rightarrow> 't mgr \<times> script_descriptor list" where
  "list_all_scripts cd p =
     (let p' = sync_from_disk cd p
      in (p', map (\<lambda>(n, r). descriptor n r) (mem_store (fst p'))))"

section \<open>State-mutating operations\<close>

definition empty_record :: "approval_state \<Rightarrow> script_record" where
  "empty_record s =
     \<lparr>r_state = s, r_approved_md5 = None, r_approved_at = None, r_approved_via = None,
      r_pending_md5 = None, r_rejected_at = None\<rparr>"

definition state_of :: "store \<Rightarrow> string \<Rightarrow> approval_state" where
  "state_of st n = (case map_of st n of None \<Rightarrow> Absent | Some r \<Rightarrow> r_state r)"

text \<open>The staged files, and their promotion into the scripts directory.\<close>

definition write_pending :: "string \<Rightarrow> string \<Rightarrow> string option \<Rightarrow> files \<Rightarrow> files" where
  "write_pending n content meta fs =
     (let fs1 = write_file Pending_Dir n content fs
      in case meta of None \<Rightarrow> fs1 | Some y \<Rightarrow> write_file Pending_Dir (meta_name n) y fs1)"

definition promote :: "string \<Rightarrow> files \<Rightarrow> files" where
  "promote n fs =
     (let fs1 = replace_file Pending_Dir Scripts_Dir n fs
      in if exists_file fs1 Pending_Dir (meta_name n)
         then replace_file Pending_Dir Scripts_Dir (meta_name n) fs1 else fs1)"

definition remove_files :: "string \<Rightarrow> files \<Rightarrow> files" where
  "remove_files n fs =
     unlink_file Pending_Dir (meta_name n) (unlink_file Pending_Dir n
       (unlink_file Scripts_Dir (meta_name n) (unlink_file Scripts_Dir n fs)))"

definition stage ::
  "'t codec \<Rightarrow> string \<Rightarrow> string \<Rightarrow> string \<Rightarrow> string option \<Rightarrow> 't mgr \<Rightarrow> 't mgr \<times> (approval_error + approval_state)"
where
  "stage cd n content md5 meta p =
     (let st = mem_store (fst p); rec = map_of st n; current = state_of st n; now = clock (snd p)
      in if current = Rejected then (p, Inl (Err_Rejected n))
         else if current = Approved \<and> (case rec of None \<Rightarrow> False | Some r \<Rightarrow> r_approved_md5 r = Some md5)
           then (p, Inr Approved)
         else if current \<in> {Pending, Update_Pending}
             \<and> (case rec of None \<Rightarrow> False | Some r \<Rightarrow> r_pending_md5 r = Some md5)
           then (p, Inr current)
         else
           let fs = write_pending n content meta (disk_files (snd p))
           in if n \<in> set (auto_approve (fst p)) then
                let r' = (empty_record Approved)\<lparr>r_approved_md5 := Some md5, r_approved_at := Some now,
                            r_approved_via := Some Via_Auto\<rparr>
                in (commit cd (AList.update n r' st) (promote n fs) Audit_Stage n current Approved p, Inr Approved)
              else (case (current, rec) of
                (Approved, Some r) \<Rightarrow>
                  let r' = (empty_record Update_Pending)\<lparr>r_approved_md5 := r_approved_md5 r,
                            r_approved_at := r_approved_at r, r_approved_via := r_approved_via r,
                            r_pending_md5 := Some md5\<rparr>
                  in (commit cd (AList.update n r' st) fs Audit_Stage n current Update_Pending p, Inr Update_Pending)
              | _ \<Rightarrow>
                  let r' = (empty_record Pending)\<lparr>r_pending_md5 := Some md5\<rparr>
                  in (commit cd (AList.update n r' st) fs Audit_Stage n current Pending p, Inr Pending)))"

definition approve :: "'t codec \<Rightarrow> string \<Rightarrow> 't mgr \<Rightarrow> 't mgr \<times> (approval_error + unit)" where
  "approve cd n p =
     (let st = mem_store (fst p); fs = disk_files (snd p)
      in case map_of st n of
           None \<Rightarrow> (p, Inl (Err_Not_Found n))
         | Some r \<Rightarrow>
             if r_state r \<notin> {Pending, Update_Pending} then (p, Inl (Err_Cannot_Approve n (r_state r)))
             else if \<not> exists_file fs Pending_Dir n then (p, Inl (Err_Pending_File_Missing n))
             else
               let r' = (empty_record Approved)\<lparr>r_approved_md5 := r_pending_md5 r,
                          r_approved_at := Some (clock (snd p)), r_approved_via := Some Via_Cli\<rparr>
               in (commit cd (AList.update n r' st) (promote n fs) Audit_Approve n (r_state r) Approved p,
                   Inr ()))"

definition reject :: "'t codec \<Rightarrow> string \<Rightarrow> 't mgr \<Rightarrow> 't mgr \<times> (approval_error + unit)" where
  "reject cd n p =
     (let st = mem_store (fst p); fs = disk_files (snd p)
      in case map_of st n of
           None \<Rightarrow> (p, Inl (Err_Not_Found n))
         | Some r \<Rightarrow>
             if r_state r \<notin> {Pending, Update_Pending} then (p, Inl (Err_Cannot_Reject n (r_state r)))
             else
               let r' = (empty_record Rejected)\<lparr>r_rejected_at := Some (clock (snd p))\<rparr>
               in (commit cd (AList.update n r' st) (remove_files n fs) Audit_Reject n (r_state r) Rejected p,
                   Inr ()))"

definition clear :: "'t codec \<Rightarrow> string \<Rightarrow> 't mgr \<Rightarrow> 't mgr \<times> (approval_error + unit)" where
  "clear cd n p =
     (let st = mem_store (fst p); fs = disk_files (snd p)
      in case map_of st n of
           None \<Rightarrow> (p, Inl (Err_Not_Found n))
         | Some r \<Rightarrow>
             (commit cd (AList.delete n st) (remove_files n fs) Audit_Clear n (r_state r) Absent p, Inr ()))"

end
