(* ===== verification/Approvals_Lemmas.thy ===== *)
theory Approvals_Lemmas
  imports Approvals
begin

text \<open>
  Facts about the approvals manager that the properties share: what a commit writes, the case rule
  of \<open>stage\<close>, well-formed records, frames, and the relation of the in-memory store to the disk.
\<close>

section \<open>What a commit writes\<close>

lemma save_simps [simp]:
  "mem_store (fst (save cd p)) = mem_store (fst p)"
  "auto_approve (fst (save cd p)) = auto_approve (fst p)"
  "disk_files (snd (save cd p)) = disk_files (snd p)"
  "clock (snd (save cd p)) = clock (snd p)"
  "audit_log (snd (save cd p)) = audit_log (snd p)"
  "approvals_json (snd (save cd p)) = Some (dump cd (mem_store (fst p)), clock (snd p))"
  "sig (fst (save cd p)) = (clock (snd p), text_size cd (dump cd (mem_store (fst p))))"
  by (cases p, simp add: Let_def current_sig_def)+

lemma commit_simps [simp]:
  "mem_store (fst (commit cd st fs a n x y p)) = st"
  "auto_approve (fst (commit cd st fs a n x y p)) = auto_approve (fst p)"
  "disk_files (snd (commit cd st fs a n x y p)) = fs"
  "clock (snd (commit cd st fs a n x y p)) = clock (snd p)"
  "approvals_json (snd (commit cd st fs a n x y p)) = Some (dump cd st, clock (snd p))"
  "sig (fst (commit cd st fs a n x y p)) = (clock (snd p), text_size cd (dump cd st))"
  "audit_log (snd (commit cd st fs a n x y p)) =
     audit_log (snd p) @ [\<lparr>a_action = a, a_script = n, a_from = x, a_to = y\<rparr>]"
  by (simp_all add: commit_def log_audit_def del: save.simps)

lemma load_commit [simp]:
  "codec_ok cd \<Longrightarrow> load_store cd (snd (commit cd st fs a n x y p)) = st"
  by (simp add: load_store_def codec_okD)

lemma current_sig_commit [simp]:
  "current_sig cd (snd (commit cd st fs a n x y p)) = sig (fst (commit cd st fs a n x y p))"
  by (simp add: current_sig_def)

lemma new_manager_simps [simp]:
  "mem_store (fst (new_manager cd auto w)) = load_store cd w"
  "auto_approve (fst (new_manager cd auto w)) = auto"
  "snd (new_manager cd auto w) = w"
  "sig (fst (new_manager cd auto w)) = current_sig cd w"
  by (simp_all add: new_manager_def)

lemma sync_simps [simp]:
  "snd (sync_from_disk cd p) = snd p"
  "auto_approve (fst (sync_from_disk cd p)) = auto_approve (fst p)"
  "sig (fst (sync_from_disk cd p)) = current_sig cd (snd p)"
  by (cases p, auto simp: Let_def)+

lemma sync_mem_store:
  "mem_store (fst (sync_from_disk cd p)) =
     (if current_sig cd (snd p) = sig (fst p) then mem_store (fst p) else load_store cd (snd p))"
  by (cases p) (simp add: Let_def)

lemma sync_idem [simp]: "sync_from_disk cd (sync_from_disk cd p) = sync_from_disk cd p"
  by (cases p) (auto simp: Let_def)

lemma get_state_fst [simp]: "fst (get_state cd n p) = sync_from_disk cd p"
  by (simp add: get_state_def Let_def)

lemma list_all_fst [simp]: "fst (list_all_scripts cd p) = sync_from_disk cd p"
  by (simp add: list_all_scripts_def Let_def)

section \<open>The case rule of \<open>stage\<close>\<close>

abbreviation auto_record :: "string \<Rightarrow> int \<Rightarrow> script_record" where
  "auto_record md5 now \<equiv> (empty_record Approved)\<lparr>r_approved_md5 := Some md5, r_approved_at := Some now,
     r_approved_via := Some Via_Auto\<rparr>"

abbreviation cli_record :: "script_record \<Rightarrow> int \<Rightarrow> script_record" where
  "cli_record r now \<equiv> (empty_record Approved)\<lparr>r_approved_md5 := r_pending_md5 r, r_approved_at := Some now,
     r_approved_via := Some Via_Cli\<rparr>"

abbreviation update_record :: "script_record \<Rightarrow> string \<Rightarrow> script_record" where
  "update_record r md5 \<equiv> (empty_record Update_Pending)\<lparr>r_approved_md5 := r_approved_md5 r,
     r_approved_at := r_approved_at r, r_approved_via := r_approved_via r, r_pending_md5 := Some md5\<rparr>"

abbreviation pending_record :: "string \<Rightarrow> script_record" where
  "pending_record md5 \<equiv> (empty_record Pending)\<lparr>r_pending_md5 := Some md5\<rparr>"

abbreviation rejected_record :: "int \<Rightarrow> script_record" where
  "rejected_record now \<equiv> (empty_record Rejected)\<lparr>r_rejected_at := Some now\<rparr>"

text \<open>The version a record already holds: staging it again is a no-op.\<close>

definition already_staged :: "store \<Rightarrow> string \<Rightarrow> string \<Rightarrow> bool" where
  "already_staged st n md5 =
     (case map_of st n of None \<Rightarrow> False
      | Some r \<Rightarrow> (r_state r = Approved \<and> r_approved_md5 r = Some md5)
                  \<or> (r_state r \<in> {Pending, Update_Pending} \<and> r_pending_md5 r = Some md5))"

lemma stage_cases [case_names rejected noop auto update fresh]:
  obtains "state_of (mem_store (fst p)) n = Rejected"
      "stage cd n content md5 meta p = (p, Inl (Err_Rejected n))"
  | "already_staged (mem_store (fst p)) n md5" "state_of (mem_store (fst p)) n \<noteq> Rejected"
      "stage cd n content md5 meta p = (p, Inr (state_of (mem_store (fst p)) n))"
  | "state_of (mem_store (fst p)) n \<noteq> Rejected" "\<not> already_staged (mem_store (fst p)) n md5"
      "n \<in> set (auto_approve (fst p))"
      "stage cd n content md5 meta p =
         (commit cd (AList.update n (auto_record md5 (clock (snd p))) (mem_store (fst p)))
            (promote n (write_pending n content meta (disk_files (snd p)))) Audit_Stage n
            (state_of (mem_store (fst p)) n) Approved p, Inr Approved)"
  | r where "n \<notin> set (auto_approve (fst p))" "map_of (mem_store (fst p)) n = Some r"
      "r_state r = Approved" "r_approved_md5 r \<noteq> Some md5"
      "stage cd n content md5 meta p =
         (commit cd (AList.update n (update_record r md5) (mem_store (fst p)))
            (write_pending n content meta (disk_files (snd p))) Audit_Stage n Approved Update_Pending p,
          Inr Update_Pending)"
  | "n \<notin> set (auto_approve (fst p))" "state_of (mem_store (fst p)) n \<notin> {Approved, Rejected}"
      "\<not> already_staged (mem_store (fst p)) n md5"
      "stage cd n content md5 meta p =
         (commit cd (AList.update n (pending_record md5) (mem_store (fst p)))
            (write_pending n content meta (disk_files (snd p))) Audit_Stage n
            (state_of (mem_store (fst p)) n) Pending p, Inr Pending)"
proof (cases "map_of (mem_store (fst p)) n")
  case None
  then show ?thesis
    using that(3,5) by (cases "n \<in> set (auto_approve (fst p))")
      (simp_all add: stage_def Let_def state_of_def already_staged_def)
next
  case (Some r)
  then have s: "state_of (mem_store (fst p)) n = r_state r" by (simp add: state_of_def)
  show ?thesis
  proof (cases "r_state r = Rejected")
    case True
    with Some s show ?thesis using that(1) by (simp add: stage_def Let_def)
  next
    case nrej: False
    show ?thesis
    proof (cases "already_staged (mem_store (fst p)) n md5")
      case True
      with Some s nrej show ?thesis
        using that(2) by (auto simp: stage_def Let_def already_staged_def)
    next
      case fresh: False
      then have new: "\<not> (r_state r = Approved \<and> r_approved_md5 r = Some md5)"
          "\<not> (r_state r \<in> {Pending, Update_Pending} \<and> r_pending_md5 r = Some md5)"
        using Some by (simp_all add: already_staged_def)
      show ?thesis
      proof (cases "n \<in> set (auto_approve (fst p))")
        case True
        show ?thesis
          by (rule that(3)) (use True Some s nrej new fresh in \<open>auto simp: stage_def Let_def\<close>)
      next
        case False
        show ?thesis
        proof (cases "r_state r = Approved")
          case True
          show ?thesis
            by (rule that(4)) (use True False Some s new in \<open>auto simp: stage_def Let_def\<close>)
        next
          case napp: False
          show ?thesis
            by (rule that(5))
              (use napp False Some s nrej new fresh in
                \<open>auto simp: stage_def Let_def split: approval_state.split\<close>)
        qed
      qed
    qed
  qed
qed

lemma approve_cases [case_names missing wrong_state no_file ok]:
  obtains "map_of (mem_store (fst p)) n = None" "approve cd n p = (p, Inl (Err_Not_Found n))"
  | r where "map_of (mem_store (fst p)) n = Some r" "r_state r \<notin> {Pending, Update_Pending}"
      "approve cd n p = (p, Inl (Err_Cannot_Approve n (r_state r)))"
  | r where "map_of (mem_store (fst p)) n = Some r" "r_state r \<in> {Pending, Update_Pending}"
      "\<not> exists_file (disk_files (snd p)) Pending_Dir n"
      "approve cd n p = (p, Inl (Err_Pending_File_Missing n))"
  | r where "map_of (mem_store (fst p)) n = Some r" "r_state r \<in> {Pending, Update_Pending}"
      "exists_file (disk_files (snd p)) Pending_Dir n"
      "approve cd n p =
         (commit cd (AList.update n (cli_record r (clock (snd p))) (mem_store (fst p)))
            (promote n (disk_files (snd p))) Audit_Approve n (r_state r) Approved p, Inr ())"
  using that by (cases "map_of (mem_store (fst p)) n")
    (simp_all add: approve_def Let_def, meson)

lemma reject_cases [case_names missing wrong_state ok]:
  obtains "map_of (mem_store (fst p)) n = None" "reject cd n p = (p, Inl (Err_Not_Found n))"
  | r where "map_of (mem_store (fst p)) n = Some r" "r_state r \<notin> {Pending, Update_Pending}"
      "reject cd n p = (p, Inl (Err_Cannot_Reject n (r_state r)))"
  | r where "map_of (mem_store (fst p)) n = Some r" "r_state r \<in> {Pending, Update_Pending}"
      "reject cd n p =
         (commit cd (AList.update n (rejected_record (clock (snd p))) (mem_store (fst p)))
            (remove_files n (disk_files (snd p))) Audit_Reject n (r_state r) Rejected p, Inr ())"
  using that by (cases "map_of (mem_store (fst p)) n")
    (simp_all add: reject_def Let_def, meson)

lemma clear_cases [case_names missing ok]:
  obtains "map_of (mem_store (fst p)) n = None" "clear cd n p = (p, Inl (Err_Not_Found n))"
  | r where "map_of (mem_store (fst p)) n = Some r"
      "clear cd n p =
         (commit cd (AList.delete n (mem_store (fst p)))
            (remove_files n (disk_files (snd p))) Audit_Clear n (r_state r) Absent p, Inr ())"
  using that by (cases "map_of (mem_store (fst p)) n") (simp_all add: clear_def Let_def)

section \<open>Well-formed records\<close>

definition record_wf :: "script_record \<Rightarrow> bool" where
  "record_wf r =
     (case r_state r of
        Absent \<Rightarrow> False
      | Pending \<Rightarrow> r_pending_md5 r \<noteq> None \<and> r_approved_md5 r = None \<and> r_rejected_at r = None
      | Approved \<Rightarrow> r_approved_md5 r \<noteq> None \<and> r_approved_at r \<noteq> None \<and> r_approved_via r \<noteq> None
                    \<and> r_pending_md5 r = None \<and> r_rejected_at r = None
      | Update_Pending \<Rightarrow> r_approved_md5 r \<noteq> None \<and> r_pending_md5 r \<noteq> None \<and> r_rejected_at r = None
      | Rejected \<Rightarrow> r_approved_md5 r = None \<and> r_pending_md5 r = None \<and> r_rejected_at r \<noteq> None)"

definition store_wf :: "store \<Rightarrow> bool" where
  "store_wf st \<longleftrightarrow> dict_ok st \<and> dict_all (\<lambda>n r. record_wf r) st"

lemma record_wf_simps [simp]:
  "record_wf (auto_record m t)" "record_wf (pending_record m)" "record_wf (rejected_record t)"
  by (simp_all add: record_wf_def empty_record_def)

lemma record_wf_cli: "record_wf r \<Longrightarrow> r_state r \<in> {Pending, Update_Pending} \<Longrightarrow> record_wf (cli_record r t)"
  by (auto simp: record_wf_def empty_record_def)

lemma record_wf_update: "record_wf r \<Longrightarrow> r_state r = Approved \<Longrightarrow> record_wf (update_record r m)"
  by (auto simp: record_wf_def empty_record_def)

lemma store_wf_Nil [simp]: "store_wf []"
  by (simp add: store_wf_def)

lemma store_wf_update [inv_intros]: "store_wf st \<Longrightarrow> record_wf r \<Longrightarrow> store_wf (AList.update n r st)"
  by (simp add: store_wf_def dict_all_update)

lemma store_wf_delete [inv_intros]: "store_wf st \<Longrightarrow> store_wf (AList.delete n st)"
  by (simp add: store_wf_def dict_all_delete)

lemma store_wfD: "store_wf st \<Longrightarrow> map_of st n = Some r \<Longrightarrow> record_wf r"
  unfolding store_wf_def by (blast dest: dict_allD)

lemma stage_store_wf [inv_intros]:
  assumes "store_wf (mem_store (fst p))"
  shows "store_wf (mem_store (fst (fst (stage cd n c md5 meta p))))"
  by (cases rule: stage_cases [of p n cd c md5 meta])
    (use assms in \<open>auto intro!: inv_intros record_wf_update dest: store_wfD\<close>)

lemma approve_store_wf [inv_intros]:
  assumes "store_wf (mem_store (fst p))"
  shows "store_wf (mem_store (fst (fst (approve cd n p))))"
  by (cases rule: approve_cases [of p n cd])
    (use assms in \<open>auto intro!: inv_intros record_wf_cli dest: store_wfD\<close>)

lemma reject_store_wf [inv_intros]:
  assumes "store_wf (mem_store (fst p))"
  shows "store_wf (mem_store (fst (fst (reject cd n p))))"
  by (cases rule: reject_cases [of p n cd]) (use assms in \<open>auto intro!: inv_intros\<close>)

lemma clear_store_wf [inv_intros]:
  assumes "store_wf (mem_store (fst p))"
  shows "store_wf (mem_store (fst (fst (clear cd n p))))"
  by (cases rule: clear_cases [of p n cd]) (use assms in \<open>auto intro!: inv_intros\<close>)

section \<open>Files\<close>

lemma write_pending_content [simp]: "write_pending n c meta fs (Pending_Dir, n) = Some c"
  by (simp add: write_pending_def Let_def file_defs split: option.split)

lemma promote_content [simp]:
  "promote n fs (Scripts_Dir, n) = fs (Pending_Dir, n)"
  "promote n fs (Pending_Dir, n) = None"
  by (simp_all add: promote_def Let_def file_defs)

lemma other_files:
  assumes "k \<noteq> n" "k \<noteq> meta_name n"
  shows "write_pending n c meta fs (d, k) = fs (d, k)"
    "promote n fs (d, k) = fs (d, k)"
    "remove_files n fs (d, k) = fs (d, k)"
  using assms
  by (simp_all add: write_pending_def promote_def remove_files_def Let_def file_defs split: option.split)

end
