(* ===== verification/Transition_Systems.thy ===== *)
theory Transition_Systems
  imports Prelude
begin

text \<open>
  The interface of a component driven by actions: a step function and a predicate every step
  keeps.  A component that interprets \<open>act_system\<close> gets its invariant along whole runs;
  \<open>grant_system\<close> adds a set of permissions that restricted actions can only enlarge within
  given bounds.
\<close>

definition run :: "('a \<Rightarrow> 's \<Rightarrow> 's) \<Rightarrow> 'a list \<Rightarrow> 's \<Rightarrow> 's" where
  "run step as s = fold step as s"

lemma run_simps [simp]:
  "run step [] s = s"
  "run step (a # as) s = run step as (step a s)"
  "run step (as @ bs) s = run step bs (run step as s)"
  by (simp_all add: run_def)

locale act_system =
  fixes step :: "'a \<Rightarrow> 's \<Rightarrow> 's"
    and inv :: "'s \<Rightarrow> bool"
  assumes step_inv: "inv s \<Longrightarrow> inv (step a s)"
begin

lemma run_inv: "inv s \<Longrightarrow> inv (run step as s)"
  by (induction as arbitrary: s) (auto intro: step_inv)

end

locale grant_system = act_system step inv
  for step :: "'a \<Rightarrow> 's \<Rightarrow> 's" and inv :: "'s \<Rightarrow> bool" +
  fixes restricted :: "'a \<Rightarrow> bool"
    and grants :: "'s \<Rightarrow> 'g set"
    and extra :: "'g set"
  assumes step_grants: "inv s \<Longrightarrow> restricted a \<Longrightarrow> grants (step a s) \<subseteq> grants s \<union> extra"
begin

lemma run_grants:
  "inv s \<Longrightarrow> list_all restricted as \<Longrightarrow> grants (run step as s) \<subseteq> grants s \<union> extra"
proof (induction as arbitrary: s)
  case (Cons a as)
  then have "grants (run step as (step a s)) \<subseteq> grants (step a s) \<union> extra"
    by (simp add: step_inv)
  with Cons.prems step_grants [of s a] show ?case by auto
qed simp

end

text \<open>A component whose invariant rests on what its callers pass: only admissible actions keep it.\<close>

locale guarded_system =
  fixes step :: "'a \<Rightarrow> 's \<Rightarrow> 's"
    and inv :: "'s \<Rightarrow> bool"
    and admissible :: "'a \<Rightarrow> bool"
  assumes guarded_inv: "inv s \<Longrightarrow> admissible a \<Longrightarrow> inv (step a s)"
begin

lemma run_guarded_inv: "inv s \<Longrightarrow> list_all admissible as \<Longrightarrow> inv (run step as s)"
  by (induction as arbitrary: s) (auto simp: guarded_inv)

end

sublocale act_system \<subseteq> guarded_system step inv "\<lambda>_. True"
  by unfold_locales (rule step_inv)

text \<open>A part of the state that admissible actions leave alone.\<close>

locale frame_system = guarded_system step inv admissible
  for step :: "'a \<Rightarrow> 's \<Rightarrow> 's" and inv :: "'s \<Rightarrow> bool" and admissible :: "'a \<Rightarrow> bool" +
  fixes view :: "'s \<Rightarrow> 'v"
  assumes step_view: "inv s \<Longrightarrow> admissible a \<Longrightarrow> view (step a s) = view s"
begin

lemma run_view: "inv s \<Longrightarrow> list_all admissible as \<Longrightarrow> view (run step as s) = view s"
  by (induction as arbitrary: s) (auto simp: step_view guarded_inv)

end

text \<open>A component that implements an abstract one: the view of every step is the step of the view.\<close>

locale refinement_system = guarded_system step inv admissible
  for step :: "'a \<Rightarrow> 's \<Rightarrow> 's" and inv :: "'s \<Rightarrow> bool" and admissible :: "'a \<Rightarrow> bool" +
  fixes view :: "'s \<Rightarrow> 'v"
    and abs_step :: "'a \<Rightarrow> 'v \<Rightarrow> 'v"
  assumes step_view_commute: "inv s \<Longrightarrow> admissible a \<Longrightarrow> view (step a s) = abs_step a (view s)"
begin

lemma run_view_commute: "inv s \<Longrightarrow> list_all admissible as \<Longrightarrow> view (run step as s) = run abs_step as (view s)"
  by (induction as arbitrary: s) (auto simp: step_view_commute guarded_inv)

end

end
