(* ===== verification/Approvals_System.thy ===== *)
theory Approvals_System
  imports Approvals_Lemmas Transition_Systems
begin

text \<open>
  The processes that share one installation: the long-lived agent, whose manager serves the
  control station's requests, and the owner's \<open>csl-agent approvals\<close> commands, each of which builds a
  manager of its own (\<open>_load_approvals\<close> in \<open>agent/cli/cmd_approvals.py\<close>), runs one method and
  exits.  An action is one such call; between actions the clock may advance and the agent may
  restart.
\<close>

section \<open>Actions\<close>

datatype act =
    Net_Get string
  | Net_Stage string string string "string option"
  | Owner_Approve string
  | Owner_Reject string
  | Owner_Clear string
  | Agent_Restart
  | Clock_Tick int

fun act_step :: "'t codec \<Rightarrow> string list \<Rightarrow> act \<Rightarrow> 't mgr \<Rightarrow> 't mgr" where
  "act_step cd auto (Net_Get n) p = fst (get_state cd n p)"
| "act_step cd auto (Net_Stage n c md5 meta) p = fst (stage cd n c md5 meta p)"
| "act_step cd auto (Owner_Approve n) p = (fst p, snd (fst (approve cd n (new_manager cd auto (snd p)))))"
| "act_step cd auto (Owner_Reject n) p = (fst p, snd (fst (reject cd n (new_manager cd auto (snd p)))))"
| "act_step cd auto (Owner_Clear n) p = (fst p, snd (fst (clear cd n (new_manager cd auto (snd p)))))"
| "act_step cd auto Agent_Restart p = new_manager cd auto (snd p)"
| "act_step cd auto (Clock_Tick t) p = (fst p, (snd p)\<lparr>clock := max t (clock (snd p))\<rparr>)"

text \<open>The actions the control station, or anyone holding its key, can cause by itself.\<close>

fun net_act :: "act \<Rightarrow> bool" where
  "net_act (Owner_Approve n) = False"
| "net_act (Owner_Reject n) = False"
| "net_act (Owner_Clear n) = False"
| "net_act a = True"

section \<open>The invariant\<close>

definition sys_inv :: "'t codec \<Rightarrow> string list \<Rightarrow> 't mgr \<Rightarrow> bool" where
  "sys_inv cd auto p \<longleftrightarrow>
     store_wf (mem_store (fst p)) \<and> store_wf (load_store cd (snd p)) \<and> auto_approve (fst p) = auto"

lemma load_store_cong: "approvals_json w = approvals_json w' \<Longrightarrow> load_store cd w = load_store cd w'"
  by (simp add: load_store_def)

text \<open>A method either leaves manager and disk alone or ends in a commit, after which both agree.\<close>

lemma stage_load:
  assumes "codec_ok cd" "fst (stage cd n c md5 meta p) \<noteq> p"
  shows "load_store cd (snd (fst (stage cd n c md5 meta p))) = mem_store (fst (fst (stage cd n c md5 meta p)))"
  by (cases rule: stage_cases [of p n cd c md5 meta]) (use assms in auto)

lemma approve_load:
  assumes "codec_ok cd" "fst (approve cd n p) \<noteq> p"
  shows "load_store cd (snd (fst (approve cd n p))) = mem_store (fst (fst (approve cd n p)))"
  by (cases rule: approve_cases [of p n cd]) (use assms in auto)

lemma reject_load:
  assumes "codec_ok cd" "fst (reject cd n p) \<noteq> p"
  shows "load_store cd (snd (fst (reject cd n p))) = mem_store (fst (fst (reject cd n p)))"
  by (cases rule: reject_cases [of p n cd]) (use assms in auto)

lemma clear_load:
  assumes "codec_ok cd" "fst (clear cd n p) \<noteq> p"
  shows "load_store cd (snd (fst (clear cd n p))) = mem_store (fst (fst (clear cd n p)))"
  by (cases rule: clear_cases [of p n cd]) (use assms in auto)

text \<open>A manager built from the disk agrees with it, so a method run on it keeps disk and memory equal.\<close>

lemma fresh_load:
  assumes "codec_ok cd"
  shows
    "load_store cd (snd (fst (approve cd n (new_manager cd auto w)))) =
       mem_store (fst (fst (approve cd n (new_manager cd auto w))))"
    "load_store cd (snd (fst (reject cd n (new_manager cd auto w)))) =
       mem_store (fst (fst (reject cd n (new_manager cd auto w))))"
    "load_store cd (snd (fst (clear cd n (new_manager cd auto w)))) =
       mem_store (fst (fst (clear cd n (new_manager cd auto w))))"
  using approve_load [OF assms, of n "new_manager cd auto w"]
    reject_load [OF assms, of n "new_manager cd auto w"]
    clear_load [OF assms, of n "new_manager cd auto w"]
  by fastforce+

lemma act_step_inv:
  assumes "codec_ok cd" "sys_inv cd auto p"
  shows "sys_inv cd auto (act_step cd auto a p)"
proof (cases a)
  case (Net_Get n)
  with assms show ?thesis by (auto simp: sys_inv_def sync_mem_store)
next
  case (Net_Stage n c md5 meta)
  have "auto_approve (fst (fst (stage cd n c md5 meta p))) = auto"
    by (cases rule: stage_cases [of p n cd c md5 meta]) (use assms in \<open>auto simp: sys_inv_def\<close>)
  moreover have "store_wf (load_store cd (snd (fst (stage cd n c md5 meta p))))"
    using assms stage_load [OF assms(1), of n c md5 meta p] stage_store_wf [of p cd n c md5 meta]
    by (cases "fst (stage cd n c md5 meta p) = p") (auto simp: sys_inv_def)
  ultimately show ?thesis
    using assms Net_Stage by (auto simp: sys_inv_def intro: inv_intros)
next
  case (Clock_Tick t)
  have "load_store cd ((snd p)\<lparr>clock := max t (clock (snd p))\<rparr>) = load_store cd (snd p)"
    by (rule load_store_cong) simp
  with assms Clock_Tick show ?thesis by (simp add: sys_inv_def)
qed (use assms in \<open>auto simp: sys_inv_def fresh_load intro!: inv_intros\<close>)

section \<open>Interpretations\<close>

interpretation agent: act_system "act_step cd auto" "\<lambda>p. codec_ok cd \<and> sys_inv cd auto p" for cd auto
  by unfold_locales (simp add: act_step_inv)

text \<open>The approvals a store records, and those the memory or the disk records.\<close>

definition approvals_of :: "store \<Rightarrow> (string \<times> string) set" where
  "approvals_of st =
     {(n, m). \<exists>r. map_of st n = Some r \<and> r_state r = Approved \<and> r_approved_md5 r = Some m}"

definition grants :: "'t codec \<Rightarrow> 't mgr \<Rightarrow> (string \<times> string) set" where
  "grants cd p = approvals_of (mem_store (fst p)) \<union> approvals_of (load_store cd (snd p))"

definition auto_grants :: "string list \<Rightarrow> (string \<times> string) set" where
  "auto_grants auto = {(n, m). n \<in> set auto}"

lemma approvals_of_update:
  "approvals_of (AList.update n r st) =
     {(k, m) \<in> approvals_of st. k \<noteq> n} \<union> {(k, m). k = n \<and> r_state r = Approved \<and> r_approved_md5 r = Some m}"
  by (auto simp: approvals_of_def split: if_splits)

lemma stage_approvals:
  assumes "auto_approve (fst p) = auto"
  shows "approvals_of (mem_store (fst (fst (stage cd n c md5 meta p))))
           \<subseteq> approvals_of (mem_store (fst p)) \<union> auto_grants auto"
  by (cases rule: stage_cases [of p n cd c md5 meta])
    (use assms in \<open>auto simp: approvals_of_update auto_grants_def empty_record_def\<close>)

lemma act_step_grants:
  assumes "codec_ok cd" "sys_inv cd auto p" "net_act a"
  shows "grants cd (act_step cd auto a p) \<subseteq> grants cd p \<union> auto_grants auto"
proof (cases a)
  case (Net_Get n)
  then show ?thesis by (auto simp: grants_def sync_mem_store)
next
  case (Net_Stage n c md5 meta)
  from assms have "auto_approve (fst p) = auto" by (simp add: sys_inv_def)
  then have "approvals_of (mem_store (fst (fst (stage cd n c md5 meta p))))
      \<subseteq> approvals_of (mem_store (fst p)) \<union> auto_grants auto"
    by (rule stage_approvals)
  then show ?thesis
    using stage_load [OF assms(1), of n c md5 meta p] Net_Stage
    by (cases "fst (stage cd n c md5 meta p) = p") (auto simp: grants_def)
next
  case (Clock_Tick t)
  then show ?thesis by (simp add: grants_def load_store_def)
qed (use assms in \<open>auto simp: grants_def\<close>)

interpretation control_station: grant_system "act_step cd auto" "\<lambda>p. codec_ok cd \<and> sys_inv cd auto p"
    net_act "grants cd" "auto_grants auto" for cd auto
  by unfold_locales (simp add: act_step_grants)

section \<open>The scripts directory under requests from the network\<close>

definition protected_scripts :: "string list \<Rightarrow> 't mgr \<Rightarrow> string \<Rightarrow> string option" where
  "protected_scripts auto p f =
     (if f \<in> set auto \<or> f \<in> meta_name ` set auto then None else disk_files (snd p) (Scripts_Dir, f))"

lemma write_pending_scripts [simp]: "write_pending n c meta fs (Scripts_Dir, f) = fs (Scripts_Dir, f)"
  by (simp add: write_pending_def Let_def file_defs split: option.split)

lemma promote_scripts_other:
  "f \<noteq> n \<Longrightarrow> f \<noteq> meta_name n \<Longrightarrow> promote n fs (Scripts_Dir, f) = fs (Scripts_Dir, f)"
  by (simp add: promote_def Let_def file_defs)

lemma act_step_protected:
  assumes "codec_ok cd" "sys_inv cd auto p" "net_act a"
  shows "protected_scripts auto (act_step cd auto a p) = protected_scripts auto p"
proof (cases a)
  case (Net_Stage n c md5 meta)
  have "disk_files (snd (fst (stage cd n c md5 meta p))) (Scripts_Dir, f) = disk_files (snd p) (Scripts_Dir, f)"
    if "f \<notin> set auto" "f \<notin> meta_name ` set auto" for f
    by (cases rule: stage_cases [of p n cd c md5 meta])
      (use assms that in \<open>auto simp: sys_inv_def intro!: promote_scripts_other [THEN trans]\<close>)
  with Net_Stage show ?thesis by (auto simp: protected_scripts_def fun_eq_iff)
qed (use assms in \<open>auto simp: protected_scripts_def fun_eq_iff\<close>)

interpretation scripts_dir: frame_system "act_step cd auto" "\<lambda>p. codec_ok cd \<and> sys_inv cd auto p"
    net_act "protected_scripts auto" for cd auto
  by unfold_locales (simp_all add: act_step_inv act_step_protected)

end
