(* ===== verification/Approvals_Props.thy ===== *)
theory Approvals_Props
  imports Approvals_System
begin

text \<open>
  The properties of the approval state machine: what each method does on every branch, what holds
  in every reachable state, what the control station can and cannot cause by itself, and where two
  processes over one \<open>approvals.json\<close> lose an update.
\<close>

section \<open>Functional behaviour of the methods\<close>

text \<open>The resulting state of \<open>stage\<close>, read off the state it starts from.\<close>

definition stage_result :: "bool \<Rightarrow> bool \<Rightarrow> approval_state \<Rightarrow> approval_state option" where
  "stage_result known auto s =
     (if s = Rejected then None else if known then Some s else if auto then Some Approved
      else if s = Approved then Some Update_Pending else Some Pending)"

text \<open>
  \<open>stage\<close> on every branch: a rejected script raises and changes nothing; a version that is
  already approved or staged changes nothing and returns its state; otherwise the new state is
  \<open>approved\<close> for a script on the auto-approve list, \<open>update_pending\<close> from \<open>approved\<close> and
  \<open>pending\<close> from every other state, the record of this script alone is replaced by one in that
  state, the store is on disk when the method returns, and the content is in the scripts directory
  (auto-approved) or the pending directory.
\<close>

theorem stage_functional:
  "case stage_result (already_staged (mem_store (fst p)) n md5) (n \<in> set (auto_approve (fst p)))
          (state_of (mem_store (fst p)) n) of
      None \<Rightarrow> stage cd n c md5 meta p = (p, Inl (Err_Rejected n))
    | Some s' \<Rightarrow>
        if already_staged (mem_store (fst p)) n md5 then stage cd n c md5 meta p = (p, Inr s')
        else (\<exists>q r. stage cd n c md5 meta p = (q, Inr s') \<and> r_state r = s'
               \<and> map_of (mem_store (fst q)) = (map_of (mem_store (fst p)))(n \<mapsto> r)
               \<and> approvals_json (snd q) = Some (dump cd (mem_store (fst q)), clock (snd p))
               \<and> disk_files (snd q) (if s' = Approved then Scripts_Dir else Pending_Dir, n) = Some c)"
proof (cases rule: stage_cases [of p n cd c md5 meta])
  case rejected
  then show ?thesis by (simp add: stage_result_def)
next
  case noop
  then show ?thesis by (simp add: stage_result_def)
next
  case auto
  have "promote n (write_pending n c meta (disk_files (snd p))) (Scripts_Dir, n) = Some c"
    by (simp add: promote_content)
  with auto show ?thesis by (simp add: stage_result_def empty_record_def)
next
  case (update r)
  then have "\<not> already_staged (mem_store (fst p)) n md5" "state_of (mem_store (fst p)) n = Approved"
    by (simp_all add: already_staged_def state_of_def)
  with update show ?thesis by (simp add: stage_result_def empty_record_def)
next
  case fresh
  then show ?thesis by (simp add: stage_result_def empty_record_def)
qed

text \<open>
  \<open>approve\<close> succeeds exactly when the script is \<open>pending\<close> or \<open>update_pending\<close> and its staged
  file exists.  Then the approved version is the staged one (recorded as approved by the owner),
  the staged content is what the scripts directory holds, the staged file is gone and no other
  script's record changes; otherwise it raises and changes nothing.
\<close>

theorem approve_functional:
  "if state_of (mem_store (fst p)) n \<in> {Pending, Update_Pending} \<and> exists_file (disk_files (snd p)) Pending_Dir n
   then \<exists>q r. approve cd n p = (q, Inr ()) \<and> map_of (mem_store (fst p)) n = Some r
          \<and> map_of (mem_store (fst q)) = (map_of (mem_store (fst p)))(n \<mapsto> cli_record r (clock (snd p)))
          \<and> disk_files (snd q) (Scripts_Dir, n) = disk_files (snd p) (Pending_Dir, n)
          \<and> disk_files (snd q) (Pending_Dir, n) = None
          \<and> approvals_json (snd q) = Some (dump cd (mem_store (fst q)), clock (snd p))
   else \<exists>e. approve cd n p = (p, Inl e)"
  by (cases rule: approve_cases [of p n cd]) (auto simp: state_of_def promote_content)

text \<open>
  \<open>clear\<close> on a known script forgets it (its state is \<open>absent\<close>) and removes every file it could
  have left, the script and its metadata in both directories; on an unknown one it raises.
\<close>

theorem clear_removes_everything:
  "if map_of (mem_store (fst p)) n = None then clear cd n p = (p, Inl (Err_Not_Found n))
   else \<exists>q. clear cd n p = (q, Inr ()) \<and> map_of (mem_store (fst q)) = (map_of (mem_store (fst p)))(n := None)
          \<and> (\<forall>d. d \<noteq> Logs_Dir \<longrightarrow> disk_files (snd q) (d, n) = None \<and> disk_files (snd q) (d, meta_name n) = None)"
proof (cases rule: clear_cases [of p n cd])
  case (ok r)
  have "remove_files n fs (d, n) = None \<and> remove_files n fs (d, meta_name n) = None" if "d \<noteq> Logs_Dir" for d fs
    using that by (cases d) (simp_all add: remove_files_def file_defs)
  with ok show ?thesis by auto
qed simp

theorem clear_removes_everything_witness:
  "disk_files (snd (fst (clear plain_codec ''a'' (fst (stage plain_codec ''a'' ''echo'' ''m1'' (Some ''x'')
      (new_manager plain_codec [] \<lparr>disk_files = Map.empty, approvals_json = None, clock = 5, audit_log = []\<rparr>))))))
      (Pending_Dir, meta_name ''a'') = None"
proof -
  let ?p = "fst (stage plain_codec ''a'' ''echo'' ''m1'' (Some ''x'')
      (new_manager plain_codec [] \<lparr>disk_files = Map.empty, approvals_json = None, clock = 5, audit_log = []\<rparr>))"
  have "map_of (mem_store (fst ?p)) ''a'' \<noteq> None"
    by (simp add: stage_def Let_def load_store_def state_of_def)
  with clear_removes_everything [of ?p "''a''" plain_codec] show ?thesis by auto
qed

section \<open>Reachable states\<close>

text \<open>The state an agent starts in: a fresh installation, before any approval is recorded.\<close>

definition empty_disk :: "'t disk" where
  "empty_disk = \<lparr>disk_files = Map.empty, approvals_json = None, clock = 1, audit_log = []\<rparr>"

lemma sys_inv_start: "store_wf (load_store cd w) \<Longrightarrow> sys_inv cd auto (new_manager cd auto w)"
  by (simp add: sys_inv_def)

lemma load_empty_disk [simp]: "load_store cd empty_disk = []"
  by (simp add: load_store_def empty_disk_def)

text \<open>
  Whatever the control station and the owner do, in any order and across agent restarts, a
  script the agent reports as approved has an approved MD5 (so the check of the file at run time is
  never skipped), and one reported as awaiting approval has a pending MD5.
\<close>

theorem approved_has_md5:
  assumes "codec_ok cd"
    and "get_state cd n (run (act_step cd auto) as (new_manager cd auto empty_disk)) = (q, d)"
  shows "(d_state d = Approved \<longrightarrow> d_approved_md5 d \<noteq> None)
    \<and> (d_state d \<in> {Pending, Update_Pending} \<longrightarrow> d_pending_md5 d \<noteq> None)"
proof -
  let ?p = "run (act_step cd auto) as (new_manager cd auto empty_disk)"
  have "sys_inv cd auto ?p"
    using agent.run_inv [of cd auto "new_manager cd auto empty_disk" as] assms(1)
    by (simp add: sys_inv_start)
  then have wf: "store_wf (mem_store (fst (sync_from_disk cd ?p)))"
    by (simp add: sys_inv_def sync_mem_store)
  have d: "d = (case map_of (mem_store (fst (sync_from_disk cd ?p))) n of
      None \<Rightarrow> absent_descriptor n | Some r \<Rightarrow> descriptor n r)"
    using assms(2) by (auto simp: get_state_def Let_def)
  show ?thesis
  proof (cases "map_of (mem_store (fst (sync_from_disk cd ?p))) n")
    case None
    with d show ?thesis by (simp add: absent_descriptor_def)
  next
    case (Some r)
    with wf have "record_wf r" by (rule store_wfD)
    with d Some show ?thesis
      by (auto simp: descriptor_def record_wf_def split: approval_state.splits)
  qed
qed

theorem approved_has_md5_witness:
  "d_state (snd (get_state plain_codec ''a'' (run (act_step plain_codec [])
      [Net_Stage ''a'' ''echo'' ''m1'' None, Clock_Tick 9, Owner_Approve ''a'']
      (new_manager plain_codec [] empty_disk)))) = Approved
   \<and> d_approved_md5 (snd (get_state plain_codec ''a'' (run (act_step plain_codec [])
      [Net_Stage ''a'' ''echo'' ''m1'' None, Clock_Tick 9, Owner_Approve ''a'']
      (new_manager plain_codec [] empty_disk)))) \<noteq> None"
proof -
  let ?g = "get_state plain_codec ''a'' (run (act_step plain_codec [])
      [Net_Stage ''a'' ''echo'' ''m1'' None, Clock_Tick 9, Owner_Approve ''a'']
      (new_manager plain_codec [] empty_disk))"
  obtain q d where g: "?g = (q, d)" by (cases ?g)
  have "d_state (snd ?g) = Approved"
    by code_simp
  with g approved_has_md5 [OF plain_codec_ok g] show ?thesis by simp
qed

text \<open>
  C3. The control station cannot approve a script by itself: whatever it stages and queries, in any
  order and across agent restarts, an approval recorded afterwards (in the agent's memory or in
  \<open>approvals.json\<close>) was recorded before for the same script and the same MD5, unless the owner put
  the script on the auto-approve list; and no file of the scripts directory changes but those of
  auto-approved scripts and their metadata.
\<close>

theorem control_station_cannot_approve:
  assumes "codec_ok cd" "sys_inv cd auto p" "list_all net_act as"
  shows "grants cd (run (act_step cd auto) as p) \<subseteq> grants cd p \<union> auto_grants auto
    \<and> protected_scripts auto (run (act_step cd auto) as p) = protected_scripts auto p"
  using assms control_station.run_grants scripts_dir.run_view by blast

theorem control_station_cannot_approve_witness:
  "grants plain_codec (run (act_step plain_codec [])
      [Net_Stage ''a'' ''echo'' ''m1'' None, Clock_Tick 9, Net_Get ''a'', Agent_Restart,
       Net_Stage ''a'' ''rm'' ''m2'' None]
      (new_manager plain_codec [] empty_disk)) = {}"
proof -
  have "sys_inv plain_codec [] (new_manager plain_codec [] (empty_disk :: store disk))"
    by (simp add: sys_inv_start)
  moreover have "grants plain_codec (new_manager plain_codec [] (empty_disk :: store disk)) = {}"
    by (simp add: grants_def approvals_of_def)
  ultimately show ?thesis
    using control_station_cannot_approve [OF plain_codec_ok, of "[]"
        "new_manager plain_codec [] (empty_disk :: store disk)"
        "[Net_Stage ''a'' ''echo'' ''m1'' None, Clock_Tick 9, Net_Get ''a'', Agent_Restart,
          Net_Stage ''a'' ''rm'' ''m2'' None]"]
    by (simp add: auto_grants_def)
qed

section \<open>Two processes over one store\<close>

text \<open>
  The memory of a manager is coherent when an unchanged signature means an unchanged file: the
  premise under which \<open>_sync_from_disk\<close> is right to keep it.
\<close>

definition coherent :: "'t codec \<Rightarrow> 't mgr \<Rightarrow> bool" where
  "coherent cd p \<longleftrightarrow> (current_sig cd (snd p) = sig (fst p) \<longrightarrow> mem_store (fst p) = load_store cd (snd p))"

lemma coherent_sync: "coherent cd p \<Longrightarrow> mem_store (fst (sync_from_disk cd p)) = load_store cd (snd p)"
  by (auto simp: coherent_def sync_mem_store)



text \<open>
  Without that query the rejection is lost: \<open>stage\<close> does not re-read \<open>approvals.json\<close>, so
  after the owner has rejected a script in another process, an agent that still remembers it as
  pending accepts a new version and writes \<open>pending\<close> over the recorded rejection.
\<close>

theorem stale_stage_undoes_rejection:
  fixes p :: "'t mgr" and auto :: "string list" and n :: string
  assumes "codec_ok cd"
    and "state_of (load_store cd (snd p)) n \<in> {Pending, Update_Pending}"
    and "map_of (mem_store (fst p)) n = Some r" "r_state r \<in> {Pending, Update_Pending}"
    and "r_pending_md5 r \<noteq> Some md5" "n \<notin> set (auto_approve (fst p))"
  defines "p1 \<equiv> act_step cd auto (Owner_Reject n) p"
  shows "state_of (load_store cd (snd p1)) n = Rejected
    \<and> state_of (load_store cd (snd (act_step cd auto (Net_Stage n c md5 meta) p1))) n = Pending"
proof
  show "state_of (load_store cd (snd p1)) n = Rejected"
    unfolding p1_def
    by (cases rule: reject_cases [of "new_manager cd auto (snd p)" n cd])
      (use assms in \<open>auto simp: state_of_def empty_record_def\<close>)
  have p1: "fst p1 = fst p" by (simp add: p1_def)
  show "state_of (load_store cd (snd (act_step cd auto (Net_Stage n c md5 meta) p1))) n = Pending"
    by (cases rule: stage_cases [of p1 n cd c md5 meta])
      (use assms(1-6) p1 in \<open>auto simp: state_of_def empty_record_def already_staged_def\<close>)
qed

theorem stale_stage_undoes_rejection_witness:
  "state_of (load_store plain_codec (snd (run (act_step plain_codec [])
      [Net_Stage ''a'' ''echo'' ''m1'' None, Clock_Tick 9, Owner_Reject ''a'', Net_Stage ''a'' ''rm'' ''m2'' None]
      (new_manager plain_codec [] empty_disk)))) ''a'' = Pending"
proof -
  let ?p = "run (act_step plain_codec []) [Net_Stage ''a'' ''echo'' ''m1'' None, Clock_Tick 9]
      (new_manager plain_codec [] empty_disk)"
  have "state_of (load_store plain_codec (snd ?p)) ''a'' \<in> {Pending, Update_Pending}"
    "map_of (mem_store (fst ?p)) ''a'' = Some (pending_record ''m1'')"
    "''a'' \<notin> set (auto_approve (fst ?p))"
    by code_simp+
  from stale_stage_undoes_rejection [OF plain_codec_ok this(1,2) _ _ this(3), of "''m2''" "[]" "''rm''" None]
  show ?thesis by (simp add: empty_record_def)
qed

section \<open>Losing an approved version\<close>

text \<open>
  A second update loses the approval on record: staging yet another version of a script that is
  \<open>update_pending\<close> leaves it \<open>pending\<close> with no approved MD5, as if it had never been approved,
  although the approved file is still in the scripts directory.
\<close>

theorem second_update_forgets_approval:
  fixes p :: "'t mgr" and n md5 c :: string and meta :: "string option" and cd :: "'t codec"
  assumes "map_of (mem_store (fst p)) n = Some r" "r_state r = Update_Pending"
    and "r_pending_md5 r \<noteq> Some md5" "n \<notin> set (auto_approve (fst p))"
  defines "q \<equiv> fst (stage cd n c md5 meta p)"
  shows "map_of (mem_store (fst q)) n = Some (pending_record md5)
    \<and> r_approved_md5 (pending_record md5) = None
    \<and> disk_files (snd q) (Scripts_Dir, n) = disk_files (snd p) (Scripts_Dir, n)"
  unfolding q_def
  by (cases rule: stage_cases [of p n cd c md5 meta])
    (use assms in \<open>auto simp: state_of_def already_staged_def empty_record_def\<close>)

theorem second_update_forgets_approval_witness:
  "map_of (mem_store (fst (run (act_step plain_codec [])
      [Net_Stage ''a'' ''echo'' ''m1'' None, Clock_Tick 5, Owner_Approve ''a'', Net_Get ''a'',
       Net_Stage ''a'' ''ls'' ''m2'' None, Net_Stage ''a'' ''rm'' ''m3'' None]
      (new_manager plain_codec [] empty_disk)))) ''a'' = Some (pending_record ''m3'')"
proof -
  let ?p = "run (act_step plain_codec [])
      [Net_Stage ''a'' ''echo'' ''m1'' None, Clock_Tick 5, Owner_Approve ''a'', Net_Get ''a'',
       Net_Stage ''a'' ''ls'' ''m2'' None] (new_manager plain_codec [] empty_disk)"
  define r where "r = the (map_of (mem_store (fst ?p)) ''a'')"
  have "map_of (mem_store (fst ?p)) ''a'' \<noteq> None" "r_state r = Update_Pending"
    "r_pending_md5 r \<noteq> Some ''m3''" "''a'' \<notin> set (auto_approve (fst ?p))"
    unfolding r_def by code_simp+
  then show ?thesis
    using second_update_forgets_approval [of ?p "''a''" r "''m3''" plain_codec "''rm''" None]
    by (auto simp: r_def)
qed

section \<open>The files behind the records\<close>

text \<open>The methods of one manager as actions, and callers that declare the right MD5.\<close>

datatype call =
    Call_Stage string string string "string option" | Call_Approve string | Call_Reject string | Call_Clear string

fun call_step :: "'t codec \<Rightarrow> call \<Rightarrow> 't mgr \<Rightarrow> 't mgr" where
  "call_step cd (Call_Stage n c md5 meta) p = fst (stage cd n c md5 meta p)"
| "call_step cd (Call_Approve n) p = fst (approve cd n p)"
| "call_step cd (Call_Reject n) p = fst (reject cd n p)"
| "call_step cd (Call_Clear n) p = fst (clear cd n p)"

definition meta_like :: "string \<Rightarrow> bool" where
  "meta_like n = endswith n ''.meta.yaml''"

fun honest_call :: "(string \<Rightarrow> string) \<Rightarrow> call \<Rightarrow> bool" where
  "honest_call h (Call_Stage n c md5 meta) = (h c = md5 \<and> \<not> meta_like n)"
| "honest_call h a = True"

definition has_content :: "(string \<Rightarrow> string) \<Rightarrow> files \<Rightarrow> dir \<Rightarrow> string \<Rightarrow> string option \<Rightarrow> bool" where
  "has_content h fs d n m = (case fs (d, n) of None \<Rightarrow> False | Some c \<Rightarrow> m = Some (h c))"

definition record_backed :: "(string \<Rightarrow> string) \<Rightarrow> files \<Rightarrow> string \<Rightarrow> script_record \<Rightarrow> bool" where
  "record_backed h fs n r \<longleftrightarrow> \<not> meta_like n
     \<and> (r_state r \<in> {Approved, Update_Pending} \<longrightarrow> has_content h fs Scripts_Dir n (r_approved_md5 r))
     \<and> (r_state r \<in> {Pending, Update_Pending} \<longrightarrow> has_content h fs Pending_Dir n (r_pending_md5 r))"

definition files_backed :: "(string \<Rightarrow> string) \<Rightarrow> 't mgr \<Rightarrow> bool" where
  "files_backed h p \<longleftrightarrow>
     (\<forall>n r. map_of (mem_store (fst p)) n = Some r \<longrightarrow> record_backed h (disk_files (snd p)) n r)"

lemma meta_like_meta_name [simp]: "meta_like (meta_name n)"
  by (simp add: meta_like_def meta_name_def endswith_def suffixI)

lemma record_backed_cong:
  "fs (Scripts_Dir, n) = fs' (Scripts_Dir, n) \<Longrightarrow> fs (Pending_Dir, n) = fs' (Pending_Dir, n) \<Longrightarrow>
     record_backed h fs n r = record_backed h fs' n r"
  by (simp add: record_backed_def has_content_def)

lemma has_content_simps [simp]:
  "has_content h (promote n fs) Scripts_Dir n m = has_content h fs Pending_Dir n m"
  "has_content h (write_pending n c meta fs) Scripts_Dir n m = has_content h fs Scripts_Dir n m"
  "has_content h (write_pending n c meta fs) Pending_Dir n m = (m = Some (h c))"
  by (simp_all add: has_content_def)

lemma record_backed_simps:
  "record_backed h fs n (auto_record m t) \<longleftrightarrow> \<not> meta_like n \<and> has_content h fs Scripts_Dir n (Some m)"
  "record_backed h fs n (cli_record r t) \<longleftrightarrow> \<not> meta_like n \<and> has_content h fs Scripts_Dir n (r_pending_md5 r)"
  "record_backed h fs n (pending_record m) \<longleftrightarrow> \<not> meta_like n \<and> has_content h fs Pending_Dir n (Some m)"
  "record_backed h fs n (rejected_record t) \<longleftrightarrow> \<not> meta_like n"
  "record_backed h fs n (update_record r m) \<longleftrightarrow> \<not> meta_like n
     \<and> has_content h fs Scripts_Dir n (r_approved_md5 r) \<and> has_content h fs Pending_Dir n (Some m)"
  by (auto simp: record_backed_def empty_record_def)

text \<open>A commit that touches only the files of \<open>n\<close> keeps every other script backed.\<close>

lemma commit_backed:
  assumes "files_backed h p" "\<not> meta_like n"
    and "\<And>k d. k \<noteq> n \<Longrightarrow> k \<noteq> meta_name n \<Longrightarrow> fs (d, k) = disk_files (snd p) (d, k)"
    and "\<And>k. k \<noteq> n \<Longrightarrow> map_of st k = map_of (mem_store (fst p)) k"
    and "\<And>r. map_of st n = Some r \<Longrightarrow> record_backed h fs n r"
  shows "files_backed h (commit cd st fs a n x y p)"
proof -
  have "record_backed h fs k r" if k: "map_of st k = Some r" "k \<noteq> n" for k r
  proof -
    from k assms(4) have "map_of (mem_store (fst p)) k = Some r" by metis
    with assms(1) have b: "record_backed h (disk_files (snd p)) k r" by (simp add: files_backed_def)
    then have "k \<noteq> meta_name n" by (auto simp: record_backed_def)
    with k assms(3) have "fs (d, k) = disk_files (snd p) (d, k)" for d by metis
    with b show ?thesis using record_backed_cong by metis
  qed
  with assms(5) show ?thesis by (auto simp: files_backed_def)
qed

lemma stage_backed:
  assumes "files_backed h p" "h c = md5" "\<not> meta_like n"
  shows "files_backed h (fst (stage cd n c md5 meta p))"
proof (cases rule: stage_cases [of p n cd c md5 meta])
  case auto
  show ?thesis unfolding auto(4) fst_conv
    by (rule commit_backed)
      (use assms in \<open>simp_all add: other_files record_backed_simps\<close>)
next
  case (update r)
  then have "record_backed h (disk_files (snd p)) n r" using assms(1) by (simp add: files_backed_def)
  with update(3) have "has_content h (disk_files (snd p)) Scripts_Dir n (r_approved_md5 r)"
    by (simp add: record_backed_def)
  then show ?thesis unfolding update(5) fst_conv
    by (intro commit_backed) (use assms in \<open>auto simp: other_files record_backed_simps\<close>)
next
  case fresh
  show ?thesis unfolding fresh(4) fst_conv
    by (rule commit_backed) (use assms in \<open>auto simp: other_files record_backed_simps\<close>)
qed (use assms in simp_all)

lemma approve_backed:
  assumes "files_backed h p"
  shows "files_backed h (fst (approve cd n p))"
proof (cases rule: approve_cases [of p n cd])
  case (ok r)
  then have "record_backed h (disk_files (snd p)) n r" using assms by (simp add: files_backed_def)
  with ok(2) have "\<not> meta_like n" "has_content h (disk_files (snd p)) Pending_Dir n (r_pending_md5 r)"
    by (auto simp: record_backed_def)
  then show ?thesis unfolding ok(4) fst_conv
    by (intro commit_backed) (use assms in \<open>auto simp: other_files record_backed_simps\<close>)
qed (use assms in simp_all)

lemma reject_backed:
  assumes "files_backed h p"
  shows "files_backed h (fst (reject cd n p))"
proof (cases rule: reject_cases [of p n cd])
  case (ok r)
  then have "\<not> meta_like n" using assms by (auto simp: files_backed_def record_backed_def)
  then show ?thesis unfolding ok(3) fst_conv
    by (intro commit_backed) (use assms in \<open>auto simp: other_files record_backed_simps\<close>)
qed (use assms in simp_all)

lemma clear_backed:
  assumes "files_backed h p"
  shows "files_backed h (fst (clear cd n p))"
proof (cases rule: clear_cases [of p n cd])
  case (ok r)
  then have "\<not> meta_like n" using assms by (auto simp: files_backed_def record_backed_def)
  then show ?thesis unfolding ok(2) fst_conv
    by (intro commit_backed) (use assms in \<open>auto simp: other_files\<close>)
qed (use assms in simp_all)

interpretation backed: guarded_system "call_step cd" "files_backed h" "honest_call h" for cd h
proof
  fix s :: "'a mgr" and a
  assume "files_backed h s" "honest_call h a"
  then show "files_backed h (call_step cd a s)"
    by (cases a) (simp_all add: stage_backed approve_backed reject_backed clear_backed)
qed

text \<open>
  C12. As long as what is staged carries the MD5 of its content and no script is named like a
  metadata file, every approved script's file is in the scripts directory with the approved MD5 and
  every staged one is in the pending directory with the pending MD5, after any sequence of
  \<open>stage\<close>, \<open>approve\<close>, \<open>reject\<close> and \<open>clear\<close>.
\<close>

theorem records_match_files:
  assumes "list_all (honest_call h) calls"
  shows "files_backed h (run (call_step cd) calls (new_manager cd auto empty_disk))"
  by (rule backed.run_guarded_inv [OF _ assms]) (simp add: files_backed_def)

theorem records_match_files_witness:
  "files_backed (\<lambda>c. c) (run (call_step plain_codec)
     [Call_Stage ''a'' ''echo'' ''echo'' (Some ''m''), Call_Approve ''a'', Call_Stage ''a'' ''ls'' ''ls'' None]
     (new_manager plain_codec [] empty_disk))"
  by (rule records_match_files) (simp add: meta_like_def endswith_def suffix_def)

text \<open>
  A script may be named like another script's metadata file, and then they share it: rejecting
  a staged script called \<open>x.meta.yaml\<close> deletes the metadata of the approved script \<open>x\<close>.
\<close>

theorem rejecting_meta_named_script_deletes_metadata:
  assumes "state_of (mem_store (fst p)) (meta_name x) \<in> {Pending, Update_Pending}"
  shows "disk_files (snd (fst (reject cd (meta_name x) p))) (Scripts_Dir, meta_name x) = None
    \<and> map_of (mem_store (fst (fst (reject cd (meta_name x) p)))) x = map_of (mem_store (fst p)) x"
  by (cases rule: reject_cases [of p "meta_name x" cd])
    (use assms in \<open>auto simp: state_of_def remove_files_def file_defs\<close>)

theorem rejecting_meta_named_script_deletes_metadata_witness:
  "disk_files (snd (run (call_step plain_codec)
     [Call_Stage ''x'' ''echo'' ''m1'' (Some ''params''), Call_Approve ''x'',
      Call_Stage ''x.meta.yaml'' ''other'' ''m2'' None]
     (new_manager plain_codec [] empty_disk))) (Scripts_Dir, ''x.meta.yaml'') = Some ''params''
   \<and> disk_files (snd (run (call_step plain_codec)
     [Call_Stage ''x'' ''echo'' ''m1'' (Some ''params''), Call_Approve ''x'',
      Call_Stage ''x.meta.yaml'' ''other'' ''m2'' None, Call_Reject ''x.meta.yaml'']
     (new_manager plain_codec [] empty_disk))) (Scripts_Dir, ''x.meta.yaml'') = None"
proof -
  let ?p = "run (call_step plain_codec)
     [Call_Stage ''x'' ''echo'' ''m1'' (Some ''params''), Call_Approve ''x'',
      Call_Stage ''x.meta.yaml'' ''other'' ''m2'' None] (new_manager plain_codec [] empty_disk)"
  have m: "''x.meta.yaml'' = meta_name ''x''" by (simp add: meta_name_def)
  have "state_of (mem_store (fst ?p)) (meta_name ''x'') \<in> {Pending, Update_Pending}"
    "disk_files (snd ?p) (Scripts_Dir, ''x.meta.yaml'') = Some ''params''"
    by code_simp+
  then show ?thesis
    using rejecting_meta_named_script_deletes_metadata [of ?p "''x''" plain_codec] by (simp add: m)
qed

end
