(* ===== verification/Script_Meta.thy ===== *)
theory Script_Meta
  imports Models
begin

text \<open>
  \<open>shared/script_meta.py\<close> and \<open>shared/_validation.py\<close>: the metadata of a script, the model
  validators of \<open>ParamDescriptor\<close> and \<open>ScriptMeta\<close>, and the validation that strips unknown fields.

  Two libraries are parameters, the fields of \<open>libs\<close>: PyYAML's \<open>safe_load\<close> (\<open>None\<close> when it
  raises \<open>YAMLError\<close>), and the part of pydantic's \<open>model_validate\<close> that turns the loaded value
  into the declared fields, or lists its errors.  The validators the classes declare are the model's own.
\<close>

section \<open>Loaded YAML values\<close>

datatype yaml =
    YNull | YBool bool | YInt int | YFloat pyfloat | YStr string | YList "yaml list"
  | YMap "(string \<times> yaml) list"

datatype loc_part = Key string | Index nat

type_synonym loc = "loc_part list"

record verr =
  e_type :: string
  e_loc :: loc

definition extra_forbidden :: string where
  "extra_forbidden = ''extra_forbidden''"

section \<open>\<open>_delete_at_path\<close>\<close>

text \<open>\<open>obj.pop(last, None)\<close> on a dictionary; anything else is left as it is.\<close>

definition pop_last :: "loc_part \<Rightarrow> yaml \<Rightarrow> yaml" where
  "pop_last part y =
     (case (y, part) of (YMap kvs, Key k) \<Rightarrow> YMap (AList.delete k kvs) | _ \<Rightarrow> y)"

text \<open>Descending raises (\<open>None\<close>) on a missing key, an index out of range or a scalar.\<close>

fun delete_at_path :: "loc \<Rightarrow> yaml \<Rightarrow> yaml option" where
  "delete_at_path [] y = None"
| "delete_at_path [part] y = Some (pop_last part y)"
| "delete_at_path (Key k # rest) (YMap kvs) =
     (case map_of kvs k of None \<Rightarrow> None
      | Some v \<Rightarrow> map_option (\<lambda>v'. YMap (AList.update k v' kvs)) (delete_at_path rest v))"
| "delete_at_path (Index i # rest) (YList ys) =
     (if i < length ys then map_option (\<lambda>v'. YList (ys[i := v'])) (delete_at_path rest (ys ! i)) else None)"
| "delete_at_path (part # rest) y = None"

fun delete_all :: "loc list \<Rightarrow> yaml \<Rightarrow> yaml option" where
  "delete_all [] y = Some y"
| "delete_all (l # ls) y = Option.bind (delete_at_path l y) (delete_all ls)"

section \<open>\<open>validate_stripping_unknowns\<close>\<close>

definition validate_stripping_unknowns :: "(yaml \<Rightarrow> verr list + 'm) \<Rightarrow> yaml \<Rightarrow> verr list + 'm" where
  "validate_stripping_unknowns model_validate raw =
     (case model_validate raw of
        Inr m \<Rightarrow> Inr m
      | Inl errors \<Rightarrow>
          let extra = filter (\<lambda>e. e_type e = extra_forbidden) errors;
              real = filter (\<lambda>e. e_type e \<noteq> extra_forbidden) errors
          in if real \<noteq> [] then Inl errors
             else (case delete_all (map e_loc extra) raw of
                     None \<Rightarrow> Inl errors
                   | Some cleaned \<Rightarrow> model_validate cleaned))"

section \<open>The models and their validators\<close>

datatype param_type = T_string | T_int | T_float | T_bool | T_choice | T_path

record param_descriptor =
  p_name :: string
  p_type :: param_type
  p_required :: bool
  p_help :: string
  p_default :: yaml
  p_min :: "pyfloat option"
  p_max :: "pyfloat option"
  p_choices :: "param_value list option"

record script_meta =
  m_description :: string
  m_persistent :: bool
  m_tags :: "string list"
  m_params :: "param_descriptor list"

datatype meta_error =
    Choices_Required string | Bounds_Not_Numeric string | Default_Required string
  | Duplicate_Param string | Invalid_Yaml | Not_A_Mapping | Validation "verr list"

definition validate_constraints :: "param_descriptor \<Rightarrow> meta_error + param_descriptor" where
  "validate_constraints d =
     (if p_type d = T_choice \<and> (case p_choices d of None \<Rightarrow> True | Some cs \<Rightarrow> cs = []) then
        Inl (Choices_Required (p_name d))
      else if p_type d \<notin> {T_int, T_float} \<and> (p_min d \<noteq> None \<or> p_max d \<noteq> None) then
        Inl (Bounds_Not_Numeric (p_name d))
      else if \<not> p_required d \<and> p_default d = YNull then Inl (Default_Required (p_name d))
      else Inr d)"

fun first_duplicate :: "string list \<Rightarrow> string list \<Rightarrow> string option" where
  "first_duplicate seen [] = None"
| "first_duplicate seen (n # ns) = (if n \<in> set seen then Some n else first_duplicate (n # seen) ns)"

definition unique_param_names :: "script_meta \<Rightarrow> meta_error + script_meta" where
  "unique_param_names m =
     (case first_duplicate [] (map p_name (m_params m)) of
        Some n \<Rightarrow> Inl (Duplicate_Param n) | None \<Rightarrow> Inr m)"

fun validate_all_params :: "param_descriptor list \<Rightarrow> meta_error + unit" where
  "validate_all_params [] = Inr ()"
| "validate_all_params (d # ds) = bindR (validate_constraints d) (\<lambda>_. validate_all_params ds)"

record libs =
  safe_load :: "string \<Rightarrow> yaml option"
  meta_fields :: "yaml \<Rightarrow> verr list + script_meta"

text \<open>\<open>ScriptMeta.model_validate\<close>: the library's fields, then the declared validators.\<close>

definition value_error :: verr where
  "value_error = \<lparr>e_type = ''value_error'', e_loc = []\<rparr>"

definition meta_model_validate :: "libs \<Rightarrow> yaml \<Rightarrow> verr list + script_meta" where
  "meta_model_validate lb raw =
     bindR (meta_fields lb raw) (\<lambda>m.
       case bindR (validate_all_params (m_params m)) (\<lambda>_. unique_param_names m) of
         Inl _ \<Rightarrow> Inl [value_error] | Inr m' \<Rightarrow> Inr m')"

definition parse_meta_yaml :: "libs \<Rightarrow> string \<Rightarrow> meta_error + script_meta" where
  "parse_meta_yaml lb text =
     (case safe_load lb text of
        None \<Rightarrow> Inl Invalid_Yaml
      | Some raw0 \<Rightarrow>
          let raw = (if raw0 = YNull then YMap [] else raw0)
          in case raw of
               YMap _ \<Rightarrow>
                 (case validate_stripping_unknowns (meta_model_validate lb) raw of
                    Inl es \<Rightarrow> Inl (Validation es) | Inr m \<Rightarrow> Inr m)
             | _ \<Rightarrow> Inl Not_A_Mapping)"

section \<open>Properties\<close>

definition descriptor_wf :: "param_descriptor \<Rightarrow> bool" where
  "descriptor_wf d \<longleftrightarrow>
     (p_type d = T_choice \<longrightarrow> (\<exists>c cs. p_choices d = Some (c # cs)))
     \<and> (p_min d \<noteq> None \<or> p_max d \<noteq> None \<longrightarrow> p_type d \<in> {T_int, T_float})
     \<and> (p_required d \<or> p_default d \<noteq> YNull)"

definition meta_wf :: "script_meta \<Rightarrow> bool" where
  "meta_wf m \<longleftrightarrow> (\<forall>d \<in> set (m_params m). descriptor_wf d) \<and> distinct (map p_name (m_params m))"

lemma validate_constraints_Inr: "validate_constraints d = Inr d' \<longleftrightarrow> d' = d \<and> descriptor_wf d"
  by (auto simp: validate_constraints_def descriptor_wf_def neq_Nil_conv split: option.splits)

lemma validate_all_params_Inr:
  "validate_all_params ds = Inr () \<longleftrightarrow> (\<forall>d \<in> set ds. descriptor_wf d)"
  by (induction ds) (auto simp: bindR_eq_Inr validate_constraints_Inr)

lemma first_duplicate_None:
  "first_duplicate seen ns = None \<longleftrightarrow> distinct ns \<and> set seen \<inter> set ns = {}"
  by (induction ns arbitrary: seen) auto

lemma first_duplicate_Some: "first_duplicate seen ns = Some n \<Longrightarrow> n \<in> set ns"
  by (induction ns arbitrary: seen) (auto split: if_splits)

lemma unique_param_names_Inr:
  "unique_param_names m = Inr m' \<longleftrightarrow> m' = m \<and> distinct (map p_name (m_params m))"
  using first_duplicate_None [of "[]" "map p_name (m_params m)"]
  by (auto simp: unique_param_names_def split: option.splits)

lemma run_validators_Inr:
  "bindR (validate_all_params (m_params m)) (\<lambda>_. unique_param_names m) = Inr m' \<longleftrightarrow> m' = m \<and> meta_wf m"
  by (auto simp: bindR_eq_Inr validate_all_params_Inr unique_param_names_Inr meta_wf_def)

lemma meta_model_validate_wf:
  assumes "meta_model_validate lb raw = Inr m"
  shows "meta_wf m"
proof (cases "meta_fields lb raw")
  case (Inr m0)
  show ?thesis
  proof (cases "bindR (validate_all_params (m_params m0)) (\<lambda>_. unique_param_names m0)")
    case (Inr m')
    with \<open>meta_fields lb raw = Inr m0\<close> assms run_validators_Inr [of m0 m'] show ?thesis
      by (simp add: meta_model_validate_def)
  qed (use Inr assms in \<open>simp add: meta_model_validate_def\<close>)
qed (use assms in \<open>simp add: meta_model_validate_def\<close>)

lemma validate_stripping_Inr:
  "validate_stripping_unknowns mv raw = Inr m \<Longrightarrow> \<exists>raw'. mv raw' = Inr m"
  by (auto simp: validate_stripping_unknowns_def Let_def split: sum.splits if_splits option.splits)

text \<open>
  Metadata that parses is well formed: a choice parameter has choices, only numeric parameters
  have bounds, an optional parameter has a default, and parameter names are distinct.
\<close>

theorem parse_meta_yaml_wf:
  assumes "parse_meta_yaml lb text = Inr m"
  shows "meta_wf m"
proof -
  obtain raw where raw: "validate_stripping_unknowns (meta_model_validate lb) raw = Inr m"
    using assms by (auto simp: parse_meta_yaml_def Let_def split: option.splits yaml.splits sum.splits if_splits)
  then obtain raw' where "meta_model_validate lb raw' = Inr m"
    using validate_stripping_Inr [OF raw] by blast
  then show ?thesis by (rule meta_model_validate_wf)
qed

definition example_descriptor :: param_descriptor where
  "example_descriptor = \<lparr>p_name = ''size'', p_type = T_int, p_required = False, p_help = [],
     p_default = YInt 4096, p_min = Some (Fin 512), p_max = Some (Fin 32768), p_choices = None\<rparr>"

definition example_libs :: libs where
  "example_libs = \<lparr>safe_load = (\<lambda>t. Some (YMap [(''description'', YStr t)])),
     meta_fields = (\<lambda>y. Inr \<lparr>m_description = [], m_persistent = False, m_tags = [],
       m_params = [example_descriptor]\<rparr>)\<rparr>"

lemma parse_example:
  "parse_meta_yaml example_libs t =
     Inr \<lparr>m_description = [], m_persistent = False, m_tags = [], m_params = [example_descriptor]\<rparr>"
  by (simp add: parse_meta_yaml_def example_libs_def validate_stripping_unknowns_def
      meta_model_validate_def validate_constraints_def unique_param_names_def example_descriptor_def)

theorem parse_meta_yaml_wf_witness:
  "meta_wf \<lparr>m_description = [], m_persistent = False, m_tags = [], m_params = [example_descriptor]\<rparr>"
  by (rule parse_meta_yaml_wf [OF parse_example [of "[]"]])

section \<open>Deleting paths\<close>

fun get_at_path :: "loc \<Rightarrow> yaml \<Rightarrow> yaml option" where
  "get_at_path [] y = Some y"
| "get_at_path (Key k # rest) (YMap kvs) = Option.bind (map_of kvs k) (get_at_path rest)"
| "get_at_path (Index i # rest) (YList ys) = (if i < length ys then get_at_path rest (ys ! i) else None)"
| "get_at_path (part # rest) y = None"

lemma delete_at_path_other:
  "delete_at_path l y = Some y' \<Longrightarrow> \<not> prefix l l' \<Longrightarrow> \<not> prefix l' l \<Longrightarrow> get_at_path l' y' = get_at_path l' y"
proof (induction l y arbitrary: l' y' rule: delete_at_path.induct)
  case (2 part y)
  then obtain a r where l': "l' = a # r" by (cases l') auto
  with "2.prems" have "a \<noteq> part" by auto
  then show ?case using "2.prems" l'
    by (cases part; cases y; cases a) (auto simp: pop_last_def)
next
  case (3 k v va kvs)
  then obtain a r where l': "l' = a # r" by (cases l') auto
  from "3.prems"(1) obtain x x' where x: "map_of kvs k = Some x" "delete_at_path (v # va) x = Some x'"
      "y' = YMap (AList.update k x' kvs)"
    by (auto split: option.splits)
  show ?case
  proof (cases "a = Key k")
    case True
    with "3.prems" l' have "\<not> prefix (v # va) r" "\<not> prefix r (v # va)" by auto
    with "3.IH" [OF x(1,2)] x l' True show ?thesis by simp
  next
    case False
    with l' x show ?thesis by (cases a) auto
  qed
next
  case (4 i v va ys)
  then obtain a r where l': "l' = a # r" by (cases l') auto
  from "4.prems"(1) obtain x' where x: "i < length ys" "delete_at_path (v # va) (ys ! i) = Some x'"
      "y' = YList (ys[i := x'])"
    by (auto split: if_splits)
  show ?case
  proof (cases "a = Index i")
    case True
    with "4.prems" l' have "\<not> prefix (v # va) r" "\<not> prefix r (v # va)" by auto
    with "4.IH" [OF x(1,2)] x l' True show ?thesis by simp
  next
    case False
    with l' x show ?thesis by (cases a) auto
  qed
qed simp_all

lemma delete_at_path_gone:
  "delete_at_path (l @ [Key k]) y = Some y' \<Longrightarrow> get_at_path l y = Some (YMap kvs) \<Longrightarrow>
     get_at_path (l @ [Key k]) y' = None"
proof (induction l arbitrary: y y')
  case (Cons a l)
  obtain b r where ne: "l @ [Key k] = b # r" by (cases "l @ [Key k]") auto
  show ?case
    using Cons.prems Cons.IH ne
    by (cases a; cases y) (auto split: option.splits if_splits)
qed (auto simp: pop_last_def)

text \<open>
  Stripping an unknown field removes exactly that field: after \<open>_delete_at_path\<close> the value at the
  path of a dictionary key is gone, and the value at every path that neither leads through it nor
  to it is what it was.
\<close>

theorem delete_at_path_exact:
  assumes "delete_at_path (l @ [Key k]) y = Some y'" "get_at_path l y = Some (YMap kvs)"
  shows "get_at_path (l @ [Key k]) y' = None
    \<and> (\<forall>l'. \<not> prefix (l @ [Key k]) l' \<and> \<not> prefix l' (l @ [Key k]) \<longrightarrow> get_at_path l' y' = get_at_path l' y)"
  using assms delete_at_path_gone delete_at_path_other by blast

theorem delete_at_path_exact_witness:
  "get_at_path [Key ''params'', Index 0, Key ''hlep'']
     (YMap [(''params'', YList [YMap [(''name'', YStr ''a'')]])]) = None"
proof -
  let ?y = "YMap [(''params'', YList [YMap [(''name'', YStr ''a''), (''hlep'', YStr ''b'')]])]"
  have d: "delete_at_path ([Key ''params'', Index 0] @ [Key ''hlep'']) ?y =
      Some (YMap [(''params'', YList [YMap [(''name'', YStr ''a'')]])])"
    "get_at_path [Key ''params'', Index 0] ?y = Some (YMap [(''name'', YStr ''a''), (''hlep'', YStr ''b'')])"
    by (simp_all add: pop_last_def)
  from delete_at_path_exact [OF d] show ?thesis by simp
qed

end
