(* ===== verification/Script_Runner.thy ===== *)
theory Script_Runner
  imports Script_Meta Approvals_Lemmas
begin

text \<open>
  \<open>agent/script_runner.py\<close>: parameter validation, the integrity check, the choice of script file and
  interpreter, the environment, and \<open>run_script\<close>.

  What the operating system does with the command is the parameter \<open>exec\<close> of \<open>run_script\<close>; the
  approvals manager it is handed is used through its \<open>get_state\<close> only, which is a parameter too (the
  locale \<open>approval_source\<close> states what the runner relies on).  The fields of \<open>agent_env\<close> are the rest
  of its surroundings: the platform, the path of the scripts directory, \<open>os.environ\<close>, the MD5
  function, \<open>repr\<close> of a float, and the libraries behind the metadata parser.
\<close>

record agent_env =
  is_windows :: bool
  scripts_path :: string
  environ :: "(string, string) dict"
  md5_hex :: "string \<Rightarrow> string"
  float_repr :: "pyfloat \<Rightarrow> string"
  yaml_libs :: libs

section \<open>Parameter validation\<close>

datatype param_error =
    Unknown_Param string | Missing_Param string
  | Must_Be_String string | Must_Be_Boolean string | Must_Be_Integer string | Must_Be_Number string
  | Not_A_Choice string | Below_Min string | Above_Max string

text \<open>Python's comparison and equality across \<open>bool\<close>, \<open>int\<close> and \<open>float\<close> (exact; NaN is never equal or less).\<close>

fun float_less :: "pyfloat \<Rightarrow> pyfloat \<Rightarrow> bool" where
  "float_less (Fin a) (Fin b) = (a < b)"
| "float_less Neg_Inf y = (y \<noteq> Neg_Inf \<and> y \<noteq> NaN)"
| "float_less x Pos_Inf = (x \<noteq> Pos_Inf \<and> x \<noteq> NaN)"
| "float_less _ _ = False"

fun float_eq :: "pyfloat \<Rightarrow> pyfloat \<Rightarrow> bool" where
  "float_eq (Fin a) (Fin b) = (a = b)"
| "float_eq Pos_Inf Pos_Inf = True"
| "float_eq Neg_Inf Neg_Inf = True"
| "float_eq _ _ = False"

fun as_number :: "param_value \<Rightarrow> pyfloat option" where
  "as_number (PStr s) = None"
| "as_number (PInt i) = Some (Fin (of_int i))"
| "as_number (PFloat f) = Some f"
| "as_number (PBool b) = Some (Fin (if b then 1 else 0))"

fun py_eq :: "param_value \<Rightarrow> param_value \<Rightarrow> bool" where
  "py_eq (PStr a) (PStr b) = (a = b)"
| "py_eq v w = (case (as_number v, as_number w) of (Some x, Some y) \<Rightarrow> float_eq x y | _ \<Rightarrow> False)"

definition check_bounds :: "param_descriptor \<Rightarrow> pyfloat \<Rightarrow> param_error list" where
  "check_bounds d v =
     (case p_min d of None \<Rightarrow> [] | Some lo \<Rightarrow> if float_less v lo then [Below_Min (p_name d)] else [])
     @ (case p_max d of None \<Rightarrow> [] | Some hi \<Rightarrow> if float_less hi v then [Above_Max (p_name d)] else [])"

definition validate_value :: "param_descriptor \<Rightarrow> param_value \<Rightarrow> param_error list" where
  "validate_value d v =
     (let name = p_name d in
      if p_type d \<in> {T_string, T_path} then
        (case v of PStr _ \<Rightarrow> [] | _ \<Rightarrow> [Must_Be_String name])
      else if p_type d = T_bool then
        (case v of PBool _ \<Rightarrow> [] | _ \<Rightarrow> [Must_Be_Boolean name])
      else if p_type d = T_int then
        (case v of PInt i \<Rightarrow> check_bounds d (Fin (of_int i)) | _ \<Rightarrow> [Must_Be_Integer name])
      else if p_type d = T_float then
        (case v of PInt i \<Rightarrow> check_bounds d (Fin (of_int i)) | PFloat f \<Rightarrow> check_bounds d f
         | _ \<Rightarrow> [Must_Be_Number name])
      else
        (if list_ex (py_eq v) (case p_choices d of None \<Rightarrow> [] | Some cs \<Rightarrow> cs) then []
         else [Not_A_Choice name]))"

datatype run_error =
    Not_Approved approval_state
  | Invalid_Params "param_error list"
  | Accepts_No_Params
  | Bad_Meta meta_error
  | Script_Not_Found
  | Integrity_Mismatch string string
  | No_Interpreter

definition param_errors :: "script_meta \<Rightarrow> params \<Rightarrow> param_error list" where
  "param_errors meta params =
     concat (map (\<lambda>(key, _). if key \<in> set (map p_name (m_params meta)) then [] else [Unknown_Param key]) params)
     @ concat (map (\<lambda>d. case map_of params (p_name d) of
           None \<Rightarrow> if p_required d then [Missing_Param (p_name d)] else []
         | Some v \<Rightarrow> validate_value d v) (m_params meta))"

definition validate_params :: "agent_env \<Rightarrow> string \<Rightarrow> params \<Rightarrow> files \<Rightarrow> run_error + unit" where
  "validate_params env name params fs =
     (case fs (Scripts_Dir, meta_name name) of
        None \<Rightarrow> if params \<noteq> [] then Inl Accepts_No_Params else Inr ()
      | Some text \<Rightarrow>
          (case parse_meta_yaml (yaml_libs env) text of
             Inl e \<Rightarrow> Inl (Bad_Meta e)
           | Inr meta \<Rightarrow>
               let errors = param_errors meta params
               in if errors \<noteq> [] then Inl (Invalid_Params errors) else Inr ()))"

section \<open>The script file and its interpreter\<close>

definition LINUX_EXTENSIONS :: "string list" where
  "LINUX_EXTENSIONS = [''.sh'', ''.bash'', '''']"

definition WINDOWS_EXTENSIONS :: "string list" where
  "WINDOWS_EXTENSIONS = [''.ps1'', ''.bat'', ''.cmd'', '''']"

fun first_existing :: "files \<Rightarrow> string list \<Rightarrow> string option" where
  "first_existing fs [] = None"
| "first_existing fs (f # rest) = (if exists_file fs Scripts_Dir f then Some f else first_existing fs rest)"

definition find_script :: "bool \<Rightarrow> string \<Rightarrow> files \<Rightarrow> run_error + string" where
  "find_script windows name fs =
     (let extensions = (if windows then WINDOWS_EXTENSIONS else LINUX_EXTENSIONS)
      in case first_existing fs (map (\<lambda>ext. name @ ext) extensions) of
           None \<Rightarrow> Inl Script_Not_Found
         | Some f \<Rightarrow> Inr f)"

definition file_md5 :: "agent_env \<Rightarrow> string \<Rightarrow> files \<Rightarrow> string option" where
  "file_md5 env f fs = map_option (md5_hex env) (fs (Scripts_Dir, f))"

text \<open>The file was found just before, so reading it again cannot fail (\<open>Script_Not_Found\<close> is unreachable there).\<close>

definition verify_script_integrity ::
  "agent_env \<Rightarrow> string \<Rightarrow> string option \<Rightarrow> files \<Rightarrow> run_error + unit" where
  "verify_script_integrity env f approved_md5 fs =
     (case approved_md5 of
        None \<Rightarrow> Inr ()
      | Some m \<Rightarrow>
          (case file_md5 env f fs of
             None \<Rightarrow> Inl Script_Not_Found
           | Some actual \<Rightarrow> if actual \<noteq> m then Inl (Integrity_Mismatch actual m) else Inr ()))"

definition build_command :: "agent_env \<Rightarrow> string \<Rightarrow> run_error + string list" where
  "build_command env f =
     (let suffix = py_lower (path_suffix f); path = scripts_path env @ ''/'' @ f
      in if suffix \<in> {''.sh'', ''.bash''} then Inr [''bash'', path]
         else if suffix = ''.ps1'' then
           Inr [''powershell'', ''-ExecutionPolicy'', ''Bypass'', ''-NoProfile'', ''-File'', path]
         else if suffix \<in> {''.bat'', ''.cmd''} then Inr [''cmd'', ''/c'', path]
         else if is_windows env then Inl No_Interpreter
         else Inr [''bash'', path])"

fun param_str :: "(pyfloat \<Rightarrow> string) \<Rightarrow> param_value \<Rightarrow> string" where
  "param_str fr (PStr s) = s"
| "param_str fr (PInt i) = int_str i"
| "param_str fr (PFloat f) = fr f"
| "param_str fr (PBool b) = (if b then ''True'' else ''False'')"

definition env_key :: "string \<Rightarrow> string" where
  "env_key k = ''CSL_PARAM_'' @ py_upper k"

definition build_env :: "agent_env \<Rightarrow> params \<Rightarrow> (string, string) dict" where
  "build_env env params =
     fold (\<lambda>(k, v) e. AList.update (env_key k) (param_str (float_repr env) v) e) params (environ env)"

section \<open>\<open>run_script\<close>\<close>

text \<open>
  The checks \<open>run_script\<close> and \<open>ProcessManager.start\<close> make in the same order once the descriptor is
  known: parameters, file, integrity, interpreter, environment.
\<close>

definition prepare ::
  "agent_env \<Rightarrow> string \<Rightarrow> params \<Rightarrow> string option \<Rightarrow> files \<Rightarrow> run_error + string list \<times> (string, string) dict"
where
  "prepare env name params approved_md5 fs =
     bindR (validate_params env name params fs) (\<lambda>_.
     bindR (find_script (is_windows env) name fs) (\<lambda>f.
     bindR (verify_script_integrity env f approved_md5 fs) (\<lambda>_.
     bindR (build_command env f) (\<lambda>command. Inr (command, build_env env params)))))"

record script_result =
  exit_code :: int
  std_out :: string
  std_err :: string
  timed_out :: bool

text \<open>\<open>subprocess.run\<close>: the process ended, or the timeout expired with captured output that may be
  missing or still be bytes.\<close>

datatype captured = No_Output | Raw_Bytes string | Text_Output string

datatype outcome = Exited int string string | Timeout_Expired captured captured

definition captured_text :: "captured \<Rightarrow> string" where
  "captured_text c = (case c of Text_Output s \<Rightarrow> s | _ \<Rightarrow> [])"

definition to_result :: "outcome \<Rightarrow> script_result" where
  "to_result oc =
     (case oc of
        Exited code out err \<Rightarrow> \<lparr>exit_code = code, std_out = out, std_err = err, timed_out = False\<rparr>
      | Timeout_Expired out err \<Rightarrow>
          \<lparr>exit_code = -1, std_out = captured_text out, std_err = captured_text err, timed_out = True\<rparr>)"

definition run_script ::
  "agent_env \<Rightarrow> (string \<Rightarrow> 'a \<Rightarrow> 'a \<times> script_descriptor) \<Rightarrow> (string list \<Rightarrow> (string, string) dict \<Rightarrow> outcome)
     \<Rightarrow> string \<Rightarrow> params \<Rightarrow> files \<Rightarrow> 'a \<Rightarrow> 'a \<times> (run_error + script_result)"
where
  "run_script env get exec name params fs approvals =
     (let (approvals', d) = get name approvals
      in if d_state d \<noteq> Approved then (approvals', Inl (Not_Approved (d_state d)))
         else (approvals', bindR (prepare env name params (d_approved_md5 d) fs)
                 (\<lambda>(command, e). Inr (to_result (exec command e)))))"

end
