(* ===== verification/Runner_Props.thy ===== *)
theory Runner_Props
  imports Script_Runner Approvals_Props
begin

text \<open>
  Correctness of the script runner: parameter validation against a declarative contract, the choice
  of script file, the environment, and the gate in front of every execution.
\<close>

section \<open>The contract of parameters\<close>

definition in_bounds :: "param_descriptor \<Rightarrow> pyfloat \<Rightarrow> bool" where
  "in_bounds d x \<longleftrightarrow>
     (\<forall>lo. p_min d = Some lo \<longrightarrow> \<not> float_less x lo) \<and> (\<forall>hi. p_max d = Some hi \<longrightarrow> \<not> float_less hi x)"

definition value_ok :: "param_descriptor \<Rightarrow> param_value \<Rightarrow> bool" where
  "value_ok d v =
     (case p_type d of
        T_string \<Rightarrow> (\<exists>s. v = PStr s)
      | T_path \<Rightarrow> (\<exists>s. v = PStr s)
      | T_bool \<Rightarrow> (\<exists>b. v = PBool b)
      | T_int \<Rightarrow> (\<exists>i. v = PInt i \<and> in_bounds d (Fin (of_int i)))
      | T_float \<Rightarrow> (\<exists>x. (v = PFloat x \<or> (\<exists>i. v = PInt i \<and> x = Fin (of_int i))) \<and> in_bounds d x)
      | T_choice \<Rightarrow> (\<exists>c \<in> set (case p_choices d of None \<Rightarrow> [] | Some cs \<Rightarrow> cs). py_eq v c))"

definition accepted_params :: "script_meta \<Rightarrow> params \<Rightarrow> bool" where
  "accepted_params meta params \<longleftrightarrow>
     fst ` set params \<subseteq> set (map p_name (m_params meta))
     \<and> (\<forall>d \<in> set (m_params meta). case map_of params (p_name d) of
            None \<Rightarrow> \<not> p_required d | Some v \<Rightarrow> value_ok d v)"

lemma check_bounds_Nil: "check_bounds d x = [] \<longleftrightarrow> in_bounds d x"
  by (auto simp: check_bounds_def in_bounds_def split: option.splits if_splits)

lemma validate_value_Nil: "validate_value d v = [] \<longleftrightarrow> value_ok d v"
proof (cases "p_type d = T_choice")
  case True
  then show ?thesis by (simp add: validate_value_def value_ok_def list_ex_iff del: py_eq.simps)
next
  case False
  then show ?thesis
    by (cases "p_type d"; cases v) (auto simp: validate_value_def value_ok_def check_bounds_Nil)
qed

lemma param_errors_Nil: "param_errors meta params = [] \<longleftrightarrow> accepted_params meta params"
  unfolding param_errors_def accepted_params_def append_is_Nil_conv concat_eq_Nil_conv set_map
  by (intro conj_cong)
    (auto simp: validate_value_Nil image_subset_iff split: option.splits if_splits)

lemma validate_params_accepts:
  "validate_params env name params fs = Inr () \<longleftrightarrow>
     (case fs (Scripts_Dir, meta_name name) of
        None \<Rightarrow> params = []
      | Some text \<Rightarrow> (\<exists>meta. parse_meta_yaml (yaml_libs env) text = Inr meta \<and> accepted_params meta params))"
  by (auto simp: validate_params_def Let_def param_errors_Nil split: option.splits sum.splits if_splits)


text \<open>
  C19. An integer parameter that validation lets through lies within its declared bounds.
\<close>

theorem accepted_int_within_bounds:
  assumes "validate_params env name params fs = Inr ()"
    and "fs (Scripts_Dir, meta_name name) = Some text" "parse_meta_yaml (yaml_libs env) text = Inr meta"
    and "d \<in> set (m_params meta)" "p_type d = T_int" "map_of params (p_name d) = Some v"
  shows "\<exists>i. v = PInt i \<and> (\<forall>lo. p_min d = Some (Fin lo) \<longrightarrow> lo \<le> of_int i)
      \<and> (\<forall>hi. p_max d = Some (Fin hi) \<longrightarrow> of_int i \<le> hi)"
proof -
  have "accepted_params meta params"
    using assms(1-3) by (simp add: validate_params_accepts)
  then have "value_ok d v"
    using assms(4,6) by (auto simp: accepted_params_def split: option.splits)
  then show ?thesis
    using assms(5) by (auto simp: value_ok_def in_bounds_def not_less)
qed

definition example_env :: agent_env where
  "example_env = \<lparr>is_windows = False, scripts_path = ''/home/u/.csl/scripts'', environ = [(''HOME'', ''/home/u'')],
     md5_hex = (\<lambda>c. c), float_repr = (\<lambda>x. ''0.0''), yaml_libs = example_libs\<rparr>"

definition example_files :: files where
  "example_files = [(Scripts_Dir, ''a.sh'') \<mapsto> ''echo'', (Scripts_Dir, ''a.sh.meta.yaml'') \<mapsto> ''x'']"

lemma example_validates:
  "validate_params example_env ''a.sh'' [(''size'', PInt 600)] example_files = Inr ()"
  by (simp add: validate_params_def example_env_def example_files_def meta_name_def parse_example
      param_errors_def example_descriptor_def validate_value_def check_bounds_def)

theorem accepted_int_within_bounds_witness: "(512 :: rat) \<le> of_int 600 \<and> of_int 600 \<le> (32768 :: rat)"
  using accepted_int_within_bounds [OF example_validates, of "''x''"
      "\<lparr>m_description = [], m_persistent = False, m_tags = [], m_params = [example_descriptor]\<rparr>"
      example_descriptor "PInt 600"]
  by (simp add: example_env_def example_files_def meta_name_def parse_example example_descriptor_def)

text \<open>
  Bounds do not hold back a not-a-number: a float parameter accepts NaN whatever its
  \<open>min\<close> and \<open>max\<close>, since both comparisons of \<open>_check_bounds\<close> are false for it.
\<close>

theorem nan_passes_every_bound:
  "validate_value (d\<lparr>p_type := T_float\<rparr>) (PFloat NaN) = []"
proof -
  have "\<not> float_less NaN x" "\<not> float_less x NaN" for x
    by (cases x; simp)+
  then show ?thesis
    by (simp add: validate_value_Nil value_ok_def in_bounds_def)
qed

section \<open>Choosing the file\<close>

lemma first_existing_find: "first_existing fs l = find (exists_file fs Scripts_Dir) l"
  by (induction l) simp_all

lemma find_script_exists:
  assumes "find_script w name fs = Inr f"
  shows "\<exists>c ext. fs (Scripts_Dir, f) = Some c \<and> f = name @ ext
     \<and> ext \<in> set (if w then WINDOWS_EXTENSIONS else LINUX_EXTENSIONS)"
proof -
  have "find (exists_file fs Scripts_Dir)
      (map (\<lambda>ext. name @ ext) (if w then WINDOWS_EXTENSIONS else LINUX_EXTENSIONS)) = Some f"
    using assms by (simp add: find_script_def Let_def first_existing_find split: option.splits if_splits)
  then have "exists_file fs Scripts_Dir f"
    "f \<in> set (map (\<lambda>ext. name @ ext) (if w then WINDOWS_EXTENSIONS else LINUX_EXTENSIONS))"
    by (metis find_Some_iff nth_mem)+
  then show ?thesis by (auto simp: file_defs)
qed

section \<open>The gate in front of every execution\<close>

text \<open>
  What the runner and the process manager rely on in the manager they are handed: looking a script up
  keeps the manager sound, an approved script has an MD5, and looking up again changes nothing.
\<close>

locale approval_source =
  fixes get :: "string \<Rightarrow> 'a \<Rightarrow> 'a \<times> script_descriptor"
    and sound :: "'a \<Rightarrow> bool"
  assumes get_sound: "sound a \<Longrightarrow> sound (fst (get n a))"
    and get_approved: "sound a \<Longrightarrow> d_state (snd (get n a)) = Approved \<Longrightarrow> d_approved_md5 (snd (get n a)) \<noteq> None"
    and get_stable: "fst (get m (fst (get n a))) = fst (get n a)"
begin

lemma prepared_content:
  assumes "sound a" "d_state (snd (get name a)) = Approved"
    and "prepare env name params (d_approved_md5 (snd (get name a))) fs = Inr (command, e)"
  shows "\<exists>f c. find_script (is_windows env) name fs = Inr f \<and> fs (Scripts_Dir, f) = Some c
    \<and> d_approved_md5 (snd (get name a)) = Some (md5_hex env c)
    \<and> build_command env f = Inr command \<and> e = build_env env params
    \<and> validate_params env name params fs = Inr ()"
proof -
  from assms get_approved obtain m where m: "d_approved_md5 (snd (get name a)) = Some m" by blast
  with assms(3) show ?thesis
    by (auto simp: prepare_def bindR_eq_Inr verify_script_integrity_def file_md5_def
        split: option.splits if_splits)
qed

lemma run_script_gate:
  assumes "sound a" "run_script env get exec name params fs a = (a', Inr res)"
  shows "\<exists>f c command. d_state (snd (get name a)) = Approved
    \<and> find_script (is_windows env) name fs = Inr f \<and> fs (Scripts_Dir, f) = Some c
    \<and> d_approved_md5 (snd (get name a)) = Some (md5_hex env c)
    \<and> validate_params env name params fs = Inr ()
    \<and> build_command env f = Inr command
    \<and> res = to_result (exec command (build_env env params))"
  using assms prepared_content [OF assms(1), of name env params fs]
  by (fastforce simp: run_script_def bindR_eq_Inr split: prod.splits if_splits)

end

interpretation manager: approval_source "get_state cd"
    "\<lambda>p. store_wf (mem_store (fst p)) \<and> store_wf (load_store cd (snd p))" for cd
proof (unfold_locales, goal_cases)
  case (1 a n)
  then show ?case by (auto simp: sync_mem_store)
next
  case (2 a n)
  then have "store_wf (mem_store (fst (sync_from_disk cd a)))" by (simp add: sync_mem_store)
  with 2(2) show ?case
    by (auto simp: get_state_def Let_def absent_descriptor_def descriptor_def record_wf_def
        dest: store_wfD split: option.splits)
qed simp

text \<open>
  C4. \<open>run_script\<close> hands a command to the operating system only for a script the manager reports as
  approved, whose parameters the metadata accepts, and whose file's content has, at that moment,
  exactly the approved MD5; the command runs that file and the environment is the one built from
  the parameters.
\<close>

theorem run_script_only_approved_content:
  assumes "store_wf (mem_store (fst p))" "store_wf (load_store cd (snd p))"
    and "run_script env (get_state cd) exec name params fs p = (p', Inr res)"
  shows "\<exists>f c command. d_state (snd (get_state cd name p)) = Approved
    \<and> find_script (is_windows env) name fs = Inr f \<and> fs (Scripts_Dir, f) = Some c
    \<and> d_approved_md5 (snd (get_state cd name p)) = Some (md5_hex env c)
    \<and> validate_params env name params fs = Inr ()
    \<and> build_command env f = Inr command
    \<and> res = to_result (exec command (build_env env params))"
  using manager.run_script_gate assms by blast

definition approved_example :: "store mgr" where
  "approved_example = (let w = (empty_disk :: store disk)\<lparr>disk_files := example_files\<rparr>
     in (\<lparr>auto_approve = [], mem_store = [(''a.sh'', cli_record (pending_record ''echo'') 1)],
          sig = current_sig plain_codec w\<rparr>, w))"

theorem run_script_only_approved_content_witness:
  "\<exists>f c. find_script False ''a.sh'' example_files = Inr f \<and> example_files (Scripts_Dir, f) = Some c
     \<and> md5_hex example_env c = ''echo''"
proof -
  have run: "run_script example_env (get_state plain_codec) (\<lambda>cmd e. Exited 0 (last cmd) []) ''a.sh''
      [(''size'', PInt 600)] example_files approved_example
      = (approved_example, Inr \<lparr>exit_code = 0, std_out = ''/home/u/.csl/scripts/a.sh'', std_err = [], timed_out = False\<rparr>)"
    using example_validates
    by (simp add: run_script_def get_state_def Let_def approved_example_def descriptor_def prepare_def
        empty_record_def find_script_def example_files_def example_env_def LINUX_EXTENSIONS_def file_defs
        verify_script_integrity_def file_md5_def build_command_def path_suffix_def py_simps to_result_def)
  have wf: "store_wf (mem_store (fst approved_example))" "store_wf (load_store plain_codec (snd approved_example))"
    by (simp_all add: approved_example_def Let_def store_wf_def dict_ok_def record_wf_def empty_record_def
        load_store_def empty_disk_def)
  have md5: "d_approved_md5 (snd (get_state plain_codec ''a.sh'' approved_example)) = Some ''echo''"
    by (simp add: get_state_def Let_def approved_example_def descriptor_def empty_record_def)
  have linux: "is_windows example_env = False" by (simp add: example_env_def)
  from run_script_only_approved_content [OF wf run] obtain f c where
    "find_script (is_windows example_env) ''a.sh'' example_files = Inr f" "example_files (Scripts_Dir, f) = Some c"
    "d_approved_md5 (snd (get_state plain_codec ''a.sh'' approved_example)) = Some (md5_hex example_env c)"
    by blast
  with md5 linux show ?thesis by auto
qed

section \<open>The environment\<close>

lemma map_of_build_env:
  "map_of (fold (\<lambda>(k, v) e. AList.update (env_key k) (param_str fr v) e) params e0) x =
     (case find (\<lambda>(k, v). env_key k = x) (rev params) of None \<Rightarrow> map_of e0 x | Some (k, v) \<Rightarrow> Some (param_str fr v))"
  by (induction params rule: rev_induct) (auto split: option.splits)

lemma find_distinct_map:
  "distinct (map g xs) \<Longrightarrow> x \<in> set xs \<Longrightarrow> find (\<lambda>y. g y = g x) xs = Some x"
proof (induction xs)
  case (Cons y ys)
  then show ?case by (auto simp: image_iff)
qed simp

text \<open>
  The environment of a script carries every parameter as \<open>CSL_PARAM_<NAME>\<close> with the text of its
  value, provided the names differ by more than case, and leaves every variable without that prefix
  as it was.
\<close>

theorem build_env_passes_params:
  assumes "distinct (map (\<lambda>(k, v). env_key k) params)"
  shows "((k, v) \<in> set params \<longrightarrow> map_of (build_env env params) (env_key k) = Some (param_str (float_repr env) v))
    \<and> (\<not> startswith x ''CSL_PARAM_'' \<longrightarrow> map_of (build_env env params) x = map_of (environ env) x)"
proof (intro conjI impI)
  assume kv: "(k, v) \<in> set params"
  have "distinct (map (\<lambda>(k, v). env_key k) (rev params))" using assms by (simp add: rev_map [symmetric])
  then have "find (\<lambda>y. (\<lambda>(k, v). env_key k) y = (\<lambda>(k, v). env_key k) (k, v)) (rev params) = Some (k, v)"
    by (rule find_distinct_map) (use kv in simp)
  then have "find (\<lambda>(k', v). env_key k' = env_key k) (rev params) = Some (k, v)"
    by (simp add: case_prod_unfold)
  then show "map_of (build_env env params) (env_key k) = Some (param_str (float_repr env) v)"
    unfolding build_env_def map_of_build_env by simp
next
  assume x: "\<not> startswith x ''CSL_PARAM_''"
  have "env_key k \<noteq> x" for k
    using x by (auto simp: startswith_def env_key_def)
  then have "find (\<lambda>(k, v). env_key k = x) (rev params) = None"
    by (auto simp: find_None_iff)
  then show "map_of (build_env env params) x = map_of (environ env) x"
    unfolding build_env_def map_of_build_env by simp
qed

theorem build_env_passes_params_witness:
  "map_of (build_env example_env [(''size'', PInt 600), (''mode'', PStr ''fast'')]) ''CSL_PARAM_SIZE'' = Some ''600''"
proof -
  have k: "env_key ''size'' = ''CSL_PARAM_SIZE''"
    by code_simp
  have s: "param_str (float_repr example_env) (PInt 600) = ''600''"
    by code_simp
  have d: "distinct (map (\<lambda>(k, v). env_key k) [(''size'', PInt 600), (''mode'', PStr ''fast'')])"
    by code_simp
  from build_env_passes_params [OF d, of "''size''" "PInt 600" example_env] s
  show ?thesis unfolding k by simp
qed

end
