(* ===== verification/Process_Manager.thy ===== *)
theory Process_Manager
  imports Script_Runner
begin

text \<open>
  \<open>agent/process_manager.py\<close> and \<open>agent/state.py\<close>: persistent jobs.  A manager is its dictionary of
  job records; the host holds what it shares with the operating system: the process table, the
  files, \<open>running.json\<close> and the clock.

  The platform is Linux: \<open>_pid_alive\<close> reads zombies from \<open>/proc\<close> and a kill is SIGTERM, a grace
  period, SIGKILL.  A process either ends on SIGTERM within the grace period, with the exit code its
  \<open>P_Running\<close> entry names, or ignores it.
\<close>

section \<open>Processes and handles\<close>

datatype pstate =
    P_Running "int option"  \<comment> \<open>the exit code SIGTERM causes; \<open>None\<close>: the signal is ignored\<close>
  | P_Exited int            \<comment> \<open>dead but not yet waited for\<close>

type_synonym procs = "int \<rightharpoonup> pstate"

definition pid_alive :: "procs \<Rightarrow> int \<Rightarrow> bool" where
  "pid_alive ps pid = (case ps pid of Some (P_Running _) \<Rightarrow> True | _ \<Rightarrow> False)"

text \<open>\<open>subprocess.Popen\<close> of a child, or the PID-only handle of a process that outlived an agent.\<close>

datatype handle = Popen int "int option" | Reattached int "int option"

fun handle_pid :: "handle \<Rightarrow> int" where
  "handle_pid (Popen pid rc) = pid"
| "handle_pid (Reattached pid rc) = pid"

fun returncode :: "handle \<Rightarrow> int option" where
  "returncode (Popen pid rc) = rc"
| "returncode (Reattached pid rc) = rc"

text \<open>
  \<open>poll\<close>: a child that exited is reaped and its code kept (\<open>0\<close> if something else reaped it, as
  \<open>Popen\<close> reports then); a reattached process that is gone reports \<open>-1\<close>.
\<close>

fun poll :: "handle \<Rightarrow> procs \<Rightarrow> handle \<times> procs" where
  "poll (Popen pid (Some rc)) ps = (Popen pid (Some rc), ps)"
| "poll (Popen pid None) ps =
     (case ps pid of
        Some (P_Running t) \<Rightarrow> (Popen pid None, ps)
      | Some (P_Exited c) \<Rightarrow> (Popen pid (Some c), ps(pid := None))
      | None \<Rightarrow> (Popen pid (Some 0), ps))"
| "poll (Reattached pid (Some rc)) ps = (Reattached pid (Some rc), ps)"
| "poll (Reattached pid None) ps = (Reattached pid (if pid_alive ps pid then None else Some (-1)), ps)"

text \<open>\<open>wait(timeout)\<close> with nothing happening meanwhile: \<open>None\<close> is \<open>TimeoutExpired\<close>.\<close>

definition wait_timeout :: "handle \<Rightarrow> procs \<Rightarrow> (handle \<times> procs) option" where
  "wait_timeout h ps =
     (let (h', ps') = poll h ps in if returncode h' = None then None else Some (h', ps'))"

definition sigterm :: "int \<Rightarrow> procs \<Rightarrow> procs" where
  "sigterm pid ps = (case ps pid of Some (P_Running (Some c)) \<Rightarrow> ps(pid \<mapsto> P_Exited c) | _ \<Rightarrow> ps)"

definition sigkill :: "int \<Rightarrow> procs \<Rightarrow> procs" where
  "sigkill pid ps = (case ps pid of Some (P_Running _) \<Rightarrow> ps(pid \<mapsto> P_Exited (-9)) | _ \<Rightarrow> ps)"

text \<open>\<open>_kill_process\<close> (POSIX): when the process group is gone already, only \<open>wait\<close>.\<close>

definition kill_process :: "handle \<Rightarrow> procs \<Rightarrow> handle \<times> procs" where
  "kill_process h ps =
     (if ps (handle_pid h) = None then poll h ps
      else let ps1 = sigterm (handle_pid h) ps
           in case wait_timeout h ps1 of
                Some r \<Rightarrow> r
              | None \<Rightarrow> poll h (sigkill (handle_pid h) ps1))"

section \<open>Job records\<close>

record job_record =
  j_job_uuid :: string
  j_script_name :: string
  j_process :: handle
  j_log_path :: string
  j_started_at :: int
  j_status :: job_status
  j_ended_at :: "int option"
  j_exit_code :: "int option"

record job_entry =
  b_script_name :: string
  b_pid :: int
  b_log_path :: string
  b_started_at :: int

text \<open>
  \<open>running.json\<close> is written and read by pydantic; the pair is a parameter with the documented
  round trip \<open>state_codec_ok\<close>.
\<close>

record 'u state_codec =
  s_dump :: "(string, job_entry) dict \<Rightarrow> 'u"
  s_parse :: "'u \<Rightarrow> (string, job_entry) dict option"

definition state_codec_ok :: "'u state_codec \<Rightarrow> bool" where
  "state_codec_ok sc \<longleftrightarrow> (\<forall>d. s_parse sc (s_dump sc d) = Some d)"

record 'u host =
  procs :: procs
  host_files :: files
  running_json :: "'u option"
  host_now :: int

type_synonym jobs = "(string, job_record) dict"

type_synonym 'u pm = "jobs \<times> 'u host"

definition save_running_state :: "'u state_codec \<Rightarrow> (string, job_entry) dict \<Rightarrow> 'u host \<Rightarrow> 'u host" where
  "save_running_state sc d h = h\<lparr>running_json := Some (s_dump sc d)\<rparr>"

definition load_running_state :: "'u state_codec \<Rightarrow> 'u host \<Rightarrow> (string, job_entry) dict" where
  "load_running_state sc h =
     (case running_json h of
        None \<Rightarrow> []
      | Some t \<Rightarrow> (case s_parse sc t of None \<Rightarrow> [] | Some d \<Rightarrow> d))"

definition to_response :: "job_record \<Rightarrow> job_status_response" where
  "to_response r =
     \<lparr>s_job_uuid = j_job_uuid r, s_script_name = j_script_name r, s_status = j_status r,
      s_persistent = True, s_started_at = j_started_at r, s_ended_at = j_ended_at r,
      s_exit_code = j_exit_code r\<rparr>"

definition poll_record :: "int \<Rightarrow> job_record \<Rightarrow> procs \<Rightarrow> job_record \<times> procs" where
  "poll_record now r ps =
     (if j_status r = Job_Running then
        let (h, ps') = poll (j_process r) ps; r1 = r\<lparr>j_process := h\<rparr>
        in case returncode h of
             None \<Rightarrow> (r1, ps')
           | Some ret \<Rightarrow>
               (r1\<lparr>j_exit_code := Some ret, j_ended_at := Some now,
                   j_status := if ret = 0 then Job_Completed else Job_Failed\<rparr>, ps')
      else (r, ps))"

fun poll_all :: "int \<Rightarrow> jobs \<Rightarrow> procs \<Rightarrow> jobs \<times> procs" where
  "poll_all now [] ps = ([], ps)"
| "poll_all now ((u, r) # rest) ps =
     (let (r', ps1) = poll_record now r ps; (rest', ps2) = poll_all now rest ps1
      in ((u, r') # rest', ps2))"

section \<open>The operations\<close>

definition job_entry_of :: "job_record \<Rightarrow> job_entry" where
  "job_entry_of r =
     \<lparr>b_script_name = j_script_name r, b_pid = handle_pid (j_process r),
      b_log_path = j_log_path r, b_started_at = j_started_at r\<rparr>"

definition running_entries :: "jobs \<Rightarrow> (string, job_entry) dict" where
  "running_entries js = map (\<lambda>(u, r). (u, job_entry_of r)) (filter (\<lambda>(u, r). j_status r = Job_Running) js)"

definition save_state :: "'u state_codec \<Rightarrow> 'u pm \<Rightarrow> 'u pm" where
  "save_state sc s = (fst s, save_running_state sc (running_entries (fst s)) (snd s))"

datatype start_error = Run_Error run_error | Spawn_Failed

text \<open>What the operating system answers to \<open>_popen\<close>: the new process, or \<open>OSError\<close>.\<close>

type_synonym spawn = "string list \<Rightarrow> (string, string) dict \<Rightarrow> (int \<times> pstate) option"

definition log_name :: "string \<Rightarrow> string" where
  "log_name job_uuid = job_uuid @ ''.log''"

definition start ::
  "'u state_codec \<Rightarrow> agent_env \<Rightarrow> (string \<Rightarrow> 'a \<Rightarrow> 'a \<times> script_descriptor) \<Rightarrow> spawn
     \<Rightarrow> string \<Rightarrow> params \<Rightarrow> string \<Rightarrow> 'a \<Rightarrow> 'u pm \<Rightarrow> 'a \<times> 'u pm \<times> (start_error + job_status_response)"
where
  "start sc env get spawn name params job_uuid approvals s =
     (let (approvals', d) = get name approvals; h = snd s
      in if d_state d \<noteq> Approved then (approvals', s, Inl (Run_Error (Not_Approved (d_state d))))
         else case prepare env name params (d_approved_md5 d) (host_files h) of
           Inl e \<Rightarrow> (approvals', s, Inl (Run_Error e))
         | Inr (command, e) \<Rightarrow>
             let h1 = h\<lparr>host_files := write_file Logs_Dir (log_name job_uuid) [] (host_files h)\<rparr>
             in case spawn command e of
                  None \<Rightarrow> (approvals', (fst s, h1), Inl Spawn_Failed)
                | Some (pid, ps) \<Rightarrow>
                    let r = \<lparr>j_job_uuid = job_uuid, j_script_name = name, j_process = Popen pid None,
                             j_log_path = log_name job_uuid, j_started_at = host_now h,
                             j_status = Job_Running, j_ended_at = None, j_exit_code = None\<rparr>;
                        h2 = h1\<lparr>procs := (procs h1)(pid \<mapsto> ps)\<rparr>
                    in (approvals', save_state sc (AList.update job_uuid r (fst s), h2), Inr (to_response r)))"

datatype job_error = Job_Not_Found string

definition kill :: "'u state_codec \<Rightarrow> string \<Rightarrow> 'u pm \<Rightarrow> 'u pm \<times> (job_error + job_status_response)" where
  "kill sc u s =
     (case map_of (fst s) u of
        None \<Rightarrow> (s, Inl (Job_Not_Found u))
      | Some r0 \<Rightarrow>
          let h = snd s; (r, ps) = poll_record (host_now h) r0 (procs h)
          in if j_status r \<noteq> Job_Running
             then ((AList.update u r (fst s), h\<lparr>procs := ps\<rparr>), Inr (to_response r))
             else
               let (hd', ps') = kill_process (j_process r) ps;
                   r' = r\<lparr>j_process := hd', j_status := Job_Killed, j_ended_at := Some (host_now h),
                          j_exit_code := returncode hd'\<rparr>
               in (save_state sc (AList.update u r' (fst s), h\<lparr>procs := ps'\<rparr>), Inr (to_response r')))"

definition get_status :: "string \<Rightarrow> 'u pm \<Rightarrow> 'u pm \<times> (job_error + job_status_response)" where
  "get_status u s =
     (case map_of (fst s) u of
        None \<Rightarrow> (s, Inl (Job_Not_Found u))
      | Some r0 \<Rightarrow>
          let h = snd s; (r, ps) = poll_record (host_now h) r0 (procs h)
          in ((AList.update u r (fst s), h\<lparr>procs := ps\<rparr>), Inr (to_response r)))"

definition poll_jobs :: "'u pm \<Rightarrow> 'u pm" where
  "poll_jobs s = (let (js, ps) = poll_all (host_now (snd s)) (fst s) (procs (snd s))
                  in (js, (snd s)\<lparr>procs := ps\<rparr>))"

definition list_jobs :: "'u pm \<Rightarrow> 'u pm \<times> job_status_response list" where
  "list_jobs s = (let s' = poll_jobs s in (s', map (\<lambda>(u, r). to_response r) (fst s')))"

definition running_count :: "'u pm \<Rightarrow> 'u pm \<times> nat" where
  "running_count s =
     (let s' = poll_jobs s in (s', length (filter (\<lambda>(u, r). j_status r = Job_Running) (fst s'))))"

definition get_log_path :: "string \<Rightarrow> 'u pm \<Rightarrow> job_error + string" where
  "get_log_path u s =
     (case map_of (fst s) u of None \<Rightarrow> Inl (Job_Not_Found u) | Some r \<Rightarrow> Inr (j_log_path r))"

definition reattach :: "string \<Rightarrow> job_entry \<Rightarrow> job_record" where
  "reattach u b =
     \<lparr>j_job_uuid = u, j_script_name = b_script_name b, j_process = Reattached (b_pid b) None,
      j_log_path = b_log_path b, j_started_at = b_started_at b, j_status = Job_Running,
      j_ended_at = None, j_exit_code = None\<rparr>"

definition restore_state :: "'u state_codec \<Rightarrow> 'u pm \<Rightarrow> 'u pm" where
  "restore_state sc s =
     (let entries = load_running_state sc (snd s)
      in (fold (\<lambda>(u, b) js. if pid_alive (procs (snd s)) (b_pid b) then AList.update u (reattach u b) js else js)
            entries (fst s), snd s))"

end
