(* ===== verification/Process_Props.thy ===== *)
theory Process_Props
  imports Process_Manager Runner_Props Transition_Systems
begin

text \<open>
  Correctness of the process manager.  Jobs are driven by \<open>pm_act\<close>: the manager's own operations,
  with whatever the approvals manager and the operating system answer, and \<open>World\<close>, which replaces
  the process table, the files and the clock by anything.
\<close>

section \<open>Handles and processes\<close>

lemma pid_alive_upd [simp]: "pid_alive (ps(p \<mapsto> P_Exited c)) q = (q \<noteq> p \<and> pid_alive ps q)"
  "pid_alive (ps(p := None)) q = (q \<noteq> p \<and> pid_alive ps q)"
  "pid_alive (ps(p \<mapsto> P_Running t)) q = (q = p \<or> pid_alive ps q)"
  by (auto simp: pid_alive_def)

lemma poll_pid [simp]: "handle_pid (fst (poll h ps)) = handle_pid h"
  by (cases "(h, ps)" rule: poll.cases) (auto split: option.splits pstate.splits)

lemma poll_alive [simp]: "pid_alive (snd (poll h ps)) q = pid_alive ps q"
  by (cases "(h, ps)" rule: poll.cases) (auto simp: pid_alive_def split: option.splits pstate.splits)

lemma poll_returncode:
  "returncode (fst (poll h ps)) = None \<longleftrightarrow> returncode h = None \<and> pid_alive ps (handle_pid h)"
  by (cases "(h, ps)" rule: poll.cases) (auto simp: pid_alive_def split: option.splits pstate.splits)

lemma sigterm_alive: "pid_alive (sigterm p ps) q \<Longrightarrow> pid_alive ps q"
  by (auto simp: sigterm_def pid_alive_def split: option.splits pstate.splits if_splits)

lemma sigkill_dead [simp]: "\<not> pid_alive (sigkill p ps) p"
  by (auto simp: sigkill_def pid_alive_def split: option.splits pstate.splits)

lemma kill_process_dead:
  assumes "returncode h = None"
  shows "\<not> pid_alive (snd (kill_process h ps)) (handle_pid h)
    \<and> returncode (fst (kill_process h ps)) \<noteq> None \<and> handle_pid (fst (kill_process h ps)) = handle_pid h"
proof (cases "ps (handle_pid h) = None")
  case True
  then have "\<not> pid_alive ps (handle_pid h)" by (simp add: pid_alive_def)
  with True show ?thesis
    using poll_returncode [of h ps] by (auto simp: kill_process_def simp del: not_None_eq)
next
  case False
  let ?t = "sigterm (handle_pid h) ps"
  show ?thesis
    using False assms poll_returncode [of h ?t] poll_returncode [of h "sigkill (handle_pid h) ?t"]
    by (auto simp: kill_process_def Let_def wait_timeout_def case_prod_beta)
qed

lemma kill_process_other:
  "q \<noteq> handle_pid h \<Longrightarrow> snd (kill_process h ps) q = ps q"
  by (cases h; case_tac "returncode h")
    (auto simp: kill_process_def wait_timeout_def Let_def sigterm_def sigkill_def split: option.splits pstate.splits)

section \<open>Job records\<close>

text \<open>A job's status, end time and exit code agree.\<close>

definition job_wf :: "string \<Rightarrow> job_record \<Rightarrow> bool" where
  "job_wf u r \<longleftrightarrow> j_job_uuid r = u \<and>
     (case j_status r of
        Job_Pending \<Rightarrow> False
      | Job_Running \<Rightarrow> j_ended_at r = None \<and> j_exit_code r = None \<and> returncode (j_process r) = None
      | Job_Completed \<Rightarrow> j_ended_at r \<noteq> None \<and> j_exit_code r = Some 0
      | Job_Failed \<Rightarrow> j_ended_at r \<noteq> None \<and> j_exit_code r \<noteq> None \<and> j_exit_code r \<noteq> Some 0
      | Job_Killed \<Rightarrow> j_ended_at r \<noteq> None \<and> j_exit_code r \<noteq> None)"

definition jobs_wf :: "jobs \<Rightarrow> bool" where
  "jobs_wf js \<longleftrightarrow> dict_ok js \<and> dict_all job_wf js"

lemma jobs_wfD: "jobs_wf js \<Longrightarrow> map_of js u = Some r \<Longrightarrow> job_wf u r"
  by (auto simp: jobs_wf_def dest: dict_allD)

lemma jobs_wf_update [inv_intros]: "jobs_wf js \<Longrightarrow> job_wf u r \<Longrightarrow> jobs_wf (AList.update u r js)"
  by (simp add: jobs_wf_def dict_all_update)

lemma poll_record_terminal: "j_status r \<noteq> Job_Running \<Longrightarrow> poll_record now r ps = (r, ps)"
  by (simp add: poll_record_def)

lemma poll_record_wf [inv_intros]: "job_wf u r \<Longrightarrow> job_wf u (fst (poll_record now r ps))"
  by (auto simp: poll_record_def job_wf_def case_prod_beta Let_def split: option.splits job_status.splits)

lemma poll_record_same [simp]:
  "j_job_uuid (fst (poll_record now r ps)) = j_job_uuid r"
  "handle_pid (j_process (fst (poll_record now r ps))) = handle_pid (j_process r)"
  "pid_alive (snd (poll_record now r ps)) q = pid_alive ps q"
  by (auto simp: poll_record_def case_prod_beta Let_def split: option.splits)

lemma poll_record_running:
  assumes "job_wf u r"
  shows "j_status (fst (poll_record now r ps)) = Job_Running
     \<longleftrightarrow> j_status r = Job_Running \<and> pid_alive ps (handle_pid (j_process r))"
proof (cases "j_status r = Job_Running")
  case True
  with assms have "returncode (j_process r) = None" by (simp add: job_wf_def)
  with True show ?thesis
    using poll_returncode [of "j_process r" ps]
    by (auto simp: poll_record_def case_prod_beta Let_def split: option.splits)
qed (simp add: poll_record_def)

lemma poll_all_keys [simp]: "map fst (fst (poll_all now js ps)) = map fst js"
  by (induction js arbitrary: ps) (auto simp: case_prod_beta Let_def)

lemma poll_all_wf [inv_intros]: "jobs_wf js \<Longrightarrow> jobs_wf (fst (poll_all now js ps))"
proof -
  have "dict_all job_wf js \<Longrightarrow> dict_all job_wf (fst (poll_all now js ps))"
    by (induction js arbitrary: ps) (auto simp: case_prod_beta Let_def intro: poll_record_wf)
  then show "jobs_wf js \<Longrightarrow> jobs_wf (fst (poll_all now js ps))" by (simp add: jobs_wf_def dict_ok_def)
qed

lemma poll_all_terminal:
  "map_of js u = Some r \<Longrightarrow> j_status r \<noteq> Job_Running \<Longrightarrow> map_of (fst (poll_all now js ps)) u = Some r"
  by (induction js arbitrary: ps) (auto simp: case_prod_beta Let_def poll_record_terminal split: if_splits)

lemma poll_all_running:
  "dict_all job_wf js \<Longrightarrow>
     map fst (filter (\<lambda>(u, r). j_status r = Job_Running) (fst (poll_all now js ps)))
     = map fst (filter (\<lambda>(u, r). j_status r = Job_Running \<and> pid_alive ps (handle_pid (j_process r))) js)"
  by (induction js arbitrary: ps) (auto simp: case_prod_beta Let_def poll_record_running)

section \<open>The manager as a transition system\<close>

datatype pm_act =
    Act_Start agent_env script_descriptor "(int \<times> pstate) option" string params string
  | Act_Kill string
  | Act_Status string
  | Act_List
  | Act_Running_Count
  | World "int \<Rightarrow> pstate option" files int

fun pm_step :: "'u state_codec \<Rightarrow> pm_act \<Rightarrow> 'u pm \<Rightarrow> 'u pm" where
  "pm_step sc (Act_Start env d os name params u) s =
     fst (snd (start sc env (\<lambda>_ a. (a, d)) (\<lambda>_ _. os) name params u () s))"
| "pm_step sc (Act_Kill u) s = fst (kill sc u s)"
| "pm_step sc (Act_Status u) s = fst (get_status u s)"
| "pm_step sc Act_List s = fst (list_jobs s)"
| "pm_step sc Act_Running_Count s = fst (running_count s)"
| "pm_step sc (World ps fs now) s = (fst s, (snd s)\<lparr>procs := ps, host_files := fs, host_now := now\<rparr>)"

fun starts :: "string \<Rightarrow> pm_act \<Rightarrow> bool" where
  "starts u (Act_Start env d os name params v) = (u = v)"
| "starts u _ = False"

definition new_job :: "string \<Rightarrow> string \<Rightarrow> int \<Rightarrow> int \<Rightarrow> job_record" where
  "new_job u name pid now =
     \<lparr>j_job_uuid = u, j_script_name = name, j_process = Popen pid None, j_log_path = log_name u,
      j_started_at = now, j_status = Job_Running, j_ended_at = None, j_exit_code = None\<rparr>"

text \<open>What a start leaves: nothing but the log file when it fails, the new job otherwise.\<close>

lemma start_jobs:
  "fst (fst (snd (start sc env get spawn name params u a s))) = fst s
   \<or> (\<exists>pid. fst (fst (snd (start sc env get spawn name params u a s)))
          = AList.update u (new_job u name pid (host_now (snd s))) (fst s))"
  by (auto simp: start_def save_state_def new_job_def Let_def split: prod.splits sum.splits option.splits)

lemma new_job_wf [inv_intros]: "job_wf u (new_job u name pid now)"
  by (simp add: job_wf_def new_job_def)

lemma kill_jobs:
  "fst (fst (kill sc u s)) = fst s
   \<or> (\<exists>r r'. map_of (fst s) u = Some r \<and> fst (fst (kill sc u s)) = AList.update u r' (fst s)
         \<and> (job_wf u r \<longrightarrow> job_wf u r') \<and> (j_status r \<noteq> Job_Running \<longrightarrow> r' = r))"
proof (cases "map_of (fst s) u")
  case (Some r)
  let ?r = "fst (poll_record (host_now (snd s)) r (procs (snd s)))"
  let ?ps = "snd (poll_record (host_now (snd s)) r (procs (snd s)))"
  show ?thesis
  proof (cases "j_status ?r = Job_Running")
    case True
    let ?h = "fst (kill_process (j_process ?r) ?ps)"
    let ?r' = "?r\<lparr>j_process := ?h, j_status := Job_Killed, j_ended_at := Some (host_now (snd s)),
        j_exit_code := returncode ?h\<rparr>"
    have "job_wf u ?r'" if "job_wf u r"
    proof -
      have "job_wf u ?r" by (rule poll_record_wf [OF that])
      with True have "returncode (j_process ?r) = None" "j_job_uuid ?r = u" by (simp_all add: job_wf_def)
      with kill_process_dead show ?thesis by (auto simp: job_wf_def)
    qed
    moreover have "j_status r = Job_Running"
      using True by (auto simp: poll_record_def split: if_splits)
    moreover have "fst (fst (kill sc u s)) = AList.update u ?r' (fst s)"
      using Some True by (simp add: kill_def Let_def case_prod_beta save_state_def)
    ultimately show ?thesis using Some by blast
  next
    case False
    then show ?thesis
      using Some poll_record_wf [of u r] poll_record_terminal [of r]
      by (auto simp: kill_def Let_def case_prod_beta)
  qed
qed (simp add: kill_def)

lemma get_status_jobs:
  "fst (fst (get_status u s)) = fst s
   \<or> (\<exists>r. map_of (fst s) u = Some r \<and> fst (fst (get_status u s))
         = AList.update u (fst (poll_record (host_now (snd s)) r (procs (snd s)))) (fst s))"
  by (auto simp: get_status_def Let_def case_prod_beta split: option.splits)

lemma poll_jobs_jobs: "fst (poll_jobs s) = fst (poll_all (host_now (snd s)) (fst s) (procs (snd s)))"
  by (simp add: poll_jobs_def case_prod_beta)

lemma pm_step_wf [inv_intros]: "jobs_wf (fst s) \<Longrightarrow> jobs_wf (fst (pm_step sc a s))"
proof (cases a)
  case (Act_Start env d os name params u)
  assume "jobs_wf (fst s)"
  with Act_Start show ?thesis
    using start_jobs [of sc env "\<lambda>_ a. (a, d)" "\<lambda>_ _. os" name params u "()" s]
    by (elim disjE exE; simp add: jobs_wf_update [OF _ new_job_wf])
next
  case (Act_Kill u)
  assume "jobs_wf (fst s)"
  with Act_Kill show ?thesis
    using kill_jobs [of sc u s] by (auto intro: inv_intros dest: jobs_wfD)
next
  case (Act_Status u)
  assume "jobs_wf (fst s)"
  with Act_Status show ?thesis
    using get_status_jobs [of u s]
    by (elim disjE exE conjE; simp add: jobs_wf_update [OF _ poll_record_wf] jobs_wfD)
qed (auto simp: list_jobs_def running_count_def Let_def poll_jobs_jobs intro: inv_intros)

lemma pm_step_terminal:
  assumes "map_of (fst s) u = Some r" "j_status r \<noteq> Job_Running" "\<not> starts u a"
  shows "map_of (fst (pm_step sc a s)) u = Some r"
proof (cases a)
  case (Act_Start env d os name params v)
  with assms show ?thesis
    using start_jobs [of sc env "\<lambda>_ a. (a, d)" "\<lambda>_ _. os" name params v "()" s] by (auto split: if_splits)
next
  case (Act_Kill v)
  with assms show ?thesis using kill_jobs [of sc v s] by (auto split: if_splits)
next
  case (Act_Status v)
  with assms show ?thesis using get_status_jobs [of v s] by (auto simp: poll_record_terminal split: if_splits)
qed (use assms in \<open>auto simp: list_jobs_def running_count_def Let_def poll_jobs_jobs poll_all_terminal\<close>)

interpretation jobs: act_system "pm_step sc" "\<lambda>s. jobs_wf (fst s)" for sc
  by unfold_locales (rule pm_step_wf)

interpretation finished: guarded_system "pm_step sc"
    "\<lambda>s. j_status r \<noteq> Job_Running \<and> map_of (fst s) u = Some r" "\<lambda>a. \<not> starts u a" for sc u r
  by unfold_locales (auto intro: pm_step_terminal)

lemma map_of_running_entries:
  "dict_ok js \<Longrightarrow> map_of (running_entries js) u =
     (case map_of js u of
        Some r \<Rightarrow> if j_status r = Job_Running then Some (job_entry_of r) else None
      | None \<Rightarrow> None)"
proof (induction js)
  case (Cons e js)
  obtain v r where e: "e = (v, r)" by (cases e)
  with Cons.prems have js: "dict_ok js" "v = u \<Longrightarrow> map_of js u = None"
    by (auto simp: dict_ok_def map_of_eq_None_iff)
  have "running_entries (e # js) = (if j_status r = Job_Running then [(v, job_entry_of r)] else []) @ running_entries js"
    by (simp add: running_entries_def e)
  with Cons.IH [OF js(1)] js(2) e show ?case by auto
qed (simp add: running_entries_def)

section \<open>Properties\<close>

lemma jobs_wf_Nil [simp]: "jobs_wf []"
  by (simp add: jobs_wf_def)

text \<open>
  C15. Whatever sequence of starts, kills, status queries and listings the manager serves, and whatever
  the operating system does meanwhile, every job record stays consistent: a running job has no end
  time, no exit code and an unreaped process; a completed one ended with exit code 0; a failed one
  with another code; a killed one has an end time and an exit code; none is ever pending.
\<close>

theorem job_records_consistent:
  "jobs_wf (fst (run (pm_step sc) as ([], h)))"
  by (rule jobs.run_inv) simp

text \<open>
  C16. A job that ended stays as it is: no later operation except a start under the same identifier
  changes its status, end time or exit code, even if the operating system reuses its process id.
\<close>

theorem finished_job_is_final:
  assumes "map_of (fst s) u = Some r" "terminal_status (j_status r)" "list_all (\<lambda>a. \<not> starts u a) as"
  shows "map_of (fst (run (pm_step sc) as s)) u = Some r"
  using finished.run_guarded_inv [of r s u as sc] assms by (auto simp: terminal_status_def)

definition example_host :: "(string, job_entry) dict host" where
  "example_host = \<lparr>procs = Map.empty, host_files = Map.empty, running_json = None, host_now = 5\<rparr>"

definition plain_state_codec :: "(string, job_entry) dict state_codec" where
  "plain_state_codec = \<lparr>s_dump = (\<lambda>d. d), s_parse = Some\<rparr>"

theorem finished_job_is_final_witness:
  "map_of (fst (run (pm_step plain_state_codec)
      [World [7 \<mapsto> P_Running None] Map.empty 9, Act_Kill ''j1'', Act_Status ''j1'', Act_Running_Count]
      ([(''j1'', (new_job ''j1'' ''a.sh'' 7 1)\<lparr>j_status := Job_Failed, j_ended_at := Some 2, j_exit_code := Some 3\<rparr>)],
       example_host))) ''j1''
    = Some ((new_job ''j1'' ''a.sh'' 7 1)\<lparr>j_status := Job_Failed, j_ended_at := Some 2, j_exit_code := Some 3\<rparr>)"
  by (rule finished_job_is_final) (simp_all add: terminal_status_def new_job_def)



lemma example_job_running: "jobs_wf [(''j1'', new_job ''j1'' ''a.sh'' 7 1)]"
  by (simp add: jobs_wf_def dict_ok_def new_job_wf)


lemma running_count_card:
  assumes "jobs_wf (fst s)"
  shows "snd (running_count s)
      = card {u. \<exists>r. map_of (fst s) u = Some r \<and> j_status r = Job_Running
                   \<and> pid_alive (procs (snd s)) (handle_pid (j_process r))}"
proof -
  let ?P = "\<lambda>(u, r). j_status r = Job_Running \<and> pid_alive (procs (snd s)) (handle_pid (j_process r))"
  have d: "distinct (map fst (fst s))" and w: "dict_all job_wf (fst s)"
    using assms by (simp_all add: jobs_wf_def dict_ok_def)
  have "snd (running_count s) = length (map fst (filter (\<lambda>(u, r). j_status r = Job_Running) (fst (poll_jobs s))))"
    by (simp add: running_count_def Let_def)
  also have "\<dots> = length (map fst (filter ?P (fst s)))"
    unfolding poll_jobs_jobs using poll_all_running [OF w] by simp
  also have "\<dots> = card (set (map fst (filter ?P (fst s))))"
    using d by (intro distinct_card [symmetric]) (simp add: distinct_map_filter)
  also have "set (map fst (filter ?P (fst s))) = {u. \<exists>r. map_of (fst s) u = Some r \<and> ?P (u, r)}"
    using d by (force dest: map_of_SomeD intro: map_of_is_SomeI)
  finally show ?thesis by simp
qed

text \<open>
  \<open>running_count\<close>, on which the idle shutdown rests, is the number of jobs recorded as running
  whose process is alive at that moment; each of them stays tracked.
\<close>

theorem running_count_exact:
  assumes "jobs_wf (fst s)"
  shows "snd (running_count s)
      = card {u. \<exists>r. map_of (fst s) u = Some r \<and> j_status r = Job_Running
                   \<and> pid_alive (procs (snd s)) (handle_pid (j_process r))}
    \<and> map fst (fst (fst (running_count s))) = map fst (fst s)"
  using running_count_card [OF assms] by (simp add: running_count_def Let_def poll_jobs_jobs)

theorem running_count_exact_witness:
  "snd (running_count ([(''j1'', new_job ''j1'' ''a.sh'' 7 1)], example_host\<lparr>procs := [7 \<mapsto> P_Running None]\<rparr>)) = 1"
proof -
  have "{u. u = ''j1''} = {''j1''}" by auto
  with running_count_exact [of "([(''j1'', new_job ''j1'' ''a.sh'' 7 1)], example_host\<lparr>procs := [7 \<mapsto> P_Running None]\<rparr>)"]
  show ?thesis using example_job_running by (simp add: new_job_def pid_alive_def)
qed

lemma restore_fold:
  "distinct (map fst es) \<Longrightarrow>
   map_of (fold (\<lambda>(u, b) js. if P (b_pid b) then AList.update u (reattach u b) js else js) es js) u =
     (case map_of es u of
        Some b \<Rightarrow> if P (b_pid b) then Some (reattach u b) else map_of js u
      | None \<Rightarrow> map_of js u)"
proof (induction es arbitrary: js)
  case (Cons e es)
  obtain v b where e: "e = (v, b)" by (cases e)
  with Cons.prems have "v = u \<Longrightarrow> map_of es u = None" by (auto simp: map_of_eq_None_iff)
  with Cons e show ?case by (auto split: option.splits)
qed simp

text \<open>
  C17. What \<open>save_state\<close> writes, \<open>restore_state\<close> of a restarted agent finds again: exactly the jobs that
  were running and whose process is still alive, with their script, log file and start time, and
  every other job is dropped.
\<close>

theorem restore_after_save:
  assumes "jobs_wf js" "state_codec_ok sc"
    and "load_running_state sc h' = load_running_state sc (snd (save_state sc (js, h)))"
  shows "map_of (fst (restore_state sc ([], h'))) u =
     (case map_of js u of
        Some r \<Rightarrow> if j_status r = Job_Running \<and> pid_alive (procs h') (handle_pid (j_process r))
                  then Some (r\<lparr>j_process := Reattached (handle_pid (j_process r)) None\<rparr>) else None
      | None \<Rightarrow> None)"
proof -
  let ?es = "running_entries js"
  have d: "dict_ok js" using assms(1) by (simp add: jobs_wf_def)
  have es: "load_running_state sc h' = ?es"
    using assms(2,3) by (simp add: load_running_state_def save_state_def save_running_state_def state_codec_ok_def)
  have dist: "distinct (map fst ?es)"
    using d by (auto simp: running_entries_def dict_ok_def comp_def case_prod_beta distinct_map_filter)
  have "map_of (fst (restore_state sc ([], h'))) u =
      (case map_of ?es u of Some b \<Rightarrow> if pid_alive (procs h') (b_pid b) then Some (reattach u b) else None | None \<Rightarrow> None)"
    by (simp add: restore_state_def es Let_def restore_fold [OF dist] split: option.split)
  also have "\<dots> = (case map_of js u of
        Some r \<Rightarrow> if j_status r = Job_Running \<and> pid_alive (procs h') (handle_pid (j_process r))
                  then Some (reattach u (job_entry_of r)) else None
      | None \<Rightarrow> None)"
    by (simp add: map_of_running_entries [OF d] job_entry_of_def split: option.split)
  moreover have "reattach u (job_entry_of r) = r\<lparr>j_process := Reattached (handle_pid (j_process r)) None\<rparr>"
    if "map_of js u = Some r" "j_status r = Job_Running" for r
    using jobs_wfD [OF assms(1) that(1)] that(2) by (simp add: job_wf_def reattach_def job_entry_of_def)
  ultimately show ?thesis by (auto split: option.splits)
qed

theorem restore_after_save_witness:
  "map_of (fst (restore_state plain_state_codec
       ([], snd (save_state plain_state_codec
          ([(''j1'', new_job ''j1'' ''a.sh'' 7 1), (''j2'', new_job ''j2'' ''a.sh'' 8 1)],
           example_host\<lparr>procs := [7 \<mapsto> P_Running None]\<rparr>))))) ''j1''
   = Some ((new_job ''j1'' ''a.sh'' 7 1)\<lparr>j_process := Reattached 7 None\<rparr>)"
proof -
  let ?js = "[(''j1'', new_job ''j1'' ''a.sh'' 7 1), (''j2'', new_job ''j2'' ''a.sh'' 8 1)]"
  let ?h = "example_host\<lparr>procs := [7 \<mapsto> P_Running None]\<rparr>"
  have "jobs_wf ?js" "state_codec_ok plain_state_codec"
    by (simp_all add: jobs_wf_def dict_ok_def new_job_wf state_codec_ok_def plain_state_codec_def)
  from restore_after_save [OF this, of "snd (save_state plain_state_codec (?js, ?h))" ?h "''j1''"]
  show ?thesis
    by (simp add: new_job_def pid_alive_def example_host_def save_state_def save_running_state_def)
qed

text \<open>
  C5. A persistent job is started only for approved content: when \<open>start\<close> answers, the manager reports
  the script approved, the file it runs has exactly the approved MD5, the parameters fit the
  metadata, the process the operating system created runs the command of that file with the
  environment built from the parameters, and the job is tracked under its identifier with an empty
  log and listed in the saved state.
\<close>

theorem start_only_approved_content:
  assumes "store_wf (mem_store (fst p))" "store_wf (load_store cd (snd p))"
    and "jobs_wf (fst s)" "state_codec_ok sc"
    and "start sc env (get_state cd) spawn name params u p s = (p', s', Inr resp)"
  shows "\<exists>f c command pid st.
      d_state (snd (get_state cd name p)) = Approved
    \<and> find_script (is_windows env) name (host_files (snd s)) = Inr f
    \<and> host_files (snd s) (Scripts_Dir, f) = Some c
    \<and> d_approved_md5 (snd (get_state cd name p)) = Some (md5_hex env c)
    \<and> validate_params env name params (host_files (snd s)) = Inr ()
    \<and> build_command env f = Inr command
    \<and> spawn command (build_env env params) = Some (pid, st)
    \<and> map_of (fst s') u = Some (new_job u name pid (host_now (snd s)))
    \<and> procs (snd s') = (procs (snd s))(pid \<mapsto> st)
    \<and> host_files (snd s') = (host_files (snd s))((Logs_Dir, log_name u) \<mapsto> [])
    \<and> map_of (load_running_state sc (snd s')) u = Some (job_entry_of (new_job u name pid (host_now (snd s))))
    \<and> resp = to_response (new_job u name pid (host_now (snd s)))"
proof -
  let ?d = "snd (get_state cd name p)"
  obtain command e where prep: "prepare env name params (d_approved_md5 ?d) (host_files (snd s)) = Inr (command, e)"
    and ap: "d_state ?d = Approved"
    using assms(5) by (auto simp: start_def Let_def case_prod_beta split: if_splits sum.splits)
  obtain pid st where sp: "spawn command e = Some (pid, st)"
    using assms(5) prep ap by (auto simp: start_def Let_def case_prod_beta split: option.splits)
  have s': "s' = save_state sc (AList.update u (new_job u name pid (host_now (snd s))) (fst s),
      (snd s)\<lparr>host_files := write_file Logs_Dir (log_name u) [] (host_files (snd s)),
             procs := (procs (snd s))(pid \<mapsto> st)\<rparr>)"
    "resp = to_response (new_job u name pid (host_now (snd s)))"
    using assms(5) prep ap sp by (simp_all add: start_def Let_def case_prod_beta new_job_def)
  have d: "dict_ok (AList.update u (new_job u name pid (host_now (snd s))) (fst s))"
    using assms(3) by (simp add: jobs_wf_def)
  have "map_of (load_running_state sc (snd s')) u = Some (job_entry_of (new_job u name pid (host_now (snd s))))"
    using assms(4) map_of_running_entries [OF d, of u]
    by (simp add: s' save_state_def save_running_state_def load_running_state_def state_codec_ok_def new_job_def)
  with manager.prepared_content [OF conjI [OF assms(1,2)] ap prep] ap sp s'
  show ?thesis by (auto simp: save_state_def save_running_state_def write_file_def)
qed

theorem start_only_approved_content_witness:
  "\<exists>f c. find_script False ''a.sh'' example_files = Inr f \<and> example_files (Scripts_Dir, f) = Some c
     \<and> md5_hex example_env c = ''echo''"
proof -
  let ?s = "([], example_host\<lparr>host_files := example_files\<rparr>)"
  let ?spawn = "\<lambda>cmd e. Some (7, P_Running None)"
  let ?start = "start plain_state_codec example_env (get_state plain_codec) ?spawn ''a.sh'' [(''size'', PInt 600)]
     ''j1'' approved_example ?s"
  have "\<exists>resp. snd (snd ?start) = Inr resp"
    using example_validates
    by (simp add: start_def get_state_def Let_def approved_example_def descriptor_def prepare_def
        empty_record_def find_script_def example_files_def example_env_def LINUX_EXTENSIONS_def file_defs
        verify_script_integrity_def file_md5_def build_command_def path_suffix_def py_simps)
  then obtain p' s' resp where run: "?start = (p', s', Inr resp)" by (metis prod.collapse)
  have wf: "store_wf (mem_store (fst approved_example))" "store_wf (load_store plain_codec (snd approved_example))"
    by (simp_all add: approved_example_def Let_def store_wf_def dict_ok_def record_wf_def empty_record_def
        load_store_def empty_disk_def)
  have md5: "d_approved_md5 (snd (get_state plain_codec ''a.sh'' approved_example)) = Some ''echo''"
    by (simp add: get_state_def Let_def approved_example_def descriptor_def empty_record_def)
  have "jobs_wf (fst ?s)" "state_codec_ok plain_state_codec"
    by (simp_all add: state_codec_ok_def plain_state_codec_def)
  from start_only_approved_content [OF wf this run] md5 show ?thesis
    by (auto simp: example_env_def)
qed

text \<open>
  Starting a job under an identifier that is already in use loses the job it had: its process
  goes on running, no record names it any more, so no status query or kill reaches it, and a
  restart does not find it either.
\<close>

theorem duplicate_start_orphans_process:
  "let h = example_host\<lparr>host_files := example_files\<rparr>;
       os = (\<lambda>pid. Some (pid, P_Running None));
       go = (\<lambda>pid. Act_Start example_env \<lparr>d_name = ''a.sh'', d_state = Approved, d_persistent = False,
                d_approved_md5 = Some ''echo'', d_pending_md5 = None\<rparr> (os pid) ''a.sh'' [] ''j1'');
       s = run (pm_step plain_state_codec) [go 7, go 8, Act_Kill ''j1''] ([], h)
   in procs (snd s) 7 = Some (P_Running None) \<and> snd (running_count s) = 0
      \<and> 7 \<notin> set (map (\<lambda>(u, r). handle_pid (j_process r)) (fst s)) \<and> load_running_state plain_state_codec (snd s) = []"
  by code_simp

section \<open>Jobs that outlived the agent\<close>

definition reattached_job :: "job_record \<Rightarrow> bool" where
  "reattached_job r =
     (case j_process r of
        Popen pid rc \<Rightarrow> False
      | Reattached pid rc \<Rightarrow>
          rc = None \<and> j_status r = Job_Running \<and> j_exit_code r = None
          \<or> rc = Some (-1) \<and> j_status r \<in> {Job_Failed, Job_Killed} \<and> j_exit_code r = Some (-1))"

lemma poll_record_reattached: "reattached_job r \<Longrightarrow> reattached_job (fst (poll_record now r ps))"
  by (cases "j_process r"; cases "returncode (j_process r)")
    (auto simp: reattached_job_def poll_record_def Let_def)

lemma poll_all_reattached:
  "map_of js u = Some r \<Longrightarrow> reattached_job r \<Longrightarrow>
     \<exists>r'. map_of (fst (poll_all now js ps)) u = Some r' \<and> reattached_job r'"
  by (induction js arbitrary: ps) (auto simp: case_prod_beta Let_def poll_record_reattached)

lemma kill_reattached:
  assumes "map_of (fst s) u = Some r" "reattached_job r"
  shows "\<exists>r'. map_of (fst (fst (kill sc v s))) u = Some r' \<and> reattached_job r'"
proof (cases "v = u")
  case True
  let ?p = "poll_record (host_now (snd s)) r (procs (snd s))"
  have p: "reattached_job (fst ?p)" using assms(2) by (rule poll_record_reattached)
  show ?thesis
  proof (cases "j_status (fst ?p) = Job_Running")
    case True
    let ?k = "kill_process (j_process (fst ?p)) (snd ?p)"
    from p True obtain pid where pid: "j_process (fst ?p) = Reattached pid None"
      by (auto simp: reattached_job_def split: handle.splits)
    then have "returncode (fst ?k) \<noteq> None" using kill_process_dead [of "j_process (fst ?p)"] by simp
    then have "fst ?k = Reattached pid (Some (-1))"
      using pid by (auto simp: kill_process_def wait_timeout_def Let_def split: if_splits option.splits)
    then show ?thesis
      using \<open>v = u\<close> True assms(1)
      by (simp add: kill_def Let_def case_prod_beta save_state_def reattached_job_def)
  qed (use p \<open>v = u\<close> assms(1) in \<open>simp add: kill_def Let_def case_prod_beta\<close>)
qed (use assms kill_jobs [of sc v s] in auto)

lemma pm_step_reattached:
  assumes "\<exists>r. map_of (fst s) u = Some r \<and> reattached_job r" "\<not> starts u a"
  shows "\<exists>r. map_of (fst (pm_step sc a s)) u = Some r \<and> reattached_job r"
proof (cases a)
  case (Act_Start env d os name params v)
  with assms show ?thesis
    using start_jobs [of sc env "\<lambda>_ a. (a, d)" "\<lambda>_ _. os" name params v "()" s] by (auto split: if_splits)
next
  case (Act_Kill v)
  with assms kill_reattached [of s u] show ?thesis by auto
next
  case (Act_Status v)
  with assms show ?thesis
    using get_status_jobs [of v s] by (auto simp: poll_record_reattached split: if_splits)
qed (use assms poll_all_reattached in \<open>auto simp: list_jobs_def running_count_def Let_def poll_jobs_jobs\<close>)

interpretation reattached: guarded_system "pm_step sc"
    "\<lambda>s. \<exists>r. map_of (fst s) u = Some r \<and> reattached_job r" "\<lambda>a. \<not> starts u a" for sc u
  by unfold_locales (rule pm_step_reattached)

text \<open>
  A job that survived a restart of the agent is never reported as completed: whatever exit code its
  process ends with, the restarted agent reports it running, or failed or killed with exit code -1.
\<close>

theorem reattached_job_never_completes:
  assumes "map_of (fst s) u = Some (reattach u b)" "list_all (\<lambda>a. \<not> starts u a) as"
  shows "\<exists>r. map_of (fst (run (pm_step sc) as s)) u = Some r
     \<and> (j_status r = Job_Running \<and> j_exit_code r = None
        \<or> j_status r \<in> {Job_Failed, Job_Killed} \<and> j_exit_code r = Some (-1))"
proof -
  have "reattached_job (reattach u b)" by (simp add: reattached_job_def reattach_def)
  with reattached.run_guarded_inv [of s u as sc] assms
  obtain r where "map_of (fst (run (pm_step sc) as s)) u = Some r" "reattached_job r" by auto
  then show ?thesis by (auto simp: reattached_job_def split: handle.splits)
qed

theorem reattached_job_never_completes_witness:
  "map_option j_status (map_of (fst (run (pm_step plain_state_codec) [World [7 \<mapsto> P_Exited 0] Map.empty 9, Act_Status ''j1'']
      ([(''j1'', reattach ''j1'' (job_entry_of (new_job ''j1'' ''a.sh'' 7 1)))], example_host))) ''j1'')
   = Some Job_Failed"
proof -
  let ?s = "([(''j1'', reattach ''j1'' (job_entry_of (new_job ''j1'' ''a.sh'' 7 1)))], example_host)"
  let ?as = "[World [7 \<mapsto> P_Exited 0] Map.empty 9, Act_Status ''j1'']"
  have "\<exists>r. map_of (fst (run (pm_step plain_state_codec) ?as ?s)) ''j1'' = Some r
     \<and> (j_status r = Job_Running \<and> j_exit_code r = None
        \<or> j_status r \<in> {Job_Failed, Job_Killed} \<and> j_exit_code r = Some (-1))"
    by (rule reattached_job_never_completes) simp_all
  then show ?thesis
    by (auto simp: get_status_def poll_record_def reattach_def job_entry_of_def new_job_def pid_alive_def)
qed

end
