(* ===== verification/Log_Stream.thy ===== *)
theory Log_Stream
  imports Prelude
begin

text \<open>
  \<open>agent/log_stream.py\<close>: replaying the end of a log file and following it as server-sent events.  A
  file is its bytes.  The generator \<open>tail_log\<close> is driven by what it observes: at each turn of its
  loop the file as it is then, what \<open>is_done()\<close> answers, and the file after the sleep.
\<close>

section \<open>Where the last lines start\<close>

definition SEEK_CHUNK :: nat where
  "SEEK_CHUNK = 8192"

text \<open>
  The inner loop over one buffer, from index \<open>i - 1\<close> down to 0; \<open>pos\<close> is the buffer's offset in the
  file.  \<open>Inl\<close> is the early return, \<open>Inr\<close> the newlines counted so far.
\<close>

fun scan_back :: "string \<Rightarrow> nat \<Rightarrow> nat \<Rightarrow> nat \<Rightarrow> nat \<Rightarrow> nat + nat" where
  "scan_back buf pos 0 newlines tail_lines = Inr newlines"
| "scan_back buf pos (Suc i) newlines tail_lines =
     (if buf ! i = newline then
        (if newlines + 1 = tail_lines then Inl (pos + i + 1)
         else scan_back buf pos i (newlines + 1) tail_lines)
      else scan_back buf pos i newlines tail_lines)"

text \<open>The outer loop (\<open>while pos > 0\<close>) over chunks of size \<open>chunk\<close>, which the code fixes.\<close>

function tail_loop :: "nat \<Rightarrow> string \<Rightarrow> nat \<Rightarrow> nat \<Rightarrow> nat \<Rightarrow> nat \<Rightarrow> nat" where
  "tail_loop chunk file effective_end tail_lines pos newlines =
     (if pos = 0 \<or> chunk = 0 then 0
      else let read_size = min chunk pos; pos' = pos - read_size;
               buf = take read_size (drop pos' file);
               scan_len = min (length buf) (effective_end - pos')
           in case scan_back buf pos' scan_len newlines tail_lines of
                Inl off \<Rightarrow> off
              | Inr k \<Rightarrow> tail_loop chunk file effective_end tail_lines pos' k)"
  by pat_completeness auto
termination
  by (relation "measure (\<lambda>(chunk, file, e, n, pos, k). pos)") auto

declare tail_loop.simps [simp del]

definition effective_end :: "string \<Rightarrow> nat" where
  "effective_end file = (if last file = newline then length file - 1 else length file)"

definition tail_start_offset_by :: "nat \<Rightarrow> string \<Rightarrow> nat \<Rightarrow> nat" where
  "tail_start_offset_by chunk file tail_lines =
     (if file = [] then 0
      else tail_loop chunk file (effective_end file) tail_lines (effective_end file) 0)"

definition tail_start_offset :: "string \<Rightarrow> nat \<Rightarrow> nat" where
  "tail_start_offset = tail_start_offset_by SEEK_CHUNK"

section \<open>Decoding\<close>

text \<open>
  \<open>bytes.decode("utf-8", errors="replace")\<close>, with text kept as UTF-8: valid sequences stay, every
  maximal invalid prefix becomes U+FFFD.
\<close>

definition REPLACEMENT :: string where
  "REPLACEMENT = [CHR 0xEF, CHR 0xBF, CHR 0xBD]"

definition between :: "nat \<Rightarrow> nat \<Rightarrow> char \<Rightarrow> bool" where
  "between lo hi c = (lo \<le> ccode c \<and> ccode c \<le> hi)"

definition second_ok :: "char \<Rightarrow> char \<Rightarrow> bool" where
  "second_ok a b =
     (if ccode a = 0xE0 then between 0xA0 0xBF b
      else if ccode a = 0xED then between 0x80 0x9F b
      else if ccode a = 0xF0 then between 0x90 0xBF b
      else if ccode a = 0xF4 then between 0x80 0x8F b
      else between 0x80 0xBF b)"

fun decode_utf8 :: "string \<Rightarrow> string" where
  "decode_utf8 [] = []"
| "decode_utf8 (a # s) =
     (if ccode a < 0x80 then a # decode_utf8 s
      else if between 0xC2 0xDF a then
        (case s of
           b # s2 \<Rightarrow> if second_ok a b then a # b # decode_utf8 s2 else REPLACEMENT @ decode_utf8 s
         | [] \<Rightarrow> REPLACEMENT)
      else if between 0xE0 0xEF a then
        (case s of
           b # s2 \<Rightarrow>
             if second_ok a b then
               (case s2 of
                  c # s3 \<Rightarrow> if between 0x80 0xBF c then a # b # c # decode_utf8 s3
                            else REPLACEMENT @ decode_utf8 s2
                | [] \<Rightarrow> REPLACEMENT)
             else REPLACEMENT @ decode_utf8 s
         | [] \<Rightarrow> REPLACEMENT)
      else if between 0xF0 0xF4 a then
        (case s of
           b # s2 \<Rightarrow>
             if second_ok a b then
               (case s2 of
                  c # s3 \<Rightarrow>
                    if between 0x80 0xBF c then
                      (case s3 of
                         d # s4 \<Rightarrow> if between 0x80 0xBF d then a # b # c # d # decode_utf8 s4
                                   else REPLACEMENT @ decode_utf8 s3
                       | [] \<Rightarrow> REPLACEMENT)
                    else REPLACEMENT @ decode_utf8 s2
                | [] \<Rightarrow> REPLACEMENT)
             else REPLACEMENT @ decode_utf8 s
         | [] \<Rightarrow> REPLACEMENT)
      else REPLACEMENT @ decode_utf8 s)"

section \<open>Following the file\<close>

definition until_newline :: "string \<Rightarrow> string" where
  "until_newline s =
     (let l = takeWhile (\<lambda>c. c \<noteq> newline) s in if newline \<in> set s then l @ [newline] else l)"

definition read_line :: "string \<Rightarrow> nat \<Rightarrow> string" where
  "read_line file off = until_newline (drop off file)"

text \<open>What the loop observes in one turn: the file, \<open>is_done()\<close>, and the file after the sleep.\<close>

record observation =
  o_file :: string
  o_done :: bool
  o_later :: string

text \<open>One turn: the raw line it yields, if any, and \<open>None\<close> for \<open>break\<close> or the new offset.\<close>

definition tail_turn :: "observation \<Rightarrow> nat \<Rightarrow> string list \<times> nat option" where
  "tail_turn ob off =
     (let raw = read_line (o_file ob) off
      in if raw \<noteq> [] then ([raw], Some (off + length raw))
         else if o_done ob then
           let raw' = read_line (o_later ob) off
           in if raw' \<noteq> [] then ([raw'], Some (off + length raw')) else ([], None)
         else ([], Some off))"

fun tail_turns :: "observation list \<Rightarrow> nat \<Rightarrow> string list \<times> nat option" where
  "tail_turns [] off = ([], Some off)"
| "tail_turns (ob # obs) off =
     (case tail_turn ob off of
        (ls, None) \<Rightarrow> (ls, None)
      | (ls, Some off') \<Rightarrow> (let (ls', r) = tail_turns obs off' in (ls @ ls', r)))"

definition start_offset :: "string \<Rightarrow> int \<Rightarrow> nat" where
  "start_offset file tail_lines =
     (if tail_lines = 0 then length file
      else if tail_lines > 0 then tail_start_offset file (nat tail_lines)
      else 0)"

definition present_line :: "string \<Rightarrow> string" where
  "present_line raw = rstrip_chars (\<lambda>c. c \<in> {carriage_return, newline}) (decode_utf8 raw)"

text \<open>
  \<open>tail_log\<close>: \<open>file\<close> is the log when it is opened.  The result is the lines yielded during the observed
  turns and whether the generator has ended.
\<close>

definition tail_log :: "int \<Rightarrow> string \<Rightarrow> observation list \<Rightarrow> string list \<times> bool" where
  "tail_log tail_lines file obs =
     (let (raws, r) = tail_turns obs (start_offset file tail_lines)
      in (map present_line raws, r = None))"

definition sse_data :: "string \<Rightarrow> string" where
  "sse_data line = ''data: '' @ line @ [newline, newline]"

definition sse_done :: string where
  "sse_done = ''event: done'' @ [newline] @ ''data: '' @ [newline, newline]"

definition sse_events :: "int \<Rightarrow> string \<Rightarrow> observation list \<Rightarrow> string list \<times> bool" where
  "sse_events tail_lines file obs =
     (let (ls, ended) = tail_log tail_lines file obs
      in (map sse_data ls @ (if ended then [sse_done] else []), ended))"

end
