(* ===== verification/Log_Props.thy ===== *)
theory Log_Props
  imports Log_Stream
begin

text \<open>Correctness of log streaming: the backwards scan finds the last lines, the stream is complete.\<close>

section \<open>Lines\<close>

text \<open>The lines of a file, each with its terminator; the last one may lack it.\<close>

fun lines_of :: "string \<Rightarrow> string list" where
  "lines_of [] = []"
| "lines_of (c # s) =
     (if c = newline then [c] # lines_of s
      else case lines_of s of [] \<Rightarrow> [[c]] | l # ls \<Rightarrow> (c # l) # ls)"

definition last_lines :: "nat \<Rightarrow> string \<Rightarrow> string" where
  "last_lines n file = (let L = lines_of file in concat (drop (length L - n) L))"

abbreviation newlines_in :: "string \<Rightarrow> nat" where
  "newlines_in s \<equiv> length (filter (\<lambda>c. c = newline) s)"

lemma concat_lines [simp]: "concat (lines_of s) = s"
  by (induction s) (auto split: list.splits)

lemma lines_of_append: "s = [] \<or> last s = newline \<Longrightarrow> lines_of (s @ t) = lines_of s @ lines_of t"
proof (induction s)
  case (Cons c s)
  show ?case
  proof (cases "s = []")
    case False
    then have "s @ t \<noteq> []" "lines_of s \<noteq> []" by (cases s; auto split: list.splits)+
    with Cons False show ?thesis by (auto split: list.splits)
  qed (use Cons in auto)
qed simp

lemma lines_of_Nil_iff [simp]: "lines_of s = [] \<longleftrightarrow> s = []"
  by (cases s) (auto split: list.splits)

lemma length_lines_of:
  "length (lines_of s) = newlines_in s + (if s = [] \<or> last s = newline then 0 else 1)"
proof (induction s)
  case (Cons c s)
  then show ?case by (cases "s = []") (auto split: list.splits)
qed simp

section \<open>The scan\<close>

lemma scan_back_prefix:
  "i \<le> length s \<Longrightarrow> scan_back (take i s) pos i k n = scan_back s pos i k n"
proof -
  have "j \<le> i \<Longrightarrow> scan_back (take i s) pos j k n = scan_back s pos j k n" for j k
    by (induction j arbitrary: k) auto
  then show ?thesis by simp
qed

lemma scan_back_split:
  "scan_back f 0 (pos + i) k n =
     (case scan_back (drop pos f) pos i k n of Inl off \<Rightarrow> Inl off | Inr k' \<Rightarrow> scan_back f 0 pos k' n)"
  if "pos + i \<le> length f"
  using that by (induction i arbitrary: k) auto

text \<open>Reading in chunks finds what one scan over the whole file finds.\<close>

lemma tail_loop_scan:
  "0 < chunk \<Longrightarrow> pos \<le> e \<Longrightarrow> e \<le> length f \<Longrightarrow>
   tail_loop chunk f e n pos k = (case scan_back f 0 pos k n of Inl off \<Rightarrow> off | Inr _ \<Rightarrow> 0)"
proof (induction chunk f e n pos k rule: tail_loop.induct)
  case (1 chunk f e n pos k)
  show ?case
  proof (cases "pos = 0")
    case False
    let ?r = "min chunk pos"
    let ?p = "pos - ?r"
    have len: "min (length (take ?r (drop ?p f))) (e - ?p) = ?r" "?r \<le> length (drop ?p f)"
      using 1(3,4) by auto
    let ?inner = "scan_back (take ?r (drop ?p f)) ?p ?r k n"
    have split: "scan_back f 0 pos k n = (case ?inner of Inl off \<Rightarrow> Inl off | Inr k' \<Rightarrow> scan_back f 0 ?p k' n)"
      using scan_back_split [of ?p ?r f k n] 1(3,4) len(2) by (simp add: scan_back_prefix)
    have step: "tail_loop chunk f e n pos k = (case ?inner of Inl off \<Rightarrow> off | Inr k' \<Rightarrow> tail_loop chunk f e n ?p k')"
      using False 1(2) len(1) by (subst tail_loop.simps) (simp add: Let_def)
    show ?thesis
    proof (cases ?inner)
      case (Inr k')
      have "tail_loop chunk f e n ?p k' = (case scan_back f 0 ?p k' n of Inl off \<Rightarrow> off | Inr _ \<Rightarrow> 0)"
        by (rule 1(1) [OF _ refl refl refl refl]) (use False 1(2-4) Inr len(1) in auto)
      with split step Inr show ?thesis by simp
    qed (use split step in simp)
  qed (simp add: tail_loop.simps)
qed

lemma scan_back_spec:
  assumes "i \<le> length f" "k < n"
  shows "case scan_back f 0 i k n of
      Inl off \<Rightarrow> 0 < off \<and> off \<le> i \<and> f ! (off - 1) = newline \<and> k + newlines_in (drop off (take i f)) + 1 = n
    | Inr k' \<Rightarrow> k' = k + newlines_in (take i f) \<and> k' < n"
  using assms
proof (induction i arbitrary: k)
  case (Suc i)
  have t: "take (Suc i) f = take i f @ [f ! i]" using Suc.prems by (simp add: take_Suc_conv_app_nth)
  show ?case
  proof (cases "f ! i = newline \<and> k + 1 < n")
    case True
    with Suc.IH [of "k + 1"] Suc.prems t show ?thesis by (auto split: sum.splits)
  next
    case False
    with Suc.IH [of k] Suc.prems t show ?thesis by (auto split: sum.splits)
  qed
qed simp

lemma effective_end_prefix:
  "f \<noteq> [] \<Longrightarrow> f = take (effective_end f) f @ (if last f = newline then [newline] else [])"
  by (cases f rule: rev_cases) (auto simp: effective_end_def)

lemma effective_end_le: "file \<noteq> [] \<Longrightarrow> effective_end file \<le> length file"
  by (simp add: effective_end_def)

lemma tail_offset_last_lines:
  assumes "0 < chunk" "0 < n"
  shows "drop (tail_start_offset_by chunk file n) file = last_lines n file"
proof (cases "file = []")
  case False
  let ?e = "effective_end file"
  let ?t = "if last file = newline then [newline] else []"
  let ?g = "take ?e file"
  have f: "file = ?g @ ?t" and e: "?e \<le> length file"
    using effective_end_prefix effective_end_le False by auto
  have "tail_start_offset_by chunk file n = (case scan_back file 0 ?e 0 n of Inl off \<Rightarrow> off | Inr _ \<Rightarrow> 0)"
    using False assms(1) e by (simp add: tail_start_offset_by_def tail_loop_scan)
  note off = this scan_back_spec [OF e assms(2)]
  have count: "length (lines_of h) = newlines_in (take (length h - length ?t) h) + 1"
    if "h \<noteq> []" "last h = last file" for h
    using that by (cases h rule: rev_cases) (auto simp: length_lines_of)
  show ?thesis
  proof (cases "scan_back file 0 ?e 0 n")
    case (Inr k)
    have "?e = length file - length ?t" by (simp add: effective_end_def)
    with count [OF False refl] off(2) Inr have "length (lines_of file) \<le> n" by simp
    with off Inr show ?thesis by (simp add: last_lines_def)
  next
    case (Inl o1)
    then have o1: "0 < o1" "o1 \<le> ?e" "file ! (o1 - 1) = newline" "newlines_in (drop o1 ?g) + 1 = n"
      using off(2) by auto
    let ?a = "take o1 file" and ?h = "drop o1 file"
    have "?a = take (o1 - 1) file @ [newline]"
      using o1 e take_Suc_conv_app_nth [of "o1 - 1" "file"] by simp
    then have a: "?a \<noteq> []" "last ?a = newline" by simp_all
    have h: "?h = drop o1 ?g @ ?t" using o1(2) e f by (metis drop_append append_Nil2 diff_is_0_eq drop_0 length_take min.absorb2)
    have ne: "?h \<noteq> []"
    proof
      assume "?h = []"
      then have "?t = []" "length file \<le> o1" using h by simp_all
      then have "?e = length file" "o1 = length file" using o1(2) e by (auto simp: effective_end_def split: if_splits)
      then have "last file = newline" using o1(3) False by (simp add: last_conv_nth)
      with \<open>?t = []\<close> show False by simp
    qed
    then have "last ?h = last file" by (metis last_drop drop_eq_Nil not_le)
    with count [OF ne] have "length (lines_of ?h) = newlines_in (take (length ?h - length ?t) ?h) + 1" by simp
    also have "take (length ?h - length ?t) ?h = drop o1 ?g" using h by simp
    finally have n: "length (lines_of ?h) = n" using o1(4) by simp
    have "lines_of file = lines_of ?a @ lines_of ?h"
      using lines_of_append [of ?a ?h] a by simp
    then show ?thesis using off(1) Inl n by (simp add: last_lines_def)
  qed
qed (simp add: tail_start_offset_by_def last_lines_def)

text \<open>
  C21. The offset that \<open>_tail_start_offset\<close> computes by scanning backwards in chunks, of any positive size,
  is where the last \<open>n\<close> lines of the file start: reading from it gives exactly these lines, the whole
  file when it has no more, whether or not the last line is terminated.
\<close>

theorem tail_start_offset_exact:
  assumes "0 < chunk" "0 < n"
  shows "drop (tail_start_offset_by chunk file n) file = last_lines n file"
  by (rule tail_offset_last_lines [OF assms])

theorem tail_start_offset_exact_witness:
  "drop (tail_start_offset_by 3 (''one'' @ [newline] @ ''two'' @ [newline] @ ''three'' @ [newline]) 2)
      (''one'' @ [newline] @ ''two'' @ [newline] @ ''three'' @ [newline])
   = ''two'' @ [newline] @ ''three'' @ [newline]"
  using tail_start_offset_exact [of 3 2 "''one'' @ [newline] @ ''two'' @ [newline] @ ''three'' @ [newline]"]
  by (simp add: last_lines_def newline_def)

section \<open>The stream\<close>

lemma until_newline_Nil [simp]: "until_newline s = [] \<longleftrightarrow> s = []"
  by (cases s) (auto simp: until_newline_def Let_def)

lemma until_newline_prefix: "s = until_newline s @ drop (length (until_newline s)) s"
proof (cases "newline \<in> set s")
  case True
  then obtain a b where "s = a @ newline # b" "newline \<notin> set a" by (meson split_list_first)
  moreover from this(2) have "takeWhile (\<lambda>c. c \<noteq> newline) a = a" by (auto simp: takeWhile_eq_all_conv)
  ultimately show ?thesis by (simp add: until_newline_def Let_def)
next
  case False
  then have "until_newline s = s" by (auto simp: until_newline_def Let_def takeWhile_eq_all_conv)
  then show ?thesis by simp
qed

lemma lines_of_until_newline:
  "s \<noteq> [] \<Longrightarrow> lines_of s = until_newline s # lines_of (drop (length (until_newline s)) s)"
proof (induction s)
  case (Cons c s)
  show ?case
  proof (cases "c = newline")
    case False
    with Cons show ?thesis
      by (cases "s = []") (auto simp: until_newline_def Let_def split: list.splits if_splits)
  qed (simp add: until_newline_def Let_def)
qed simp

lemma read_line_step:
  "off < length f \<Longrightarrow> lines_of (drop off f) = read_line f off # lines_of (drop (off + length (read_line f off)) f)"
  unfolding read_line_def by (subst lines_of_until_newline) (simp_all add: add.commute)

definition quiet :: "string \<Rightarrow> observation" where
  "quiet f = \<lparr>o_file = f, o_done = True, o_later = f\<rparr>"

lemma tail_turns_quiet:
  "length (lines_of (drop off f)) < k \<Longrightarrow> tail_turns (replicate k (quiet f)) off = (lines_of (drop off f), None)"
proof (induction k arbitrary: off)
  case (Suc k)
  show ?case
  proof (cases "off < length f")
    case True
    have ne: "read_line f off \<noteq> []" using True by (simp add: read_line_def)
    have "tail_turns (replicate k (quiet f)) (off + length (read_line f off))
        = (lines_of (drop (off + length (read_line f off)) f), None)"
      using Suc read_line_step [OF True] by simp
    with ne read_line_step [OF True] show ?thesis
      by (simp add: tail_turn_def quiet_def Let_def)
  qed (simp add: tail_turn_def quiet_def read_line_def Let_def)
qed simp

definition replayed :: "int \<Rightarrow> string \<Rightarrow> string" where
  "replayed n f = (if n = 0 then [] else if n < 0 then f else last_lines (nat n) f)"

lemma drop_start_offset: "drop (start_offset f n) f = replayed n f"
  by (auto simp: start_offset_def replayed_def tail_start_offset_def tail_offset_last_lines SEEK_CHUNK_def)

text \<open>
  C22. The log of a finished job is streamed exactly: the last \<open>n\<close> lines in order (all of them for a
  negative \<open>n\<close>, none for 0), decoded and without their terminators, then the end of the stream,
  as soon as the generator had one turn more than there are lines.
\<close>

theorem finished_log_streamed:
  "tail_log n f (replicate (length (lines_of (replayed n f)) + Suc k) (quiet f))
     = (map present_line (lines_of (replayed n f)), True)"
proof -
  have "tail_turns (replicate (length (lines_of (replayed n f)) + Suc k) (quiet f)) (start_offset f n)
      = (lines_of (replayed n f), None)"
    by (subst drop_start_offset [symmetric], rule tail_turns_quiet [THEN trans])
      (simp_all add: drop_start_offset)
  then show ?thesis by (simp add: tail_log_def)
qed

text \<open>A log that only grows between the observations.\<close>

fun growing :: "string \<Rightarrow> observation list \<Rightarrow> bool" where
  "growing f [] = True"
| "growing f (ob # obs) = (prefix f (o_file ob) \<and> prefix (o_file ob) (o_later ob) \<and> growing (o_later ob) obs)"

lemma read_line_prefix:
  "off \<le> length f \<Longrightarrow> prefix (take off f @ read_line f off) f"
  unfolding read_line_def prefix_def
  by (metis append.assoc append_take_drop_id until_newline_prefix)

lemma tail_turn_grows:
  assumes "off \<le> length f" "prefix f (o_file ob)" "prefix (o_file ob) (o_later ob)"
  shows "case tail_turn ob off of
      (ls, Some off') \<Rightarrow> off' \<le> length (o_later ob) \<and> off \<le> off' \<and> concat ls = drop off (take off' (o_later ob))
    | (ls, None) \<Rightarrow> ls = [] \<and> o_done ob \<and> drop off (o_later ob) = []"
proof -
  have step: "prefix (take off g @ read_line g off) (o_later ob)" "off \<le> length g"
    if "prefix f g" "prefix g (o_later ob)" for g
    using that assms(1) read_line_prefix [of off g] prefix_length_le [OF that(1)] by (auto intro: prefix_order.trans)
  have ans: "off + length (read_line g off) \<le> length (o_later ob)
      \<and> read_line g off = drop off (take (off + length (read_line g off)) (o_later ob))"
    if g: "prefix f g" "prefix g (o_later ob)" for g
  proof -
    obtain t where t: "o_later ob = (take off g @ read_line g off) @ t"
      using step(1) [OF g] by (auto simp: prefix_def)
    with step(2) [OF g] show ?thesis by simp
  qed
  have "prefix f (o_later ob)" using assms by (auto intro: prefix_order.trans)
  with ans [OF assms(2,3)] ans [of "o_later ob"] assms prefix_length_le [of f "o_later ob"]
  show ?thesis
    by (auto simp: tail_turn_def Let_def read_line_def [of _ off, THEN arg_cong [of _ _ "\<lambda>x. x = []"]])
qed

lemma tail_turns_grow:
  "growing f obs \<Longrightarrow> off \<le> length f \<Longrightarrow> tail_turns obs off = (raws, r) \<Longrightarrow>
   \<exists>g. prefix f g \<and>
     (case r of
        None \<Rightarrow> concat raws = drop off g \<and> (\<exists>ob \<in> set obs. o_done ob \<and> o_later ob = g)
      | Some off' \<Rightarrow> off \<le> off' \<and> off' \<le> length g \<and> concat raws = drop off (take off' g))"
proof (induction obs arbitrary: f off raws r)
  case (Cons ob obs)
  have pre: "prefix f (o_file ob)" "prefix (o_file ob) (o_later ob)" "growing (o_later ob) obs"
    using Cons.prems(1) by simp_all
  note turn = tail_turn_grows [OF Cons.prems(2) pre(1,2)]
  have fl: "prefix f (o_later ob)" using pre by (auto intro: prefix_order.trans)
  show ?case
  proof (cases "snd (tail_turn ob off)")
    case None
    then have "raws = fst (tail_turn ob off)" "r = None" using Cons.prems(3) by (auto simp: case_prod_beta)
    with None turn fl show ?thesis by (intro exI [of _ "o_later ob"]) (auto simp: case_prod_beta)
  next
    case (Some off1)
    with turn have off1: "off1 \<le> length (o_later ob)" "off \<le> off1"
      "concat (fst (tail_turn ob off)) = drop off (take off1 (o_later ob))" by (auto simp: case_prod_beta)
    obtain raws' r' where t: "tail_turns obs off1 = (raws', r')" by fastforce
    then have rest: "tail_turns obs off1 = (raws', r)" "raws = fst (tail_turn ob off) @ raws'"
      using Cons.prems(3) Some by (auto simp: case_prod_beta Let_def)
    from Cons.IH [OF pre(3) off1(1) rest(1)] obtain g where g: "prefix (o_later ob) g"
      "case r of
        None \<Rightarrow> concat raws' = drop off1 g \<and> (\<exists>ob \<in> set obs. o_done ob \<and> o_later ob = g)
      | Some off' \<Rightarrow> off1 \<le> off' \<and> off' \<le> length g \<and> concat raws' = drop off1 (take off' g)" by blast
    have "take off1 (o_later ob) = take off1 g" using g(1) off1(1) by (auto simp: prefix_def)
    then have cat: "concat raws = drop off (take off1 g) @ concat raws'" using rest(2) off1(3) by simp
    have join: "drop off (take off1 h) @ drop off1 h = drop off h" for h :: string
      using off1(2) by (metis drop_append append_take_drop_id drop_take le_add_diff_inverse take_drop append.assoc drop_drop add.commute)
    have fg: "prefix f g" using fl g(1) by (rule prefix_order.trans)
    show ?thesis
    proof (cases r)
      case None
      with cat g(2) join [of g] fg show ?thesis by auto
    next
      case (Some off')
      with g(2) have o: "off1 \<le> off'" "off' \<le> length g" "concat raws' = drop off1 (take off' g)" by auto
      have "take off1 (take off' g) = take off1 g" using o(1) by (simp add: min_def)
      then have "concat raws = drop off (take off' g)" using cat o(3) join [of "take off' g"] by simp
      with o off1(2) Some fg show ?thesis by auto
    qed
  qed
next
  case Nil
  then show ?case by (intro exI [of _ f]) auto
qed

lemma start_offset_le: "start_offset f n \<le> length f"
proof (cases "n > 0 \<and> f \<noteq> []")
  case True
  then have e: "effective_end f \<le> length f" and n: "0 < nat n" by (auto simp: effective_end_le)
  with True have "start_offset f n = (case scan_back f 0 (effective_end f) 0 (nat n) of Inl off \<Rightarrow> off | Inr _ \<Rightarrow> 0)"
    by (simp add: start_offset_def tail_start_offset_def tail_start_offset_by_def tail_loop_scan SEEK_CHUNK_def)
  with scan_back_spec [OF e n] e show ?thesis by (auto split: sum.splits)
qed (auto simp: start_offset_def tail_start_offset_def tail_start_offset_by_def)

text \<open>
  C23. Nothing is lost or repeated while a job writes: if the log only grows, then when the generator ends
  it has seen the job done, and the raw lines it delivered are, put together, the whole log from
  the starting point to the end as it is after the final drain.
\<close>

theorem ended_stream_is_complete:
  assumes "growing f obs" "tail_log n f obs = (ls, True)"
  shows "\<exists>raws ob. ob \<in> set obs \<and> o_done ob \<and> ls = map present_line raws
    \<and> concat raws = drop (start_offset f n) (o_later ob)"
proof -
  obtain raws r where t: "tail_turns obs (start_offset f n) = (raws, r)" by fastforce
  with assms(2) have "ls = map present_line raws" "r = None" by (simp_all add: tail_log_def)
  with tail_turns_grow [OF assms(1) start_offset_le t] show ?thesis by auto
qed

theorem ended_stream_is_complete_witness:
  "tail_log 1 (''a'' @ [newline] @ ''b'' @ [newline])
     [\<lparr>o_file = ''a'' @ [newline] @ ''b'' @ [newline], o_done = False, o_later = ''a'' @ [newline] @ ''b'' @ [newline]\<rparr>,
      \<lparr>o_file = ''a'' @ [newline] @ ''b'' @ [newline], o_done = True, o_later = ''a'' @ [newline] @ ''b'' @ [newline] @ ''c''\<rparr>,
      quiet (''a'' @ [newline] @ ''b'' @ [newline] @ ''c'')] = ([''b'', ''c''], True)
   \<and> (\<exists>raws. [''b'', ''c''] = map present_line raws \<and> concat raws = ''b'' @ [newline] @ ''c'')"
proof -
  let ?f = "''a'' @ [newline] @ ''b'' @ [newline]"
  let ?obs = "[\<lparr>o_file = ?f, o_done = False, o_later = ?f\<rparr>, \<lparr>o_file = ?f, o_done = True, o_later = ?f @ ''c''\<rparr>, quiet (?f @ ''c'')]"
  have run: "tail_log 1 ?f ?obs = ([''b'', ''c''], True)" by code_simp
  have grow: "growing ?f ?obs" by (simp add: quiet_def prefix_def)
  have off: "start_offset ?f 1 = 2" by code_simp
  from ended_stream_is_complete [OF grow run] obtain raws ob where ob: "ob \<in> set ?obs" "o_done ob"
    "[''b'', ''c''] = map present_line raws" "concat raws = drop 2 (o_later ob)" unfolding off by (elim exE conjE) (rule that)
  have "o_later ob = ?f @ ''c''" using ob(1,2) by (auto simp: quiet_def)
  with ob(4) have "concat raws = ''b'' @ [newline] @ ''c''" by simp
  with run ob(3) show ?thesis by (intro conjI exI [of _ raws]) simp_all
qed

end
