(* ===== verification/Lifecycle.thy ===== *)
theory Lifecycle
  imports Process_Props
begin

text \<open>
  \<open>agent/lifecycle.py\<close>: the idle clock and the loop that shuts the agent down.  The monotonic clock
  counts nanoseconds; idle times are seconds.  The loop sees its process manager only through
  \<open>running_count\<close> (the protocol \<open>_HasRunningCount\<close>), which the locale \<open>has_running_count\<close> states; the
  model of the process manager interprets it.
\<close>

section \<open>The idle clock\<close>

record idle_tracker =
  t_timeout :: int
  t_last_activity :: int

definition new_tracker :: "int \<Rightarrow> int \<Rightarrow> idle_tracker" where
  "new_tracker timeout now = \<lparr>t_timeout = timeout, t_last_activity = now\<rparr>"

definition record_activity :: "int \<Rightarrow> idle_tracker \<Rightarrow> idle_tracker" where
  "record_activity now t = t\<lparr>t_last_activity := now\<rparr>"

definition idle_seconds :: "int \<Rightarrow> idle_tracker \<Rightarrow> rat" where
  "idle_seconds now t = of_int (now - t_last_activity t) / 1000000000"

definition shutdown_due :: "int \<Rightarrow> nat \<Rightarrow> idle_tracker \<Rightarrow> bool" where
  "shutdown_due now running t \<longleftrightarrow> running = 0 \<and> idle_seconds now t > of_int (t_timeout t)"

section \<open>The shutdown loop\<close>

text \<open>
  One check per element: the time it happens at and what went on during the sleep before it.  The
  result is the state the loop is left in and whether it triggered the shutdown.
\<close>

type_synonym 's check = "int \<times> (idle_tracker \<times> 's \<Rightarrow> idle_tracker \<times> 's)"

fun run_loop ::
  "('s \<Rightarrow> 's \<times> nat) \<Rightarrow> 's check list \<Rightarrow> idle_tracker \<times> 's \<Rightarrow> (idle_tracker \<times> 's) \<times> bool" where
  "run_loop count [] st = (st, False)"
| "run_loop count ((now, meanwhile) # checks) st =
     (let (t, s) = meanwhile st; (s', running) = count s
      in if shutdown_due now running t then ((t, s'), True)
         else run_loop count checks (t, s'))"

locale has_running_count =
  fixes count :: "'s \<Rightarrow> 's \<times> nat"
    and sane :: "'s \<Rightarrow> bool"
    and live :: "'s \<Rightarrow> 'j set"
  assumes count_sane: "sane s \<Longrightarrow> sane (fst (count s))"
    and count_live: "sane s \<Longrightarrow> live (fst (count s)) = live s"
    and count_exact: "sane s \<Longrightarrow> snd (count s) = card (live s)"
    and live_finite: "sane s \<Longrightarrow> finite (live s)"
begin

lemma shutdown_due_iff:
  "sane s \<Longrightarrow> shutdown_due now (snd (count s)) t \<longleftrightarrow> live s = {} \<and> idle_seconds now t > of_int (t_timeout t)"
  by (simp add: shutdown_due_def count_exact live_finite)

text \<open>A shutdown happens at a check with no live job and an expired idle clock.\<close>

lemma run_loop_safe:
  assumes "\<forall>(now, m) \<in> set checks. \<forall>st. sane (snd st) \<longrightarrow> sane (snd (m st))"
    and "sane (snd st)" "run_loop count checks st = ((t, s), True)"
  shows "live s = {} \<and> (\<exists>(now, m) \<in> set checks. idle_seconds now t > of_int (t_timeout t))"
  using assms
proof (induction checks arbitrary: st)
  case (Cons c checks)
  obtain now m where c: "c = (now, m)" by (cases c)
  obtain t1 s1 where m: "m st = (t1, s1)" by fastforce
  have "\<forall>st. sane (snd st) \<longrightarrow> sane (snd (m st))" using Cons.prems(1) c by simp
  from this [rule_format, OF Cons.prems(2)] m have s1: "sane s1" by simp
  show ?case
  proof (cases "shutdown_due now (snd (count s1)) t1")
    case True
    then have "t1 = t" "fst (count s1) = s"
      using Cons.prems(3) c m by (auto simp: case_prod_beta Let_def)
    with True s1 c show ?thesis by (auto simp: shutdown_due_iff count_live)
  next
    case False
    then have "run_loop count checks (t1, fst (count s1)) = ((t, s), True)"
      using Cons.prems(3) c m by (simp add: case_prod_beta Let_def)
    with Cons.IH [of "(t1, fst (count s1))"] Cons.prems(1) s1 show ?thesis by (auto simp: count_sane)
  qed
qed simp

text \<open>An idle agent with no live job does shut down, at the first check after the timeout.\<close>

lemma run_loop_live:
  assumes "sane s" "live s = {}" "idle_seconds now t > of_int (t_timeout t)" "m st = (t, s)"
  shows "snd (run_loop count ((now, m) # checks) st)"
  using assms shutdown_due_iff by (simp add: case_prod_beta)

end

section \<open>The process manager as the provider\<close>

definition live_jobs :: "'u pm \<Rightarrow> string set" where
  "live_jobs s = {u. \<exists>r. map_of (fst s) u = Some r \<and> j_status r = Job_Running
                    \<and> pid_alive (procs (snd s)) (handle_pid (j_process r))}"

lemma running_count_pm: "fst (running_count s) = poll_jobs s"
  by (simp add: running_count_def Let_def)

lemma poll_jobs_wf: "jobs_wf (fst s) \<Longrightarrow> jobs_wf (fst (poll_jobs s))"
  by (simp add: poll_jobs_jobs poll_all_wf)

lemma poll_all_alive [simp]: "pid_alive (snd (poll_all now js ps)) q = pid_alive ps q"
proof (induction js arbitrary: ps)
  case (Cons e js)
  obtain v r where "e = (v, r)" by (cases e)
  then show ?case by (simp add: case_prod_beta Let_def Cons.IH)
qed simp

lemma poll_jobs_alive [simp]: "pid_alive (procs (snd (poll_jobs s))) q = pid_alive (procs (snd s)) q"
  by (simp add: poll_jobs_def case_prod_beta)

lemma poll_all_pid:
  "map_of (fst (poll_all now js ps)) u = Some r' \<Longrightarrow>
     \<exists>r ps'. map_of js u = Some r \<and> r' = fst (poll_record now r ps') \<and> (\<forall>q. pid_alive ps' q = pid_alive ps q)"
proof (induction js arbitrary: ps)
  case (Cons e js)
  obtain v r where e: "e = (v, r)" by (cases e)
  show ?case
  proof (cases "v = u")
    case True
    with Cons.prems e show ?thesis by (auto simp: case_prod_beta Let_def)
  next
    case False
    with Cons.prems e have "map_of (fst (poll_all now js (snd (poll_record now r ps)))) u = Some r'"
      by (simp add: case_prod_beta Let_def)
    from Cons.IH [OF this] False e show ?thesis by auto
  qed
qed simp

lemma poll_all_dom: "map_of js u = Some r \<Longrightarrow> \<exists>r'. map_of (fst (poll_all now js ps)) u = Some r'"
  by (metis poll_all_keys map_of_eq_None_iff not_None_eq set_map)

lemma live_poll_jobs: "jobs_wf (fst s) \<Longrightarrow> live_jobs (poll_jobs s) = live_jobs s"
proof (intro set_eqI iffI)
  fix u assume wf: "jobs_wf (fst s)"
  { assume "u \<in> live_jobs (poll_jobs s)"
    then obtain r' where r': "map_of (fst (poll_all (host_now (snd s)) (fst s) (procs (snd s)))) u = Some r'"
      "j_status r' = Job_Running" "pid_alive (procs (snd s)) (handle_pid (j_process r'))"
      by (auto simp: live_jobs_def poll_jobs_jobs)
    then obtain r ps' where "map_of (fst s) u = Some r" "r' = fst (poll_record (host_now (snd s)) r ps')"
      using poll_all_pid by blast
    with r' wf show "u \<in> live_jobs s"
      by (auto simp: live_jobs_def poll_record_running dest: jobs_wfD) }
  { assume "u \<in> live_jobs s"
    then obtain r where r: "map_of (fst s) u = Some r" "j_status r = Job_Running"
      "pid_alive (procs (snd s)) (handle_pid (j_process r))"
      by (auto simp: live_jobs_def)
    from poll_all_dom [OF r(1)] obtain r' where
      r': "map_of (fst (poll_all (host_now (snd s)) (fst s) (procs (snd s)))) u = Some r'" by blast
    from poll_all_pid [OF this] r(1) obtain ps' where
      "r' = fst (poll_record (host_now (snd s)) r ps')" "\<forall>q. pid_alive ps' q = pid_alive (procs (snd s)) q"
      by auto
    with r r' wf show "u \<in> live_jobs (poll_jobs s)"
      by (auto simp: live_jobs_def poll_jobs_jobs poll_record_running dest: jobs_wfD) }
qed

lemma running_count_live: "jobs_wf (fst s) \<Longrightarrow> snd (running_count s) = card (live_jobs s)"
  unfolding live_jobs_def by (rule running_count_card)

interpretation manager_jobs: has_running_count running_count "\<lambda>s. jobs_wf (fst s)" live_jobs
proof (unfold_locales, goal_cases)
  case (1 s)
  then show ?case by (simp add: running_count_pm poll_jobs_wf)
next
  case (2 s)
  then show ?case by (simp add: running_count_pm live_poll_jobs)
next
  case (3 s)
  then show ?case by (rule running_count_live)
next
  case (4 s)
  have "live_jobs s \<subseteq> fst ` set (fst s)" by (force simp: live_jobs_def dest: map_of_SomeD)
  then show ?case by (rule finite_subset) simp
qed

end
