(* ===== verification/Agent_Config.thy ===== *)
theory Agent_Config
  imports Script_Meta
begin

text \<open>
  \<open>agent/config.py\<close> and \<open>agent/paths.py\<close>: the agent's configuration.  A path is its text.  The
  validators the classes declare are the model's; what pydantic, PyYAML and \<open>pathlib\<close> do is the
  parameter \<open>config_libs\<close>: \<open>c_fields\<close> turns a mapping into the declared fields or lists errors,
  \<open>c_path\<close> is \<open>Path(str(v))\<close>, \<open>c_expanduser\<close> is \<open>expanduser\<close>.
\<close>

section \<open>Paths\<close>

record csl_paths =
  cp_scripts_dir :: string
  cp_pending_dir :: string
  cp_logs_dir :: string
  cp_approvals_path :: string
  cp_state_path :: string

definition path_join :: "string \<Rightarrow> string \<Rightarrow> string" where
  "path_join base x = base @ ''/'' @ x"

text \<open>\<open>platform_base\<close>: \<open>USERPROFILE\<close> (empty when unset) on Windows, the home directory elsewhere.\<close>

definition platform_base :: "bool \<Rightarrow> (string, string) dict \<Rightarrow> string \<Rightarrow> string" where
  "platform_base windows env home =
     (if windows then path_join (case map_of env ''USERPROFILE'' of None \<Rightarrow> [] | Some p \<Rightarrow> p) ''.csl''
      else path_join home ''.csl'')"

definition paths_from_base :: "string \<Rightarrow> csl_paths" where
  "paths_from_base base =
     \<lparr>cp_scripts_dir = path_join base ''scripts'',
      cp_pending_dir = path_join base ''scripts.pending'',
      cp_logs_dir = path_join base ''logs'',
      cp_approvals_path = path_join base ''agent/approvals.json'',
      cp_state_path = path_join base ''agent/running.json''\<rparr>"

section \<open>The sections\<close>

record agent_section =
  listen_port :: int
  idle_timeout_seconds :: int
  csl_dir :: string
  scripts_dir :: string
  pending_dir :: string
  logs_dir :: string
  state_path :: string
  approvals_path :: string
  lifecycle_check_interval_seconds :: int
  log_tail_lines :: int

record identity_section =
  key_fingerprint :: "string option"
  hostname_hint :: "string option"
  api_token :: "string option"

record agent_config =
  agent_sec :: agent_section
  identity :: identity_section
  auto_approve_list :: "string list"
  windows_admin_authorized_keys_path :: string

record config_libs =
  c_safe_load :: "string \<Rightarrow> yaml option"
  c_fields :: "yaml \<Rightarrow> verr list + agent_config"
  c_path :: "yaml \<Rightarrow> string"
  c_expanduser :: "string \<Rightarrow> string"
  c_base :: string

text \<open>\<open>_derive_path_defaults\<close>: the path fields that are not given follow \<open>csl_dir\<close>.\<close>

definition path_defaults :: "string \<Rightarrow> (string \<times> string) list" where
  "path_defaults dir =
     [(''scripts_dir'', path_join dir ''scripts''),
      (''pending_dir'', path_join dir ''scripts.pending''),
      (''logs_dir'', path_join dir ''logs''),
      (''state_path'', path_join dir ''agent/running.json''),
      (''approvals_path'', path_join dir ''agent/approvals.json'')]"

definition derived_csl_dir :: "config_libs \<Rightarrow> (string \<times> yaml) list \<Rightarrow> string" where
  "derived_csl_dir lb kvs =
     c_expanduser lb (case map_of kvs ''csl_dir'' of None \<Rightarrow> c_path lb (YStr (c_base lb)) | Some v \<Rightarrow> c_path lb v)"

definition derive_path_defaults :: "config_libs \<Rightarrow> yaml \<Rightarrow> yaml" where
  "derive_path_defaults lb data =
     (case data of
        YMap kvs \<Rightarrow>
          let dir = derived_csl_dir lb kvs
          in YMap (fold (\<lambda>(f, d) m. AList.update f
                 (YStr (case map_of m f of Some v \<Rightarrow> c_expanduser lb (c_path lb v) | None \<Rightarrow> d)) m)
               (path_defaults dir) (AList.update ''csl_dir'' (YStr dir) kvs))
      | _ \<Rightarrow> data)"

definition expand_paths :: "config_libs \<Rightarrow> agent_section \<Rightarrow> agent_section" where
  "expand_paths lb a =
     a\<lparr>csl_dir := c_expanduser lb (csl_dir a),
       scripts_dir := c_expanduser lb (scripts_dir a),
       pending_dir := c_expanduser lb (pending_dir a),
       logs_dir := c_expanduser lb (logs_dir a),
       state_path := c_expanduser lb (state_path a),
       approvals_path := c_expanduser lb (approvals_path a)\<rparr>"

definition to_csl_paths :: "agent_section \<Rightarrow> csl_paths" where
  "to_csl_paths a =
     \<lparr>cp_scripts_dir = scripts_dir a, cp_pending_dir = pending_dir a, cp_logs_dir = logs_dir a,
      cp_approvals_path = approvals_path a, cp_state_path = state_path a\<rparr>"

text \<open>
  \<open>AgentConfig.model_validate\<close>: the \<open>agent\<close> section, or the empty one of its default factory, passes
  the before-validator; the after-validators expand the paths.
\<close>

definition config_model_validate :: "config_libs \<Rightarrow> yaml \<Rightarrow> verr list + agent_config" where
  "config_model_validate lb raw =
     bindR (c_fields lb
        (case raw of
           YMap kvs \<Rightarrow> YMap (AList.update ''agent''
               (derive_path_defaults lb (case map_of kvs ''agent'' of None \<Rightarrow> YMap [] | Some v \<Rightarrow> v)) kvs)
         | _ \<Rightarrow> raw))
       (\<lambda>c. Inr (c\<lparr>agent_sec := expand_paths lb (agent_sec c),
          windows_admin_authorized_keys_path := c_expanduser lb (windows_admin_authorized_keys_path c)\<rparr>))"

section \<open>\<open>load_config\<close>\<close>

datatype config_error = Cannot_Read | Bad_Yaml | Top_Level_Not_Mapping | Invalid_Config "verr list"

datatype config_file = No_File | Unreadable_File | Config_Text string

definition default_config :: "config_libs \<Rightarrow> agent_config" where
  "default_config lb =
     (let p = paths_from_base (c_base lb)
      in \<lparr>agent_sec = expand_paths lb
            \<lparr>listen_port = 47731, idle_timeout_seconds = 600, csl_dir = c_base lb,
             scripts_dir = cp_scripts_dir p, pending_dir = cp_pending_dir p, logs_dir = cp_logs_dir p,
             state_path = cp_state_path p, approvals_path = cp_approvals_path p,
             lifecycle_check_interval_seconds = 10, log_tail_lines = 1000\<rparr>,
          identity = \<lparr>key_fingerprint = None, hostname_hint = None, api_token = None\<rparr>,
          auto_approve_list = [],
          windows_admin_authorized_keys_path =
            c_expanduser lb ''C:/ProgramData/ssh/administrators_authorized_keys''\<rparr>)"

definition load_config :: "config_libs \<Rightarrow> config_file \<Rightarrow> config_error + agent_config" where
  "load_config lb f =
     (case f of
        No_File \<Rightarrow> Inr (default_config lb)
      | Unreadable_File \<Rightarrow> Inl Cannot_Read
      | Config_Text text \<Rightarrow>
          (case c_safe_load lb text of
             None \<Rightarrow> Inl Bad_Yaml
           | Some YNull \<Rightarrow> Inr (default_config lb)
           | Some (YMap kvs) \<Rightarrow>
               (case validate_stripping_unknowns (config_model_validate lb) (YMap kvs) of
                  Inl es \<Rightarrow> Inl (Invalid_Config es) | Inr c \<Rightarrow> Inr c)
           | Some _ \<Rightarrow> Inl Top_Level_Not_Mapping))"

section \<open>Properties\<close>

lemma fold_update_other:
  "x \<notin> fst ` set ds \<Longrightarrow> map_of (fold (\<lambda>(f, d) m. AList.update f (g f d m) m) ds m) x = map_of m x"
  by (induction ds arbitrary: m) auto

lemma fold_update_field:
  assumes "distinct (map fst ds)" "(x, d) \<in> set ds"
  shows "map_of (fold (\<lambda>(f, d) m. AList.update f (h (map_of m f) d) m) ds m) x = Some (h (map_of m x) d)"
  using assms
proof (induction ds arbitrary: m)
  case (Cons e ds)
  obtain f b where e: "e = (f, b)" by (cases e)
  show ?case
  proof (cases "f = x")
    case True
    then have "x \<notin> fst ` set ds" "b = d" using Cons.prems e by (auto simp: rev_image_eqI)
    with True e fold_update_other [of x ds "\<lambda>f d m. h (map_of m f) d"] show ?thesis by simp
  next
    case False
    with Cons e show ?thesis by auto
  qed
qed simp

definition path_field :: "csl_paths \<Rightarrow> string \<Rightarrow> string option" where
  "path_field p f =
     map_of [(''scripts_dir'', cp_scripts_dir p), (''pending_dir'', cp_pending_dir p),
       (''logs_dir'', cp_logs_dir p), (''state_path'', cp_state_path p),
       (''approvals_path'', cp_approvals_path p)] f"

text \<open>
  \<open>csl_dir\<close> relocates everything: after the before-validator of the agent section, each of the five
  path fields is the one given, expanded, or else its place in the standard layout under the
  configured \<open>csl_dir\<close>; every other field but \<open>csl_dir\<close> is as it was.
\<close>

theorem derive_path_defaults_exact:
  "\<exists>m. derive_path_defaults lb (YMap kvs) = YMap m
     \<and> map_of m f =
        (if f = ''csl_dir'' then Some (YStr (derived_csl_dir lb kvs))
         else case path_field (paths_from_base (derived_csl_dir lb kvs)) f of
           None \<Rightarrow> map_of kvs f
         | Some std \<Rightarrow>
             (case map_of kvs f of
                None \<Rightarrow> Some (YStr std) | Some v \<Rightarrow> Some (YStr (c_expanduser lb (c_path lb v)))))"
proof -
  let ?dir = "derived_csl_dir lb kvs"
  let ?h = "\<lambda>x d. YStr (case x of Some v \<Rightarrow> c_expanduser lb (c_path lb v) | None \<Rightarrow> d)"
  let ?init = "AList.update ''csl_dir'' (YStr ?dir) kvs"
  let ?m = "fold (\<lambda>(f, d) m. AList.update f (?h (map_of m f) d) m) (path_defaults ?dir) ?init"
  have m: "derive_path_defaults lb (YMap kvs) = YMap ?m"
    by (simp add: derive_path_defaults_def Let_def)
  have dist: "distinct (map fst (path_defaults ?dir))"
    by (simp add: path_defaults_def)
  show ?thesis
  proof (cases "f \<in> fst ` set (path_defaults ?dir)")
    case True
    then obtain d where d: "(f, d) \<in> set (path_defaults ?dir)" by auto
    then have f: "path_field (paths_from_base ?dir) f = Some d" "f \<noteq> ''csl_dir''"
      by (auto simp: path_defaults_def path_field_def paths_from_base_def)
    have "map_of ?m f = Some (?h (map_of ?init f) d)" by (rule fold_update_field [OF dist d, where h = ?h and m = ?init])
    then have "map_of ?m f = Some (?h (map_of kvs f) d)" using f(2) by simp
    with m f show ?thesis by (intro exI [of _ ?m]) (auto split: option.split)
  next
    case False
    then have "path_field (paths_from_base ?dir) f = None"
      by (auto simp: path_defaults_def path_field_def)
    moreover have "map_of ?m f = map_of ?init f" by (rule fold_update_other [OF False])
    ultimately show ?thesis using m by (intro exI [of _ ?m]) auto
  qed
qed

end
