(* ===== verification/Agent_Main.thy ===== *)
theory Agent_Main
  imports Lifecycle Log_Stream Agent_Config Script_Name
begin

text \<open>
  \<open>agent/main.py\<close>: the agent's HTTP application.  A request passes the authentication middleware, then
  the activity middleware, then its endpoint; a response is a status and a body.  The agent's state is
  what \<open>_lifespan\<close> builds, together with the disk and the process table.

  \<open>surroundings\<close> holds what the code calls and does not contain: the two pydantic codecs, the agent's
  version, and what the operating system answers to a start and to a foreground run.
\<close>

record ('t, 'u) surroundings =
  x_codec :: "'t codec"
  x_state_codec :: "'u state_codec"
  x_env :: agent_env
  x_version :: string
  x_spawn :: spawn
  x_exec :: "string list \<Rightarrow> (string, string) dict \<Rightarrow> outcome"

record ('t, 'u) agent =
  ag_config :: agent_config
  ag_approvals :: "'t mgr"
  ag_jobs :: jobs
  ag_procs :: procs
  ag_running_json :: "'u option"
  ag_tracker :: idle_tracker
  ag_monotonic :: int

text \<open>The process manager's view of the agent, and the agent after one of its operations.\<close>

definition pm_of :: "('t, 'u) agent \<Rightarrow> 'u pm" where
  "pm_of a =
     (ag_jobs a, \<lparr>procs = ag_procs a, host_files = disk_files (snd (ag_approvals a)),
                  running_json = ag_running_json a, host_now = clock (snd (ag_approvals a))\<rparr>)"

definition with_files :: "files \<Rightarrow> 't mgr \<Rightarrow> 't mgr" where
  "with_files fs p = (fst p, (snd p)\<lparr>disk_files := fs\<rparr>)"

definition put_pm :: "'u pm \<Rightarrow> ('t, 'u) agent \<Rightarrow> ('t, 'u) agent" where
  "put_pm s a =
     a\<lparr>ag_jobs := fst s, ag_procs := procs (snd s), ag_running_json := running_json (snd s),
       ag_approvals := with_files (host_files (snd s)) (ag_approvals a)\<rparr>"

section \<open>Startup\<close>

definition lifespan ::
  "('t, 'u) surroundings \<Rightarrow> agent_config \<Rightarrow> 't disk \<Rightarrow> procs \<Rightarrow> 'u option \<Rightarrow> int \<Rightarrow> ('t, 'u) agent" where
  "lifespan x cfg w ps rj now =
     (let a = \<lparr>ag_config = cfg, ag_approvals = new_manager (x_codec x) (auto_approve_list cfg) w,
               ag_jobs = [], ag_procs = ps, ag_running_json = rj,
               ag_tracker = new_tracker (idle_timeout_seconds (agent_sec cfg)) now, ag_monotonic = now\<rparr>
      in put_pm (restore_state (x_state_codec x) (pm_of a)) a)"

section \<open>Requests and responses\<close>

datatype endpoint =
    Healthz
  | Get_Script_State string
  | Post_Stage string stage_script_request
  | Post_Job job_request
  | Get_Job string
  | Delete_Job string
  | Stream_Job string "int option"

record http_request =
  authorization :: "string option"
  target :: endpoint

datatype error_detail =
    Unauthorized | Bad_Name | Approval_Refused approval_error | Md5_Mismatch approval_state
  | Job_Refused run_error | No_Such_Job string | No_Such_Log string | Server_Error

datatype body =
    B_Health agent_health
  | B_Descriptor script_descriptor
  | B_Staged stage_script_response
  | B_Job job_status_response
  | B_Stream string int
  | B_Error error_detail

type_synonym response = "nat \<times> body"

section \<open>Middleware\<close>

definition is_ascii :: "string \<Rightarrow> bool" where
  "is_ascii s = list_all (\<lambda>c. ccode c < 128) s"

text \<open>
  \<open>_AuthMiddleware\<close>: \<open>None\<close> lets the request through.  \<open>compare_digest\<close> raises \<open>TypeError\<close> on
  text that is not ASCII, which ends as a 500.
\<close>

definition auth_check :: "string option \<Rightarrow> string option \<Rightarrow> response option" where
  "auth_check token header =
     (case token of
        None \<Rightarrow> None
      | Some expected \<Rightarrow>
          if expected = [] then None
          else let h = (case header of None \<Rightarrow> [] | Some h \<Rightarrow> h);
                   provided = (if startswith h ''Bearer '' then drop 7 h else [])
               in if \<not> is_ascii provided \<or> \<not> is_ascii expected then Some (500, B_Error Server_Error)
                  else if provided \<noteq> expected then Some (401, B_Error Unauthorized)
                  else None)"

section \<open>Endpoints\<close>

definition healthz :: "('t, 'u) surroundings \<Rightarrow> ('t, 'u) agent \<Rightarrow> ('t, 'u) agent \<times> response" where
  "healthz x a =
     (let (s, n) = running_count (pm_of a)
      in (put_pm s a, 200, B_Health \<lparr>h_version = x_version x, h_running_persistent_jobs = n,
            h_idle_seconds = idle_seconds (ag_monotonic a) (ag_tracker a)\<rparr>))"

definition get_script_state ::
  "('t, 'u) surroundings \<Rightarrow> string \<Rightarrow> ('t, 'u) agent \<Rightarrow> ('t, 'u) agent \<times> response" where
  "get_script_state x name a =
     (let (p, d) = get_state (x_codec x) name (ag_approvals a)
      in (a\<lparr>ag_approvals := p\<rparr>, 200, B_Descriptor d))"

definition stage_script ::
  "('t, 'u) surroundings \<Rightarrow> string \<Rightarrow> stage_script_request \<Rightarrow> ('t, 'u) agent \<Rightarrow> ('t, 'u) agent \<times> response" where
  "stage_script x name b a =
     (case stage (x_codec x) name (g_content b) (g_md5 b) (g_meta_yaml b) (ag_approvals a) of
        (p, Inl e) \<Rightarrow> (a\<lparr>ag_approvals := p\<rparr>, 409, B_Error (Approval_Refused e))
      | (p, Inr st) \<Rightarrow> (a\<lparr>ag_approvals := p\<rparr>, 200, B_Staged \<lparr>g_name = name, g_state = st\<rparr>))"

text \<open>The status of a failed run; \<open>ScriptMetaError\<close> is not among the exceptions the endpoint handles.\<close>

fun run_error_response :: "run_error \<Rightarrow> response" where
  "run_error_response (Not_Approved s) = (403, B_Error (Job_Refused (Not_Approved s)))"
| "run_error_response (Invalid_Params es) = (422, B_Error (Job_Refused (Invalid_Params es)))"
| "run_error_response Accepts_No_Params = (422, B_Error (Job_Refused Accepts_No_Params))"
| "run_error_response (Bad_Meta e) = (500, B_Error Server_Error)"
| "run_error_response (Integrity_Mismatch a b) = (409, B_Error (Job_Refused (Integrity_Mismatch a b)))"
| "run_error_response Script_Not_Found = (404, B_Error (Job_Refused Script_Not_Found))"
| "run_error_response No_Interpreter = (404, B_Error (Job_Refused No_Interpreter))"

definition run_log :: "script_result \<Rightarrow> string" where
  "run_log r = std_out r @ std_err r
     @ (if timed_out r then [newline] @ ''[timed out]'' @ [newline] else [])"

definition foreground_response :: "job_request \<Rightarrow> int \<Rightarrow> script_result \<Rightarrow> job_status_response" where
  "foreground_response q now r =
     \<lparr>s_job_uuid = q_job_uuid q, s_script_name = q_script_name q,
      s_status = (if exit_code r = 0 then Job_Completed else Job_Failed), s_persistent = False,
      s_started_at = now, s_ended_at = Some now, s_exit_code = Some (exit_code r)\<rparr>"

definition submit_persistent ::
  "('t, 'u) surroundings \<Rightarrow> job_request \<Rightarrow> ('t, 'u) agent \<Rightarrow> ('t, 'u) agent \<times> response" where
  "submit_persistent x q a =
     (let (p, s, r) = start (x_state_codec x) (x_env x) (get_state (x_codec x)) (x_spawn x)
                        (q_script_name q) (q_params q) (q_job_uuid q) (ag_approvals a) (pm_of a);
          a' = put_pm s (a\<lparr>ag_approvals := p\<rparr>)
      in case r of
           Inl (Run_Error e) \<Rightarrow> (a', run_error_response e)
         | Inl Spawn_Failed \<Rightarrow> (a', 500, B_Error Server_Error)
         | Inr resp \<Rightarrow> (a', 202, B_Job resp))"

definition submit_foreground ::
  "('t, 'u) surroundings \<Rightarrow> job_request \<Rightarrow> ('t, 'u) agent \<Rightarrow> ('t, 'u) agent \<times> response" where
  "submit_foreground x q a =
     (case run_script (x_env x) (get_state (x_codec x)) (x_exec x) (q_script_name q) (q_params q)
             (disk_files (snd (ag_approvals a))) (ag_approvals a) of
        (p, Inl e) \<Rightarrow> (a\<lparr>ag_approvals := p\<rparr>, run_error_response e)
      | (p, Inr r) \<Rightarrow>
          (a\<lparr>ag_approvals := with_files
               (write_file Logs_Dir (log_name (q_job_uuid q)) (run_log r) (disk_files (snd p))) p\<rparr>,
           202, B_Job (foreground_response q (clock (snd p)) r)))"

definition submit_job ::
  "('t, 'u) surroundings \<Rightarrow> job_request \<Rightarrow> ('t, 'u) agent \<Rightarrow> ('t, 'u) agent \<times> response" where
  "submit_job x q a =
     (let run = (\<lambda>a. if q_persistent q then submit_persistent x q a else submit_foreground x q a)
      in case q_expected_md5 q of
           None \<Rightarrow> run a
         | Some m \<Rightarrow>
             (let (p, d) = get_state (x_codec x) (q_script_name q) (ag_approvals a);
                  a1 = a\<lparr>ag_approvals := p\<rparr>
              in if d_approved_md5 d \<noteq> Some m then (a1, 409, B_Error (Md5_Mismatch (d_state d)))
                 else run a1))"

definition job_response :: "job_error + job_status_response \<Rightarrow> response" where
  "job_response r =
     (case r of Inl (Job_Not_Found u) \<Rightarrow> (404, B_Error (No_Such_Job u)) | Inr resp \<Rightarrow> (200, B_Job resp))"

definition get_job_status :: "string \<Rightarrow> ('t, 'u) agent \<Rightarrow> ('t, 'u) agent \<times> response" where
  "get_job_status u a = (let (s, r) = get_status u (pm_of a) in (put_pm s a, job_response r))"

definition kill_job ::
  "('t, 'u) surroundings \<Rightarrow> string \<Rightarrow> ('t, 'u) agent \<Rightarrow> ('t, 'u) agent \<times> response" where
  "kill_job x u a = (let (s, r) = kill (x_state_codec x) u (pm_of a) in (put_pm s a, job_response r))"

text \<open>The stream starts with the log file's name and the number of lines to replay.\<close>

definition stream_job_logs :: "string \<Rightarrow> int option \<Rightarrow> ('t, 'u) agent \<Rightarrow> response" where
  "stream_job_logs u tail a =
     (let n = (case tail of Some t \<Rightarrow> t | None \<Rightarrow> log_tail_lines (agent_sec (ag_config a)));
          fs = disk_files (snd (ag_approvals a))
      in case get_log_path u (pm_of a) of
           Inl _ \<Rightarrow> if exists_file fs Logs_Dir (log_name u) then (200, B_Stream (log_name u) n)
                   else (404, B_Error (No_Such_Job u))
         | Inr f \<Rightarrow> if exists_file fs Logs_Dir f then (200, B_Stream f n) else (404, B_Error (No_Such_Log u)))"

definition route ::
  "('t, 'u) surroundings \<Rightarrow> endpoint \<Rightarrow> ('t, 'u) agent \<Rightarrow> ('t, 'u) agent \<times> response" where
  "route x e a =
     (case e of
        Healthz \<Rightarrow> healthz x a
      | Get_Script_State n \<Rightarrow>
          (case endpoint_name n of Inl _ \<Rightarrow> (a, 422, B_Error Bad_Name) | Inr n' \<Rightarrow> get_script_state x n' a)
      | Post_Stage n b \<Rightarrow>
          (case endpoint_name n of Inl _ \<Rightarrow> (a, 422, B_Error Bad_Name) | Inr n' \<Rightarrow> stage_script x n' b a)
      | Post_Job q \<Rightarrow> submit_job x q a
      | Get_Job u \<Rightarrow> get_job_status u a
      | Delete_Job u \<Rightarrow> kill_job x u a
      | Stream_Job u t \<Rightarrow> (a, stream_job_logs u t a))"

text \<open>\<open>_ActivityMiddleware\<close>, inside \<open>_AuthMiddleware\<close>.\<close>

definition active :: "('t, 'u) agent \<Rightarrow> ('t, 'u) agent" where
  "active a = a\<lparr>ag_tracker := record_activity (ag_monotonic a) (ag_tracker a)\<rparr>"

definition serve ::
  "('t, 'u) surroundings \<Rightarrow> http_request \<Rightarrow> ('t, 'u) agent \<Rightarrow> ('t, 'u) agent \<times> response" where
  "serve x q a =
     (case auth_check (api_token (identity (ag_config a))) (authorization q) of
        Some resp \<Rightarrow> (a, resp)
      | None \<Rightarrow> route x (target q) (active a))"

end
