(* ===== verification/Agent_Main_Props.thy ===== *)
theory Agent_Main_Props
  imports Agent_Main
begin

text \<open>
  Correctness of the agent as a whole: authentication, what its requests can change, and what the
  control station can make it run.
\<close>

section \<open>Views of the agent\<close>

lemma put_pm_simps [simp]:
  "ag_jobs (put_pm s a) = fst s" "ag_procs (put_pm s a) = procs (snd s)"
  "ag_config (put_pm s a) = ag_config a" "ag_tracker (put_pm s a) = ag_tracker a"
  "ag_approvals (put_pm s a) = with_files (host_files (snd s)) (ag_approvals a)"
  by (simp_all add: put_pm_def)

lemma pm_of_simps [simp]:
  "fst (pm_of a) = ag_jobs a" "procs (snd (pm_of a)) = ag_procs a"
  "host_files (snd (pm_of a)) = disk_files (snd (ag_approvals a))"
  "host_now (snd (pm_of a)) = clock (snd (ag_approvals a))"
  "running_json (snd (pm_of a)) = ag_running_json a"
  by (simp_all add: pm_of_def)

lemma with_files_simps [simp]:
  "fst (with_files fs p) = fst p" "disk_files (snd (with_files fs p)) = fs"
  "clock (snd (with_files fs p)) = clock (snd p)"
  "load_store cd (snd (with_files fs p)) = load_store cd (snd p)"
  by (simp_all add: with_files_def load_store_def)

lemma with_files_same [simp]: "with_files (disk_files (snd p)) p = p"
  by (simp add: with_files_def)

lemma with_files_inv [simp]: "sys_inv cd auto (with_files fs p) = sys_inv cd auto p"
  by (simp add: sys_inv_def)

lemma with_files_grants [simp]: "grants cd (with_files fs p) = grants cd p"
  by (simp add: grants_def)

lemma get_state_granted:
  assumes "d_state (snd (get_state cd n p)) = Approved" "d_approved_md5 (snd (get_state cd n p)) = Some m"
  shows "(n, m) \<in> grants cd p"
proof -
  have "mem_store (fst (sync_from_disk cd p)) \<in> {mem_store (fst p), load_store cd (snd p)}"
    by (simp add: sync_mem_store)
  with assms show ?thesis
    by (auto simp: get_state_def Let_def absent_descriptor_def descriptor_def grants_def approvals_of_def
        split: option.splits)
qed

section \<open>What a process manager operation does to the files\<close>

lemma kill_files: "host_files (snd (fst (kill sc u s))) = host_files (snd s)"
  by (auto simp: kill_def Let_def case_prod_beta save_state_def save_running_state_def split: option.splits)

lemma get_status_files: "host_files (snd (fst (get_status u s))) = host_files (snd s)"
  by (auto simp: get_status_def Let_def case_prod_beta split: option.splits)

lemma poll_jobs_files: "host_files (snd (poll_jobs s)) = host_files (snd s)"
  by (simp add: poll_jobs_def case_prod_beta)

lemma start_files:
  "host_files (snd (fst (snd (start sc env get spawn name params u p s)))) (Scripts_Dir, f) = host_files (snd s) (Scripts_Dir, f)"
  by (auto simp: start_def Let_def case_prod_beta save_state_def save_running_state_def write_file_def
      split: option.splits sum.splits)

lemma start_approvals: "fst (start sc env get spawn name params u p s) = fst (get name p)"
  by (auto simp: start_def Let_def case_prod_beta split: option.splits sum.splits)

lemma run_script_approvals: "fst (run_script env get exec name params fs p) = fst (get name p)"
  by (auto simp: run_script_def Let_def case_prod_beta)

section \<open>The agent as a transition system\<close>

text \<open>
  What moves the agent: requests of any client, restarts, and the world, which replaces the process
  table and the job logs and advances the clocks.
\<close>

datatype agent_act =
    Request http_request
  | Restart
  | Outside "int \<Rightarrow> pstate option" "string \<Rightarrow> string option" int int

definition set_logs :: "(string \<Rightarrow> string option) \<Rightarrow> files \<Rightarrow> files" where
  "set_logs logs fs = (\<lambda>(d, f). if d = Logs_Dir then logs f else fs (d, f))"

fun agent_step :: "('t, 'u) surroundings \<Rightarrow> agent_act \<Rightarrow> ('t, 'u) agent \<Rightarrow> ('t, 'u) agent" where
  "agent_step x (Request q) a = fst (serve x q a)"
| "agent_step x Restart a =
     lifespan x (ag_config a) (snd (ag_approvals a)) (ag_procs a) (ag_running_json a) (ag_monotonic a)"
| "agent_step x (Outside ps logs now ticks) a =
     a\<lparr>ag_procs := ps, ag_monotonic := ticks,
       ag_approvals := act_step (x_codec x) [] (Clock_Tick now)
         (with_files (set_logs logs (disk_files (snd (ag_approvals a)))) (ag_approvals a))\<rparr>"

definition agent_inv :: "('t, 'u) surroundings \<Rightarrow> ('t, 'u) agent \<Rightarrow> bool" where
  "agent_inv x a \<longleftrightarrow>
     codec_ok (x_codec x) \<and> sys_inv (x_codec x) (auto_approve_list (ag_config a)) (ag_approvals a)
     \<and> jobs_wf (ag_jobs a)"

text \<open>The files under \<open>scripts\<close> that requests cannot touch, and the approvals in force.\<close>

definition agent_view :: "('t, 'u) agent \<Rightarrow> agent_config \<times> (string \<Rightarrow> string option)" where
  "agent_view a = (ag_config a, protected_scripts (auto_approve_list (ag_config a)) (ag_approvals a))"

text \<open>How a request can change the approvals: by one manager call, and by files outside \<open>scripts\<close>.\<close>

definition approvals_step :: "'t codec \<Rightarrow> string list \<Rightarrow> 't mgr \<Rightarrow> 't mgr \<Rightarrow> bool" where
  "approvals_step cd auto p p' \<longleftrightarrow>
     (\<exists>as fs. list_all net_act as \<and> p' = with_files fs (run (act_step cd auto) as p)
        \<and> (\<forall>f. fs (Scripts_Dir, f) = disk_files (snd (run (act_step cd auto) as p)) (Scripts_Dir, f)))"

lemma approvals_step_refl: "approvals_step cd auto p p"
  unfolding approvals_step_def by (intro exI [of _ "[]"] exI [of _ "disk_files (snd p)"]) simp

lemma approvals_step_files:
  "(\<And>f. fs (Scripts_Dir, f) = disk_files (snd p) (Scripts_Dir, f)) \<Longrightarrow> approvals_step cd auto p (with_files fs p)"
  unfolding approvals_step_def by (intro exI [of _ "[]"] exI [of _ fs]) simp

lemma approvals_step_get:
  "(\<And>f. fs (Scripts_Dir, f) = disk_files (snd p) (Scripts_Dir, f)) \<Longrightarrow>
   approvals_step cd auto p (with_files fs (fst (get_state cd n p)))"
  unfolding approvals_step_def by (intro exI [of _ "[Net_Get n]"] exI [of _ fs]) simp

lemma approvals_step_inv:
  assumes "codec_ok cd" "sys_inv cd auto p" "approvals_step cd auto p p'"
  shows "sys_inv cd auto p' \<and> grants cd p' \<subseteq> grants cd p \<union> auto_grants auto
     \<and> protected_scripts auto p' = protected_scripts auto p"
proof -
  from assms(3) obtain as fs where as: "list_all net_act as" "p' = with_files fs (run (act_step cd auto) as p)"
    "\<forall>f. fs (Scripts_Dir, f) = disk_files (snd (run (act_step cd auto) as p)) (Scripts_Dir, f)"
    by (auto simp: approvals_step_def)
  have "protected_scripts auto p' = protected_scripts auto (run (act_step cd auto) as p)"
    using as(2,3) by (auto simp: protected_scripts_def fun_eq_iff)
  then show ?thesis
    using as assms(1,2) agent.run_inv [of cd auto p as] control_station.run_grants [of cd auto p as]
      scripts_dir.run_view [of cd auto p as] by simp
qed

lemma active_simps [simp]:
  "ag_approvals (active a) = ag_approvals a" "ag_config (active a) = ag_config a" "ag_jobs (active a) = ag_jobs a"
  "pm_of (active a) = pm_of a"
  by (simp_all add: active_def pm_of_def)

lemma approvals_step_sync:
  "approvals_step cd auto p (sync_from_disk cd p)"
  using approvals_step_get [of "disk_files (snd p)" p cd auto "[]"]
  by (metis get_state_fst sync_simps(1) with_files_same)

lemma submit_job_step:
  "ag_config (fst (submit_job x q a)) = ag_config a
   \<and> (jobs_wf (ag_jobs a) \<longrightarrow> jobs_wf (ag_jobs (fst (submit_job x q a))))
   \<and> approvals_step (x_codec x) auto (ag_approvals a) (ag_approvals (fst (submit_job x q a)))"
proof -
  have pers: "ag_config (fst (submit_persistent x q b)) = ag_config b
      \<and> (jobs_wf (ag_jobs b) \<longrightarrow> jobs_wf (ag_jobs (fst (submit_persistent x q b))))
      \<and> (\<exists>fs. ag_approvals (fst (submit_persistent x q b))
            = with_files fs (sync_from_disk (x_codec x) (ag_approvals b))
          \<and> (\<forall>f. fs (Scripts_Dir, f) = disk_files (snd (ag_approvals b)) (Scripts_Dir, f)))" for b
  proof -
    let ?r = "start (x_state_codec x) (x_env x) (get_state (x_codec x)) (x_spawn x)
        (q_script_name q) (q_params q) (q_job_uuid q) (ag_approvals b) (pm_of b)"
    have "fst (submit_persistent x q b) = put_pm (fst (snd ?r)) (b\<lparr>ag_approvals := fst ?r\<rparr>)"
      by (auto simp: submit_persistent_def Let_def case_prod_beta split: sum.splits start_error.splits)
    moreover have "jobs_wf (ag_jobs b) \<Longrightarrow> jobs_wf (fst (fst (snd ?r)))"
      using start_jobs [of "x_state_codec x" "x_env x" "get_state (x_codec x)" "x_spawn x" "q_script_name q"
          "q_params q" "q_job_uuid q" "ag_approvals b" "pm_of b"]
      by (elim disjE exE; simp add: jobs_wf_update [OF _ new_job_wf])
    ultimately show ?thesis by (auto simp: start_approvals start_files)
  qed
  have fore: "ag_config (fst (submit_foreground x q b)) = ag_config b \<and> ag_jobs (fst (submit_foreground x q b)) = ag_jobs b
      \<and> (\<exists>fs. ag_approvals (fst (submit_foreground x q b))
            = with_files fs (sync_from_disk (x_codec x) (ag_approvals b))
          \<and> (\<forall>f. fs (Scripts_Dir, f) = disk_files (snd (ag_approvals b)) (Scripts_Dir, f)))" for b
  proof -
    let ?r = "run_script (x_env x) (get_state (x_codec x)) (x_exec x) (q_script_name q) (q_params q)
             (disk_files (snd (ag_approvals b))) (ag_approvals b)"
    obtain p r where r: "?r = (p, r)" by fastforce
    then have p: "p = sync_from_disk (x_codec x) (ag_approvals b)"
      using run_script_approvals [of "x_env x" "get_state (x_codec x)" "x_exec x" "q_script_name q" "q_params q"
             "disk_files (snd (ag_approvals b))" "ag_approvals b"] by simp
    show ?thesis
    proof (cases r)
      case (Inl e)
      then show ?thesis
        by (intro conjI exI [of _ "disk_files (snd (ag_approvals b))"])
          (simp_all add: submit_foreground_def r p, metis sync_simps(1) with_files_same)
    next
      case (Inr res)
      then show ?thesis
        by (intro conjI exI [of _ "write_file Logs_Dir (log_name (q_job_uuid q)) (run_log res) (disk_files (snd p))"])
          (simp_all add: submit_foreground_def r p write_file_def)
    qed
  qed
  have step: "approvals_step (x_codec x) auto p (with_files fs (sync_from_disk (x_codec x) q'))"
    if "q' = p \<or> q' = sync_from_disk (x_codec x) p" "\<forall>f. fs (Scripts_Dir, f) = disk_files (snd p) (Scripts_Dir, f)" for p q' fs
    using that approvals_step_get [of fs p "x_codec x" auto "[]"] by auto
  show ?thesis
  proof (cases "q_expected_md5 q")
    case None
    then show ?thesis
      using pers [of a] fore [of a] step [of "ag_approvals a" "ag_approvals a"]
      by (auto simp: submit_job_def Let_def)
  next
    case (Some m)
    let ?a = "a\<lparr>ag_approvals := sync_from_disk (x_codec x) (ag_approvals a)\<rparr>"
    show ?thesis
    proof (cases "d_approved_md5 (snd (get_state (x_codec x) (q_script_name q) (ag_approvals a))) = Some m")
      case True
      have "submit_job x q a = (if q_persistent q then submit_persistent x q ?a else submit_foreground x q ?a)"
        using True Some by (simp add: submit_job_def Let_def case_prod_beta)
      then show ?thesis
        using pers [of ?a] fore [of ?a] step [of "ag_approvals ?a" "ag_approvals a"] by auto
    next
      case False
      then have "fst (submit_job x q a) = ?a" using Some by (simp add: submit_job_def Let_def case_prod_beta)
      then show ?thesis using approvals_step_sync by simp
    qed
  qed
qed

lemma approvals_step_stage:
  "approvals_step cd auto p (fst (stage cd n c md5 meta p))"
  unfolding approvals_step_def
  by (intro exI [of _ "[Net_Stage n c md5 meta]"] exI [of _ "disk_files (snd (fst (stage cd n c md5 meta p)))"]) simp

lemma stage_script_fst:
  "fst (stage_script x n b a) =
     a\<lparr>ag_approvals := fst (stage (x_codec x) n (g_content b) (g_md5 b) (g_meta_yaml b) (ag_approvals a))\<rparr>"
  by (auto simp: stage_script_def split: prod.splits sum.splits)

lemma serve_step:
  "ag_config (fst (serve x q a)) = ag_config a
   \<and> (jobs_wf (ag_jobs a) \<longrightarrow> jobs_wf (ag_jobs (fst (serve x q a))))
   \<and> approvals_step (x_codec x) auto (ag_approvals a) (ag_approvals (fst (serve x q a)))"
proof (cases "auth_check (api_token (identity (ag_config a))) (authorization q)")
  case None
  have "jobs_wf (ag_jobs a) \<Longrightarrow> jobs_wf (fst (poll_jobs (pm_of a)))" by (simp add: poll_jobs_wf)
  moreover have "jobs_wf (ag_jobs a) \<Longrightarrow> jobs_wf (fst (fst (kill sc u (pm_of a))))" for sc u
    using pm_step_wf [of "pm_of a" sc "Act_Kill u"] by simp
  moreover have "jobs_wf (ag_jobs a) \<Longrightarrow> jobs_wf (fst (fst (get_status u (pm_of a))))" for u
    using pm_step_wf [of "pm_of a" undefined "Act_Status u"] by simp
  ultimately show ?thesis
    using None submit_job_step [of x _ "active a" auto]
    by (cases "target q")
      (auto simp: serve_def route_def healthz_def get_script_state_def stage_script_fst get_job_status_def
        kill_job_def Let_def case_prod_beta running_count_pm poll_jobs_files kill_files get_status_files
        approvals_step_refl approvals_step_sync approvals_step_stage
        split: sum.splits)
qed (simp add: serve_def approvals_step_refl)

lemma agent_step_inv:
  assumes "agent_inv x a"
  shows "agent_inv x (agent_step x act a) \<and> agent_view (agent_step x act a) = agent_view a
    \<and> grants (x_codec x) (ag_approvals (agent_step x act a))
        \<subseteq> grants (x_codec x) (ag_approvals a) \<union> auto_grants (auto_approve_list (ag_config a))"
proof -
  let ?auto = "auto_approve_list (ag_config a)"
  let ?a = "agent_step x act a"
  have inv: "codec_ok (x_codec x)" "sys_inv (x_codec x) ?auto (ag_approvals a)" "jobs_wf (ag_jobs a)"
    using assms by (simp_all add: agent_inv_def)
  have "ag_config ?a = ag_config a \<and> jobs_wf (ag_jobs ?a)
     \<and> approvals_step (x_codec x) ?auto (ag_approvals a) (ag_approvals ?a)"
  proof (cases act)
    case (Request q)
    with serve_step [of x q a ?auto] inv show ?thesis by simp
  next
    case Restart
    let ?b = "\<lparr>ag_config = ag_config a, ag_approvals = new_manager (x_codec x) ?auto (snd (ag_approvals a)),
               ag_jobs = [], ag_procs = ag_procs a, ag_running_json = ag_running_json a,
               ag_tracker = new_tracker (idle_timeout_seconds (agent_sec (ag_config a))) (ag_monotonic a),
               ag_monotonic = ag_monotonic a\<rparr> :: ('a, 'b) agent"
    have jobs: "jobs_wf (fst (restore_state sc ([], h)))" for sc :: "'b state_codec" and h
    proof -
      have "jobs_wf (fold (\<lambda>(u, b) js. if P (b_pid b) then AList.update u (reattach u b) js else js) es js)"
        if "jobs_wf js" for es js P
        using that
      proof (induction es arbitrary: js)
        case (Cons e es)
        have "job_wf (fst e) (reattach (fst e) (snd e))" by (simp add: job_wf_def reattach_def)
        with Cons show ?case by (cases e) (simp add: jobs_wf_update)
      qed simp
      then show ?thesis by (simp add: restore_state_def Let_def)
    qed
    have "ag_approvals (agent_step x act a) = new_manager (x_codec x) ?auto (snd (ag_approvals a))"
      using Restart by (simp add: lifespan_def Let_def restore_state_def with_files_def new_manager_def)
    moreover have "approvals_step (x_codec x) ?auto (ag_approvals a) (new_manager (x_codec x) ?auto (snd (ag_approvals a)))"
      unfolding approvals_step_def
      by (intro exI [of _ "[Agent_Restart]"] exI [of _ "disk_files (snd (ag_approvals a))"])
        (simp add: with_files_def new_manager_def)
    moreover have "jobs_wf (ag_jobs ?a)" "ag_config ?a = ag_config a"
      using Restart jobs by (simp_all add: lifespan_def Let_def pm_of_def)
    ultimately show ?thesis by simp
  next
    case (Outside ps logs now ticks)
    let ?fs = "set_logs logs (disk_files (snd (ag_approvals a)))"
    have "run (act_step (x_codec x) ?auto) [Clock_Tick now] (ag_approvals a)
        = act_step (x_codec x) [] (Clock_Tick now) (ag_approvals a)" by simp
    moreover have "ag_approvals ?a = with_files ?fs (act_step (x_codec x) [] (Clock_Tick now) (ag_approvals a))"
      using Outside by (simp add: with_files_def)
    ultimately have "approvals_step (x_codec x) ?auto (ag_approvals a) (ag_approvals ?a)"
      unfolding approvals_step_def
      by (intro exI [of _ "[Clock_Tick now]"] exI [of _ ?fs]) (simp add: set_logs_def)
    with Outside inv show ?thesis by simp
  qed
  with approvals_step_inv [OF inv(1,2)] inv(1) show ?thesis
    by (auto simp: agent_inv_def agent_view_def)
qed

interpretation http: grant_system "agent_step x"
    "\<lambda>a. agent_inv x a \<and> auto_approve_list (ag_config a) = auto" "\<lambda>_. True"
    "\<lambda>a. grants (x_codec x) (ag_approvals a)" "auto_grants auto" for x auto
proof (unfold_locales, goal_cases)
  case (1 s a)
  with agent_step_inv [of x s a] show ?case by (auto simp: agent_view_def)
next
  case (2 s a)
  with agent_step_inv [of x s a] show ?case by auto
qed

interpretation agent_files: frame_system "agent_step x" "agent_inv x" "\<lambda>_. True" agent_view for x
  by unfold_locales (simp_all add: agent_step_inv)

section \<open>Properties\<close>

text \<open>
  With a token configured, a request without exactly this bearer token is refused by 401 (or 500 when
  one of the two is not ASCII) and changes nothing: no approval, no job, no file, and not the idle
  clock, so it cannot keep the agent awake.
\<close>

theorem unauthenticated_request_refused:
  assumes "api_token (identity (ag_config a)) = Some tok" "tok \<noteq> []"
    and "authorization q \<noteq> Some (''Bearer '' @ tok)"
  shows "fst (serve x q a) = a \<and> fst (snd (serve x q a)) \<in> {401, 500}
    \<and> (is_ascii tok \<and> list_all is_ascii (case authorization q of None \<Rightarrow> [] | Some h \<Rightarrow> [h])
        \<longrightarrow> snd (serve x q a) = (401, B_Error Unauthorized))"
proof -
  have "(if startswith h ''Bearer '' then drop 7 h else []) \<noteq> tok" if "authorization q = Some h" for h
    using assms(2,3) that by (auto simp: startswith_def prefix_def)
  moreover have "is_ascii h \<Longrightarrow> is_ascii (drop 7 h)" for h
    by (auto simp: is_ascii_def list_all_iff dest: in_set_dropD)
  moreover have "is_ascii []" by (simp add: is_ascii_def)
  ultimately show ?thesis
    using assms(1,2)
    by (cases "authorization q") (auto simp: serve_def auth_check_def Let_def startswith_def)
qed

definition example_config :: "string option \<Rightarrow> agent_config" where
  "example_config token =
     \<lparr>agent_sec = \<lparr>listen_port = 47731, idle_timeout_seconds = 600, csl_dir = ''/home/u/.csl'',
        scripts_dir = ''/home/u/.csl/scripts'', pending_dir = ''/home/u/.csl/scripts.pending'',
        logs_dir = ''/home/u/.csl/logs'', state_path = ''/home/u/.csl/agent/running.json'',
        approvals_path = ''/home/u/.csl/agent/approvals.json'',
        lifecycle_check_interval_seconds = 10, log_tail_lines = 1000\<rparr>,
      identity = \<lparr>key_fingerprint = None, hostname_hint = None, api_token = token\<rparr>,
      auto_approve_list = [], windows_admin_authorized_keys_path = []\<rparr>"

definition example_surroundings :: "(store, (string, job_entry) dict) surroundings" where
  "example_surroundings =
     \<lparr>x_codec = plain_codec, x_state_codec = plain_state_codec, x_env = example_env, x_version = ''1'',
      x_spawn = (\<lambda>cmd e. Some (7, P_Running None)), x_exec = (\<lambda>cmd e. Exited 0 (last cmd) [])\<rparr>"

definition example_agent :: "string option \<Rightarrow> (store, (string, job_entry) dict) agent" where
  "example_agent token = lifespan example_surroundings (example_config token) empty_disk Map.empty None 0"

theorem unauthenticated_request_refused_witness:
  "snd (serve example_surroundings \<lparr>authorization = Some ''Bearer guess'', target = Delete_Job ''j1''\<rparr>
      (example_agent (Some ''secret''))) = (401, B_Error Unauthorized)"
proof -
  have "api_token (identity (ag_config (example_agent (Some ''secret'')))) = Some ''secret''"
    by (simp add: example_agent_def lifespan_def Let_def example_config_def)
  from unauthenticated_request_refused [OF this, of "\<lparr>authorization = Some ''Bearer guess'', target = Delete_Job ''j1''\<rparr>"
      example_surroundings]
  show ?thesis by (simp add: is_ascii_def ccode_def)
qed

text \<open>What a job submission that answers 202 relied on.\<close>

lemma submit_job_accepted:
  assumes "agent_inv x a" "snd (submit_job x q a) = (202, B_Job r)"
  shows "\<exists>f c. find_script (is_windows (x_env x)) (q_script_name q) (disk_files (snd (ag_approvals a))) = Inr f
    \<and> disk_files (snd (ag_approvals a)) (Scripts_Dir, f) = Some c
    \<and> (q_script_name q, md5_hex (x_env x) c) \<in> grants (x_codec x) (ag_approvals a)
    \<and> (\<forall>m. q_expected_md5 q = Some m \<longrightarrow> m = md5_hex (x_env x) c)
    \<and> validate_params (x_env x) (q_script_name q) (q_params q) (disk_files (snd (ag_approvals a))) = Inr ()
    \<and> s_job_uuid r = q_job_uuid q \<and> s_script_name r = q_script_name q"
proof -
  let ?name = "q_script_name q" and ?cd = "x_codec x" and ?p = "ag_approvals a"
  let ?fs = "disk_files (snd ?p)"
  have wf: "store_wf (mem_store (fst ?p))" "store_wf (load_store ?cd (snd ?p))"
    using assms(1) by (simp_all add: agent_inv_def sys_inv_def)
  have same: "snd (get_state ?cd ?name (sync_from_disk ?cd ?p)) = snd (get_state ?cd ?name ?p)"
    by (simp add: get_state_def Let_def)
  define b where "b = (if q_expected_md5 q = None then a else a\<lparr>ag_approvals := sync_from_disk ?cd ?p\<rparr>)"
  have run: "snd (if q_persistent q then submit_persistent x q b else submit_foreground x q b) = (202, B_Job r)"
    "\<forall>m. q_expected_md5 q = Some m \<longrightarrow> d_approved_md5 (snd (get_state ?cd ?name ?p)) = Some m"
    using assms(2) by (auto simp: submit_job_def b_def Let_def case_prod_beta split: option.splits if_splits)
  have b: "snd (ag_approvals b) = snd ?p" "snd (get_state ?cd ?name (ag_approvals b)) = snd (get_state ?cd ?name ?p)"
    "store_wf (mem_store (fst (ag_approvals b)))" "store_wf (load_store ?cd (snd (ag_approvals b)))"
    using same wf by (auto simp: b_def sync_mem_store)
  have gate: "d_state (snd (get_state ?cd ?name ?p)) = Approved
    \<and> (\<exists>ce. prepare (x_env x) ?name (q_params q) (d_approved_md5 (snd (get_state ?cd ?name ?p))) ?fs = Inr ce)
    \<and> s_job_uuid r = q_job_uuid q \<and> s_script_name r = q_script_name q"
  proof (cases "q_persistent q")
    case True
    with run(1) b(1,2) show ?thesis
      by (auto simp: submit_persistent_def start_def to_response_def Let_def case_prod_beta
          split: if_splits sum.splits option.splits start_error.splits elim!: run_error_response.elims)
  next
    case False
    with run(1) b(1,2) show ?thesis
      by (auto simp: submit_foreground_def run_script_def foreground_response_def bindR_eq_Inr case_prod_beta
          split: prod.splits if_splits sum.splits elim!: run_error_response.elims)
  qed
  then obtain command e where
    prep: "prepare (x_env x) ?name (q_params q) (d_approved_md5 (snd (get_state ?cd ?name ?p))) ?fs = Inr (command, e)"
    by auto
  from manager.prepared_content [OF _ _ this] wf gate obtain f c where
    "find_script (is_windows (x_env x)) ?name ?fs = Inr f" "?fs (Scripts_Dir, f) = Some c"
    "d_approved_md5 (snd (get_state ?cd ?name ?p)) = Some (md5_hex (x_env x) c)"
    "validate_params (x_env x) ?name (q_params q) ?fs = Inr ()"
    by blast
  with gate run(2) get_state_granted [of ?cd ?name ?p] show ?thesis by auto
qed



text \<open>
  C25. An idle shutdown never interrupts work: whatever the requests do to jobs and clock during its
  sleeps, the loop triggers only when no job with a live process is tracked and the idle clock has
  run longer than the timeout.
\<close>

theorem idle_shutdown_safe:
  assumes "\<forall>(now, m) \<in> set checks. \<forall>st. jobs_wf (fst (snd st)) \<longrightarrow> jobs_wf (fst (snd (m st)))"
    and "jobs_wf (fst s)" "run_loop running_count checks (t, s) = ((t', s'), True)"
  shows "live_jobs s' = {} \<and> (\<exists>(now, m) \<in> set checks. Lifecycle.idle_seconds now t' > of_int (t_timeout t'))"
  using manager_jobs.run_loop_safe [OF assms(1) _ assms(3)] assms(2) by simp

theorem idle_shutdown_safe_witness:
  "\<exists>t' s'. run_loop running_count [(5000000000, \<lambda>st. st), (700000000000, \<lambda>st. st)]
       (new_tracker 600 0, ([], example_host)) = ((t', s'), True) \<and> live_jobs s' = {}"
proof -
  let ?checks = "[(5000000000, \<lambda>st. st), (700000000000, \<lambda>st. st)] :: ((string, job_entry) dict pm) check list"
  have "snd (run_loop running_count ?checks (new_tracker 600 0, ([], example_host)))"
    by (simp add: new_tracker_def running_count_def poll_jobs_def Let_def shutdown_due_def Lifecycle.idle_seconds_def)
  moreover obtain t' s' ended where
    "run_loop running_count ?checks (new_tracker 600 0, ([], example_host)) = ((t', s'), ended)"
    by (cases "run_loop running_count ?checks (new_tracker 600 0, ([], example_host))") (auto simp: prod_eq_iff)
  ultimately have r: "run_loop running_count ?checks (new_tracker 600 0, ([], example_host)) = ((t', s'), True)"
    by simp
  from idle_shutdown_safe [OF _ _ r] r show ?thesis by auto
qed

text \<open>
  C26. The agent does go away: when no tracked job has a live process, nothing happened during the sleep
  and the idle clock has passed the timeout, the next check triggers the shutdown; and the check
  triggers in no other case.
\<close>

theorem idle_shutdown_exact:
  assumes "jobs_wf (fst s)"
  shows "snd (run_loop running_count [(now, \<lambda>st. st)] (t, s)) \<longleftrightarrow>
     live_jobs s = {} \<and> Lifecycle.idle_seconds now t > of_int (t_timeout t)"
  using manager_jobs.shutdown_due_iff [of s now t] assms by (simp add: case_prod_beta)

theorem idle_shutdown_exact_witness:
  "\<not> snd (run_loop running_count [(700000000000, \<lambda>st. st)]
      (new_tracker 600 0, ([(''j1'', new_job ''j1'' ''a.sh'' 7 1)], example_host\<lparr>procs := [7 \<mapsto> P_Running None]\<rparr>)))"
  using idle_shutdown_exact [of "([(''j1'', new_job ''j1'' ''a.sh'' 7 1)], example_host\<lparr>procs := [7 \<mapsto> P_Running None]\<rparr>)"
      700000000000 "new_tracker 600 0"] example_job_running
  by (auto simp: live_jobs_def new_job_def pid_alive_def)

end
