(* ===== verification/Server_Db.thy ===== *)
theory Server_Db
  imports Models
begin

text \<open>
  \<open>server/db/models.py\<close>, \<open>server/db/session.py\<close> and \<open>server/core/audit.py\<close>: the control station's tables,
  the session every endpoint works in, and the audit helper.

  A table is the list of its rows.  A primary key is the successor of the largest one in use, as
  SQLite chooses it.  A session holds the database as committed and as seen by the transaction;
  \<open>commit\<close> publishes the latter, and leaving \<open>get_session\<close> without a commit rolls back (\<open>finish\<close>).
  A time is an integer.
\<close>

section \<open>Rows\<close>

record user_row =
  u_id :: int
  u_username :: string
  u_password_hash :: string
  u_role :: string
  u_created_at :: int
  u_disabled :: bool

record refresh_row =
  rt_id :: int
  rt_user_id :: int
  rt_token_hash :: string
  rt_issued_at :: int
  rt_expires_at :: int
  rt_revoked :: bool

record machine_row =
  m_id :: int
  m_name :: string
  m_ssh_host :: string
  m_ssh_port :: int
  m_ssh_user :: string
  m_ssh_key_encrypted :: string
  m_key_fingerprint :: string
  m_ssh_host_key :: "string option"
  m_agent_token_encrypted :: "string option"
  m_agent_port :: int
  m_scripts_dir :: string
  m_platform :: string
  m_mac_address :: "string option"
  m_created_at :: int

record user_machine_row =
  um_user_id :: int
  um_machine_id :: int

record script_row =
  sc_id :: int
  sc_name :: string
  sc_content :: string
  sc_meta_yaml :: "string option"
  sc_md5 :: string
  sc_persistent :: bool
  sc_updated_at :: int
  sc_updated_by :: int

record target_state_row =
  ts_machine_id :: int
  ts_script_id :: int
  ts_state :: string
  ts_approved_md5 :: "string option"
  ts_pending_md5 :: "string option"
  ts_last_refreshed_at :: int

record job_row =
  jb_id :: int
  jb_job_uuid :: string
  jb_machine_id :: int
  jb_script_id :: "int option"
  jb_built_in_action :: "string option"
  jb_user_id :: int
  jb_params :: params
  jb_status :: job_status
  jb_persistent :: bool
  jb_started_at :: int
  jb_ended_at :: "int option"
  jb_exit_code :: "int option"

text \<open>The \<open>details\<close> of an audit row are kept as the keys and values given, not as JSON text.\<close>

record audit_row =
  au_id :: int
  au_timestamp :: int
  au_user_id :: "int option"
  au_action :: string
  au_target_type :: string
  au_target_id :: string
  au_result :: string
  au_details :: "(string, string) dict"

record database =
  users :: "user_row list"
  refresh_tokens :: "refresh_row list"
  machines :: "machine_row list"
  user_machines :: "user_machine_row list"
  scripts :: "script_row list"
  target_states :: "target_state_row list"
  job_rows :: "job_row list"
  audit_rows :: "audit_row list"

definition new_id :: "int list \<Rightarrow> int" where
  "new_id ids = 1 + foldr max ids 0"

lemma new_id_greater: "i \<in> set ids \<Longrightarrow> i < new_id ids"
  by (induction ids) (auto simp: new_id_def)

lemma new_id_fresh [simp]: "new_id ids \<notin> set ids"
  using new_id_greater by blast

section \<open>Sessions\<close>

record session =
  committed :: database
  current :: database

definition begin_session :: "database \<Rightarrow> session" where
  "begin_session db = \<lparr>committed = db, current = db\<rparr>"

definition session_commit :: "session \<Rightarrow> session" where
  "session_commit s = s\<lparr>committed := current s\<rparr>"

definition on_db :: "(database \<Rightarrow> database) \<Rightarrow> session \<Rightarrow> session" where
  "on_db f s = s\<lparr>current := f (current s)\<rparr>"

text \<open>Leaving the request: what was not committed is rolled back.\<close>

definition finish :: "session \<Rightarrow> database" where
  "finish s = committed s"

lemma session_simps [simp]:
  "current (session_commit s) = current s" "committed (session_commit s) = current s"
  "current (on_db f s) = f (current s)" "committed (on_db f s) = committed s"
  "current (begin_session db) = db" "committed (begin_session db) = db"
  by (simp_all add: session_commit_def on_db_def begin_session_def)

section \<open>The audit helper\<close>

definition add_audit_row ::
  "int \<Rightarrow> string \<Rightarrow> string \<Rightarrow> string \<Rightarrow> string \<Rightarrow> int option \<Rightarrow> (string, string) dict \<Rightarrow> database \<Rightarrow> database"
where
  "add_audit_row now action ttype tid result uid details db =
     db\<lparr>audit_rows := audit_rows db @
        [\<lparr>au_id = new_id (map au_id (audit_rows db)), au_timestamp = now, au_user_id = uid,
          au_action = action, au_target_type = ttype, au_target_id = tid, au_result = result,
          au_details = details\<rparr>]\<rparr>"

definition record_audit ::
  "int \<Rightarrow> string \<Rightarrow> string \<Rightarrow> string \<Rightarrow> string \<Rightarrow> int option \<Rightarrow> (string, string) dict \<Rightarrow> bool \<Rightarrow> session \<Rightarrow> session"
where
  "record_audit now action ttype tid result uid details commit s =
     (let s' = on_db (add_audit_row now action ttype tid result uid details) s
      in if commit then session_commit s' else s')"

lemma add_audit_row_simps [simp]:
  "users (add_audit_row now a tt ti r u d db) = users db"
  "refresh_tokens (add_audit_row now a tt ti r u d db) = refresh_tokens db"
  "machines (add_audit_row now a tt ti r u d db) = machines db"
  "user_machines (add_audit_row now a tt ti r u d db) = user_machines db"
  "scripts (add_audit_row now a tt ti r u d db) = scripts db"
  "target_states (add_audit_row now a tt ti r u d db) = target_states db"
  "job_rows (add_audit_row now a tt ti r u d db) = job_rows db"
  by (simp_all add: add_audit_row_def)

lemma record_audit_current [simp]:
  "current (record_audit now a tt ti r u d c s) = add_audit_row now a tt ti r u d (current s)"
  by (simp add: record_audit_def Let_def)

lemma record_audit_committed [simp]:
  "committed (record_audit now a tt ti r u d c s) =
     (if c then add_audit_row now a tt ti r u d (current s) else committed s)"
  by (simp add: record_audit_def Let_def)

end
