(* ===== verification/Server_Errors.thy ===== *)
theory Server_Errors
  imports Server_Db
begin

text \<open>
  \<open>server/core/errors.py\<close>: the error codes, the exception that carries one, and the bodies of the two
  handlers.  An exception that no handler knows ends as a plain 500 (\<open>internal_error\<close>).
\<close>

datatype error_code =
    AUTH_INVALID_CREDENTIALS | AUTH_TOKEN_INVALID | AUTH_TOKEN_REVOKED | AUTH_TOKEN_EXPIRED
  | AUTH_FORBIDDEN | APPROVAL_PENDING | APPROVAL_REJECTED | AGENT_UNREACHABLE | VALIDATION_ERROR
  | VERSION_INCOMPATIBLE

fun code_text :: "error_code \<Rightarrow> string" where
  "code_text AUTH_INVALID_CREDENTIALS = ''auth.invalid_credentials''"
| "code_text AUTH_TOKEN_INVALID = ''auth.token_invalid''"
| "code_text AUTH_TOKEN_REVOKED = ''auth.token_revoked''"
| "code_text AUTH_TOKEN_EXPIRED = ''auth.token_expired''"
| "code_text AUTH_FORBIDDEN = ''auth.forbidden''"
| "code_text APPROVAL_PENDING = ''approval.pending''"
| "code_text APPROVAL_REJECTED = ''approval.rejected''"
| "code_text AGENT_UNREACHABLE = ''agent.unreachable''"
| "code_text VALIDATION_ERROR = ''validation.error''"
| "code_text VERSION_INCOMPATIBLE = ''version.incompatible''"

datatype detail =
    Text string
  | Approval_Detail string string string  \<comment> \<open>\<open>approval_error\<close>, \<open>agent_state\<close>, \<open>detail\<close>\<close>

record http_error =
  he_status :: nat
  he_code :: "error_code option"
  he_detail :: detail
  he_extra :: "(string, string) dict"

definition http_exception :: "nat \<Rightarrow> string \<Rightarrow> http_error" where
  "http_exception st msg = \<lparr>he_status = st, he_code = None, he_detail = Text msg, he_extra = []\<rparr>"

definition csl_exception :: "nat \<Rightarrow> error_code \<Rightarrow> detail \<Rightarrow> http_error" where
  "csl_exception st c d = \<lparr>he_status = st, he_code = Some c, he_detail = d, he_extra = []\<rparr>"

definition internal_error :: http_error where
  "internal_error = http_exception 500 ''Internal Server Error''"

text \<open>The JSON object a client sees: \<open>detail\<close>, then \<open>code\<close>, overridden by the extra keys.\<close>

datatype json_value = J_Text string | J_Object "(string, json_value) dict"

fun detail_json :: "detail \<Rightarrow> json_value" where
  "detail_json (Text s) = J_Text s"
| "detail_json (Approval_Detail e st d) =
     J_Object [(''approval_error'', J_Text e), (''agent_state'', J_Text st), (''detail'', J_Text d)]"

definition error_body :: "http_error \<Rightarrow> (string, json_value) dict" where
  "error_body e =
     fold (\<lambda>(k, v) d. AList.update k (J_Text v) d) (he_extra e)
       ((''detail'', detail_json (he_detail e)) #
        (case he_code e of None \<Rightarrow> [] | Some c \<Rightarrow> [(''code'', J_Text (code_text c))]))"

lemma code_text_inj: "code_text a = code_text b \<Longrightarrow> a = b"
  by (cases a; cases b; simp)

end
