(* ===== verification/Server_Auth.thy ===== *)
theory Server_Auth
  imports Server_Errors
begin

text \<open>
  \<open>server/auth/jwt.py\<close>, \<open>server/auth/dependencies.py\<close> and \<open>server/api/auth.py\<close>: tokens, the user of a
  request, login, refresh with rotation, logout.

  Times are seconds.  \<open>auth_libs\<close> holds what comes from libraries: \<open>jose\<close>'s \<open>jwt.encode\<close> and \<open>jwt.decode\<close>
  under the configured secret (\<open>decode\<close> gives \<open>None\<close> for \<open>JWTError\<close>), \<open>bcrypt\<close>'s check and the SHA-256
  digest.  \<open>auth_libs_ok\<close> states what the code relies on: a token decodes to its own claims until it
  expires.  A token is opaque (its type is a parameter); the \<open>jti\<close> of a new refresh token (\<open>uuid4\<close>) is an argument.
\<close>

section \<open>Tokens\<close>

record claims =
  c_sub :: string
  c_type :: string
  c_exp :: int
  c_role :: "string option"
  c_jti :: "string option"

record 'k auth_libs =
  jwt_encode :: "claims \<Rightarrow> 'k"
  jwt_decode :: "int \<Rightarrow> 'k \<Rightarrow> claims option"
  verify_password :: "string \<Rightarrow> string \<Rightarrow> bool"
  sha256_hex :: "string \<Rightarrow> string"

definition auth_libs_ok :: "'k auth_libs \<Rightarrow> bool" where
  "auth_libs_ok lb \<longleftrightarrow>
     (\<forall>now c. jwt_decode lb now (jwt_encode lb c) = (if now \<le> c_exp c then Some c else None))"

definition ACCESS_TOKEN_EXPIRE_MINUTES :: int where
  "ACCESS_TOKEN_EXPIRE_MINUTES = 30"

definition REFRESH_TOKEN_EXPIRE_DAYS :: int where
  "REFRESH_TOKEN_EXPIRE_DAYS = 14"

definition create_access_token :: "'k auth_libs \<Rightarrow> int \<Rightarrow> int \<Rightarrow> string \<Rightarrow> 'k" where
  "create_access_token lb now user_id role =
     jwt_encode lb \<lparr>c_sub = int_str user_id, c_type = ''access'',
       c_exp = now + ACCESS_TOKEN_EXPIRE_MINUTES * 60, c_role = Some role, c_jti = None\<rparr>"

definition create_refresh_token :: "'k auth_libs \<Rightarrow> int \<Rightarrow> string \<Rightarrow> int \<Rightarrow> 'k" where
  "create_refresh_token lb now jti user_id =
     jwt_encode lb \<lparr>c_sub = int_str user_id, c_type = ''refresh'',
       c_exp = now + REFRESH_TOKEN_EXPIRE_DAYS * 86400, c_role = None, c_jti = Some jti\<rparr>"

text \<open>\<open>JWTError\<close>, which the callers handle, or another exception (a missing or unreadable claim).\<close>

datatype token_error = Jwt_Error | Claim_Error

definition decode_token :: "'k auth_libs \<Rightarrow> int \<Rightarrow> 'k \<Rightarrow> string \<Rightarrow> token_error + claims" where
  "decode_token lb now token expected_type =
     (case jwt_decode lb now token of
        None \<Rightarrow> Inl Jwt_Error
      | Some c \<Rightarrow> if c_type c \<noteq> expected_type then Inl Jwt_Error else Inr c)"

definition decode_access_token :: "'k auth_libs \<Rightarrow> int \<Rightarrow> 'k \<Rightarrow> token_error + (int \<times> string)" where
  "decode_access_token lb now token =
     bindR (decode_token lb now token ''access'') (\<lambda>c.
       case (py_int (c_sub c), c_role c) of (Some i, Some r) \<Rightarrow> Inr (i, r) | _ \<Rightarrow> Inl Claim_Error)"

definition decode_refresh_token :: "'k auth_libs \<Rightarrow> int \<Rightarrow> 'k \<Rightarrow> token_error + (int \<times> string)" where
  "decode_refresh_token lb now token =
     bindR (decode_token lb now token ''refresh'') (\<lambda>c.
       case (py_int (c_sub c), c_jti c) of (Some i, Some j) \<Rightarrow> Inr (i, j) | _ \<Rightarrow> Inl Claim_Error)"

section \<open>The user of a request\<close>

definition find_user :: "int \<Rightarrow> database \<Rightarrow> user_row option" where
  "find_user i db = find (\<lambda>u. u_id u = i) (users db)"

definition credentials_exception :: http_error where
  "credentials_exception = csl_exception 401 AUTH_TOKEN_INVALID (Text ''Could not validate credentials'')"

definition current_user :: "'k auth_libs \<Rightarrow> int \<Rightarrow> 'k \<Rightarrow> database \<Rightarrow> http_error + user_row" where
  "current_user lb now credentials db =
     (case decode_access_token lb now credentials of
        Inl Jwt_Error \<Rightarrow> Inl credentials_exception
      | Inl Claim_Error \<Rightarrow> Inl internal_error
      | Inr (i, role) \<Rightarrow>
          (case find_user i db of
             None \<Rightarrow> Inl credentials_exception
           | Some u \<Rightarrow> if u_disabled u then Inl credentials_exception else Inr u))"

definition require_admin :: "'k auth_libs \<Rightarrow> int \<Rightarrow> 'k \<Rightarrow> database \<Rightarrow> http_error + user_row" where
  "require_admin lb now credentials db =
     bindR (current_user lb now credentials db) (\<lambda>u.
       if u_role u \<noteq> ''admin'' then Inl (csl_exception 403 AUTH_FORBIDDEN (Text ''Admin access required''))
       else Inr u)"

section \<open>Refresh tokens in the database\<close>

text \<open>
  \<open>token_hash\<close> has no unique constraint, so the lookup may find several rows, and
  \<open>scalar_one_or_none\<close> raises then.
\<close>

definition token_rows :: "'k auth_libs \<Rightarrow> string \<Rightarrow> database \<Rightarrow> refresh_row list" where
  "token_rows lb jti db = filter (\<lambda>r. rt_token_hash r = sha256_hex lb jti) (refresh_tokens db)"

definition store_refresh_token :: "'k auth_libs \<Rightarrow> int \<Rightarrow> int \<Rightarrow> string \<Rightarrow> database \<Rightarrow> database" where
  "store_refresh_token lb now user_id jti db =
     db\<lparr>refresh_tokens := refresh_tokens db @
        [\<lparr>rt_id = new_id (map rt_id (refresh_tokens db)), rt_user_id = user_id,
          rt_token_hash = sha256_hex lb jti, rt_issued_at = now,
          rt_expires_at = now + 14 * 86400, rt_revoked = False\<rparr>]\<rparr>"

definition revoke_jti :: "'k auth_libs \<Rightarrow> string \<Rightarrow> database \<Rightarrow> http_error + database" where
  "revoke_jti lb jti db =
     (case token_rows lb jti db of
        [] \<Rightarrow> Inr db
      | [r] \<Rightarrow> Inr (db\<lparr>refresh_tokens := map (\<lambda>x. if rt_token_hash x = sha256_hex lb jti
                                               then x\<lparr>rt_revoked := True\<rparr> else x) (refresh_tokens db)\<rparr>)
      | _ \<Rightarrow> Inl internal_error)"

definition validate_refresh_jti :: "'k auth_libs \<Rightarrow> int \<Rightarrow> string \<Rightarrow> database \<Rightarrow> http_error + unit" where
  "validate_refresh_jti lb now jti db =
     (case token_rows lb jti db of
        [] \<Rightarrow> Inl (csl_exception 401 AUTH_TOKEN_REVOKED (Text ''Token revoked''))
      | [r] \<Rightarrow>
          if rt_revoked r then Inl (csl_exception 401 AUTH_TOKEN_REVOKED (Text ''Token revoked''))
          else if rt_expires_at r < now then Inl (csl_exception 401 AUTH_TOKEN_EXPIRED (Text ''Token expired''))
          else Inr ()
      | _ \<Rightarrow> Inl internal_error)"

section \<open>The endpoints\<close>

record 'k token_pair =
  tp_access :: 'k
  tp_refresh_cookie :: 'k

definition login ::
  "'k auth_libs \<Rightarrow> int \<Rightarrow> string \<Rightarrow> string \<Rightarrow> string \<Rightarrow> session \<Rightarrow> session \<times> (http_error + 'k token_pair)" where
  "login lb now jti username password s =
     (let user = find (\<lambda>u. u_username u = username) (users (current s));
          failure = (record_audit now ''auth.login'' ''user''
             (case user of None \<Rightarrow> [] | Some u \<Rightarrow> int_str (u_id u)) ''failure'' (map_option u_id user)
             [(''username'', username)] True s,
             Inl (csl_exception 401 AUTH_INVALID_CREDENTIALS (Text ''Incorrect username or password'')))
      in case user of
           None \<Rightarrow> failure
         | Some u \<Rightarrow>
             if u_disabled u \<or> \<not> verify_password lb password (u_password_hash u) then failure
             else
               let s1 = on_db (store_refresh_token lb now (u_id u) jti) s;
                   s2 = record_audit now ''auth.login'' ''user'' (int_str (u_id u)) ''success'' (Some (u_id u))
                          [(''username'', u_username u)] False s1
               in (session_commit s2,
                   Inr \<lparr>tp_access = create_access_token lb now (u_id u) (u_role u),
                        tp_refresh_cookie = create_refresh_token lb now jti (u_id u)\<rparr>))"

definition refresh ::
  "'k auth_libs \<Rightarrow> int \<Rightarrow> string \<Rightarrow> 'k option \<Rightarrow> session \<Rightarrow> session \<times> (http_error + 'k token_pair)" where
  "refresh lb now new_jti cookie s =
     (case cookie of
        None \<Rightarrow> (s, Inl (csl_exception 401 AUTH_TOKEN_INVALID (Text ''No refresh token'')))
      | Some token \<Rightarrow>
          (case decode_refresh_token lb now token of
             Inl Jwt_Error \<Rightarrow> (s, Inl (csl_exception 401 AUTH_TOKEN_INVALID (Text ''Invalid refresh token'')))
           | Inl Claim_Error \<Rightarrow> (s, Inl internal_error)
           | Inr (user_id, jti) \<Rightarrow>
               (case validate_refresh_jti lb now jti (current s) of
                  Inl e \<Rightarrow> (s, Inl e)
                | Inr _ \<Rightarrow>
                    (case find_user user_id (current s) of
                       None \<Rightarrow> (s, Inl (csl_exception 401 AUTH_TOKEN_INVALID (Text ''User not found'')))
                     | Some u \<Rightarrow>
                         if u_disabled u
                         then (s, Inl (csl_exception 401 AUTH_TOKEN_INVALID (Text ''User not found'')))
                         else (case revoke_jti lb jti (current s) of
                             Inl e \<Rightarrow> (s, Inl e)
                           | Inr db \<Rightarrow>
                               (session_commit (on_db (\<lambda>_. store_refresh_token lb now (u_id u) new_jti db) s),
                                Inr \<lparr>tp_access = create_access_token lb now (u_id u) (u_role u),
                                     tp_refresh_cookie = create_refresh_token lb now new_jti (u_id u)\<rparr>))))))"

text \<open>The response of a logout clears the cookie in every case.\<close>

definition logout :: "'k auth_libs \<Rightarrow> int \<Rightarrow> 'k option \<Rightarrow> session \<Rightarrow> session \<times> (http_error + unit)" where
  "logout lb now cookie s =
     (let done = (\<lambda>uid s. (record_audit now ''auth.logout'' ''user''
            (case uid of None \<Rightarrow> [] | Some i \<Rightarrow> int_str i) ''success'' uid [] True s, Inr ()))
      in case cookie of
           None \<Rightarrow> done None s
         | Some token \<Rightarrow>
             (case decode_refresh_token lb now token of
                Inl Jwt_Error \<Rightarrow> done None s
              | Inl Claim_Error \<Rightarrow> (s, Inl internal_error)
              | Inr (user_id, jti) \<Rightarrow>
                  (case revoke_jti lb jti (current s) of
                     Inl e \<Rightarrow> (s, Inl e)
                   | Inr db \<Rightarrow> done (Some user_id) (on_db (\<lambda>_. db) s))))"

end
