(* ===== verification/Script_Registry.thy ===== *)
theory Script_Registry
  imports Server_Auth Script_Meta Transition_Systems "HOL-Library.List_Lexorder" "HOL-Library.Char_ord"
begin

text \<open>
  \<open>server/core/script_registry.py\<close>, \<open>server/core/builtin_scripts.py\<close> and \<open>server/api/scripts.py\<close>: the canonical
  script library.  \<open>registry_libs\<close> holds the MD5 function and the libraries behind the metadata
  parser; the time of a call is an argument.
\<close>

section \<open>The registry\<close>

datatype registry_error = Script_Exists string | Script_Missing string | Invalid_Meta meta_error

record registry_libs =
  r_md5 :: "string \<Rightarrow> string"
  r_yaml :: libs

definition validate_meta :: "registry_libs \<Rightarrow> string option \<Rightarrow> registry_error + unit" where
  "validate_meta lb meta =
     (case meta of
        None \<Rightarrow> Inr ()
      | Some y \<Rightarrow> (case parse_meta_yaml (r_yaml lb) y of Inl e \<Rightarrow> Inl (Invalid_Meta e) | Inr _ \<Rightarrow> Inr ()))"

definition is_persistent :: "registry_libs \<Rightarrow> string option \<Rightarrow> bool" where
  "is_persistent lb meta =
     (case meta of
        None \<Rightarrow> False
      | Some y \<Rightarrow> if y = [] then False
                  else (case parse_meta_yaml (r_yaml lb) y of Inl _ \<Rightarrow> False | Inr m \<Rightarrow> m_persistent m))"

definition get_script :: "string \<Rightarrow> database \<Rightarrow> script_row option" where
  "get_script name db = find (\<lambda>r. sc_name r = name) (scripts db)"

definition get_script_or_raise :: "string \<Rightarrow> database \<Rightarrow> registry_error + script_row" where
  "get_script_or_raise name db =
     (case get_script name db of None \<Rightarrow> Inl (Script_Missing name) | Some r \<Rightarrow> Inr r)"

definition list_scripts :: "database \<Rightarrow> script_row list" where
  "list_scripts db = sort_key sc_name (scripts db)"

definition create_script ::
  "registry_libs \<Rightarrow> int \<Rightarrow> string \<Rightarrow> string \<Rightarrow> string option \<Rightarrow> int \<Rightarrow> session \<Rightarrow> session \<times> (registry_error + script_row)"
where
  "create_script lb now name content meta user_id s =
     (if get_script name (current s) \<noteq> None then (s, Inl (Script_Exists name))
      else case validate_meta lb meta of
        Inl e \<Rightarrow> (s, Inl e)
      | Inr _ \<Rightarrow>
          let row = \<lparr>sc_id = new_id (map sc_id (scripts (current s))), sc_name = name, sc_content = content,
                     sc_meta_yaml = meta, sc_md5 = r_md5 lb content, sc_persistent = is_persistent lb meta,
                     sc_updated_at = now, sc_updated_by = user_id\<rparr>
          in (on_db (\<lambda>db. db\<lparr>scripts := scripts db @ [row]\<rparr>) s, Inr row))"

definition update_script ::
  "registry_libs \<Rightarrow> int \<Rightarrow> string \<Rightarrow> string \<Rightarrow> string option \<Rightarrow> int \<Rightarrow> session \<Rightarrow> session \<times> (registry_error + script_row)"
where
  "update_script lb now name content meta user_id s =
     (case get_script_or_raise name (current s) of
        Inl e \<Rightarrow> (s, Inl e)
      | Inr r \<Rightarrow>
          (case validate_meta lb meta of
             Inl e \<Rightarrow> (s, Inl e)
           | Inr _ \<Rightarrow>
               let row = r\<lparr>sc_content := content, sc_meta_yaml := meta, sc_md5 := r_md5 lb content,
                           sc_persistent := is_persistent lb meta, sc_updated_at := now, sc_updated_by := user_id\<rparr>
               in (on_db (\<lambda>db. db\<lparr>scripts := map (\<lambda>x. if sc_id x = sc_id r then row else x) (scripts db)\<rparr>) s, Inr row)))"

definition delete_script :: "string \<Rightarrow> session \<Rightarrow> session \<times> (registry_error + unit)" where
  "delete_script name s =
     (case get_script_or_raise name (current s) of
        Inl e \<Rightarrow> (s, Inl e)
      | Inr r \<Rightarrow>
          (on_db (\<lambda>db. db\<lparr>target_states := filter (\<lambda>t. ts_script_id t \<noteq> sc_id r) (target_states db),
                         scripts := filter (\<lambda>x. sc_id x \<noteq> sc_id r) (scripts db)\<rparr>) s, Inr ()))"

section \<open>Built-in scripts\<close>

record builtin_script =
  bs_name :: string
  bs_content :: string
  bs_meta_yaml :: "string option"

definition SCRIPT_EXTENSIONS :: "string list" where
  "SCRIPT_EXTENSIONS = [''.sh'', ''.ps1'']"

text \<open>The packaged directory: its files and their contents, \<open>None\<close> when it does not exist.\<close>

definition iter_builtin_scripts :: "(string \<times> string) list option \<Rightarrow> builtin_script list" where
  "iter_builtin_scripts dir =
     (case dir of
        None \<Rightarrow> []
      | Some fs \<Rightarrow>
          map (\<lambda>(f, c). \<lparr>bs_name = f, bs_content = c, bs_meta_yaml = map_of fs (path_stem f @ ''.meta.yaml'')\<rparr>)
            (filter (\<lambda>(f, c). path_suffix f \<in> set SCRIPT_EXTENSIONS) (sort_key fst fs)))"

fun seed_loop ::
  "registry_libs \<Rightarrow> int \<Rightarrow> int \<Rightarrow> builtin_script list \<Rightarrow> string list \<Rightarrow> string list \<Rightarrow> session
     \<Rightarrow> session \<times> (registry_error + string list \<times> string list)" where
  "seed_loop lb now uid [] created skipped s = (s, Inr (created, skipped))"
| "seed_loop lb now uid (b # bs) created skipped s =
     (if get_script (bs_name b) (current s) \<noteq> None
      then seed_loop lb now uid bs created (skipped @ [bs_name b]) s
      else case create_script lb now (bs_name b) (bs_content b) (bs_meta_yaml b) uid s of
             (s', Inl e) \<Rightarrow> (s', Inl e)
           | (s', Inr _) \<Rightarrow> seed_loop lb now uid bs (created @ [bs_name b]) skipped s')"

definition seed_builtin_scripts ::
  "registry_libs \<Rightarrow> int \<Rightarrow> int \<Rightarrow> (string \<times> string) list option \<Rightarrow> session
     \<Rightarrow> session \<times> (registry_error + string list \<times> string list)" where
  "seed_builtin_scripts lb now uid dir s = seed_loop lb now uid (iter_builtin_scripts dir) [] [] s"

section \<open>The endpoints of \<open>/api/scripts\<close>\<close>

fun registry_message :: "registry_error \<Rightarrow> string" where
  "registry_message (Script_Exists n) = ''script '' @ n @ '' already exists''"
| "registry_message (Script_Missing n) = ''script '' @ n @ '' not found''"
| "registry_message (Invalid_Meta e) = ''invalid meta YAML''"

definition list_scripts_endpoint ::
  "'k auth_libs \<Rightarrow> int \<Rightarrow> 'k \<Rightarrow> session \<Rightarrow> http_error + script_row list" where
  "list_scripts_endpoint al now tok s =
     bindR (current_user al now tok (current s)) (\<lambda>_. Inr (list_scripts (current s)))"

definition get_script_endpoint ::
  "'k auth_libs \<Rightarrow> int \<Rightarrow> 'k \<Rightarrow> string \<Rightarrow> session \<Rightarrow> http_error + script_row" where
  "get_script_endpoint al now tok name s =
     bindR (current_user al now tok (current s)) (\<lambda>_.
       case get_script_or_raise name (current s) of
         Inl e \<Rightarrow> Inl (http_exception 404 (registry_message e)) | Inr r \<Rightarrow> Inr r)"

definition create_script_endpoint ::
  "'k auth_libs \<Rightarrow> registry_libs \<Rightarrow> int \<Rightarrow> 'k \<Rightarrow> string \<Rightarrow> string \<Rightarrow> string option \<Rightarrow> session
     \<Rightarrow> session \<times> (http_error + script_row)" where
  "create_script_endpoint al lb now tok name content meta s =
     (case require_admin al now tok (current s) of
        Inl e \<Rightarrow> (s, Inl e)
      | Inr admin \<Rightarrow>
          (case create_script lb now name content meta (u_id admin) s of
             (s', Inl e) \<Rightarrow> (s', Inl (http_exception 409 (registry_message e)))
           | (s', Inr r) \<Rightarrow>
               (session_commit (record_audit now ''script.create'' ''script'' (sc_name r) ''success'' (Some (u_id admin))
                  [(''md5'', sc_md5 r)] False s'), Inr r)))"

definition update_script_endpoint ::
  "'k auth_libs \<Rightarrow> registry_libs \<Rightarrow> int \<Rightarrow> 'k \<Rightarrow> string \<Rightarrow> string \<Rightarrow> string option \<Rightarrow> session
     \<Rightarrow> session \<times> (http_error + script_row)" where
  "update_script_endpoint al lb now tok name content meta s =
     (case require_admin al now tok (current s) of
        Inl e \<Rightarrow> (s, Inl e)
      | Inr admin \<Rightarrow>
          (case update_script lb now name content meta (u_id admin) s of
             (s', Inl e) \<Rightarrow>
               (s', Inl (http_exception (if sublist ''not found'' (registry_message e) then 404 else 422)
                  (registry_message e)))
           | (s', Inr r) \<Rightarrow>
               (session_commit (record_audit now ''script.update'' ''script'' (sc_name r) ''success'' (Some (u_id admin))
                  [(''md5'', sc_md5 r)] False s'), Inr r)))"

definition delete_script_endpoint ::
  "'k auth_libs \<Rightarrow> int \<Rightarrow> 'k \<Rightarrow> string \<Rightarrow> session \<Rightarrow> session \<times> (http_error + unit)" where
  "delete_script_endpoint al now tok name s =
     (case require_admin al now tok (current s) of
        Inl e \<Rightarrow> (s, Inl e)
      | Inr admin \<Rightarrow>
          (case delete_script name s of
             (s', Inl e) \<Rightarrow> (s', Inl (http_exception 404 (registry_message e)))
           | (s', Inr _) \<Rightarrow>
               (session_commit (record_audit now ''script.delete'' ''script'' name ''success'' (Some (u_id admin)) [] False s'),
                Inr ())))"

end
