(* ===== verification/Server_Auth_Props.thy ===== *)
theory Server_Auth_Props
  imports Server_Auth Transition_Systems
begin

text \<open>
  Correctness of authentication: a refresh token is good for one use, tokens of one kind do not pass
  for the other, a login works until it expires and is audited, a disabled user is locked out.
\<close>

section \<open>Spent tokens\<close>

text \<open>A token is spent when its row is revoked, or when the lookup by its hash is ambiguous.\<close>

definition spent :: "'k auth_libs \<Rightarrow> string \<Rightarrow> database \<Rightarrow> bool" where
  "spent lb jti db = (case token_rows lb jti db of [] \<Rightarrow> False | [r] \<Rightarrow> rt_revoked r | _ \<Rightarrow> True)"

lemma spent_cong: "refresh_tokens db = refresh_tokens db' \<Longrightarrow> spent lb jti db = spent lb jti db'"
  by (simp add: spent_def token_rows_def)

lemma token_rows_store:
  "token_rows lb j (store_refresh_token lb now i jti db) =
     token_rows lb j db @ (if sha256_hex lb jti = sha256_hex lb j then
       [\<lparr>rt_id = new_id (map rt_id (refresh_tokens db)), rt_user_id = i, rt_token_hash = sha256_hex lb jti,
         rt_issued_at = now, rt_expires_at = now + 14 * 86400, rt_revoked = False\<rparr>] else [])"
  by (simp add: token_rows_def store_refresh_token_def)

lemma spent_store: "spent lb j db \<Longrightarrow> spent lb j (store_refresh_token lb now i jti db)"
  by (auto simp: spent_def token_rows_store split: list.splits)

lemma filter_map_same: "(\<And>x. P (f x) = P x) \<Longrightarrow> filter P (map f xs) = map f (filter P xs)"
  by (induction xs) auto

lemma token_rows_revoke:
  assumes "revoke_jti lb jti db = Inr db'"
  shows "token_rows lb j db' = map (\<lambda>r. if sha256_hex lb j = sha256_hex lb jti then r\<lparr>rt_revoked := True\<rparr> else r) (token_rows lb j db)"
proof (cases "token_rows lb jti db = []")
  case True
  with assms have "db' = db" by (simp add: revoke_jti_def)
  moreover have "sha256_hex lb j = sha256_hex lb jti \<Longrightarrow> token_rows lb j db = []"
    using True by (simp add: token_rows_def)
  ultimately show ?thesis by (cases "sha256_hex lb j = sha256_hex lb jti") simp_all
next
  case False
  with assms have "refresh_tokens db' = map (\<lambda>x. if rt_token_hash x = sha256_hex lb jti
      then x\<lparr>rt_revoked := True\<rparr> else x) (refresh_tokens db)"
    by (auto simp: revoke_jti_def split: list.splits)
  then have "token_rows lb j db' = map (\<lambda>x. if rt_token_hash x = sha256_hex lb jti then x\<lparr>rt_revoked := True\<rparr> else x)
      (token_rows lb j db)"
    unfolding token_rows_def by (simp add: filter_map_same)
  also have "\<dots> = map (\<lambda>r. if sha256_hex lb j = sha256_hex lb jti then r\<lparr>rt_revoked := True\<rparr> else r) (token_rows lb j db)"
    by (rule map_cong) (auto simp: token_rows_def)
  finally show ?thesis .
qed

lemma spent_revoke: "revoke_jti lb jti db = Inr db' \<Longrightarrow> spent lb j db \<Longrightarrow> spent lb j db'"
  by (auto simp: spent_def token_rows_revoke split: list.splits)

lemma revoke_spends:
  "revoke_jti lb jti db = Inr db' \<Longrightarrow> token_rows lb jti db \<noteq> [] \<Longrightarrow> spent lb jti db'"
  by (auto simp: spent_def token_rows_revoke split: list.splits)

lemma revoke_users: "revoke_jti lb jti db = Inr db' \<Longrightarrow> users db' = users db"
  by (auto simp: revoke_jti_def split: list.splits)

lemma spent_audit [simp]: "spent lb j (add_audit_row now a tt ti r u d db) = spent lb j db"
  by (rule spent_cong) simp

section \<open>Authentication as a transition system\<close>

text \<open>One request each, in its own session; the administrator may change the users in any way.\<close>

datatype 'k auth_act =
    Login int string string string
  | Refresh int string "'k option"
  | Logout int "'k option"
  | Change_Users "user_row list"

fun auth_step :: "'k auth_libs \<Rightarrow> 'k auth_act \<Rightarrow> database \<Rightarrow> database" where
  "auth_step lb (Login now jti n p) db = finish (fst (login lb now jti n p (begin_session db)))"
| "auth_step lb (Refresh now jti c) db = finish (fst (refresh lb now jti c (begin_session db)))"
| "auth_step lb (Logout now c) db = finish (fst (logout lb now c (begin_session db)))"
| "auth_step lb (Change_Users us) db = db\<lparr>users := us\<rparr>"

lemma refresh_accepted:
  assumes "snd (refresh lb now new_jti cookie s) = Inr tp"
  obtains token i jti u db where "cookie = Some token" "decode_refresh_token lb now token = Inr (i, jti)"
    "validate_refresh_jti lb now jti (current s) = Inr ()" "find_user i (current s) = Some u" "\<not> u_disabled u"
    "revoke_jti lb jti (current s) = Inr db"
    "fst (refresh lb now new_jti cookie s) = session_commit (on_db (\<lambda>_. store_refresh_token lb now (u_id u) new_jti db) s)"
    "tp = \<lparr>tp_access = create_access_token lb now (u_id u) (u_role u),
           tp_refresh_cookie = create_refresh_token lb now new_jti (u_id u)\<rparr>"
  using assms by (auto simp: refresh_def split: option.splits sum.splits token_error.splits if_splits)

lemma refresh_refused: "snd (refresh lb now jti c s) = Inl e \<Longrightarrow> fst (refresh lb now jti c s) = s"
  by (auto simp: refresh_def split: option.splits sum.splits token_error.splits if_splits)

lemma auth_step_spent: "spent lb j db \<Longrightarrow> spent lb j (auth_step lb a db)"
proof (cases a)
  case (Login now jti n p)
  assume "spent lb j db"
  then show ?thesis
    using Login by (auto simp: login_def Let_def finish_def spent_store split: option.splits)
next
  case (Refresh now jti c)
  assume sp: "spent lb j db"
  show ?thesis
  proof (cases "snd (refresh lb now jti c (begin_session db))")
    case (Inl e)
    with sp Refresh show ?thesis by (simp add: refresh_refused finish_def)
  next
    case (Inr tp)
    then show ?thesis
      by (rule refresh_accepted) (use sp Refresh in \<open>auto simp: finish_def intro: spent_store spent_revoke\<close>)
  qed
next
  case (Logout now c)
  assume "spent lb j db"
  then show ?thesis
    using Logout by (auto simp: logout_def Let_def finish_def spent_revoke
        split: option.splits sum.splits token_error.splits)
next
  case (Change_Users us)
  assume "spent lb j db"
  with Change_Users show ?thesis by (simp add: spent_def token_rows_def)
qed

interpretation spent_tokens: act_system "auth_step lb" "spent lb j" for lb j
  by unfold_locales (rule auth_step_spent)

lemma spent_refused:
  assumes "decode_refresh_token lb t token = Inr (i, jti)" "spent lb jti (current s)"
  shows "\<exists>e. refresh lb t nj (Some token) s = (s, Inl e)"
proof -
  have "\<exists>e. validate_refresh_jti lb t jti (current s) = Inl e"
    using assms(2) by (auto simp: validate_refresh_jti_def spent_def split: list.splits)
  with assms(1) show ?thesis by (auto simp: refresh_def)
qed

text \<open>Decoding finds the same claims at any time at which it finds any.\<close>

definition decode_stable :: "'k auth_libs \<Rightarrow> bool" where
  "decode_stable lb \<longleftrightarrow> (\<forall>t t' tok c c'. jwt_decode lb t tok = Some c \<longrightarrow> jwt_decode lb t' tok = Some c' \<longrightarrow> c' = c)"

lemma decode_refresh_stable:
  assumes "decode_stable lb" "decode_refresh_token lb t token = Inr (i, j)" "decode_refresh_token lb t' token = Inr (i', j')"
  shows "i' = i \<and> j' = j"
proof -
  from assms(2,3) obtain c c' where "jwt_decode lb t token = Some c" "jwt_decode lb t' token = Some c'"
    "py_int (c_sub c) = Some i" "c_jti c = Some j" "py_int (c_sub c') = Some i'" "c_jti c' = Some j'"
    by (auto simp: decode_refresh_token_def decode_token_def bindR_eq_Inr split: option.splits if_splits)
  with assms(1) show ?thesis unfolding decode_stable_def by (metis option.inject)
qed

section \<open>Properties\<close>

text \<open>
  C27. A refresh token is good for one refresh: once it was accepted, no later refresh with it succeeds,
  whatever logins, refreshes, logouts and changes of users happen in between, and at any time.
\<close>

theorem refresh_token_single_use:
  assumes "decode_stable lb" "snd (refresh lb now nj (Some token) (begin_session db)) = Inr tp"
  shows "\<exists>e. snd (refresh lb now' nj' (Some token)
     (begin_session (run (auth_step lb) as (finish (fst (refresh lb now nj (Some token) (begin_session db))))))) = Inl e"
proof -
  from assms(2) obtain tok i jti u db' where "Some token = Some tok"
    and dec: "decode_refresh_token lb now tok = Inr (i, jti)"
    and "validate_refresh_jti lb now jti (current (begin_session db)) = Inr ()"
      "find_user i (current (begin_session db)) = Some u" "\<not> u_disabled u"
      "revoke_jti lb jti (current (begin_session db)) = Inr db'"
      "fst (refresh lb now nj (Some token) (begin_session db))
        = session_commit (on_db (\<lambda>_. store_refresh_token lb now (u_id u) nj db') (begin_session db))"
      "tp = \<lparr>tp_access = create_access_token lb now (u_id u) (u_role u),
           tp_refresh_cookie = create_refresh_token lb now nj (u_id u)\<rparr>"
    by (rule refresh_accepted)
  then have r: "decode_refresh_token lb now token = Inr (i, jti)"
    "validate_refresh_jti lb now jti db = Inr ()" "revoke_jti lb jti db = Inr db'"
    "fst (refresh lb now nj (Some token) (begin_session db))
      = session_commit (on_db (\<lambda>_. store_refresh_token lb now (u_id u) nj db') (begin_session db))"
    by simp_all
  have "token_rows lb jti db \<noteq> []" using r(2) by (auto simp: validate_refresh_jti_def)
  then have "spent lb jti (finish (fst (refresh lb now nj (Some token) (begin_session db))))"
    using r(3,4) by (simp add: finish_def revoke_spends spent_store)
  then have spent: "spent lb jti (run (auth_step lb) as (finish (fst (refresh lb now nj (Some token) (begin_session db)))))"
    by (rule spent_tokens.run_inv)
  show ?thesis
  proof (cases "decode_refresh_token lb now' token")
    case (Inl e)
    then show ?thesis by (cases e) (auto simp: refresh_def)
  next
    case (Inr ij)
    with decode_refresh_stable [OF assms(1) r(1)] have "decode_refresh_token lb now' token = Inr (i, jti)"
      by (cases ij) auto
    from spent_refused [OF this, of "begin_session _" nj'] spent show ?thesis by (metis session_simps(5) snd_conv)
  qed
qed

text \<open>
  An access token is never accepted as a refresh token and a refresh token never as an access token,
  so a stolen access token cannot renew itself.
\<close>

theorem token_kinds_separate:
  assumes "auth_libs_ok lb"
  shows "decode_refresh_token lb t (create_access_token lb now i role) = Inl Jwt_Error
    \<and> decode_access_token lb t (create_refresh_token lb now jti i) = Inl Jwt_Error"
  using assms by (simp add: auth_libs_ok_def decode_refresh_token_def decode_access_token_def decode_token_def
      create_access_token_def create_refresh_token_def)

text \<open>Libraries for closed examples: a token is its claims, a hash its input.\<close>

definition example_auth_libs :: "claims auth_libs" where
  "example_auth_libs =
     \<lparr>jwt_encode = (\<lambda>c. c), jwt_decode = (\<lambda>now c. if now \<le> c_exp c then Some c else None),
      verify_password = (\<lambda>p h. p = h), sha256_hex = (\<lambda>j. j)\<rparr>"

lemma example_auth_libs_ok [simp]: "auth_libs_ok example_auth_libs" "decode_stable example_auth_libs"
  by (simp_all add: auth_libs_ok_def decode_stable_def example_auth_libs_def)

definition empty_database :: database where
  "empty_database = \<lparr>users = [], refresh_tokens = [], machines = [], user_machines = [], scripts = [],
     target_states = [], job_rows = [], audit_rows = []\<rparr>"

definition example_user :: user_row where
  "example_user = \<lparr>u_id = 1, u_username = ''ann'', u_password_hash = ''pw'', u_role = ''admin'', u_created_at = 0,
     u_disabled = False\<rparr>"

definition one_user :: database where
  "one_user = empty_database\<lparr>users := [example_user]\<rparr>"

abbreviation example_login :: "session \<times> (http_error + claims token_pair)" where
  "example_login \<equiv> login example_auth_libs 100 ''j1'' ''ann'' ''pw'' (begin_session one_user)"

theorem token_kinds_separate_witness:
  "decode_refresh_token example_auth_libs 5 (create_access_token example_auth_libs 1 1 ''admin'') = Inl Jwt_Error"
  using token_kinds_separate [OF example_auth_libs_ok(1)] by blast

text \<open>
  A login works: with the right password of an enabled user it answers a pair of tokens; the access
  token then authenticates this user for 30 minutes, with the role the user has at that moment, and
  the refresh token is accepted for 14 days, as long as the user is enabled and it was not used.
\<close>

theorem login_tokens_work:
  assumes "auth_libs_ok lb" "find (\<lambda>u. u_username u = n) (users db) = Some u" "find_user (u_id u) db = Some u"
    and "\<not> u_disabled u" "verify_password lb p (u_password_hash u)" "token_rows lb jti db = []"
  shows "\<exists>tp. let s = login lb now jti n p (begin_session db); db' = finish (fst s) in
      snd s = Inr tp
    \<and> (\<forall>t. now \<le> t \<and> t \<le> now + 1800 \<longrightarrow> current_user lb t (tp_access tp) db' = Inr u)
    \<and> (\<forall>t j. now \<le> t \<and> t \<le> now + 1209600
         \<longrightarrow> (\<exists>tp'. snd (refresh lb t j (Some (tp_refresh_cookie tp)) (begin_session db')) = Inr tp'))"
proof -
  let ?s = "login lb now jti n p (begin_session db)"
  let ?db = "finish (fst ?s)"
  let ?tp = "\<lparr>tp_access = create_access_token lb now (u_id u) (u_role u),
              tp_refresh_cookie = create_refresh_token lb now jti (u_id u)\<rparr>"
  have s: "snd ?s = Inr ?tp"
    using assms(2,4,5) by (simp add: login_def Let_def)
  have db: "users ?db = users db" "token_rows lb jti ?db = token_rows lb jti (store_refresh_token lb now (u_id u) jti db)"
    using assms(2,4,5) by (simp_all add: login_def Let_def finish_def token_rows_def store_refresh_token_def)
  have user: "find_user (u_id u) ?db = Some u" using assms(3) db(1) by (simp add: find_user_def)
  have acc: "current_user lb t (create_access_token lb now (u_id u) (u_role u)) ?db = Inr u" if "t \<le> now + 1800" for t
    using assms(1,4) user that
    by (simp add: current_user_def decode_access_token_def decode_token_def create_access_token_def auth_libs_ok_def
        ACCESS_TOKEN_EXPIRE_MINUTES_def)
  have rows: "token_rows lb jti ?db = [\<lparr>rt_id = new_id (map rt_id (refresh_tokens db)), rt_user_id = u_id u,
      rt_token_hash = sha256_hex lb jti, rt_issued_at = now, rt_expires_at = now + 14 * 86400, rt_revoked = False\<rparr>]"
    using assms(6) db(2) by (simp add: token_rows_store)
  have ref: "\<exists>tp'. snd (refresh lb t j (Some (create_refresh_token lb now jti (u_id u))) (begin_session ?db)) = Inr tp'"
    if "t \<le> now + 1209600" for t j
  proof -
    have dec: "decode_refresh_token lb t (create_refresh_token lb now jti (u_id u)) = Inr (u_id u, jti)"
      using assms(1) that by (simp add: decode_refresh_token_def decode_token_def create_refresh_token_def auth_libs_ok_def
          REFRESH_TOKEN_EXPIRE_DAYS_def)
    have val: "validate_refresh_jti lb t jti ?db = Inr ()"
      using rows that by (simp add: validate_refresh_jti_def)
    obtain d where "revoke_jti lb jti ?db = Inr d" using rows by (simp add: revoke_jti_def)
    with dec val user assms(4) show ?thesis by (simp add: refresh_def)
  qed
  show ?thesis using s acc ref by (intro exI [of _ ?tp]) (simp add: Let_def)
qed

theorem login_tokens_work_witness:
  "\<exists>tp. snd example_login = Inr tp
    \<and> current_user example_auth_libs 1900 (tp_access tp) (finish (fst example_login)) = Inr example_user"
proof -
  have "find (\<lambda>u. u_username u = ''ann'') (users one_user) = Some example_user"
    "find_user (u_id example_user) one_user = Some example_user" "\<not> u_disabled example_user"
    "verify_password example_auth_libs ''pw'' (u_password_hash example_user)" "token_rows example_auth_libs ''j1'' one_user = []"
    by (simp_all add: one_user_def example_user_def find_user_def example_auth_libs_def token_rows_def empty_database_def)
  from login_tokens_work [OF example_auth_libs_ok(1) this, of 100] show ?thesis
    unfolding Let_def by (elim exE conjE) (intro exI conjI, assumption, simp)
qed

lemmas example_login_simps =
  login_def Let_def finish_def one_user_def example_user_def empty_database_def example_auth_libs_def
  store_refresh_token_def find_user_def

lemma example_login_cookie:
  "snd example_login = Inr \<lparr>tp_access = create_access_token example_auth_libs 100 1 ''admin'',
     tp_refresh_cookie = create_refresh_token example_auth_libs 100 ''j1'' 1\<rparr>"
  by (simp add: example_login_simps)

lemma example_refresh:
  "\<exists>tp. snd (refresh example_auth_libs 200 ''j2'' (Some (create_refresh_token example_auth_libs 100 ''j1'' 1))
     (begin_session (finish (fst example_login)))) = Inr tp"
  by (simp add: example_login_simps refresh_def decode_refresh_token_def decode_token_def create_refresh_token_def
      REFRESH_TOKEN_EXPIRE_DAYS_def validate_refresh_jti_def revoke_jti_def token_rows_def)

theorem refresh_token_single_use_witness:
  "\<exists>e. snd (refresh example_auth_libs 300 ''j3'' (Some (create_refresh_token example_auth_libs 100 ''j1'' 1))
      (begin_session (run (auth_step example_auth_libs) [Login 250 ''j4'' ''ann'' ''pw'']
         (finish (fst (refresh example_auth_libs 200 ''j2'' (Some (create_refresh_token example_auth_libs 100 ''j1'' 1))
             (begin_session (finish (fst example_login))))))))) = Inl e"
  using example_refresh refresh_token_single_use [OF example_auth_libs_ok(2)] by blast

text \<open>
  Disabling a user locks it out at once: every access token and every refresh token issued for it,
  and its password, are refused, and the refusals change no refresh token.
\<close>

theorem disabled_user_locked_out:
  assumes "u_disabled u" "find_user i (current s) = Some u"
  shows "(decode_access_token lb t tok = Inr (i, r) \<longrightarrow> current_user lb t tok (current s) = Inl credentials_exception)
    \<and> (decode_refresh_token lb t tok = Inr (i, j) \<longrightarrow> (\<exists>e. refresh lb t nj (Some tok) s = (s, Inl e)))
    \<and> (find (\<lambda>x. u_username x = n) (users (current s)) = Some u
        \<longrightarrow> (\<exists>e. snd (login lb t nj n p s) = Inl e)
          \<and> refresh_tokens (finish (fst (login lb t nj n p s))) = refresh_tokens (current s))"
  using assms by (auto simp: current_user_def refresh_def login_def finish_def Let_def split: sum.splits)

theorem disabled_user_locked_out_witness:
  "current_user example_auth_libs 5 (create_access_token example_auth_libs 1 1 ''admin'')
      (one_user\<lparr>users := [example_user\<lparr>u_disabled := True\<rparr>]\<rparr>) = Inl credentials_exception"
proof -
  have "decode_access_token example_auth_libs 5 (create_access_token example_auth_libs 1 1 ''admin'') = Inr (1, ''admin'')"
    by (simp add: decode_access_token_def decode_token_def create_access_token_def example_auth_libs_def
        ACCESS_TOKEN_EXPIRE_MINUTES_def)
  with disabled_user_locked_out [of "example_user\<lparr>u_disabled := True\<rparr>" 1
      "begin_session (one_user\<lparr>users := [example_user\<lparr>u_disabled := True\<rparr>]\<rparr>)" example_auth_libs 5
      "create_access_token example_auth_libs 1 1 ''admin''" "''admin''"]
  show ?thesis by (simp add: find_user_def example_user_def)
qed

text \<open>
  Every login attempt leaves exactly one committed audit row, of the user it names, saying whether
  it succeeded; a failed one changes nothing else.
\<close>

theorem login_audited:
  "\<exists>row. audit_rows (finish (fst (login lb now jti n p (begin_session db)))) = audit_rows db @ [row]
     \<and> au_action row = ''auth.login''
     \<and> au_user_id row = map_option u_id (find (\<lambda>u. u_username u = n) (users db))
     \<and> (au_result row = ''success'' \<longleftrightarrow> (\<exists>tp. snd (login lb now jti n p (begin_session db)) = Inr tp))
     \<and> (case snd (login lb now jti n p (begin_session db)) of
           Inl e \<Rightarrow> finish (fst (login lb now jti n p (begin_session db))) = db\<lparr>audit_rows := audit_rows db @ [row]\<rparr>
         | Inr tp \<Rightarrow> users (finish (fst (login lb now jti n p (begin_session db)))) = users db)"
  by (auto simp: login_def Let_def finish_def add_audit_row_def store_refresh_token_def split: option.splits)

end
