(* ===== verification/Registry_Props.thy ===== *)
theory Registry_Props
  imports Script_Registry Server_Auth_Props
begin

text \<open>Correctness of the script library: its invariant, seeding, and who may change it.\<close>

definition script_row_wf :: "registry_libs \<Rightarrow> script_row \<Rightarrow> bool" where
  "script_row_wf lb r \<longleftrightarrow>
     sc_md5 r = r_md5 lb (sc_content r) \<and> sc_persistent r = is_persistent lb (sc_meta_yaml r)
     \<and> validate_meta lb (sc_meta_yaml r) = Inr ()"

definition scripts_wf :: "registry_libs \<Rightarrow> database \<Rightarrow> bool" where
  "scripts_wf lb db \<longleftrightarrow>
     distinct (map sc_id (scripts db)) \<and> distinct (map sc_name (scripts db))
     \<and> list_all (script_row_wf lb) (scripts db)"

lemma scripts_wf_cong: "scripts db = scripts db' \<Longrightarrow> scripts_wf lb db = scripts_wf lb db'"
  by (simp add: scripts_wf_def)

lemma get_script_None: "get_script n db = None \<longleftrightarrow> n \<notin> sc_name ` set (scripts db)"
  by (auto simp: get_script_def find_None_iff)

lemma get_script_Some: "get_script n db = Some r \<Longrightarrow> r \<in> set (scripts db) \<and> sc_name r = n"
  by (auto simp: get_script_def find_Some_iff)

lemma validate_meta_unit: "validate_meta lb m = Inr u \<Longrightarrow> validate_meta lb m = Inr ()"
  by simp

lemma create_script_wf: "scripts_wf lb (current s) \<Longrightarrow> scripts_wf lb (current (fst (create_script lb now n c m uid s)))"
  using new_id_fresh [of "map sc_id (scripts (current s))"]
  by (auto simp: create_script_def scripts_wf_def get_script_None script_row_wf_def Let_def split: sum.splits)

lemma update_rows:
  assumes "scripts_wf lb db" "get_script n db = Some r" "validate_meta lb m = Inr ()"
  shows "scripts_wf lb (db\<lparr>scripts := map (\<lambda>x. if sc_id x = sc_id r
      then r\<lparr>sc_content := c, sc_meta_yaml := m, sc_md5 := r_md5 lb c, sc_persistent := is_persistent lb m,
             sc_updated_at := now, sc_updated_by := uid\<rparr> else x) (scripts db)\<rparr>)"
proof -
  let ?f = "\<lambda>x. if sc_id x = sc_id r
      then r\<lparr>sc_content := c, sc_meta_yaml := m, sc_md5 := r_md5 lb c, sc_persistent := is_persistent lb m,
             sc_updated_at := now, sc_updated_by := uid\<rparr> else x"
  have r: "r \<in> set (scripts db)" using assms(2) get_script_Some by blast
  have same: "x = r" if "x \<in> set (scripts db)" "sc_id x = sc_id r" for x
    using that r assms(1) by (auto simp: scripts_wf_def distinct_map inj_on_def)
  have "map sc_id (map ?f (scripts db)) = map sc_id (scripts db)" by (simp add: comp_def)
  moreover have "map sc_name (map ?f (scripts db)) = map sc_name (scripts db)"
    using same by (auto simp: comp_def)
  moreover have "list_all (script_row_wf lb) (map ?f (scripts db))"
    using assms(1,3) by (auto simp: scripts_wf_def list_all_iff script_row_wf_def)
  ultimately show ?thesis
    using assms(1) unfolding scripts_wf_def by (simp del: map_map map_eq_conv)
qed

lemma update_script_wf: "scripts_wf lb (current s) \<Longrightarrow> scripts_wf lb (current (fst (update_script lb now n c m uid s)))"
  by (auto simp: update_script_def get_script_or_raise_def Let_def intro: update_rows split: option.splits sum.splits)

lemma delete_script_wf: "scripts_wf lb (current s) \<Longrightarrow> scripts_wf lb (current (fst (delete_script n s)))"
  by (auto simp: delete_script_def get_script_or_raise_def scripts_wf_def list_all_iff distinct_map_filter
      split: option.splits)

lemma seed_loop_wf: "scripts_wf lb (current s) \<Longrightarrow> scripts_wf lb (current (fst (seed_loop lb now uid bs cr sk s)))"
proof (induction bs arbitrary: cr sk s)
  case (Cons b bs)
  then show ?case
    using create_script_wf [of lb s now "bs_name b" "bs_content b" "bs_meta_yaml b" uid]
    by (cases "create_script lb now (bs_name b) (bs_content b) (bs_meta_yaml b) uid s") (auto split: sum.splits)
qed simp

section \<open>The library as a transition system\<close>

datatype 'k registry_act =
    Create_Script int 'k string string "string option"
  | Update_Script int 'k string string "string option"
  | Delete_Script int 'k string
  | Seed_Builtins int int "(string \<times> string) list option"

text \<open>Each call in its own session; the command line commits a seeding run when it succeeds.\<close>

fun registry_step :: "'k auth_libs \<Rightarrow> registry_libs \<Rightarrow> 'k registry_act \<Rightarrow> database \<Rightarrow> database" where
  "registry_step al lb (Create_Script now tok n c m) db =
     finish (fst (create_script_endpoint al lb now tok n c m (begin_session db)))"
| "registry_step al lb (Update_Script now tok n c m) db =
     finish (fst (update_script_endpoint al lb now tok n c m (begin_session db)))"
| "registry_step al lb (Delete_Script now tok n) db =
     finish (fst (delete_script_endpoint al now tok n (begin_session db)))"
| "registry_step al lb (Seed_Builtins now uid dir) db =
     (case seed_builtin_scripts lb now uid dir (begin_session db) of
        (s, Inl e) \<Rightarrow> finish s | (s, Inr r) \<Rightarrow> finish (session_commit s))"

lemma create_script_committed [simp]: "committed (fst (create_script lb now n c m uid s)) = committed s"
  by (auto simp: create_script_def Let_def split: sum.splits)

lemma update_script_committed [simp]: "committed (fst (update_script lb now n c m uid s)) = committed s"
  by (auto simp: update_script_def Let_def split: sum.splits)

lemma delete_script_committed [simp]: "committed (fst (delete_script n s)) = committed s"
  by (auto simp: delete_script_def split: sum.splits)

lemma seed_loop_committed [simp]: "committed (fst (seed_loop lb now uid bs cr sk s)) = committed s"
proof (induction bs arbitrary: cr sk s)
  case (Cons b bs)
  then show ?case
    using create_script_committed [of lb now "bs_name b" "bs_content b" "bs_meta_yaml b" uid s]
    by (cases "create_script lb now (bs_name b) (bs_content b) (bs_meta_yaml b) uid s")
      (auto split: sum.splits simp del: create_script_committed)
qed simp

lemma scripts_wf_audit [simp]: "scripts_wf lb (add_audit_row now a tt ti r u d db) = scripts_wf lb db"
  by (rule scripts_wf_cong) simp

lemma registry_step_wf: "scripts_wf lb db \<Longrightarrow> scripts_wf lb (registry_step al lb a db)"
proof -
  assume wf: "scripts_wf lb db"
  then have wf0: "scripts_wf lb (current (begin_session db))" by simp
  show "scripts_wf lb (registry_step al lb a db)"
  proof (cases a)
    case (Create_Script now tok n c m)
    show ?thesis
    proof (cases "require_admin al now tok db")
      case (Inr ad)
      obtain s r where c: "create_script lb now n c m (u_id ad) (begin_session db) = (s, r)" by fastforce
      then have "scripts_wf lb (current s)" "committed s = db"
        using create_script_wf [OF wf0, of now n c m "u_id ad"]
          create_script_committed [of lb now n c m "u_id ad" "begin_session db"] by simp_all
      then show ?thesis
        using Create_Script Inr c wf by (cases r) (simp_all add: create_script_endpoint_def finish_def)
    qed (use Create_Script wf in \<open>simp add: create_script_endpoint_def finish_def\<close>)
  next
    case (Update_Script now tok n c m)
    show ?thesis
    proof (cases "require_admin al now tok db")
      case (Inr ad)
      obtain s r where c: "update_script lb now n c m (u_id ad) (begin_session db) = (s, r)" by fastforce
      then have "scripts_wf lb (current s)" "committed s = db"
        using update_script_wf [OF wf0, of now n c m "u_id ad"]
          update_script_committed [of lb now n c m "u_id ad" "begin_session db"] by simp_all
      then show ?thesis
        using Update_Script Inr c wf by (cases r) (simp_all add: update_script_endpoint_def finish_def)
    qed (use Update_Script wf in \<open>simp add: update_script_endpoint_def finish_def\<close>)
  next
    case (Delete_Script now tok n)
    show ?thesis
    proof (cases "require_admin al now tok db")
      case (Inr ad)
      obtain s r where c: "delete_script n (begin_session db) = (s, r)" by fastforce
      then have "scripts_wf lb (current s)" "committed s = db"
        using delete_script_wf [OF wf0, of n]
          delete_script_committed [of n "begin_session db"] by simp_all
      then show ?thesis
        using Delete_Script Inr c wf by (cases r) (simp_all add: delete_script_endpoint_def finish_def)
    qed (use Delete_Script wf in \<open>simp add: delete_script_endpoint_def finish_def\<close>)
  next
    case (Seed_Builtins now uid dir)
    obtain s r where c: "seed_builtin_scripts lb now uid dir (begin_session db) = (s, r)" by fastforce
    then have "scripts_wf lb (current s)" "committed s = db"
      using seed_loop_wf [OF wf0, of now uid "iter_builtin_scripts dir" "[]" "[]"]
        seed_loop_committed [of lb now uid "iter_builtin_scripts dir" "[]" "[]" "begin_session db"]
      by (simp_all add: seed_builtin_scripts_def)
    then show ?thesis using Seed_Builtins c wf by (cases r) (simp_all add: finish_def)
  qed
qed

interpretation registry: act_system "registry_step al lb" "scripts_wf lb" for al lb
  by unfold_locales (rule registry_step_wf)

section \<open>Properties\<close>

text \<open>
  Whatever the administrators and the seeding command do, in any order, the library stays consistent:
  script names and identifiers are unique, every stored MD5 is the MD5 of the stored content, every
  stored metadata text is valid, and the stored flag says whether it declares a persistent script.
\<close>

theorem script_library_consistent:
  "scripts_wf lb (run (registry_step al lb) as empty_database)"
  by (rule registry.run_inv) (simp add: scripts_wf_def empty_database_def)

lemma seed_loop_spec:
  "seed_loop lb now uid bs cr sk s = (s', Inr (cr', sk')) \<Longrightarrow>
     (\<exists>new. current s' = (current s)\<lparr>scripts := scripts (current s) @ new\<rparr> \<and> cr' = cr @ map sc_name new)
     \<and> (\<forall>b \<in> set bs. bs_name b \<in> sc_name ` set (scripts (current s')))"
proof (induction bs arbitrary: cr sk s)
  case (Cons b bs)
  show ?case
  proof (cases "get_script (bs_name b) (current s)")
    case (Some r)
    with Cons.prems have "seed_loop lb now uid bs cr (sk @ [bs_name b]) s = (s', Inr (cr', sk'))" by simp
    from Cons.IH [OF this] obtain new where new: "current s' = (current s)\<lparr>scripts := scripts (current s) @ new\<rparr>"
      "cr' = cr @ map sc_name new" "\<forall>b \<in> set bs. bs_name b \<in> sc_name ` set (scripts (current s'))" by blast
    have "r \<in> set (scripts (current s'))" "sc_name r = bs_name b" using get_script_Some [OF Some] new(1) by auto
    then have "bs_name b \<in> sc_name ` set (scripts (current s'))" by (metis imageI)
    with new show ?thesis by auto
  next
    case None
    obtain s1 r where c: "create_script lb now (bs_name b) (bs_content b) (bs_meta_yaml b) uid s = (s1, r)" by fastforce
    with None Cons.prems obtain row where r: "r = Inr row"
      and rest: "seed_loop lb now uid bs (cr @ [bs_name b]) sk s1 = (s', Inr (cr', sk'))"
      by (auto split: sum.splits)
    have s1: "current s1 = (current s)\<lparr>scripts := scripts (current s) @ [row]\<rparr>" "sc_name row = bs_name b"
      using c None r by (auto simp: create_script_def Let_def split: sum.splits)
    from Cons.IH [OF rest] obtain new where new: "current s' = (current s1)\<lparr>scripts := scripts (current s1) @ new\<rparr>"
      "cr' = (cr @ [bs_name b]) @ map sc_name new" "\<forall>b \<in> set bs. bs_name b \<in> sc_name ` set (scripts (current s'))" by blast
    have "current s' = (current s)\<lparr>scripts := scripts (current s) @ row # new\<rparr>" using new(1) s1(1) by simp
    moreover have "bs_name b \<in> sc_name ` set (scripts (current s'))" using new(1) s1 by auto
    ultimately show ?thesis using new(2,3) s1(2) by (intro conjI exI [of _ "row # new"]) auto
  qed
qed simp

lemma seed_loop_present:
  "set (map bs_name bs) \<subseteq> sc_name ` set (scripts (current s)) \<Longrightarrow>
     seed_loop lb now uid bs cr sk s = (s, Inr (cr, sk @ map bs_name bs))"
proof (induction bs arbitrary: sk)
  case (Cons b bs)
  then have "get_script (bs_name b) (current s) \<noteq> None" by (simp add: get_script_None)
  with Cons show ?case by auto
qed simp

text \<open>
  Seeding is idempotent and never touches existing scripts: a successful run only appends the rows of
  the built-in scripts whose name was free, and a second run, at any later time, creates nothing
  and changes nothing.
\<close>

theorem seeding_idempotent:
  assumes "seed_builtin_scripts lb now uid dir s = (s', Inr (created, skipped))"
  shows "(\<exists>new. current s' = (current s)\<lparr>scripts := scripts (current s) @ new\<rparr> \<and> map sc_name new = created)
    \<and> seed_builtin_scripts lb' now' uid' dir s' = (s', Inr ([], map bs_name (iter_builtin_scripts dir)))"
proof -
  note spec = seed_loop_spec [OF assms [unfolded seed_builtin_scripts_def]]
  then have "set (map bs_name (iter_builtin_scripts dir)) \<subseteq> sc_name ` set (scripts (current s'))" by auto
  from seed_loop_present [OF this] spec show ?thesis by (auto simp: seed_builtin_scripts_def)
qed

definition example_registry_libs :: registry_libs where
  "example_registry_libs = \<lparr>r_md5 = (\<lambda>c. c), r_yaml = example_libs\<rparr>"

theorem seeding_idempotent_witness:
  "\<exists>s'. seed_builtin_scripts example_registry_libs 7 1 (Some [(''b.sh'', ''beep''), (''a.ps1'', ''off''), (''README'', ''x'')])
        (begin_session empty_database) = (s', Inr ([''a.ps1'', ''b.sh''], []))
     \<and> seed_builtin_scripts example_registry_libs 9 2 (Some [(''b.sh'', ''beep''), (''a.ps1'', ''off''), (''README'', ''x'')]) s'
        = (s', Inr ([], [''a.ps1'', ''b.sh'']))"
proof -
  let ?dir = "Some [(''b.sh'', ''beep''), (''a.ps1'', ''off''), (''README'', ''x'')]"
  have "snd (seed_builtin_scripts example_registry_libs 7 1 ?dir (begin_session empty_database)) = Inr ([''a.ps1'', ''b.sh''], [])"
    by code_simp
  then obtain s' where s': "seed_builtin_scripts example_registry_libs 7 1 ?dir (begin_session empty_database)
      = (s', Inr ([''a.ps1'', ''b.sh''], []))" by (metis prod.collapse)
  have "map bs_name (iter_builtin_scripts ?dir) = [''a.ps1'', ''b.sh'']" by code_simp
  with seeding_idempotent [OF s', of example_registry_libs 9 2] s' show ?thesis by auto
qed

definition audited_change :: "user_row \<Rightarrow> database \<Rightarrow> database \<Rightarrow> bool" where
  "audited_change u db db' \<longleftrightarrow>
     (\<exists>row. audit_rows db' = audit_rows db @ [row] \<and> au_user_id row = Some (u_id u) \<and> au_result row = ''success'')"

text \<open>
  Only an enabled administrator changes the library through the API: a request whose token does not
  name one is refused with 401 or 403 and leaves the database as it was; and every accepted change
  is committed together with one audit row naming that administrator.
\<close>

theorem library_changes_by_admins:
  "(case require_admin al now tok db of
      Inl e \<Rightarrow> create_script_endpoint al lb now tok n c m (begin_session db) = (begin_session db, Inl e)
          \<and> update_script_endpoint al lb now tok n c m (begin_session db) = (begin_session db, Inl e)
          \<and> delete_script_endpoint al now tok n (begin_session db) = (begin_session db, Inl e)
    | Inr u \<Rightarrow> u_role u = ''admin'' \<and> \<not> u_disabled u
          \<and> (case create_script_endpoint al lb now tok n c m (begin_session db) of
               (s, Inl e) \<Rightarrow> finish s = db | (s, Inr r) \<Rightarrow> audited_change u db (finish s))
          \<and> (case update_script_endpoint al lb now tok n c m (begin_session db) of
               (s, Inl e) \<Rightarrow> finish s = db | (s, Inr r) \<Rightarrow> audited_change u db (finish s))
          \<and> (case delete_script_endpoint al now tok n (begin_session db) of
               (s, Inl e) \<Rightarrow> finish s = db | (s, Inr r) \<Rightarrow> audited_change u db (finish s)))"
proof (cases "require_admin al now tok db")
  case (Inl e)
  then show ?thesis
    by (simp add: create_script_endpoint_def update_script_endpoint_def delete_script_endpoint_def)
next
  case (Inr u)
  then have "u_role u = ''admin'' \<and> \<not> u_disabled u"
    by (auto simp: require_admin_def current_user_def bindR_eq_Inr split: sum.splits option.splits if_splits token_error.splits)
  with Inr show ?thesis
    by (auto simp: create_script_endpoint_def update_script_endpoint_def delete_script_endpoint_def create_script_def
        update_script_def delete_script_def get_script_or_raise_def finish_def audited_change_def add_audit_row_def Let_def
        split: sum.splits option.splits)
qed

end
