(* ===== verification/Registration.thy ===== *)
theory Registration
  imports Script_Meta
begin

text \<open>
  \<open>shared/registration.py\<close>: the registration bundle, a JSON object in base64.  Base64 is modelled, strict
  as \<open>b64decode(validate=True)\<close>; a byte is a character.  The \<open>json\<close> module is the pair \<open>json_libs\<close>, with
  the documented round trip \<open>json_ok\<close> on the values a theorem is about; a JSON value is a \<^typ>\<open>yaml\<close>.
\<close>

section \<open>Base64\<close>

definition B64_ALPHABET :: string where
  "B64_ALPHABET = ''ABCDEFGHIJKLMNOPQRSTUVWXYZabcdefghijklmnopqrstuvwxyz0123456789+/''"

definition b64_char :: "nat \<Rightarrow> char" where
  "b64_char n = B64_ALPHABET ! n"

definition b64_value :: "char \<Rightarrow> nat option" where
  "b64_value c = map_of (zip B64_ALPHABET [0..<64]) c"

text \<open>The four six-bit groups of three bytes, and the bytes of four groups.\<close>

definition group1 :: "nat \<Rightarrow> nat" where
  "group1 a = a div 4"

definition group2 :: "nat \<Rightarrow> nat \<Rightarrow> nat" where
  "group2 a b = a mod 4 * 16 + b div 16"

definition group3 :: "nat \<Rightarrow> nat \<Rightarrow> nat" where
  "group3 b c = b mod 16 * 4 + c div 64"

definition group4 :: "nat \<Rightarrow> nat" where
  "group4 c = c mod 64"

definition byte1 :: "nat \<Rightarrow> nat \<Rightarrow> nat" where
  "byte1 i j = i * 4 + j div 16"

definition byte2 :: "nat \<Rightarrow> nat \<Rightarrow> nat" where
  "byte2 j k = j mod 16 * 16 + k div 4"

definition byte3 :: "nat \<Rightarrow> nat \<Rightarrow> nat" where
  "byte3 k l = k mod 4 * 64 + l"

fun b64_encode :: "string \<Rightarrow> string" where
  "b64_encode [] = []"
| "b64_encode [x] =
     [b64_char (group1 (ccode x)), b64_char (group2 (ccode x) 0), CHR ''='', CHR ''='']"
| "b64_encode [x, y] =
     [b64_char (group1 (ccode x)), b64_char (group2 (ccode x) (ccode y)), b64_char (group3 (ccode y) 0), CHR ''='']"
| "b64_encode (x # y # z # rest) =
     b64_char (group1 (ccode x)) # b64_char (group2 (ccode x) (ccode y)) # b64_char (group3 (ccode y) (ccode z))
       # b64_char (group4 (ccode z)) # b64_encode rest"

fun b64_decode :: "string \<Rightarrow> string option" where
  "b64_decode [] = Some []"
| "b64_decode (w # x # y # z # rest) =
     (case (b64_value w, b64_value x) of
        (Some i, Some j) \<Rightarrow>
          if y = CHR ''='' \<and> z = CHR ''='' \<and> rest = [] then Some [char_of (byte1 i j)]
          else (case b64_value y of
                  None \<Rightarrow> None
                | Some k \<Rightarrow>
                    if z = CHR ''='' \<and> rest = [] then Some [char_of (byte1 i j), char_of (byte2 j k)]
                    else (case b64_value z of
                            None \<Rightarrow> None
                          | Some l \<Rightarrow>
                              map_option (\<lambda>r. char_of (byte1 i j) # char_of (byte2 j k) # char_of (byte3 k l) # r)
                                (b64_decode rest)))
      | _ \<Rightarrow> None)"
| "b64_decode _ = None"

lemma b64_value_char [simp]: "n < 64 \<Longrightarrow> b64_value (b64_char n) = Some n"
proof -
  have "distinct B64_ALPHABET" "length B64_ALPHABET = 64" by (simp_all add: B64_ALPHABET_def)
  then show "n < 64 \<Longrightarrow> ?thesis"
    using map_of_zip_nth [of B64_ALPHABET "[0..<64]" n] by (simp add: b64_value_def b64_char_def)
qed

lemma b64_char_not_pad: "n < 64 \<Longrightarrow> b64_char n \<noteq> CHR ''=''"
proof -
  have "CHR ''='' \<notin> set B64_ALPHABET" "length B64_ALPHABET = 64" by (simp_all add: B64_ALPHABET_def)
  then show "n < 64 \<Longrightarrow> ?thesis" by (metis b64_char_def nth_mem)
qed

lemma ccode_bound: "ccode c < 256"
  by (simp add: ccode_def)

lemma char_of_ccode [simp]: "char_of (ccode c) = c"
  by (simp add: ccode_def)

lemmas group_defs = group1_def group2_def group3_def group4_def byte1_def byte2_def byte3_def

lemma groups_bound [simp]:
  "a < 256 \<Longrightarrow> group1 a < 64" "b < 256 \<Longrightarrow> group2 a b < 64" "c < 256 \<Longrightarrow> group3 b c < 64" "group4 c < 64"
proof -
  have "a mod 4 < 4" "b mod 16 < 16" by simp_all
  then show "a < 256 \<Longrightarrow> group1 a < 64" "b < 256 \<Longrightarrow> group2 a b < 64" "c < 256 \<Longrightarrow> group3 b c < 64" "group4 c < 64"
    by (simp_all add: group_defs del: mod_less_divisor)
qed

lemma byte1_groups [simp]: "b < 256 \<Longrightarrow> byte1 (group1 a) (group2 a b) = a"
  by (simp add: group_defs)

lemma byte2_groups [simp]: "b < 256 \<Longrightarrow> c < 256 \<Longrightarrow> byte2 (group2 a b) (group3 b c) = b"
  by (simp add: group_defs)

lemma byte3_groups [simp]: "c < 256 \<Longrightarrow> byte3 (group3 b c) (group4 c) = c"
  by (simp add: group_defs)

lemma b64_decode_encode [simp]: "b64_decode (b64_encode s) = Some s"
  by (induction s rule: b64_encode.induct) (simp_all add: ccode_bound b64_char_not_pad)

text \<open>
  \<open>b64decode\<close> without \<open>validate\<close>, as the C code does it: other characters are skipped, decoding ends at a complete
  padding, and \<open>None\<close> is the \<open>binascii.Error\<close> of a text that ends within a group.
\<close>

fun b64_lenient :: "nat list \<Rightarrow> nat \<Rightarrow> string \<Rightarrow> string option" where
  "b64_lenient pending pads [] = (if pending = [] then Some [] else None)"
| "b64_lenient pending pads (c # s) =
     (if c = CHR ''='' then
        (if 2 \<le> length pending \<and> 4 \<le> length pending + pads + 1 then Some []
         else b64_lenient pending (if 2 \<le> length pending then pads + 1 else pads) s)
      else case b64_value c of
        None \<Rightarrow> b64_lenient pending pads s
      | Some v \<Rightarrow>
          (case pending of
             [i, j, k] \<Rightarrow> map_option (Cons (char_of (byte3 k v))) (b64_lenient [] 0 s)
           | [i, j] \<Rightarrow> map_option (Cons (char_of (byte2 j v))) (b64_lenient [i, j, v] 0 s)
           | [i] \<Rightarrow> map_option (Cons (char_of (byte1 i v))) (b64_lenient [i, v] 0 s)
           | _ \<Rightarrow> b64_lenient [v] 0 s))"

definition b64_decode_lenient :: "string \<Rightarrow> string option" where
  "b64_decode_lenient s = b64_lenient [] 0 s"

lemma b64_value_pad: "b64_value c = Some v \<Longrightarrow> c \<noteq> CHR ''=''"
proof -
  assume "b64_value c = Some v"
  then have "c \<in> set B64_ALPHABET"
    unfolding b64_value_def by (intro set_zip_leftD [OF map_of_SomeD])
  moreover have "CHR ''='' \<notin> set B64_ALPHABET" by (simp add: B64_ALPHABET_def)
  ultimately show ?thesis by auto
qed

text \<open>What the strict decoder accepts, both read alike.\<close>

lemma b64_lenient_strict: "b64_decode s = Some x \<Longrightarrow> b64_decode_lenient s = Some x"
  unfolding b64_decode_lenient_def
proof (induction s arbitrary: x rule: b64_decode.induct)
  case (2 a b c d rest)
  then obtain i j where ij: "b64_value a = Some i" "b64_value b = Some j"
    by (auto split: option.splits)
  note start = ij b64_value_pad [OF ij(1)] b64_value_pad [OF ij(2)]
  show ?case
  proof (cases "c = CHR ''='' \<and> d = CHR ''='' \<and> rest = []")
    case True
    with 2 start show ?thesis by simp
  next
    case False
    with 2 start obtain k where k: "b64_value c = Some k" by (auto split: option.splits)
    show ?thesis
    proof (cases "d = CHR ''='' \<and> rest = []")
      case True
      with 2 start k b64_value_pad [OF k] show ?thesis by simp
    next
      case F: False
      with 2 start k False obtain l r where l: "b64_value d = Some l" "b64_decode rest = Some r"
        "x = char_of (byte1 i j) # char_of (byte2 j k) # char_of (byte3 k l) # r"
        by (auto split: option.splits if_splits)
      have "b64_lenient [] 0 rest = Some r"
        by (rule "2.IH" [OF refl ij False k F l(1,2)])
      with l start k b64_value_pad [OF k] b64_value_pad [OF l(1)] show ?thesis by simp
    qed
  qed
qed simp_all

section \<open>Bundles\<close>

record registration_bundle =
  rb_private_key :: string
  rb_key_fingerprint :: string
  rb_agent_port :: int
  rb_scripts_dir :: string
  rb_hostname_hint :: string
  rb_platform :: string
  rb_ssh_user :: string
  rb_api_token :: string
  rb_agent_version :: string

definition VALID_PLATFORMS :: "string list" where
  "VALID_PLATFORMS = [''linux'', ''windows'', ''macos'']"

definition REQUIRED_FIELDS :: "string list" where
  "REQUIRED_FIELDS = [''private_key'', ''key_fingerprint'', ''api_token'', ''agent_port'', ''scripts_dir'',
     ''hostname_hint'', ''platform'', ''ssh_user'', ''agent_version'']"

record json_libs =
  json_dumps :: "yaml \<Rightarrow> string"
  json_loads :: "string \<Rightarrow> yaml option"

definition json_ok :: "json_libs \<Rightarrow> yaml \<Rightarrow> bool" where
  "json_ok j v \<longleftrightarrow> json_loads j (json_dumps j v) = Some v"

text \<open>The payload of \<open>encode_bundle\<close>.\<close>

definition bundle_payload :: "registration_bundle \<Rightarrow> yaml" where
  "bundle_payload b =
     YMap
       [(''private_key'', YStr (rb_private_key b)), (''key_fingerprint'', YStr (rb_key_fingerprint b)),
        (''api_token'', YStr (rb_api_token b)), (''agent_port'', YInt (rb_agent_port b)),
        (''scripts_dir'', YStr (rb_scripts_dir b)), (''hostname_hint'', YStr (rb_hostname_hint b)),
        (''platform'', YStr (rb_platform b)), (''ssh_user'', YStr (rb_ssh_user b)),
        (''agent_version'', YStr (rb_agent_version b))]"

definition encode_bundle :: "json_libs \<Rightarrow> registration_bundle \<Rightarrow> string" where
  "encode_bundle j b = b64_encode (json_dumps j (bundle_payload b))"

text \<open>
  The \<open>ValueError\<close>s of \<open>decode\<close>, then any other exception: a JSON value without \<open>keys\<close>, an unhashable
  platform, a port \<open>int\<close> refuses with \<open>TypeError\<close> or \<open>OverflowError\<close>.  The fields are declared \<open>str\<close>;
  a bundle with another JSON type there is outside the model and counted as the last.
\<close>

datatype bundle_error =
    Bad_Base64 | Bad_Json | Missing_Fields "string list" | Unknown_Platform yaml | Bad_Port | Other_Exception

fun value_error :: "bundle_error \<Rightarrow> bool" where
  "value_error Other_Exception = False"
| "value_error _ = True"

text \<open>\<open>int(v)\<close> of a JSON value.\<close>

definition trunc_rat :: "rat \<Rightarrow> int" where
  "trunc_rat q = (if q < 0 then - \<lfloor>- q\<rfloor> else \<lfloor>q\<rfloor>)"

fun int_of_json :: "yaml \<Rightarrow> bundle_error + int" where
  "int_of_json (YInt i) = Inr i"
| "int_of_json (YBool b) = Inr (if b then 1 else 0)"
| "int_of_json (YStr s) = (case py_int s of None \<Rightarrow> Inl Bad_Port | Some i \<Rightarrow> Inr i)"
| "int_of_json (YFloat (Fin q)) = Inr (trunc_rat q)"
| "int_of_json (YFloat NaN) = Inl Bad_Port"
| "int_of_json _ = Inl Other_Exception"

definition text_field :: "(string \<times> yaml) list \<Rightarrow> string \<Rightarrow> bundle_error + string" where
  "text_field d k = (case map_of d k of Some (YStr s) \<Rightarrow> Inr s | _ \<Rightarrow> Inl Other_Exception)"

fun platform_field :: "yaml \<Rightarrow> bundle_error + string" where
  "platform_field (YStr p) = (if p \<in> set VALID_PLATFORMS then Inr p else Inl (Unknown_Platform (YStr p)))"
| "platform_field (YList l) = Inl Other_Exception"
| "platform_field (YMap m) = Inl Other_Exception"
| "platform_field v = Inl (Unknown_Platform v)"

definition decode_bundle :: "json_libs \<Rightarrow> string \<Rightarrow> bundle_error + registration_bundle" where
  "decode_bundle j s =
     (case b64_decode s of
        None \<Rightarrow> Inl Bad_Base64
      | Some raw \<Rightarrow>
          (case json_loads j raw of
             None \<Rightarrow> Inl Bad_Json
           | Some (YMap d) \<Rightarrow>
               (let missing = filter (\<lambda>k. map_of d k = None) REQUIRED_FIELDS in
                if missing \<noteq> [] then Inl (Missing_Fields missing)
                else bindR (platform_field (the (map_of d ''platform''))) (\<lambda>platform.
                  bindR (text_field d ''private_key'') (\<lambda>key. bindR (text_field d ''key_fingerprint'') (\<lambda>fp.
                  bindR (int_of_json (the (map_of d ''agent_port''))) (\<lambda>port.
                  bindR (text_field d ''scripts_dir'') (\<lambda>sd. bindR (text_field d ''hostname_hint'') (\<lambda>hh.
                  bindR (text_field d ''ssh_user'') (\<lambda>user. bindR (text_field d ''api_token'') (\<lambda>tok.
                  bindR (text_field d ''agent_version'') (\<lambda>ver.
                    Inr \<lparr>rb_private_key = key, rb_key_fingerprint = fp, rb_agent_port = port, rb_scripts_dir = sd,
                         rb_hostname_hint = hh, rb_platform = platform, rb_ssh_user = user, rb_api_token = tok,
                         rb_agent_version = ver\<rparr>))))))))))
           | Some _ \<Rightarrow> Inl Other_Exception))"

text \<open>
  A registration bundle survives the trip from the target to the control station: what
  \<open>encode_bundle\<close> prints is decoded to the same bundle if its platform is one of the three known ones, and
  refused with \<open>ValueError\<close> otherwise; the characters are base64 whatever the JSON printer emits.
\<close>

theorem bundle_roundtrip:
  assumes "json_ok j (bundle_payload b)"
  shows "decode_bundle j (encode_bundle j b) =
    (if rb_platform b \<in> {''linux'', ''windows'', ''macos''} then Inr b else Inl (Unknown_Platform (YStr (rb_platform b))))"
  using assms
  by (simp add: decode_bundle_def encode_bundle_def json_ok_def bundle_payload_def REQUIRED_FIELDS_def text_field_def
      VALID_PLATFORMS_def)

definition example_bundle :: registration_bundle where
  "example_bundle =
     \<lparr>rb_private_key = ''key'', rb_key_fingerprint = ''SHA256:k'', rb_agent_port = 36717, rb_scripts_dir = ''/s'',
      rb_hostname_hint = ''h'', rb_platform = ''linux'', rb_ssh_user = ''csl'', rb_api_token = ''t'',
      rb_agent_version = ''0.1''\<rparr>"

text \<open>A printer that knows one value only, enough to meet the hypothesis there.\<close>

definition example_json :: "yaml \<Rightarrow> json_libs" where
  "example_json v = \<lparr>json_dumps = (\<lambda>_. ''{}''), json_loads = (\<lambda>s. if s = ''{}'' then Some v else None)\<rparr>"

theorem bundle_roundtrip_witness:
  "decode_bundle (example_json (bundle_payload example_bundle))
     (encode_bundle (example_json (bundle_payload example_bundle)) example_bundle) = Inr example_bundle"
  using bundle_roundtrip [of "example_json (bundle_payload example_bundle)" example_bundle]
  by (simp add: json_ok_def example_json_def example_bundle_def)

end
