(* ===== verification/Approvals_Spec.thy ===== *)
theory Approvals_Spec
  imports Approvals_Props
begin

text \<open>
  What the approval manager promises, without records, digests' bookkeeping or files: per script, which
  content may run and which one waits for the owner.  The manager with its \<open>approvals.json\<close> and its two
  directories implements it.
\<close>

section \<open>The specification\<close>

datatype script_status =
    Unknown
  | Refused
  | Waiting string
  | Live string
  | Live_Waiting string string

type_synonym statuses = "string \<Rightarrow> script_status"

text \<open>
  A content is compared by its digest \<open>h\<close>.  A second update of a live script forgets that the first
  content is live; the last equation is what the code does.
\<close>

fun spec_stage :: "(string \<Rightarrow> string) \<Rightarrow> bool \<Rightarrow> string \<Rightarrow> script_status \<Rightarrow> script_status option" where
  "spec_stage h auto c Unknown = Some (if auto then Live c else Waiting c)"
| "spec_stage h auto c Refused = None"
| "spec_stage h auto c (Waiting p) = Some (if h p = h c then Waiting p else if auto then Live c else Waiting c)"
| "spec_stage h auto c (Live a) = Some (if h a = h c then Live a else if auto then Live c else Live_Waiting a c)"
| "spec_stage h auto c (Live_Waiting a p) =
     Some (if h p = h c then Live_Waiting a p else if auto then Live c else Waiting c)"

fun spec_approve :: "script_status \<Rightarrow> script_status option" where
  "spec_approve (Waiting p) = Some (Live p)"
| "spec_approve (Live_Waiting a p) = Some (Live p)"
| "spec_approve s = None"

fun spec_reject :: "script_status \<Rightarrow> script_status option" where
  "spec_reject (Waiting p) = Some Refused"
| "spec_reject (Live_Waiting a p) = Some Refused"
| "spec_reject s = None"

fun spec_clear :: "script_status \<Rightarrow> script_status option" where
  "spec_clear Unknown = None"
| "spec_clear s = Some Unknown"

fun subject :: "call \<Rightarrow> string" where
  "subject (Call_Stage n c md5 meta) = n"
| "subject (Call_Approve n) = n"
| "subject (Call_Reject n) = n"
| "subject (Call_Clear n) = n"

fun spec_effect :: "(string \<Rightarrow> string) \<Rightarrow> string list \<Rightarrow> call \<Rightarrow> script_status \<Rightarrow> script_status option" where
  "spec_effect h auto (Call_Stage n c md5 meta) = spec_stage h (n \<in> set auto) c"
| "spec_effect h auto (Call_Approve n) = spec_approve"
| "spec_effect h auto (Call_Reject n) = spec_reject"
| "spec_effect h auto (Call_Clear n) = spec_clear"

text \<open>A refused call changes nothing.\<close>

definition spec_step :: "(string \<Rightarrow> string) \<Rightarrow> string list \<Rightarrow> call \<Rightarrow> statuses \<Rightarrow> statuses" where
  "spec_step h auto a S =
     (case spec_effect h auto a (S (subject a)) of None \<Rightarrow> S | Some s \<Rightarrow> S(subject a := s))"

definition spec_accepts :: "(string \<Rightarrow> string) \<Rightarrow> string list \<Rightarrow> call \<Rightarrow> statuses \<Rightarrow> bool" where
  "spec_accepts h auto a S \<longleftrightarrow> spec_effect h auto a (S (subject a)) \<noteq> None"

section \<open>The manager as an implementation\<close>

definition content_of :: "files \<Rightarrow> dir \<Rightarrow> string \<Rightarrow> string" where
  "content_of fs d n = (case fs (d, n) of None \<Rightarrow> [] | Some c \<Rightarrow> c)"

definition status_in :: "store \<Rightarrow> files \<Rightarrow> string \<Rightarrow> script_status" where
  "status_in st fs n =
     (case map_of st n of
        None \<Rightarrow> Unknown
      | Some r \<Rightarrow>
          (case r_state r of
             Absent \<Rightarrow> Unknown
           | Pending \<Rightarrow> Waiting (content_of fs Pending_Dir n)
           | Approved \<Rightarrow> Live (content_of fs Scripts_Dir n)
           | Update_Pending \<Rightarrow> Live_Waiting (content_of fs Scripts_Dir n) (content_of fs Pending_Dir n)
           | Rejected \<Rightarrow> Refused))"

definition statuses_of :: "'t mgr \<Rightarrow> statuses" where
  "statuses_of p = status_in (mem_store (fst p)) (disk_files (snd p))"

fun call_accepted :: "'t codec \<Rightarrow> call \<Rightarrow> 't mgr \<Rightarrow> bool" where
  "call_accepted cd (Call_Stage n c md5 meta) p = (case snd (stage cd n c md5 meta p) of Inl e \<Rightarrow> False | Inr s \<Rightarrow> True)"
| "call_accepted cd (Call_Approve n) p = (case snd (approve cd n p) of Inl e \<Rightarrow> False | Inr s \<Rightarrow> True)"
| "call_accepted cd (Call_Reject n) p = (case snd (reject cd n p) of Inl e \<Rightarrow> False | Inr s \<Rightarrow> True)"
| "call_accepted cd (Call_Clear n) p = (case snd (clear cd n p) of Inl e \<Rightarrow> False | Inr s \<Rightarrow> True)"

section \<open>Every call simulates its specification\<close>

lemma content_of_simps [simp]:
  "content_of (promote n fs) Scripts_Dir n = content_of fs Pending_Dir n"
  "content_of (write_pending n c meta fs) Scripts_Dir n = content_of fs Scripts_Dir n"
  "content_of (write_pending n c meta fs) Pending_Dir n = c"
  by (simp_all add: content_of_def)

lemma has_content_of: "has_content h fs d n m \<Longrightarrow> m = Some (h (content_of fs d n))"
  by (simp add: has_content_def content_of_def split: option.splits)

text \<open>The invariant: the files behind the records, well-formed records, the auto-approve list.\<close>

definition impl_inv :: "(string \<Rightarrow> string) \<Rightarrow> string list \<Rightarrow> 't mgr \<Rightarrow> bool" where
  "impl_inv h auto p \<longleftrightarrow> files_backed h p \<and> store_wf (mem_store (fst p)) \<and> auto_approve (fst p) = auto"

lemma impl_invD: "impl_inv h auto p \<Longrightarrow> map_of (mem_store (fst p)) n = Some r \<Longrightarrow> record_backed h (disk_files (snd p)) n r"
  by (simp add: impl_inv_def files_backed_def)

lemma impl_inv_meta: "impl_inv h auto p \<Longrightarrow> map_of (mem_store (fst p)) n = Some r \<Longrightarrow> \<not> meta_like n"
  using impl_invD [of h auto p n r] by (simp add: record_backed_def)

text \<open>A commit that touches only the files of \<open>n\<close> changes the status of \<open>n\<close> alone.\<close>

lemma commit_statuses:
  assumes "impl_inv h auto p" "statuses_of (commit cd st fs a n x y p) n = s"
    and "\<And>k d. k \<noteq> n \<Longrightarrow> k \<noteq> meta_name n \<Longrightarrow> fs (d, k) = disk_files (snd p) (d, k)"
    and "\<And>k. k \<noteq> n \<Longrightarrow> map_of st k = map_of (mem_store (fst p)) k"
  shows "statuses_of (commit cd st fs a n x y p) = (statuses_of p)(n := s)"
proof
  fix k
  show "statuses_of (commit cd st fs a n x y p) k = ((statuses_of p)(n := s)) k"
  proof (cases "k = n \<or> map_of st k = None")
    case False
    then obtain r where r: "map_of st k = Some r" "map_of (mem_store (fst p)) k = Some r" using assms(4) by auto
    then have "k \<noteq> meta_name n" using impl_inv_meta [OF assms(1), of k r] by auto
    with False assms(3) have "content_of fs d k = content_of (disk_files (snd p)) d k" for d
      by (simp add: content_of_def)
    with False r show ?thesis by (cases "r_state r") (simp_all add: statuses_of_def status_in_def)
  next
    case True
    with assms(2,4) show ?thesis by (auto simp: statuses_of_def status_in_def split: if_splits)
  qed
qed

text \<open>The digests of the statuses are those of the records.\<close>

lemma status_digests:
  assumes "impl_inv h auto p" "map_of (mem_store (fst p)) n = Some r"
  shows "case statuses_of p n of
      Unknown \<Rightarrow> False
    | Refused \<Rightarrow> r_state r = Rejected
    | Waiting c \<Rightarrow> r_state r = Pending \<and> r_pending_md5 r = Some (h c)
    | Live a \<Rightarrow> r_state r = Approved \<and> r_approved_md5 r = Some (h a)
    | Live_Waiting a c \<Rightarrow> r_state r = Update_Pending \<and> r_approved_md5 r = Some (h a) \<and> r_pending_md5 r = Some (h c)"
proof -
  let ?fs = "disk_files (snd p)"
  from assms have wf: "r_state r \<noteq> Absent" by (auto simp: impl_inv_def store_wf_def record_wf_def dest: dict_allD)
  have live: "r_state r \<in> {Approved, Update_Pending} \<Longrightarrow> r_approved_md5 r = Some (h (content_of ?fs Scripts_Dir n))"
    and waits: "r_state r \<in> {Pending, Update_Pending} \<Longrightarrow> r_pending_md5 r = Some (h (content_of ?fs Pending_Dir n))"
    using impl_invD [OF assms] by (simp_all add: record_backed_def has_content_of)
  have "statuses_of p n = status_in (mem_store (fst p)) ?fs n" by (simp add: statuses_of_def)
  with wf live waits show ?thesis
    by (cases "r_state r") (simp_all add: status_in_def assms(2))
qed

lemma status_None: "map_of (mem_store (fst p)) n = None \<Longrightarrow> statuses_of p n = Unknown"
  by (simp add: statuses_of_def status_in_def)

definition simulates :: "(string \<Rightarrow> string) \<Rightarrow> string list \<Rightarrow> 't codec \<Rightarrow> call \<Rightarrow> 't mgr \<Rightarrow> bool" where
  "simulates h auto cd a p \<longleftrightarrow>
     statuses_of (call_step cd a p) = spec_step h auto a (statuses_of p)
     \<and> (call_accepted cd a p \<longleftrightarrow> spec_accepts h auto a (statuses_of p))"

lemma refused_simulates:
  "call_step cd a p = p \<Longrightarrow> \<not> call_accepted cd a p \<Longrightarrow> spec_effect h auto a (statuses_of p (subject a)) = None \<Longrightarrow>
     simulates h auto cd a p"
  by (simp add: simulates_def spec_step_def spec_accepts_def)

lemma accepted_simulates:
  "statuses_of (call_step cd a p) = (statuses_of p)(subject a := s) \<Longrightarrow> call_accepted cd a p \<Longrightarrow>
     spec_effect h auto a (statuses_of p (subject a)) = Some s \<Longrightarrow> simulates h auto cd a p"
  by (simp add: simulates_def spec_step_def spec_accepts_def)

lemma stage_simulates:
  assumes "impl_inv h auto p" "h c = md5" "\<not> meta_like n"
  shows "simulates h auto cd (Call_Stage n c md5 meta) p"
proof (cases rule: stage_cases [of p n cd c md5 meta])
  case rejected
  then obtain r where "map_of (mem_store (fst p)) n = Some r" "r_state r = Rejected"
    by (auto simp: state_of_def split: option.splits)
  then have "statuses_of p n = Refused" by (simp add: statuses_of_def status_in_def)
  with rejected show ?thesis by (intro refused_simulates) simp_all
next
  case noop
  then obtain r where r: "map_of (mem_store (fst p)) n = Some r"
    by (auto simp: already_staged_def split: option.splits)
  have "spec_stage h (n \<in> set auto) c (statuses_of p n) = Some (statuses_of p n)"
    using noop(1,2) status_digests [OF assms(1) r] assms(2) r
    by (auto simp: already_staged_def state_of_def split: script_status.splits)
  with noop(3) show ?thesis by (intro accepted_simulates [of _ _ _ "statuses_of p n"]) simp_all
next
  case auto
  have "spec_stage h (n \<in> set auto) c (statuses_of p n) = Some (Live c)"
  proof (cases "map_of (mem_store (fst p)) n")
    case (Some r)
    with auto assms status_digests [OF assms(1) Some] show ?thesis
      by (auto simp: impl_inv_def already_staged_def state_of_def split: script_status.splits)
  qed (use auto assms in \<open>simp add: status_None impl_inv_def\<close>)
  moreover have "statuses_of (fst (stage cd n c md5 meta p)) = (statuses_of p)(n := Live c)"
    unfolding auto(4) fst_conv
    by (rule commit_statuses [OF assms(1)])
      (simp_all add: other_files statuses_of_def status_in_def empty_record_def)
  ultimately show ?thesis using auto(4) by (intro accepted_simulates [of _ _ _ "Live c"]) simp_all
next
  case (update r)
  then obtain a where a: "statuses_of p n = Live a" "r_approved_md5 r = Some (h a)" "a = content_of (disk_files (snd p)) Scripts_Dir n"
    using status_digests [OF assms(1) update(2)] by (auto simp: statuses_of_def status_in_def split: script_status.splits)
  with update assms have "spec_stage h (n \<in> set auto) c (statuses_of p n) = Some (Live_Waiting a c)"
    by (auto simp: impl_inv_def)
  moreover have "statuses_of (fst (stage cd n c md5 meta p)) = (statuses_of p)(n := Live_Waiting a c)"
    unfolding update(5) fst_conv
    by (rule commit_statuses [OF assms(1)])
      (simp_all add: other_files statuses_of_def status_in_def empty_record_def a(3))
  ultimately show ?thesis using update(5) by (intro accepted_simulates [of _ _ _ "Live_Waiting a c"]) simp_all
next
  case fresh
  have "spec_stage h (n \<in> set auto) c (statuses_of p n) = Some (Waiting c)"
  proof (cases "map_of (mem_store (fst p)) n")
    case (Some r)
    with fresh assms status_digests [OF assms(1) Some] show ?thesis
      by (auto simp: impl_inv_def already_staged_def state_of_def split: script_status.splits)
  qed (use fresh assms in \<open>simp add: status_None impl_inv_def\<close>)
  moreover have "statuses_of (fst (stage cd n c md5 meta p)) = (statuses_of p)(n := Waiting c)"
    unfolding fresh(4) fst_conv
    by (rule commit_statuses [OF assms(1)])
      (simp_all add: other_files statuses_of_def status_in_def empty_record_def)
  ultimately show ?thesis using fresh(4) by (intro accepted_simulates [of _ _ _ "Waiting c"]) simp_all
qed

lemma approve_simulates:
  assumes "impl_inv h auto p"
  shows "simulates h auto cd (Call_Approve n) p"
proof (cases rule: approve_cases [of p n cd])
  case missing
  then show ?thesis by (intro refused_simulates) (simp_all add: status_None)
next
  case (wrong_state r)
  with status_digests [OF assms wrong_state(1)] show ?thesis
    by (intro refused_simulates) (auto split: script_status.splits)
next
  case (no_file r)
  with impl_invD [OF assms no_file(1)] show ?thesis
    by (auto simp: record_backed_def has_content_def exists_file_def split: option.splits)
next
  case (ok r)
  let ?c = "content_of (disk_files (snd p)) Pending_Dir n"
  have "statuses_of (fst (approve cd n p)) = (statuses_of p)(n := Live ?c)"
    unfolding ok(4) fst_conv
    by (rule commit_statuses [OF assms]) (simp_all add: other_files statuses_of_def status_in_def empty_record_def)
  moreover have "spec_approve (statuses_of p n) = Some (Live ?c)"
    using ok(1,2) by (auto simp: statuses_of_def status_in_def)
  ultimately show ?thesis using ok(4) by (intro accepted_simulates [of _ _ _ "Live ?c"]) simp_all
qed

lemma reject_simulates:
  assumes "impl_inv h auto p"
  shows "simulates h auto cd (Call_Reject n) p"
proof (cases rule: reject_cases [of p n cd])
  case missing
  then show ?thesis by (intro refused_simulates) (simp_all add: status_None)
next
  case (wrong_state r)
  with status_digests [OF assms wrong_state(1)] show ?thesis
    by (intro refused_simulates) (auto split: script_status.splits)
next
  case (ok r)
  have "statuses_of (fst (reject cd n p)) = (statuses_of p)(n := Refused)"
    unfolding ok(3) fst_conv
    by (rule commit_statuses [OF assms]) (simp_all add: other_files statuses_of_def status_in_def empty_record_def)
  moreover have "spec_reject (statuses_of p n) = Some Refused"
    using ok(1,2) by (auto simp: statuses_of_def status_in_def)
  ultimately show ?thesis using ok(3) by (intro accepted_simulates [of _ _ _ Refused]) simp_all
qed

lemma clear_simulates:
  assumes "impl_inv h auto p"
  shows "simulates h auto cd (Call_Clear n) p"
proof (cases rule: clear_cases [of p n cd])
  case missing
  then show ?thesis by (intro refused_simulates) (simp_all add: status_None)
next
  case (ok r)
  have "statuses_of (fst (clear cd n p)) = (statuses_of p)(n := Unknown)"
    unfolding ok(2) fst_conv
    by (rule commit_statuses [OF assms]) (simp_all add: other_files statuses_of_def status_in_def delete_conv)
  moreover have "spec_clear (statuses_of p n) = Some Unknown"
    using status_digests [OF assms ok(1)] by (cases "statuses_of p n") simp_all
  ultimately show ?thesis using ok(2) by (intro accepted_simulates [of _ _ _ Unknown]) simp_all
qed

section \<open>The refinement\<close>

lemma call_step_impl_inv:
  assumes "impl_inv h auto p" "honest_call h a"
  shows "impl_inv h auto (call_step cd a p)"
proof -
  have "store_wf (mem_store (fst (call_step cd a p))) \<and> auto_approve (fst (call_step cd a p)) = auto"
  proof (cases a)
    case (Call_Stage n c md5 meta)
    have "auto_approve (fst (fst (stage cd n c md5 meta p))) = auto_approve (fst p)"
      by (cases rule: stage_cases [of p n cd c md5 meta]) simp_all
    with assms Call_Stage show ?thesis by (auto simp: impl_inv_def intro: inv_intros)
  next
    case (Call_Approve n)
    have "auto_approve (fst (fst (approve cd n p))) = auto_approve (fst p)"
      by (cases rule: approve_cases [of p n cd]) simp_all
    with assms Call_Approve show ?thesis by (auto simp: impl_inv_def intro: inv_intros)
  next
    case (Call_Reject n)
    have "auto_approve (fst (fst (reject cd n p))) = auto_approve (fst p)"
      by (cases rule: reject_cases [of p n cd]) simp_all
    with assms Call_Reject show ?thesis by (auto simp: impl_inv_def intro: inv_intros)
  next
    case (Call_Clear n)
    have "auto_approve (fst (fst (clear cd n p))) = auto_approve (fst p)"
      by (cases rule: clear_cases [of p n cd]) simp_all
    with assms Call_Clear show ?thesis by (auto simp: impl_inv_def intro: inv_intros)
  qed
  moreover have "files_backed h (call_step cd a p)"
    using assms by (intro backed.guarded_inv) (simp_all add: impl_inv_def)
  ultimately show ?thesis by (simp add: impl_inv_def)
qed

lemma call_simulates: "impl_inv h auto p \<Longrightarrow> honest_call h a \<Longrightarrow> simulates h auto cd a p"
  by (cases a) (simp_all add: stage_simulates approve_simulates reject_simulates clear_simulates)

interpretation approvals_impl: refinement_system "call_step cd" "impl_inv h auto" "honest_call h" statuses_of "spec_step h auto"
  for cd h auto
  by unfold_locales (simp add: call_step_impl_inv, erule (1) call_simulates [unfolded simulates_def, THEN conjunct1])

lemma impl_inv_start: "impl_inv h auto (new_manager cd auto empty_disk)"
  by (simp add: impl_inv_def files_backed_def)



end
