(* ===== verification/Ssh_Gateway.thy ===== *)
theory Ssh_Gateway
  imports Prelude
begin

text \<open>
  What the control station's key can do on a target: \<open>shared/ssh_commands.py\<close>,
  \<open>agent/cli/cmd_ssh_gateway.py\<close>, and the \<open>authorized_keys\<close> entry that \<open>agent/cli/cmd_init.py\<close> writes.
  Running a command through the shell is a parameter (\<open>shell\<close>).
\<close>

section \<open>The commands\<close>

definition dquote :: string where
  "dquote = [CHR 0x22]"

definition backslash :: string where
  "backslash = [CHR 0x5C]"

definition WAKEUP_CMD :: "(string, string) dict" where
  "WAKEUP_CMD =
     [(''linux'', ''systemctl --user start csl-agent''),
      (''windows'', ''schtasks /run /tn '' @ dquote @ ''CSL-Agent'' @ dquote),
      (''macos'', ''launchctl kickstart '' @ dquote @ ''gui/$UID/com.controlstationlite.agent'' @ dquote)]"

definition CONFIG_READ_CMD :: "(string, string) dict" where
  "CONFIG_READ_CMD =
     [(''linux'', ''cat ~/.csl/config.yaml''),
      (''macos'', ''cat ~/.csl/config.yaml''),
      (''windows'', ''powershell -Command '' @ dquote @ ''Get-Content (Join-Path $env:USERPROFILE ''
          @ backslash @ dquote @ ''.csl'' @ backslash @ ''config.yaml'' @ backslash @ dquote @ '')'' @ dquote)]"

definition current_platform_name :: "bool \<Rightarrow> bool \<Rightarrow> string" where
  "current_platform_name windows macos = (if windows then ''windows'' else if macos then ''macos'' else ''linux'')"

definition allowed_commands :: "string \<Rightarrow> string list" where
  "allowed_commands platform =
     (case map_of WAKEUP_CMD platform of None \<Rightarrow> [] | Some c \<Rightarrow> [c])
     @ (case map_of CONFIG_READ_CMD platform of None \<Rightarrow> [] | Some c \<Rightarrow> [c])"

section \<open>The gateway\<close>

definition REJECTED_EXIT :: int where
  "REJECTED_EXIT = 126"

text \<open>The command the gateway ran, if any, and its exit code.\<close>

definition cmd_ssh_gateway ::
  "(string \<Rightarrow> int) \<Rightarrow> bool \<Rightarrow> bool \<Rightarrow> string option \<Rightarrow> string option \<times> int" where
  "cmd_ssh_gateway shell windows macos original_command =
     (let requested = (case original_command of None \<Rightarrow> [] | Some c \<Rightarrow> c);
          allowed = allowed_commands (current_platform_name windows macos)
      in if requested \<notin> set allowed then (None, REJECTED_EXIT)
         else (Some requested, shell requested))"

section \<open>The control station's side\<close>

text \<open>\<open>_remote_config_cmd\<close> of \<open>server/api/machines.py\<close>.\<close>

definition remote_config_cmd :: "string \<Rightarrow> string" where
  "remote_config_cmd platform =
     (case map_of CONFIG_READ_CMD platform of Some c \<Rightarrow> c | None \<Rightarrow> the (map_of CONFIG_READ_CMD ''linux''))"

section \<open>The entry in \<open>authorized_keys\<close>\<close>

definition forced_command :: "string option \<Rightarrow> string" where
  "forced_command which = (case which of Some exe \<Rightarrow> exe | None \<Rightarrow> ''csl-agent'') @ '' ssh-gateway''"

definition build_authorized_keys_entry :: "string option \<Rightarrow> string \<Rightarrow> int \<Rightarrow> string" where
  "build_authorized_keys_entry which public_openssh agent_port =
     ''command='' @ dquote @ forced_command which @ dquote @ '',restrict,port-forwarding,permitopen='' @ dquote
     @ ''127.0.0.1:'' @ int_str agent_port @ dquote @ '' '' @ py_strip public_openssh"

text \<open>\<open>str.split()\<close>: the maximal runs of characters that are not white space.\<close>

fun split_words :: "string \<Rightarrow> string \<Rightarrow> string list" where
  "split_words acc [] = (if acc = [] then [] else [rev acc])"
| "split_words acc (c # s) =
     (if is_space c then (if acc = [] then split_words [] s else rev acc # split_words [] s)
      else split_words (c # acc) s)"

text \<open>\<open>public_openssh.decode().split()[1]\<close> raises \<open>IndexError\<close> (\<open>None\<close>) on a key line of one word.\<close>

definition key_body :: "string \<Rightarrow> string option" where
  "key_body public_openssh =
     (case split_words [] public_openssh of t # b # _ \<Rightarrow> Some b | _ \<Rightarrow> None)"

text \<open>
  \<open>str.splitlines()\<close> on the line boundaries within ASCII: newline, carriage return (with a following
  newline), vertical tab, form feed and the three separators.
\<close>

definition is_line_break :: "char \<Rightarrow> bool" where
  "is_line_break c = ((10 \<le> ccode c \<and> ccode c \<le> 13) \<or> (28 \<le> ccode c \<and> ccode c \<le> 30))"

fun split_lines :: "string \<Rightarrow> string \<Rightarrow> string list" where
  "split_lines acc [] = (if acc = [] then [] else [rev acc])"
| "split_lines acc [c] = (if is_line_break c then [rev acc] else [rev (c # acc)])"
| "split_lines acc (c # d # s) =
     (if is_line_break c then
        rev acc # (if c = carriage_return \<and> d = newline then split_lines [] s else split_lines [] (d # s))
      else split_lines (c # acc) (d # s))"

definition join_lines :: "string list \<Rightarrow> string" where
  "join_lines ls = concat (map (\<lambda>l. l @ [newline]) ls)"

definition append_authorized_keys ::
  "string option \<Rightarrow> string \<Rightarrow> int \<Rightarrow> string option \<Rightarrow> string option" where
  "append_authorized_keys which public_openssh agent_port existing =
     (case key_body public_openssh of
        None \<Rightarrow> None
      | Some body \<Rightarrow>
          let existing_lines = (case existing of None \<Rightarrow> [] | Some t \<Rightarrow> split_lines [] t);
              kept = filter (\<lambda>line. \<not> sublist body line) existing_lines
          in Some (join_lines (kept @ [build_authorized_keys_entry which public_openssh agent_port])))"

section \<open>Properties\<close>

text \<open>
  C29. The gateway runs a command only if it is, character for character, one of the two the platform
  allows, and passes its exit code on; anything else, and a request without a command, ends with
  126 and runs nothing.  Every command the control station sends to a platform it knows, the start
  command and the config read, is among those allowed there.
\<close>

theorem gateway_runs_only_allowed:
  "(case cmd_ssh_gateway shell w m oc of
      (Some c, rc) \<Rightarrow> oc = Some c \<and> rc = shell c
          \<and> (map_of WAKEUP_CMD (current_platform_name w m) = Some c
             \<or> c = remote_config_cmd (current_platform_name w m))
    | (None, rc) \<Rightarrow> rc = 126 \<and> oc \<notin> Some ` set (allowed_commands (current_platform_name w m)))
   \<and> cmd_ssh_gateway shell w m (map_of WAKEUP_CMD (current_platform_name w m))
       = (map_of WAKEUP_CMD (current_platform_name w m), shell (the (map_of WAKEUP_CMD (current_platform_name w m))))
   \<and> cmd_ssh_gateway shell w m (Some (remote_config_cmd (current_platform_name w m)))
       = (Some (remote_config_cmd (current_platform_name w m)), shell (remote_config_cmd (current_platform_name w m)))"
  by (auto simp: cmd_ssh_gateway_def Let_def allowed_commands_def remote_config_cmd_def current_platform_name_def
      WAKEUP_CMD_def CONFIG_READ_CMD_def REJECTED_EXIT_def dquote_def split: option.splits)

lemma split_lines_no_break:
  "list_all (\<lambda>c. \<not> is_line_break c) acc \<Longrightarrow> l \<in> set (split_lines acc s) \<Longrightarrow> list_all (\<lambda>c. \<not> is_line_break c) l"
  by (induction acc s rule: split_lines.induct) (auto split: if_splits)

lemma newline_break [simp]: "is_line_break newline" "newline \<noteq> carriage_return" "carriage_return \<noteq> newline"
  by (simp_all add: is_line_break_def newline_def carriage_return_def ccode_def)

lemma split_lines_cons:
  "list_all (\<lambda>c. \<not> is_line_break c) l \<Longrightarrow> split_lines acc (l @ newline # s) = (rev acc @ l) # split_lines [] s"
proof (induction l arbitrary: acc)
  case Nil
  then show ?case by (cases s) auto
next
  case (Cons c l)
  then obtain d t where "l @ newline # s = d # t" by (cases l) auto
  with Cons show ?case by auto
qed

lemma split_join: "list_all (list_all (\<lambda>c. \<not> is_line_break c)) ls \<Longrightarrow> split_lines [] (join_lines ls) = ls"
  by (induction ls) (simp_all add: join_lines_def split_lines_cons)

lemma split_words_sound:
  "w \<in> set (split_words acc s) \<Longrightarrow> list_all (\<lambda>c. \<not> is_space c) acc \<Longrightarrow>
     sublist w (rev acc @ s) \<and> w \<noteq> [] \<and> list_all (\<lambda>c. \<not> is_space c) w"
proof (induction acc s rule: split_words.induct)
  case (2 acc c s)
  show ?case
  proof (cases "is_space c")
    case True
    show ?thesis
    proof (cases "acc \<noteq> [] \<and> w = rev acc")
      case True
      with 2(5) show ?thesis by auto
    next
      case False
      with \<open>is_space c\<close> 2(4) have "w \<in> set (split_words [] s)" by (auto split: if_splits)
      then have "sublist w s \<and> w \<noteq> [] \<and> list_all (\<lambda>c. \<not> is_space c) w"
        using 2(1,2) \<open>is_space c\<close> by (cases "acc = []") auto
      moreover have "sublist s ((rev acc @ [c]) @ s)" by (rule sublist_append_leftI)
      ultimately show ?thesis using sublist_order.order.trans [of w s "rev acc @ c # s"] by simp
    qed
  next
    case False
    with 2(3) [OF False] 2(4,5) show ?thesis by simp
  qed
qed (auto split: if_splits)

lemma sublist_dropWhile_keeps:
  assumes "sublist w s" "w \<noteq> []" "\<forall>c \<in> set w. \<not> P c"
  shows "sublist w (dropWhile P s)"
proof -
  obtain p q where s: "s = p @ w @ q" using assms(1) by (auto simp: sublist_def)
  have "dropWhile P (w @ q) = w @ q" using assms(2,3) by (cases w) auto
  then have "dropWhile P s = dropWhile P p @ w @ q \<or> dropWhile P s = w @ q"
    by (cases "\<forall>c \<in> set p. P c") (auto simp: s dropWhile_append)
  then show ?thesis by (elim disjE) simp_all
qed

lemma sublist_strip:
  assumes "sublist w s" "w \<noteq> []" "list_all (\<lambda>c. \<not> is_space c) w"
  shows "sublist w (py_strip s)"
proof -
  have "sublist (rev w) (dropWhile is_space (rev s))"
    by (rule sublist_dropWhile_keeps) (use assms in \<open>auto simp: list_all_iff sublist_rev\<close>)
  then have "sublist w (rstrip_chars is_space s)"
    unfolding rstrip_chars_def by (metis rev_rev_ident sublist_rev)
  then show ?thesis
    unfolding py_strip_def lstrip_chars_def
    by (rule sublist_dropWhile_keeps) (use assms in \<open>auto simp: list_all_iff\<close>)
qed

lemma entry_has_key:
  assumes "key_body pub = Some b"
  shows "sublist b (build_authorized_keys_entry which pub port)"
proof -
  have "b \<in> set (split_words [] pub)" using assms by (auto simp: key_body_def split: list.splits)
  then have "sublist b (py_strip pub)"
    using split_words_sound [of b "[]" pub] sublist_strip by simp
  have right: "sublist x y \<Longrightarrow> sublist x (z @ y)" for x y z :: string
    using sublist_order.order.trans [of x y "z @ y"] by simp
  show ?thesis unfolding build_authorized_keys_entry_def by ((rule right)+, fact)
qed

text \<open>
  Writing the key entry keeps every line that is not about this key, in order, leaves exactly one line
  with this key, the restricted one, at the end, and is idempotent: repeated, even for another
  port, it replaces that line and changes nothing else.
\<close>

theorem authorized_keys_upgrade:
  assumes "key_body pub = Some b" "list_all (\<lambda>c. \<not> is_line_break c) (build_authorized_keys_entry which pub port)"
    and "append_authorized_keys which pub port existing = Some t"
  shows "split_lines [] t =
      filter (\<lambda>l. \<not> sublist b l) (case existing of None \<Rightarrow> [] | Some e \<Rightarrow> split_lines [] e)
      @ [build_authorized_keys_entry which pub port]
    \<and> filter (sublist b) (split_lines [] t) = [build_authorized_keys_entry which pub port]
    \<and> append_authorized_keys which pub port (Some t) = Some t
    \<and> append_authorized_keys which pub port' (Some t) = append_authorized_keys which pub port' existing"
proof -
  let ?old = "case existing of None \<Rightarrow> [] | Some e \<Rightarrow> split_lines [] e"
  let ?kept = "filter (\<lambda>l. \<not> sublist b l) ?old"
  let ?entry = "build_authorized_keys_entry which pub port"
  have t: "t = join_lines (?kept @ [?entry])"
    using assms(1,3) by (simp add: append_authorized_keys_def Let_def)
  have "list_all (list_all (\<lambda>c. \<not> is_line_break c)) ?old"
    using split_lines_no_break [of "[]"] by (auto simp: list_all_iff split: option.split)
  then have "list_all (list_all (\<lambda>c. \<not> is_line_break c)) (?kept @ [?entry])"
    using assms(2) by (auto simp: list_all_iff)
  then have lines: "split_lines [] t = ?kept @ [?entry]" unfolding t by (rule split_join)
  have key: "sublist b ?entry" using assms(1) by (rule entry_has_key)
  have again: "filter (\<lambda>l. \<not> sublist b l) (split_lines [] t) = ?kept"
    using key by (simp add: lines)
  have "filter (sublist b) (split_lines [] t) = [?entry]"
    using key by (simp add: lines filter_empty_conv)
  then show ?thesis
    using lines again t assms(1) by (simp add: append_authorized_keys_def Let_def)
qed

theorem authorized_keys_upgrade_witness:
  "\<exists>t. append_authorized_keys None (''ssh-ed25519 AAAA csl'' @ [newline]) 80
       (Some (''ssh-rsa BBBB bob'' @ [newline] @ ''ssh-ed25519 AAAA old'' @ [newline])) = Some t
     \<and> filter (sublist ''AAAA'') (split_lines [] t)
         = [build_authorized_keys_entry None (''ssh-ed25519 AAAA csl'' @ [newline]) 80]"
proof -
  let ?pub = "''ssh-ed25519 AAAA csl'' @ [newline]"
  let ?old = "Some (''ssh-rsa BBBB bob'' @ [newline] @ ''ssh-ed25519 AAAA old'' @ [newline])"
  have b: "key_body ?pub = Some ''AAAA''" by code_simp
  have l: "list_all (\<lambda>c. \<not> is_line_break c) (build_authorized_keys_entry None ?pub 80)" by code_simp
  have "\<exists>t. append_authorized_keys None ?pub 80 ?old = Some t"
    unfolding append_authorized_keys_def b option.case Let_def by (rule exI, rule refl)
  then obtain t where t: "append_authorized_keys None ?pub 80 ?old = Some t" ..
  show ?thesis
    by (rule exI, rule conjI [OF t], rule conjunct1 [OF conjunct2 [OF authorized_keys_upgrade [OF b l t]]])
qed

end
