(* ===== verification/Ssh_Pool.thy ===== *)
theory Ssh_Pool
  imports Prelude
begin

text \<open>
  \<open>server/core/ssh.py\<close>: the pool of SSH connections, keyed by host, port and user.  \<open>asyncssh\<close> is the
  parameter \<open>ssh_lib\<close>: importing a private key or a known-hosts line may fail, connecting may fail (a
  host key that is not the pinned one included), so may forwarding a port or running a command.  A
  connection has type \<open>'c\<close>, a listener \<open>'l\<close>; the rest of the world is \<open>'w\<close>.
\<close>

section \<open>Connections\<close>

type_synonym conn_key = "string \<times> int \<times> string"

record ('c, 'l, 'w) ssh_lib =
  ssh_import_key :: "string \<Rightarrow> bool"
  ssh_import_hosts :: "string \<Rightarrow> bool"
  ssh_connect :: "conn_key \<Rightarrow> string \<Rightarrow> string option \<Rightarrow> 'w \<Rightarrow> 'w \<times> 'c option"
  ssh_is_closed :: "'c \<Rightarrow> 'w \<Rightarrow> bool"
  ssh_forward :: "'c \<Rightarrow> int \<Rightarrow> 'w \<Rightarrow> 'w \<times> 'l option"
  ssh_run :: "'c \<Rightarrow> string \<Rightarrow> 'w \<Rightarrow> 'w \<times> bool"
  ssh_close_listener :: "'l \<Rightarrow> 'w \<Rightarrow> 'w"
  ssh_close :: "'c \<Rightarrow> 'w \<Rightarrow> 'w"

text \<open>\<open>ValueError\<close> of an import, or \<open>OSError\<close> and \<open>asyncssh.Error\<close>.\<close>

datatype ssh_error = Import_Failed | Ssh_Error

text \<open>The line given to \<open>import_known_hosts\<close>; \<open>None\<close>: trust on first use.\<close>

definition build_known_hosts :: "string option \<Rightarrow> string option" where
  "build_known_hosts host_key =
     (case host_key of
        None \<Rightarrow> None
      | Some k \<Rightarrow> if k = [] then None else Some (''* '' @ py_strip k @ [newline]))"

section \<open>The pool\<close>

record ('c, 'l) pool_entry =
  e_conn :: 'c
  e_listeners :: "'l list"

type_synonym ('c, 'l) pool = "(conn_key, ('c, 'l) pool_entry) dict"

text \<open>\<open>asyncssh.connect\<close> with the imports its arguments need.\<close>

definition connect ::
  "('c, 'l, 'w) ssh_lib \<Rightarrow> conn_key \<Rightarrow> string \<Rightarrow> string option \<Rightarrow> 'w \<Rightarrow> 'w \<times> (ssh_error + 'c)" where
  "connect lib key private_key host_key w =
     (if \<not> ssh_import_key lib private_key then (w, Inl Import_Failed)
      else if (case build_known_hosts host_key of None \<Rightarrow> False | Some l \<Rightarrow> \<not> ssh_import_hosts lib l) then (w, Inl Import_Failed)
      else case ssh_connect lib key private_key (build_known_hosts host_key) w of
             (w', None) \<Rightarrow> (w', Inl Ssh_Error)
           | (w', Some c) \<Rightarrow> (w', Inr c))"

definition get_connection ::
  "('c, 'l, 'w) ssh_lib \<Rightarrow> conn_key \<Rightarrow> string \<Rightarrow> string option \<Rightarrow> ('c, 'l) pool \<times> 'w
     \<Rightarrow> (('c, 'l) pool \<times> 'w) \<times> (ssh_error + 'c)" where
  "get_connection lib key private_key host_key pw =
     (let (pool, w) = pw in
      case map_of pool key of
        Some e \<Rightarrow>
          if \<not> ssh_is_closed lib (e_conn e) w then (pw, Inr (e_conn e))
          else (case connect lib key private_key host_key w of
                  (w', Inl x) \<Rightarrow> ((pool, w'), Inl x)
                | (w', Inr c) \<Rightarrow> ((AList.update key \<lparr>e_conn = c, e_listeners = []\<rparr> pool, w'), Inr c))
      | None \<Rightarrow>
          (case connect lib key private_key host_key w of
             (w', Inl x) \<Rightarrow> ((pool, w'), Inl x)
           | (w', Inr c) \<Rightarrow> ((AList.update key \<lparr>e_conn = c, e_listeners = []\<rparr> pool, w'), Inr c)))"

definition open_tunnel ::
  "('c, 'l, 'w) ssh_lib \<Rightarrow> conn_key \<Rightarrow> string \<Rightarrow> int \<Rightarrow> string option \<Rightarrow> ('c, 'l) pool \<times> 'w
     \<Rightarrow> (('c, 'l) pool \<times> 'w) \<times> (ssh_error + 'l)" where
  "open_tunnel lib key private_key remote_port host_key pw =
     (case get_connection lib key private_key host_key pw of
        (pw1, Inl e) \<Rightarrow> (pw1, Inl e)
      | ((pool, w), Inr c) \<Rightarrow>
          (case ssh_forward lib c remote_port w of
             (w', None) \<Rightarrow> ((pool, w'), Inl Ssh_Error)
           | (w', Some l) \<Rightarrow>
               ((case map_of pool key of
                   None \<Rightarrow> pool
                 | Some e \<Rightarrow> AList.update key (e\<lparr>e_listeners := e_listeners e @ [l]\<rparr>) pool, w'), Inr l)))"

definition close_conn :: "('c, 'l, 'w) ssh_lib \<Rightarrow> conn_key \<Rightarrow> ('c, 'l) pool \<times> 'w \<Rightarrow> ('c, 'l) pool \<times> 'w" where
  "close_conn lib key pw =
     (let (pool, w) = pw in
      case map_of pool key of
        None \<Rightarrow> pw
      | Some e \<Rightarrow> (AList.delete key pool, ssh_close lib (e_conn e) (fold (ssh_close_listener lib) (e_listeners e) w)))"

definition close_all :: "('c, 'l, 'w) ssh_lib \<Rightarrow> ('c, 'l) pool \<times> 'w \<Rightarrow> ('c, 'l) pool \<times> 'w" where
  "close_all lib pw = fold (close_conn lib) (map fst (fst pw)) pw"

section \<open>What the pool holds\<close>

lemma get_connection_cases:
  obtains (cached) e where "map_of (fst pw) key = Some e" "\<not> ssh_is_closed lib (e_conn e) (snd pw)"
      "get_connection lib key pk hk pw = (pw, Inr (e_conn e))"
  | (failed) w' x where "connect lib key pk hk (snd pw) = (w', Inl x)"
      "get_connection lib key pk hk pw = ((fst pw, w'), Inl x)"
  | (fresh) w' c where "connect lib key pk hk (snd pw) = (w', Inr c)"
      "get_connection lib key pk hk pw = ((AList.update key \<lparr>e_conn = c, e_listeners = []\<rparr> (fst pw), w'), Inr c)"
proof -
  obtain pool w where pw: "pw = (pool, w)" by fastforce
  obtain w' r where c: "connect lib key pk hk w = (w', r)" by fastforce
  show ?thesis
  proof (cases "\<exists>e. map_of pool key = Some e \<and> \<not> ssh_is_closed lib (e_conn e) w")
    case True
    then obtain e where "map_of pool key = Some e" "\<not> ssh_is_closed lib (e_conn e) w" by blast
    then show ?thesis by (intro cached [of e]) (simp_all add: pw get_connection_def)
  next
    case False
    then have "get_connection lib key pk hk pw = (case (w', r) of
             (w', Inl x) \<Rightarrow> ((pool, w'), Inl x)
           | (w', Inr c) \<Rightarrow> ((AList.update key \<lparr>e_conn = c, e_listeners = []\<rparr> pool, w'), Inr c))"
      by (auto simp: pw get_connection_def c split: option.splits)
    with c failed fresh show ?thesis by (cases r) (auto simp: pw)
  qed
qed

text \<open>A tunnel goes through the connection the pool holds for its key.\<close>

lemma open_tunnel_through:
  assumes "open_tunnel lib key pk port hk pw = (pw', Inr l)"
  shows "\<exists>pw1 c w'. get_connection lib key pk hk pw = (pw1, Inr c) \<and> ssh_forward lib c port (snd pw1) = (w', Some l)
    \<and> snd pw' = w' \<and> (\<exists>e. map_of (fst pw') key = Some e \<and> e_conn e = c \<and> l \<in> set (e_listeners e))"
proof -
  obtain pool w r where g: "get_connection lib key pk hk pw = ((pool, w), r)" by (metis prod.collapse)
  from assms g obtain c where r: "r = Inr c" by (cases r) (simp_all add: open_tunnel_def)
  obtain w' m where f: "ssh_forward lib c port w = (w', m)" by fastforce
  with assms g r have m: "m = Some l" by (cases m) (simp_all add: open_tunnel_def)
  have e: "\<exists>e. map_of pool key = Some e \<and> e_conn e = c"
    by (rule get_connection_cases [of pw key lib pk hk]) (use g r in auto)
  from e obtain e where e: "map_of pool key = Some e" "e_conn e = c" by blast
  have "pw' = (AList.update key (e\<lparr>e_listeners := e_listeners e @ [l]\<rparr>) pool, w')"
    using assms g r f m e by (simp add: open_tunnel_def)
  then show ?thesis using g r f m e by (auto simp: update_conv)
qed

lemma close_conn_fst: "fst (close_conn lib key pw) = AList.delete key (fst pw)"
  by (auto simp: close_conn_def Let_def split: option.splits prod.splits)
    (metis map_of_eq_None_iff AList.delete_simps(1) delete_conv fun_upd_idem_iff delete_id)

end
