(* ===== verification/Crypto.thy ===== *)
theory Crypto
  imports Prelude
begin

text \<open>
  \<open>server/core/crypto.py\<close>: the encrypted columns.  Bytes are characters; AES-256-GCM is the parameter
  \<open>aead\<close>, the nonce (\<open>os.urandom\<close>) an argument.  \<open>aead_ok\<close> is what the library documents: what was sealed
  under a key and a nonce opens under the same, to the same plaintext.
\<close>

record aead =
  gcm_encrypt :: "string \<Rightarrow> string \<Rightarrow> string \<Rightarrow> string"
  gcm_decrypt :: "string \<Rightarrow> string \<Rightarrow> string \<Rightarrow> string option"

definition aead_ok :: "aead \<Rightarrow> bool" where
  "aead_ok a \<longleftrightarrow> (\<forall>k n p. gcm_decrypt a k n (gcm_encrypt a k n p) = Some p)"

definition NONCE_SIZE :: nat where
  "NONCE_SIZE = 12"

datatype crypto_error = Blob_Too_Short nat | Invalid_Tag

definition encrypt :: "aead \<Rightarrow> string \<Rightarrow> string \<Rightarrow> string \<Rightarrow> string" where
  "encrypt a nonce plaintext master_key = nonce @ gcm_encrypt a master_key nonce plaintext"

definition decrypt :: "aead \<Rightarrow> string \<Rightarrow> string \<Rightarrow> crypto_error + string" where
  "decrypt a blob master_key =
     (if length blob < NONCE_SIZE then Inl (Blob_Too_Short (length blob))
      else let nonce = take NONCE_SIZE blob; ciphertext = drop NONCE_SIZE blob
           in case gcm_decrypt a master_key nonce ciphertext of None \<Rightarrow> Inl Invalid_Tag | Some p \<Rightarrow> Inr p)"

lemma decrypt_encrypt:
  "aead_ok a \<Longrightarrow> length nonce = NONCE_SIZE \<Longrightarrow> decrypt a (encrypt a nonce p k) k = Inr p"
  by (simp add: decrypt_def encrypt_def aead_ok_def)

text \<open>A cipher that satisfies the hypothesis: the key is prefixed and checked.\<close>

definition example_aead :: aead where
  "example_aead =
     \<lparr>gcm_encrypt = (\<lambda>k n p. k @ p),
      gcm_decrypt = (\<lambda>k n c. if take (length k) c = k then Some (drop (length k) c) else None)\<rparr>"

lemma example_aead_ok: "aead_ok example_aead"
  by (simp add: aead_ok_def example_aead_def)

end
