(* ===== verification/Agent_Client.thy ===== *)
theory Agent_Client
  imports Agent_Main Server_Errors Ssh_Gateway Ssh_Pool Crypto
begin

text \<open>
  \<open>server/core/agent_client.py\<close>: the control station's typed client of one agent.  A client works on the
  SSH pool and the world behind it.  \<open>net\<close> holds the libraries under it: \<open>asyncssh\<close>, \<open>httpx\<close> (sending a
  request through a listener fails, \<open>None\<close>, or answers with a status and a body; a streamed answer is its
  whole text), \<open>asyncio.sleep\<close>, AES-GCM,
  and the master key of the settings.  \<open>Station\<close> puts the model of the agents behind it.  A name is a
  single path segment of the request, as the agent's names are.
\<close>

section \<open>The libraries and the errors\<close>

record ('c, 'l, 'w) net =
  ssh :: "('c, 'l, 'w) ssh_lib"
  http_send :: "'l \<Rightarrow> http_request \<Rightarrow> 'w \<Rightarrow> 'w \<times> response option"
  http_stream :: "'l \<Rightarrow> http_request \<Rightarrow> 'w \<Rightarrow> 'w \<times> (nat \<times> string) option"
  net_sleep :: "nat \<Rightarrow> 'w \<Rightarrow> 'w"
  net_aead :: aead
  master_key :: string

type_synonym ('c, 'l, 'w) wire = "('c, 'l) pool \<times> 'w"

text \<open>
  \<open>AgentClientError\<close> and its subclasses, then what the client does not translate: a failed request,
  a status that is no success (\<open>raise_for_status\<close>), a body that does not validate, an SSH error, an encrypted
  column that does not decrypt.
\<close>

datatype client_error =
    No_Start_Command string
  | Not_Reachable string
  | Agent_Approval string error_detail
  | Agent_Validation error_detail
  | Request_Failed
  | Status_Failed nat
  | Bad_Body
  | Ssh_Failed ssh_error
  | Decrypt_Failed crypto_error

fun agent_client_error :: "client_error \<Rightarrow> bool" where
  "agent_client_error (No_Start_Command p) = True"
| "agent_client_error (Not_Reachable n) = True"
| "agent_client_error (Agent_Approval s d) = True"
| "agent_client_error (Agent_Validation d) = True"
| "agent_client_error e = False"

section \<open>Opening and closing\<close>

text \<open>\<open>_auth_headers\<close>: the bearer is left out when the stored token is missing or empty.\<close>

definition auth_headers :: "aead \<Rightarrow> string \<Rightarrow> machine_row \<Rightarrow> crypto_error + string option" where
  "auth_headers a key m =
     (case m_agent_token_encrypted m of
        None \<Rightarrow> Inr None
      | Some enc \<Rightarrow> if enc = [] then Inr None
                    else bindR (decrypt a enc key) (\<lambda>token. Inr (Some (''Bearer '' @ token))))"

record ('c, 'l, 'w) client =
  cl_net :: "('c, 'l, 'w) net"
  cl_machine :: machine_row
  cl_private_key :: string
  cl_listener :: 'l
  cl_authorization :: "string option"

definition machine_key :: "machine_row \<Rightarrow> conn_key" where
  "machine_key m = (m_ssh_host m, m_ssh_port m, m_ssh_user m)"

text \<open>\<open>__aenter__\<close> and \<open>__aexit__\<close>.\<close>

definition open_client ::
  "('c, 'l, 'w) net \<Rightarrow> machine_row \<Rightarrow> string \<Rightarrow> ('c, 'l, 'w) wire
     \<Rightarrow> ('c, 'l, 'w) wire \<times> (client_error + ('c, 'l, 'w) client)" where
  "open_client nt m private_key v =
     (case open_tunnel (ssh nt) (machine_key m) private_key (m_agent_port m) (m_ssh_host_key m) v of
        (v1, Inl e) \<Rightarrow> (v1, Inl (Ssh_Failed e))
      | (v1, Inr l) \<Rightarrow>
          (v1, case auth_headers (net_aead nt) (master_key nt) m of
                 Inl e \<Rightarrow> Inl (Decrypt_Failed e)
               | Inr h \<Rightarrow> Inr \<lparr>cl_net = nt, cl_machine = m, cl_private_key = private_key, cl_listener = l,
                               cl_authorization = h\<rparr>))"

definition close_client :: "('c, 'l, 'w) client \<Rightarrow> ('c, 'l, 'w) wire \<Rightarrow> ('c, 'l, 'w) wire" where
  "close_client c v = (fst v, ssh_close_listener (ssh (cl_net c)) (cl_listener c) (snd v))"

section \<open>Requests\<close>

definition send ::
  "('c, 'l, 'w) client \<Rightarrow> endpoint \<Rightarrow> ('c, 'l, 'w) wire \<Rightarrow> ('c, 'l, 'w) wire \<times> response option" where
  "send c e v =
     (let (w', r) = http_send (cl_net c) (cl_listener c) \<lparr>authorization = cl_authorization c, target = e\<rparr> (snd v)
      in ((fst v, w'), r))"

definition raise_for_status :: "response option \<Rightarrow> client_error + body" where
  "raise_for_status r =
     (case r of
        None \<Rightarrow> Inl Request_Failed
      | Some (st, b) \<Rightarrow> if 200 \<le> st \<and> st < 300 then Inr b else Inl (Status_Failed st))"

definition get_health :: "('c, 'l, 'w) client \<Rightarrow> ('c, 'l, 'w) wire \<Rightarrow> ('c, 'l, 'w) wire \<times> (client_error + agent_health)" where
  "get_health c w =
     (let (w', r) = send c Healthz w
      in (w', bindR (raise_for_status r) (\<lambda>b. case b of B_Health h \<Rightarrow> Inr h | _ \<Rightarrow> Inl Bad_Body)))"

definition client_script_state :: "('c, 'l, 'w) client \<Rightarrow> string \<Rightarrow> ('c, 'l, 'w) wire \<Rightarrow> ('c, 'l, 'w) wire \<times> (client_error + script_descriptor)" where
  "client_script_state c name w =
     (let (w', r) = send c (Get_Script_State name) w
      in (w', bindR (raise_for_status r) (\<lambda>b. case b of B_Descriptor d \<Rightarrow> Inr d | _ \<Rightarrow> Inl Bad_Body)))"

definition client_stage_script ::
  "('c, 'l, 'w) client \<Rightarrow> string \<Rightarrow> string \<Rightarrow> string \<Rightarrow> string option \<Rightarrow> ('c, 'l, 'w) wire \<Rightarrow> ('c, 'l, 'w) wire \<times> (client_error + stage_script_response)"
where
  "client_stage_script c name content md5 meta w =
     (let (w', r) = send c (Post_Stage name \<lparr>g_content = content, g_md5 = md5, g_meta_yaml = meta\<rparr>) w
      in (w', bindR (raise_for_status r) (\<lambda>b. case b of B_Staged s \<Rightarrow> Inr s | _ \<Rightarrow> Inl Bad_Body)))"

text \<open>The agent's 409 carries \<open>approval_error\<close> for an MD5 or integrity refusal, its 422 \<open>validation_error\<close>.\<close>

fun approval_refusal :: "error_detail \<Rightarrow> string option" where
  "approval_refusal (Md5_Mismatch s) = Some (approval_state_text s)"
| "approval_refusal (Job_Refused (Integrity_Mismatch a b)) = Some ''approved''"
| "approval_refusal _ = None"

fun validation_refusal :: "error_detail \<Rightarrow> bool" where
  "validation_refusal (Job_Refused (Invalid_Params es)) = True"
| "validation_refusal (Job_Refused Accepts_No_Params) = True"
| "validation_refusal _ = False"

definition client_submit_job :: "('c, 'l, 'w) client \<Rightarrow> job_request \<Rightarrow> ('c, 'l, 'w) wire \<Rightarrow> ('c, 'l, 'w) wire \<times> (client_error + job_status_response)" where
  "client_submit_job c q w =
     (let (w', r) = send c (Post_Job q) w;
          plain = bindR (raise_for_status r) (\<lambda>b. case b of B_Job s \<Rightarrow> Inr s | _ \<Rightarrow> Inl Bad_Body)
      in (w', case r of
                Some (st, B_Error d) \<Rightarrow>
                  (if st = 409 \<and> approval_refusal d \<noteq> None then Inl (Agent_Approval (the (approval_refusal d)) d)
                   else if st = 422 \<and> validation_refusal d then Inl (Agent_Validation d)
                   else plain)
              | _ \<Rightarrow> plain))"

definition client_job_status :: "('c, 'l, 'w) client \<Rightarrow> string \<Rightarrow> ('c, 'l, 'w) wire \<Rightarrow> ('c, 'l, 'w) wire \<times> (client_error + job_status_response)" where
  "client_job_status c u w =
     (let (w', r) = send c (Get_Job u) w
      in (w', bindR (raise_for_status r) (\<lambda>b. case b of B_Job s \<Rightarrow> Inr s | _ \<Rightarrow> Inl Bad_Body)))"

definition client_kill_job :: "('c, 'l, 'w) client \<Rightarrow> string \<Rightarrow> ('c, 'l, 'w) wire \<Rightarrow> ('c, 'l, 'w) wire \<times> (client_error + unit)" where
  "client_kill_job c u w =
     (let (w', r) = send c (Delete_Job u) w in (w', bindR (raise_for_status r) (\<lambda>_. Inr ())))"

text \<open>\<open>stream_logs\<close>: the payloads of the \<open>data:\<close> lines, without surrounding white space.\<close>

definition data_payloads :: "string \<Rightarrow> string list" where
  "data_payloads t = map (\<lambda>l. py_strip (drop 5 l)) (filter (\<lambda>l. startswith l ''data:'') (split_lines [] t))"

definition client_stream_logs ::
  "('c, 'l, 'w) client \<Rightarrow> string \<Rightarrow> ('c, 'l, 'w) wire \<Rightarrow> ('c, 'l, 'w) wire \<times> (client_error + string list)" where
  "client_stream_logs c u v =
     (let (w', r) = http_stream (cl_net c) (cl_listener c)
            \<lparr>authorization = cl_authorization c, target = Stream_Job u None\<rparr> (snd v)
      in ((fst v, w'), case r of
            None \<Rightarrow> Inl Request_Failed
          | Some (st, t) \<Rightarrow> if 200 \<le> st \<and> st < 300 then Inr (data_payloads t) else Inl (Status_Failed st)))"

section \<open>Waking the agent\<close>

text \<open>The delays between the health checks, in tenths of a second.\<close>

definition WAKEUP_BACKOFF :: "nat list" where
  "WAKEUP_BACKOFF = [5, 10, 15, 20]"

definition is_healthy :: "('c, 'l, 'w) client \<Rightarrow> ('c, 'l, 'w) wire \<Rightarrow> ('c, 'l, 'w) wire \<times> bool" where
  "is_healthy c w =
     (let (w', r) = send c Healthz w in (w', case r of Some (st, _) \<Rightarrow> st = 200 | None \<Rightarrow> False))"

fun poll_until_healthy :: "('c, 'l, 'w) client \<Rightarrow> nat list \<Rightarrow> ('c, 'l, 'w) wire \<Rightarrow> ('c, 'l, 'w) wire \<times> bool" where
  "poll_until_healthy c [] w = (w, False)"
| "poll_until_healthy c (d # ds) w =
     (let (w', ok) = is_healthy c (fst w, net_sleep (cl_net c) d (snd w))
      in if ok then (w', True) else poll_until_healthy c ds w')"

definition ensure_agent_running :: "('c, 'l, 'w) client \<Rightarrow> ('c, 'l, 'w) wire \<Rightarrow> ('c, 'l, 'w) wire \<times> (client_error + unit)" where
  "ensure_agent_running c w =
     (let (w1, ok) = is_healthy c w
      in if ok then (w1, Inr ())
         else case map_of WAKEUP_CMD (m_platform (cl_machine c)) of
           None \<Rightarrow> (w1, Inl (No_Start_Command (m_platform (cl_machine c))))
         | Some cmd \<Rightarrow>
             (case get_connection (ssh (cl_net c)) (machine_key (cl_machine c)) (cl_private_key c)
                     (m_ssh_host_key (cl_machine c)) w1 of
                (w2, Inl e) \<Rightarrow> (w2, Inl (Ssh_Failed e))
              | (w2, Inr conn) \<Rightarrow>
                  let (w3, ran) = ssh_run (ssh (cl_net c)) conn cmd (snd w2); v3 = (fst w2, w3)
                  in if \<not> ran then (v3, Inl (Ssh_Failed Ssh_Error))
                     else let (v4, up) = poll_until_healthy c WAKEUP_BACKOFF v3
                          in (v4, if up then Inr () else Inl (Not_Reachable (m_name (cl_machine c))))))"

end
