(* ===== verification/Script_Sync.thy ===== *)
theory Script_Sync
  imports Agent_Client
begin

text \<open>
  \<open>server/core/script_sync.py\<close>: asking an agent for the approval state of a script, staging the library's
  content when the agent has none or an outdated one, and caching the answer in \<open>script_target_state\<close>.
  A failed request leaves the cache as it was.
\<close>

definition APPROVED_STALE :: string where
  "APPROVED_STALE = ''approved_stale''"

text \<open>\<open>_upsert_state\<close>: the MD5s cached are those of the descriptor read before staging.\<close>

definition upsert_state :: "int \<Rightarrow> int \<Rightarrow> int \<Rightarrow> string \<Rightarrow> script_descriptor \<Rightarrow> session \<Rightarrow> session" where
  "upsert_state now mid sid resolved d s =
     (let row = \<lparr>ts_machine_id = mid, ts_script_id = sid, ts_state = resolved, ts_approved_md5 = d_approved_md5 d,
                 ts_pending_md5 = d_pending_md5 d, ts_last_refreshed_at = now\<rparr>;
          mine = (\<lambda>t. ts_machine_id t = mid \<and> ts_script_id t = sid)
      in on_db (\<lambda>db. db\<lparr>target_states :=
           if list_ex mine (target_states db) then map (\<lambda>t. if mine t then row else t) (target_states db)
           else target_states db @ [row]\<rparr>) s)"

definition resolve_state :: "script_row \<Rightarrow> script_descriptor \<Rightarrow> string" where
  "resolve_state sc d =
     (if d_state d = Approved \<and> d_approved_md5 d \<noteq> Some (sc_md5 sc) then APPROVED_STALE
      else approval_state_text (d_state d))"

definition sync_script ::
  "int \<Rightarrow> machine_row \<Rightarrow> script_row \<Rightarrow> ('c, 'l, 'w) client \<Rightarrow> session \<times> ('c, 'l, 'w) wire
     \<Rightarrow> (session \<times> ('c, 'l, 'w) wire) \<times> (client_error + string)" where
  "sync_script now m sc c sv =
     (let (s, v) = sv in
      case client_script_state c (sc_name sc) v of
        (v1, Inl e) \<Rightarrow> ((s, v1), Inl e)
      | (v1, Inr d) \<Rightarrow>
          (let resolved = resolve_state sc d in
           if d_state d = Absent \<or> resolved = APPROVED_STALE then
             (case client_stage_script c (sc_name sc) (sc_content sc) (sc_md5 sc) (sc_meta_yaml sc) v1 of
                (v2, Inl e) \<Rightarrow> ((s, v2), Inl e)
              | (v2, Inr g) \<Rightarrow>
                  let r = approval_state_text (g_state g)
                  in ((upsert_state now (m_id m) (sc_id sc) r d s, v2), Inr r))
           else ((upsert_state now (m_id m) (sc_id sc) resolved d s, v1), Inr resolved)))"

lemma approval_state_text_inj [simp]:
  "approval_state_text a = approval_state_text b \<longleftrightarrow> a = b" "approval_state_text a \<noteq> APPROVED_STALE"
  by (cases a; cases b; simp add: approval_state_text_def)
    (cases a; simp add: approval_state_text_def APPROVED_STALE_def)

lemma upsert_state_session [simp]:
  "committed (upsert_state now mid sid r d s) = committed s"
  "users (current (upsert_state now mid sid r d s)) = users (current s)"
  "scripts (current (upsert_state now mid sid r d s)) = scripts (current s)"
  "machines (current (upsert_state now mid sid r d s)) = machines (current s)"
  "job_rows (current (upsert_state now mid sid r d s)) = job_rows (current s)"
  "audit_rows (current (upsert_state now mid sid r d s)) = audit_rows (current s)"
  "user_machines (current (upsert_state now mid sid r d s)) = user_machines (current s)"
  by (simp_all add: upsert_state_def Let_def)

end
