(* ===== verification/Server_Machines.thy ===== *)
theory Server_Machines
  imports Server_Auth Agent_Client Registration
begin

text \<open>
  \<open>server/api/machines.py\<close>: registering a machine from its bundle, listing, reading, deleting,
  bookmarks, ping and the state of its agent.  \<open>station\<close> holds what the control station calls: the
  libraries of authentication, the network, JSON, YAML, its own version, and the one-shot connection of
  the registration test.
\<close>

section \<open>The station\<close>

text \<open>
  What the one-shot connection answers: the server's host key if there is one, and what the config
  command printed; \<open>None\<close> is an \<open>OSError\<close> or an \<open>asyncssh.Error\<close>.
\<close>

record ('k, 'c, 'l, 'w) station =
  st_auth :: "'k auth_libs"
  st_net :: "('c, 'l, 'w) net"
  st_json :: json_libs
  st_safe_load :: "string \<Rightarrow> yaml option"
  st_version :: string
  st_probe :: "conn_key \<Rightarrow> string \<Rightarrow> string \<Rightarrow> 'w \<Rightarrow> 'w \<times> (string option \<times> string) option"

type_synonym ('c, 'l, 'w) server = "session \<times> ('c, 'l, 'w) wire"

section \<open>Versions\<close>

definition major :: "string \<Rightarrow> int option" where
  "major v =
     (let ds = takeWhile is_digit (dropWhile is_space v) in if ds = [] then None else py_int ds)"

definition assert_version_compatible :: "string \<Rightarrow> string \<Rightarrow> http_error + unit" where
  "assert_version_compatible server_version agent_version =
     (case (major agent_version, major server_version) of
        (Some a, Some s) \<Rightarrow>
          if a \<noteq> s
          then Inl ((csl_exception 409 VERSION_INCOMPATIBLE
             (Text (''agent version '' @ py_repr agent_version @ '' is incompatible with server version ''
                @ py_repr server_version @ '': major versions must match'')))
             \<lparr>he_extra := [(''agent_version'', agent_version), (''server_version'', server_version)]\<rparr>)
          else Inr ()
      | _ \<Rightarrow> Inr ())"

section \<open>Helpers\<close>

definition find_machine :: "int \<Rightarrow> database \<Rightarrow> machine_row option" where
  "find_machine i db = find (\<lambda>m. m_id m = i) (machines db)"

definition get_machine_or_404 :: "int \<Rightarrow> database \<Rightarrow> http_error + machine_row" where
  "get_machine_or_404 i db =
     (case find_machine i db of None \<Rightarrow> Inl (http_exception 404 ''Machine not found'') | Some m \<Rightarrow> Inr m)"

definition bookmarked :: "int \<Rightarrow> int \<Rightarrow> database \<Rightarrow> bool" where
  "bookmarked uid mid db = list_ex (\<lambda>r. um_user_id r = uid \<and> um_machine_id r = mid) (user_machines db)"

definition assert_access :: "user_row \<Rightarrow> int \<Rightarrow> database \<Rightarrow> http_error + unit" where
  "assert_access u mid db =
     (if u_role u = ''admin'' then Inr ()
      else if bookmarked (u_id u) mid db then Inr ()
      else Inl (http_exception 403 ''Access denied''))"

text \<open>\<open>_get_machine_or_404\<close>, then \<open>_assert_access\<close>, for the user of the request.\<close>

definition accessible_machine ::
  "'k auth_libs \<Rightarrow> int \<Rightarrow> 'k \<Rightarrow> int \<Rightarrow> database \<Rightarrow> http_error + user_row \<times> machine_row" where
  "accessible_machine al now tok mid db =
     bindR (current_user al now tok db) (\<lambda>u.
       bindR (get_machine_or_404 mid db) (\<lambda>m.
         bindR (assert_access u mid db) (\<lambda>_. Inr (u, m))))"

definition decrypt_key :: "('c, 'l, 'w) net \<Rightarrow> machine_row \<Rightarrow> crypto_error + string" where
  "decrypt_key nt m = decrypt (net_aead nt) (m_ssh_key_encrypted m) (master_key nt)"

section \<open>Registration\<close>

record register_input =
  in_bundle :: string
  in_name :: string
  in_ssh_host :: string
  in_ssh_port :: int
  in_ssh_user :: "string option"
  in_mac_address :: "string option"

text \<open>The empty values, which \<open>or {}\<close> replaces.\<close>

fun falsy :: "yaml \<Rightarrow> bool" where
  "falsy YNull = True"
| "falsy (YBool b) = (\<not> b)"
| "falsy (YInt i) = (i = 0)"
| "falsy (YFloat f) = (f = Fin 0)"
| "falsy (YStr s) = (s = [])"
| "falsy (YList l) = (l = [])"
| "falsy (YMap m) = (m = [])"

datatype test_error = Test_Failed | Test_Exception

text \<open>
  \<open>_ssh_connection_test\<close>: \<open>Test_Failed\<close> is one of the exceptions its caller handles (\<open>OSError\<close>,
  \<open>asyncssh.Error\<close>, \<open>ValueError\<close>); an \<open>identity\<close> that is no mapping raises \<open>AttributeError\<close>.
\<close>

definition remote_fingerprint :: "(string \<Rightarrow> yaml option) \<Rightarrow> string \<Rightarrow> test_error + yaml" where
  "remote_fingerprint load out =
     (case load out of
        None \<Rightarrow> Inl Test_Failed
      | Some y \<Rightarrow>
          (case (if falsy y then YMap [] else y) of
             YMap cfg \<Rightarrow>
               (let identity = (case map_of cfg ''identity'' of None \<Rightarrow> YNull | Some v \<Rightarrow> v)
                in case (if falsy identity then YMap [] else identity) of
                     YMap kvs \<Rightarrow> Inr (case map_of kvs ''key_fingerprint'' of None \<Rightarrow> YNull | Some v \<Rightarrow> v)
                   | _ \<Rightarrow> Inl Test_Exception)
           | _ \<Rightarrow> Inl Test_Failed))"

definition ssh_connection_test ::
  "('k, 'c, 'l, 'w) station \<Rightarrow> registration_bundle \<Rightarrow> conn_key \<Rightarrow> 'w \<Rightarrow> 'w \<times> (test_error + string)" where
  "ssh_connection_test st b key w =
     (if \<not> ssh_import_key (ssh (st_net st)) (rb_private_key b) then (w, Inl Test_Failed)
      else case st_probe st key (rb_private_key b) (remote_config_cmd (rb_platform b)) w of
             (w', None) \<Rightarrow> (w', Inl Test_Failed)
           | (w', Some (None, out)) \<Rightarrow> (w', Inl Test_Failed)
           | (w', Some (Some host_key, out)) \<Rightarrow>
               (w', bindR (remote_fingerprint (st_safe_load st) out) (\<lambda>fp.
                      if fp \<noteq> YStr (rb_key_fingerprint b) then Inl Test_Failed else Inr (py_strip host_key))))"

text \<open>The messages name the failure; the library's own text in them is left out.\<close>

fun bundle_message :: "bundle_error \<Rightarrow> string" where
  "bundle_message Bad_Base64 = ''bundle is not valid base64''"
| "bundle_message Bad_Json = ''bundle JSON is malformed''"
| "bundle_message (Missing_Fields fs) = ''bundle missing fields''"
| "bundle_message (Unknown_Platform p) = ''unknown platform''"
| "bundle_message Bad_Port = ''invalid literal for int()''"
| "bundle_message Other_Exception = []"

definition new_machine ::
  "('c, 'l, 'w) net \<Rightarrow> int \<Rightarrow> string \<Rightarrow> string \<Rightarrow> register_input \<Rightarrow> registration_bundle \<Rightarrow> string \<Rightarrow> string \<Rightarrow> database \<Rightarrow> machine_row"
where
  "new_machine nt now nonce1 nonce2 i b ssh_user host_key db =
     \<lparr>m_id = new_id (map m_id (machines db)), m_name = in_name i, m_ssh_host = in_ssh_host i,
      m_ssh_port = in_ssh_port i, m_ssh_user = ssh_user,
      m_ssh_key_encrypted = encrypt (net_aead nt) nonce1 (rb_private_key b) (master_key nt),
      m_key_fingerprint = rb_key_fingerprint b, m_ssh_host_key = Some host_key,
      m_agent_token_encrypted = Some (encrypt (net_aead nt) nonce2 (rb_api_token b) (master_key nt)),
      m_agent_port = rb_agent_port b, m_scripts_dir = rb_scripts_dir b, m_platform = rb_platform b,
      m_mac_address = in_mac_address i, m_created_at = now\<rparr>"

definition register_machine_from_input ::
  "('k, 'c, 'l, 'w) station \<Rightarrow> int \<Rightarrow> string \<Rightarrow> string \<Rightarrow> register_input \<Rightarrow> int \<Rightarrow> ('c, 'l, 'w) server
     \<Rightarrow> ('c, 'l, 'w) server \<times> (http_error + machine_row)" where
  "register_machine_from_input st now nonce1 nonce2 i admin_id sv =
     (let (s, v) = sv in
      case decode_bundle (st_json st) (in_bundle i) of
        Inl e \<Rightarrow> (sv, Inl (if value_error e then http_exception 400 (bundle_message e) else internal_error))
      | Inr b \<Rightarrow>
          (case assert_version_compatible (st_version st) (rb_agent_version b) of
             Inl e \<Rightarrow> (sv, Inl e)
           | Inr _ \<Rightarrow>
               (let ssh_user = (case in_ssh_user i of None \<Rightarrow> rb_ssh_user b | Some u \<Rightarrow> if u = [] then rb_ssh_user b else u) in
                if list_ex (\<lambda>m. m_name m = in_name i) (machines (current s))
                then (sv, Inl (http_exception 409 (''Machine with name '' @ py_repr (in_name i) @ '' already exists'')))
                else case ssh_connection_test st b (in_ssh_host i, in_ssh_port i, ssh_user) (snd v) of
                  (w', Inl Test_Failed) \<Rightarrow> ((s, (fst v, w')), Inl (http_exception 422 ''Connection test failed''))
                | (w', Inl Test_Exception) \<Rightarrow> ((s, (fst v, w')), Inl internal_error)
                | (w', Inr host_key) \<Rightarrow>
                    let m = new_machine (st_net st) now nonce1 nonce2 i b ssh_user host_key (current s);
                        s1 = on_db (\<lambda>db. db\<lparr>machines := machines db @ [m]\<rparr>) s;
                        s2 = record_audit now ''machine.register'' ''machine'' (int_str (m_id m)) ''success'' (Some admin_id)
                               [(''name'', m_name m), (''ssh_host'', m_ssh_host m), (''platform'', m_platform m)] False s1
                    in ((session_commit s2, (fst v, w')), Inr m))))"

definition register_machine ::
  "('k, 'c, 'l, 'w) station \<Rightarrow> int \<Rightarrow> string \<Rightarrow> string \<Rightarrow> 'k \<Rightarrow> register_input \<Rightarrow> ('c, 'l, 'w) server
     \<Rightarrow> ('c, 'l, 'w) server \<times> (http_error + machine_row)" where
  "register_machine st now nonce1 nonce2 tok i sv =
     (case require_admin (st_auth st) now tok (current (fst sv)) of
        Inl e \<Rightarrow> (sv, Inl e)
      | Inr admin \<Rightarrow> register_machine_from_input st now nonce1 nonce2 i (u_id admin) sv)"

section \<open>Reading and deleting\<close>

definition list_machines :: "'k auth_libs \<Rightarrow> int \<Rightarrow> 'k \<Rightarrow> session \<Rightarrow> http_error + machine_row list" where
  "list_machines al now tok s =
     bindR (current_user al now tok (current s)) (\<lambda>u.
       Inr (if u_role u = ''admin'' then machines (current s)
            else filter (\<lambda>m. bookmarked (u_id u) (m_id m) (current s)) (machines (current s))))"

definition get_machine :: "'k auth_libs \<Rightarrow> int \<Rightarrow> 'k \<Rightarrow> int \<Rightarrow> session \<Rightarrow> http_error + machine_row" where
  "get_machine al now tok mid s =
     bindR (accessible_machine al now tok mid (current s)) (\<lambda>(u, m). Inr m)"

definition delete_machine :: "'k auth_libs \<Rightarrow> int \<Rightarrow> 'k \<Rightarrow> int \<Rightarrow> session \<Rightarrow> session \<times> (http_error + unit)" where
  "delete_machine al now tok mid s =
     (case require_admin al now tok (current s) of
        Inl e \<Rightarrow> (s, Inl e)
      | Inr admin \<Rightarrow>
          (case get_machine_or_404 mid (current s) of
             Inl e \<Rightarrow> (s, Inl e)
           | Inr m \<Rightarrow>
               let s1 = on_db (\<lambda>db. db\<lparr>user_machines := filter (\<lambda>r. um_machine_id r \<noteq> mid) (user_machines db),
                                     machines := filter (\<lambda>x. m_id x \<noteq> mid) (machines db)\<rparr>) s;
                   s2 = record_audit now ''machine.delete'' ''machine'' (int_str mid) ''success'' (Some (u_id admin))
                          [(''name'', m_name m)] False s1
               in (session_commit s2, Inr ())))"

section \<open>Bookmarks\<close>

definition add_bookmark :: "'k auth_libs \<Rightarrow> int \<Rightarrow> 'k \<Rightarrow> int \<Rightarrow> session \<Rightarrow> session \<times> (http_error + unit)" where
  "add_bookmark al now tok mid s =
     (case bindR (current_user al now tok (current s)) (\<lambda>u.
             bindR (get_machine_or_404 mid (current s)) (\<lambda>_. Inr u)) of
        Inl e \<Rightarrow> (s, Inl e)
      | Inr u \<Rightarrow>
          if bookmarked (u_id u) mid (current s) then (s, Inr ())
          else (session_commit (record_audit now ''machine.bookmark'' ''machine'' (int_str mid) ''success'' (Some (u_id u)) [] False
                 (on_db (\<lambda>db. db\<lparr>user_machines := user_machines db @ [\<lparr>um_user_id = u_id u, um_machine_id = mid\<rparr>]\<rparr>) s)), Inr ()))"

definition remove_bookmark :: "'k auth_libs \<Rightarrow> int \<Rightarrow> 'k \<Rightarrow> int \<Rightarrow> session \<Rightarrow> session \<times> (http_error + unit)" where
  "remove_bookmark al now tok mid s =
     (case bindR (current_user al now tok (current s)) (\<lambda>u.
             bindR (get_machine_or_404 mid (current s)) (\<lambda>_. Inr u)) of
        Inl e \<Rightarrow> (s, Inl e)
      | Inr u \<Rightarrow>
          (session_commit (record_audit now ''machine.unbookmark'' ''machine'' (int_str mid) ''success'' (Some (u_id u)) [] False
             (on_db (\<lambda>db. db\<lparr>user_machines :=
                filter (\<lambda>r. \<not> (um_user_id r = u_id u \<and> um_machine_id r = mid)) (user_machines db)\<rparr>) s)), Inr ()))"

section \<open>Ping and agent status\<close>

text \<open>The latency in the answer is left out.\<close>

definition ping_machine ::
  "('k, 'c, 'l, 'w) station \<Rightarrow> int \<Rightarrow> 'k \<Rightarrow> int \<Rightarrow> ('c, 'l, 'w) server \<Rightarrow> ('c, 'l, 'w) server \<times> (http_error + bool)" where
  "ping_machine st now tok mid sv =
     (let (s, v) = sv; lib = ssh (st_net st) in
      case accessible_machine (st_auth st) now tok mid (current s) of
        Inl e \<Rightarrow> (sv, Inl e)
      | Inr (u, m) \<Rightarrow>
          (case decrypt_key (st_net st) m of
             Inl e \<Rightarrow> (sv, Inl internal_error)
           | Inr key \<Rightarrow>
               (case connect lib (machine_key m) key (m_ssh_host_key m) (snd v) of
                  (w', Inl Import_Failed) \<Rightarrow> ((s, (fst v, w')), Inl internal_error)
                | (w', Inl Ssh_Error) \<Rightarrow> ((s, (fst v, w')), Inr False)
                | (w', Inr c) \<Rightarrow> ((s, (fst v, ssh_close lib c w')), Inr True))))"

text \<open>\<open>AgentStatusOut\<close>: the health if the agent is running.\<close>

definition agent_status ::
  "('k, 'c, 'l, 'w) station \<Rightarrow> int \<Rightarrow> 'k \<Rightarrow> int \<Rightarrow> ('c, 'l, 'w) server
     \<Rightarrow> ('c, 'l, 'w) server \<times> (http_error + agent_health option)" where
  "agent_status st now tok mid sv =
     (let (s, v) = sv; nt = st_net st in
      case accessible_machine (st_auth st) now tok mid (current s) of
        Inl e \<Rightarrow> (sv, Inl e)
      | Inr (u, m) \<Rightarrow>
          (case decrypt_key nt m of
             Inl e \<Rightarrow> (sv, Inl internal_error)
           | Inr key \<Rightarrow>
               (case open_tunnel (ssh nt) (machine_key m) key (m_agent_port m) (m_ssh_host_key m) v of
                  (v1, Inl Import_Failed) \<Rightarrow> ((s, v1), Inl internal_error)
                | (v1, Inl Ssh_Error) \<Rightarrow> ((s, v1), Inr None)
                | (v1, Inr l) \<Rightarrow>
                    (case auth_headers (net_aead nt) (master_key nt) m of
                       Inl e \<Rightarrow> ((s, (fst v1, ssh_close_listener (ssh nt) l (snd v1))), Inl internal_error)
                     | Inr h \<Rightarrow>
                         let (w', r) = http_send nt l \<lparr>authorization = h, target = Healthz\<rparr> (snd v1)
                         in ((s, (fst v1, ssh_close_listener (ssh nt) l w')),
                             case r of
                               None \<Rightarrow> Inr None
                             | Some (st, b) \<Rightarrow>
                                 if st \<noteq> 200 then Inr None
                                 else (case b of B_Health hl \<Rightarrow> Inr (Some hl) | _ \<Rightarrow> Inl internal_error))))))"

end
