(* ===== verification/Server_Jobs.thy ===== *)
theory Server_Jobs
  imports Script_Sync Server_Machines Script_Registry
begin

text \<open>
  \<open>server/api/jobs.py\<close>: submitting a job to a machine, its status, log stream and end, the history.  The new
  identifier of a job (\<open>uuid4\<close>) and the time of a call are arguments.  An exception no handler knows ends as
  a 500; \<open>async with AgentClient\<close> is \<open>with_client\<close>, which closes the client whatever its body does.
\<close>

section \<open>The client of a machine\<close>

definition with_client ::
  "('c, 'l, 'w) net \<Rightarrow> machine_row \<Rightarrow> (('c, 'l, 'w) client \<Rightarrow> ('c, 'l, 'w) server \<Rightarrow> ('c, 'l, 'w) server \<times> (http_error + 'r))
     \<Rightarrow> ('c, 'l, 'w) server \<Rightarrow> ('c, 'l, 'w) server \<times> (http_error + 'r)" where
  "with_client nt m body sv =
     (case decrypt_key nt m of
        Inl e \<Rightarrow> (sv, Inl internal_error)
      | Inr key \<Rightarrow>
          (case open_client nt m key (snd sv) of
             (v1, Inl e) \<Rightarrow> ((fst sv, v1), Inl internal_error)
           | (v1, Inr c) \<Rightarrow>
               (let ((s2, v2), r) = body c (fst sv, v1) in ((s2, close_client c v2), r))))"

section \<open>Submitting\<close>

definition approval_error_response :: "string \<Rightarrow> string \<Rightarrow> http_error" where
  "approval_error_response agent_state name =
     (let (err, code, msg) =
        (if agent_state = ''pending'' then
           (''pending_approval (new)'', APPROVAL_PENDING, ''Script '' @ py_repr name @ '' is pending approval on this machine'')
         else if agent_state = ''update_pending'' then
           (''pending_approval (update)'', APPROVAL_PENDING, ''Script '' @ py_repr name @ '' has a pending update awaiting approval'')
         else if agent_state = ''rejected'' then
           (''rejected'', APPROVAL_REJECTED, ''Script '' @ py_repr name @ '' was rejected on this machine'')
         else
           (agent_state, APPROVAL_PENDING, ''Script '' @ py_repr name @ '' is not approved (state='' @ py_repr agent_state @ '')''))
      in csl_exception 409 code (Approval_Detail err agent_state msg))"

text \<open>The texts of the client's exceptions are not modelled.\<close>

definition client_message :: "client_error \<Rightarrow> string" where
  "client_message e =
     (case e of
        No_Start_Command p \<Rightarrow> ''No start command for platform '' @ py_repr p
      | Not_Reachable n \<Rightarrow> ''Agent on '' @ py_repr n @ '' did not respond after start command''
      | _ \<Rightarrow> [])"

definition job_request_of :: "string \<Rightarrow> script_row \<Rightarrow> string \<Rightarrow> params \<Rightarrow> job_request" where
  "job_request_of u sc name ps =
     \<lparr>q_job_uuid = u, q_script_name = name, q_params = ps, q_persistent = sc_persistent sc,
      q_expected_md5 = Some (sc_md5 sc)\<rparr>"

text \<open>The part of \<open>submit_job\<close> inside \<open>async with\<close>: start the agent, sync, submit.\<close>

definition submit_to_agent ::
  "int \<Rightarrow> string \<Rightarrow> user_row \<Rightarrow> machine_row \<Rightarrow> script_row \<Rightarrow> string \<Rightarrow> params \<Rightarrow> ('c, 'l, 'w) client
     \<Rightarrow> ('c, 'l, 'w) server \<Rightarrow> ('c, 'l, 'w) server \<times> (http_error + job_status_response)" where
  "submit_to_agent now u user m sc name ps c sv =
     (case ensure_agent_running c (snd sv) of
        (v1, Inl e) \<Rightarrow> ((fst sv, v1), Inl internal_error)
      | (v1, Inr _) \<Rightarrow>
          (case sync_script now m sc c (fst sv, v1) of
             (sv2, Inl e) \<Rightarrow> (sv2, Inl internal_error)
           | ((s2, v2), Inr resolved) \<Rightarrow>
               (let s3 = session_commit s2 in
                if resolved \<noteq> approval_state_text Approved then
                  ((record_audit now ''job.submit'' ''machine'' (int_str (m_id m)) ''rejected'' (Some (u_id user))
                      [(''script'', name), (''agent_state'', resolved)] True s3, v2),
                   Inl (approval_error_response resolved name))
                else
                  (case client_submit_job c (job_request_of u sc name ps) v2 of
                     (v3, Inr resp) \<Rightarrow> ((s3, v3), Inr resp)
                   | (v3, Inl (Agent_Validation d)) \<Rightarrow>
                       ((s3, v3), Inl (csl_exception 422 VALIDATION_ERROR (Text (client_message (Agent_Validation d)))))
                   | (v3, Inl (Agent_Approval st d)) \<Rightarrow>
                       (case sync_script now m sc c (s3, v3) of
                          (sv4, Inl e) \<Rightarrow> (sv4, Inl internal_error)
                        | ((s4, v4), Inr resolved') \<Rightarrow>
                            ((session_commit s4, v4), Inl (approval_error_response resolved' name)))
                   | (v3, Inl e) \<Rightarrow>
                       ((s3, v3), Inl (if agent_client_error e
                          then csl_exception 502 AGENT_UNREACHABLE (Text (client_message e)) else internal_error))))))"

definition new_job_row ::
  "string \<Rightarrow> int \<Rightarrow> script_row \<Rightarrow> user_row \<Rightarrow> params \<Rightarrow> job_status_response \<Rightarrow> database \<Rightarrow> job_row" where
  "new_job_row u mid sc user ps resp db =
     \<lparr>jb_id = new_id (map jb_id (job_rows db)), jb_job_uuid = u, jb_machine_id = mid, jb_script_id = Some (sc_id sc),
      jb_built_in_action = None, jb_user_id = u_id user, jb_params = ps, jb_status = s_status resp,
      jb_persistent = sc_persistent sc, jb_started_at = s_started_at resp, jb_ended_at = s_ended_at resp,
      jb_exit_code = s_exit_code resp\<rparr>"

definition bool_text :: "bool \<Rightarrow> string" where
  "bool_text b = (if b then ''True'' else ''False'')"

definition submit_job_endpoint ::
  "('k, 'c, 'l, 'w) station \<Rightarrow> int \<Rightarrow> string \<Rightarrow> 'k \<Rightarrow> int \<Rightarrow> string \<Rightarrow> params \<Rightarrow> ('c, 'l, 'w) server
     \<Rightarrow> ('c, 'l, 'w) server \<times> (http_error + job_row)" where
  "submit_job_endpoint st now u tok mid name ps sv =
     (case accessible_machine (st_auth st) now tok mid (current (fst sv)) of
        Inl e \<Rightarrow> (sv, Inl e)
      | Inr (user, m) \<Rightarrow>
          (case get_script_or_raise name (current (fst sv)) of
             Inl e \<Rightarrow> (sv, Inl (http_exception 404 (registry_message e)))
           | Inr sc \<Rightarrow>
               (case with_client (st_net st) m (submit_to_agent now u user m sc name ps) sv of
                  (sv', Inl e) \<Rightarrow> (sv', Inl e)
                | ((s', v'), Inr resp) \<Rightarrow>
                    let row = new_job_row u mid sc user ps resp (current s');
                        s1 = on_db (\<lambda>db. db\<lparr>job_rows := job_rows db @ [row]\<rparr>) s';
                        s2 = record_audit now ''job.submit'' ''job'' u ''success'' (Some (u_id user))
                               [(''machine_id'', int_str mid), (''script'', name), (''persistent'', bool_text (sc_persistent sc))] False s1
                    in ((session_commit s2, v'), Inr row))))"

section \<open>Status, end, history\<close>

definition find_job :: "string \<Rightarrow> database \<Rightarrow> job_row option" where
  "find_job u db = find (\<lambda>j. jb_job_uuid j = u) (job_rows db)"

definition get_job_or_404 :: "string \<Rightarrow> database \<Rightarrow> http_error + job_row" where
  "get_job_or_404 u db =
     (case find_job u db of None \<Rightarrow> Inl (http_exception 404 ''Job not found'') | Some j \<Rightarrow> Inr j)"

definition update_job :: "string \<Rightarrow> (job_row \<Rightarrow> job_row) \<Rightarrow> database \<Rightarrow> database" where
  "update_job u f db = db\<lparr>job_rows := map (\<lambda>j. if jb_job_uuid j = u then f j else j) (job_rows db)\<rparr>"

definition refreshed :: "job_status_response \<Rightarrow> job_row \<Rightarrow> job_row" where
  "refreshed resp j = j\<lparr>jb_status := s_status resp, jb_ended_at := s_ended_at resp, jb_exit_code := s_exit_code resp\<rparr>"

text \<open>The machine of a job is read without an access check.\<close>

definition ask_status ::
  "string \<Rightarrow> ('c, 'l, 'w) client \<Rightarrow> ('c, 'l, 'w) server \<Rightarrow> ('c, 'l, 'w) server \<times> (http_error + job_status_response)" where
  "ask_status u c sv =
     (case client_job_status c u (snd sv) of
        (v', Inl e) \<Rightarrow> ((fst sv, v'), Inl internal_error)
      | (v', Inr resp) \<Rightarrow> ((fst sv, v'), Inr resp))"

definition get_job_endpoint ::
  "('k, 'c, 'l, 'w) station \<Rightarrow> int \<Rightarrow> 'k \<Rightarrow> string \<Rightarrow> ('c, 'l, 'w) server \<Rightarrow> ('c, 'l, 'w) server \<times> (http_error + job_row)"
where
  "get_job_endpoint st now tok u sv =
     (case bindR (current_user (st_auth st) now tok (current (fst sv))) (\<lambda>_. get_job_or_404 u (current (fst sv))) of
        Inl e \<Rightarrow> (sv, Inl e)
      | Inr j \<Rightarrow>
          (if jb_status j \<in> {Job_Running, Job_Pending} then
             (case find_machine (jb_machine_id j) (current (fst sv)) of
                None \<Rightarrow> (sv, Inr j)
              | Some m \<Rightarrow>
                  (case with_client (st_net st) m (ask_status u) sv of
                     (sv', Inl e) \<Rightarrow> (sv', Inr j)
                   | ((s', v'), Inr resp) \<Rightarrow>
                       ((session_commit (on_db (update_job u (refreshed resp)) s'), v'), Inr (refreshed resp j))))
           else (sv, Inr j)))"

definition tell_kill ::
  "string \<Rightarrow> ('c, 'l, 'w) client \<Rightarrow> ('c, 'l, 'w) server \<Rightarrow> ('c, 'l, 'w) server \<times> (http_error + unit)" where
  "tell_kill u c sv =
     (case client_kill_job c u (snd sv) of
        (v', Inl e) \<Rightarrow> ((fst sv, v'), Inl internal_error)
      | (v', Inr _) \<Rightarrow> ((fst sv, v'), Inr ()))"

definition kill_job_endpoint ::
  "('k, 'c, 'l, 'w) station \<Rightarrow> int \<Rightarrow> 'k \<Rightarrow> string \<Rightarrow> ('c, 'l, 'w) server \<Rightarrow> ('c, 'l, 'w) server \<times> (http_error + unit)"
where
  "kill_job_endpoint st now tok u sv =
     (case current_user (st_auth st) now tok (current (fst sv)) of
        Inl e \<Rightarrow> (sv, Inl e)
      | Inr user \<Rightarrow>
          (case get_job_or_404 u (current (fst sv)) of
             Inl e \<Rightarrow> (sv, Inl e)
           | Inr j \<Rightarrow>
               (if \<not> jb_persistent j then (sv, Inl (http_exception 400 ''Cannot kill a non-persistent job''))
                else case get_machine_or_404 (jb_machine_id j) (current (fst sv)) of
                  Inl e \<Rightarrow> (sv, Inl e)
                | Inr m \<Rightarrow>
                    (case with_client (st_net st) m (tell_kill u) sv of
                       (sv', Inl e) \<Rightarrow> (sv', Inl e)
                     | ((s', v'), Inr _) \<Rightarrow>
                         let s1 = on_db (update_job u (\<lambda>j. j\<lparr>jb_status := Job_Killed, jb_ended_at := Some now\<rparr>)) s';
                             s2 = record_audit now ''job.kill'' ''job'' u ''success'' (Some (u_id user))
                                    [(''machine_id'', int_str (jb_machine_id j))] False s1
                         in ((session_commit s2, v'), Inr ())))))"

text \<open>The limit lies between 1 and 500, as the query parameter declares.  \<open>ORDER BY started_at DESC\<close> is stable here.\<close>

definition status_text :: "job_status \<Rightarrow> string" where
  "status_text s =
     (case s of Job_Pending \<Rightarrow> ''pending'' | Job_Running \<Rightarrow> ''running'' | Job_Completed \<Rightarrow> ''completed''
      | Job_Failed \<Rightarrow> ''failed'' | Job_Killed \<Rightarrow> ''killed'')"

definition list_jobs_endpoint ::
  "'k auth_libs \<Rightarrow> int \<Rightarrow> 'k \<Rightarrow> int option \<Rightarrow> string option \<Rightarrow> string option \<Rightarrow> nat \<Rightarrow> session \<Rightarrow> http_error + job_row list"
where
  "list_jobs_endpoint al now tok mid script_name job_status limit s =
     bindR (current_user al now tok (current s)) (\<lambda>_.
       let db = current s;
           select = (\<lambda>P. take limit (sort_key (\<lambda>j. - jb_started_at j)
             (filter (\<lambda>j. (case mid of None \<Rightarrow> True | Some i \<Rightarrow> jb_machine_id j = i)
                \<and> (case job_status of None \<Rightarrow> True | Some t \<Rightarrow> status_text (jb_status j) = t) \<and> P j) (job_rows db))))
       in case script_name of
            None \<Rightarrow> Inr (select (\<lambda>_. True))
          | Some n \<Rightarrow>
              (case get_script n db of
                 None \<Rightarrow> Inr []
               | Some sc \<Rightarrow> Inr (select (\<lambda>j. jb_script_id j = Some (sc_id sc)))))"

section \<open>The log stream\<close>

definition sse_error :: "string \<Rightarrow> string" where
  "sse_error msg = ''event: error'' @ [newline] @ ''data: '' @ msg @ [newline, newline]"

text \<open>The events of the response; an exception inside the generator becomes an error event.\<close>

definition relay_events ::
  "('c, 'l, 'w) net \<Rightarrow> machine_row \<Rightarrow> string \<Rightarrow> string \<Rightarrow> ('c, 'l, 'w) wire \<Rightarrow> ('c, 'l, 'w) wire \<times> string list" where
  "relay_events nt m key u v =
     (case open_client nt m key v of
        (v1, Inl e) \<Rightarrow> (v1, [sse_error (client_message e)])
      | (v1, Inr c) \<Rightarrow>
          (let (v2, r) = client_stream_logs c u v1
           in (close_client c v2, case r of Inl e \<Rightarrow> [sse_error (client_message e)] | Inr ls \<Rightarrow> map sse_data ls)))"

definition stream_job_logs_endpoint ::
  "('k, 'c, 'l, 'w) station \<Rightarrow> int \<Rightarrow> 'k \<Rightarrow> string \<Rightarrow> ('c, 'l, 'w) server
     \<Rightarrow> ('c, 'l, 'w) server \<times> (http_error + string list)" where
  "stream_job_logs_endpoint st now tok u sv =
     (case bindR (current_user (st_auth st) now tok (current (fst sv))) (\<lambda>_.
             bindR (get_job_or_404 u (current (fst sv))) (\<lambda>j. get_machine_or_404 (jb_machine_id j) (current (fst sv)))) of
        Inl e \<Rightarrow> (sv, Inl e)
      | Inr m \<Rightarrow>
          (case decrypt_key (st_net st) m of
             Inl e \<Rightarrow> (sv, Inl internal_error)
           | Inr key \<Rightarrow> (let (v', es) = relay_events (st_net st) m key u (snd sv) in ((fst sv, v'), Inr es))))"

section \<open>Relaying a log\<close>

lemma join_lines_append: "join_lines (a @ b) = join_lines a @ join_lines b"
  by (simp add: join_lines_def)

text \<open>The payloads of lines that hold no line break.\<close>

lemma data_payloads_join:
  assumes "list_all (list_all (\<lambda>c. \<not> is_line_break c)) ls"
  shows "data_payloads (join_lines ls) = map (\<lambda>l. py_strip (drop 5 l)) (filter (\<lambda>l. startswith l ''data:'') ls)"
  using assms by (simp add: data_payloads_def split_join)

lemma concat_sse_data: "concat (map sse_data ls) = join_lines (concat (map (\<lambda>l. [''data: '' @ l, []]) ls))"
  by (induction ls) (simp_all add: sse_data_def join_lines_def)

lemma sse_done_lines: "sse_done = join_lines [''event: done'', ''data: '', []]"
  by (simp add: sse_done_def join_lines_def)

lemma text_no_break:
  "list_all (\<lambda>c. \<not> is_line_break c) ''data: ''" "list_all (\<lambda>c. \<not> is_line_break c) ''event: done''"
  by (simp_all add: is_line_break_def ccode_def)

lemma py_strip_space [simp]: "py_strip (CHR '' '' # s) = py_strip s"
proof -
  have sp: "is_space (CHR '' '')" by (simp add: is_space_def ccode_def)
  show ?thesis
  proof (cases "\<forall>c \<in> set s. is_space c")
    case True
    then have "rstrip_chars is_space s = []" "rstrip_chars is_space (CHR '' '' # s) = []"
      using sp by (simp_all add: rstrip_chars_def)
    then show ?thesis by (simp only: py_strip_def)
  next
    case False
    then have "rstrip_chars is_space (CHR '' '' # s) = CHR '' '' # rstrip_chars is_space s"
      by (simp add: rstrip_chars_def dropWhile_append)
    with sp show ?thesis by (simp add: py_strip_def lstrip_chars_def)
  qed
qed

text \<open>
  What the user sees of a finished log: the control station turns the events of the agent into one event
  per line, each with its surrounding white space removed, and then an event with no data in place of
  the agent's \<open>done\<close> event, which is lost.
\<close>

theorem relay_loses_done:
  assumes "list_all (list_all (\<lambda>c. \<not> is_line_break c)) ls"
  shows "map sse_data (data_payloads (concat (map sse_data ls) @ sse_done)) =
    map (\<lambda>l. sse_data (py_strip l)) ls @ [sse_data []]"
proof -
  let ?lines = "concat (map (\<lambda>l. [''data: '' @ l, []]) ls) @ [''event: done'', ''data: '', []]"
  have "concat (map sse_data ls) @ sse_done = join_lines ?lines"
    by (simp only: concat_sse_data sse_done_lines join_lines_append)
  moreover have "list_all (list_all (\<lambda>c. \<not> is_line_break c)) ?lines"
    using assms text_no_break by (induction ls) auto
  moreover have "filter (\<lambda>l. startswith l ''data:'') ?lines = map (\<lambda>l. ''data: '' @ l) ls @ [''data: '']"
    by (induction ls) (simp_all add: startswith_def)
  ultimately show ?thesis
    by (simp add: data_payloads_join comp_def) (simp add: py_strip_def rstrip_chars_def lstrip_chars_def)
qed

theorem relay_loses_done_witness:
  "map sse_data (data_payloads (concat (map sse_data [''  a'', ''b'']) @ sse_done)) =
    [sse_data (py_strip ''  a''), sse_data (py_strip ''b''), sse_data []]"
  using relay_loses_done [of "[''  a'', ''b'']"] by (simp add: is_line_break_def ccode_def)

end
