(* ===== verification/Agent_Service.thy ===== *)
theory Agent_Service
  imports Server_Jobs
begin

text \<open>
  The contract between the control station and an agent, as a locale: what an answer the client gets over
  its tunnel tells about the agent behind it.  The control station's operations are proved against this
  contract; \<open>Station\<close> discharges it for the model of the agent behind the SSH pool.
\<close>

lemma raise_for_status_Inr [simp]:
  "raise_for_status r = Inr b \<longleftrightarrow> (\<exists>st. r = Some (st, b) \<and> 200 \<le> st \<and> st < 300)"
  by (auto simp: raise_for_status_def split: option.splits prod.splits if_splits)

lemma body_cases_Inr [simp]:
  "(case b of B_Descriptor d \<Rightarrow> Inr d | _ \<Rightarrow> Inl e) = Inr x \<longleftrightarrow> b = B_Descriptor x"
  "(case b of B_Staged d \<Rightarrow> Inr d | _ \<Rightarrow> Inl e) = Inr y \<longleftrightarrow> b = B_Staged y"
  "(case b of B_Job d \<Rightarrow> Inr d | _ \<Rightarrow> Inl e) = Inr z \<longleftrightarrow> b = B_Job z"
  by (cases b; simp)+

locale agent_service =
  fixes nt :: "('c, 'l, 'w) net"
    and world_ok :: "('c, 'l, 'w) wire \<Rightarrow> bool"
    and reaches :: "('c, 'l, 'w) client \<Rightarrow> machine_row \<Rightarrow> bool"
    and approved :: "machine_row \<Rightarrow> 'w \<Rightarrow> string \<Rightarrow> string option"
    and runs :: "machine_row \<Rightarrow> 'w \<Rightarrow> job_request \<Rightarrow> bool"
  assumes reaches_client: "reaches c m \<Longrightarrow> cl_net c = nt \<and> cl_machine c = m"
    and open_reaches: "world_ok v \<Longrightarrow> open_client nt m key v = (v', Inr c) \<Longrightarrow> reaches c m"
    and open_ok: "world_ok v \<Longrightarrow> world_ok (fst (open_client nt m key v))"
    and close_ok: "world_ok v \<Longrightarrow> world_ok (fst v, ssh_close_listener (ssh nt) l (snd v))"
    and send_ok: "cl_net c = nt \<Longrightarrow> world_ok v \<Longrightarrow> world_ok (fst (send c e v))"
    and sleep_ok: "world_ok v \<Longrightarrow> world_ok (fst v, net_sleep nt t (snd v))"
    and connection_ok: "world_ok v \<Longrightarrow> world_ok (fst (get_connection (ssh nt) k key hk v))"
    and close_runs: "runs m w q \<Longrightarrow> runs m (ssh_close_listener (ssh nt) l w) q"
    and run_ok: "world_ok v \<Longrightarrow> world_ok (fst v, fst (ssh_run (ssh nt) conn cmd (snd v)))"
    and state_tells: "world_ok v \<Longrightarrow> reaches c m \<Longrightarrow> send c (Get_Script_State n) v = (v', Some (st, B_Descriptor d)) \<Longrightarrow>
        d_state d = Approved \<Longrightarrow> approved m (snd v') n = d_approved_md5 d"
    and stage_tells: "world_ok v \<Longrightarrow> reaches c m \<Longrightarrow> send c (Post_Stage n g) v = (v', Some (st, B_Staged s)) \<Longrightarrow>
        g_state s = Approved \<Longrightarrow> approved m (snd v') n = Some (g_md5 g)"
    and job_tells: "world_ok v \<Longrightarrow> reaches c m \<Longrightarrow> send c (Post_Job q) v = (v', Some (st, B_Job r)) \<Longrightarrow>
        runs m (snd v') q"
begin

text \<open>The client is only used once it reaches its machine, so its network is \<open>nt\<close>.\<close>

lemma is_healthy_ok: "cl_net c = nt \<Longrightarrow> world_ok v \<Longrightarrow> world_ok (fst (is_healthy c v))"
  using send_ok [of c v Healthz] by (simp add: is_healthy_def case_prod_beta)

lemma poll_ok: "cl_net c = nt \<Longrightarrow> world_ok v \<Longrightarrow> world_ok (fst (poll_until_healthy c ds v))"
proof (induction ds arbitrary: v)
  case (Cons d ds)
  let ?r = "is_healthy c (fst v, net_sleep nt d (snd v))"
  have "world_ok (fst ?r)" using Cons.prems by (intro is_healthy_ok sleep_ok) simp_all
  with Cons show ?case by (simp add: case_prod_beta)
qed simp

lemma ensure_ok:
  assumes "cl_net c = nt" "world_ok v"
  shows "world_ok (fst (ensure_agent_running c v))"
proof -
  let ?h = "is_healthy c v"
  let ?g = "get_connection (ssh nt) (machine_key (cl_machine c)) (cl_private_key c) (m_ssh_host_key (cl_machine c)) (fst ?h)"
  have h: "world_ok (fst ?h)" by (rule is_healthy_ok [OF assms])
  then have g: "world_ok (fst ?g)" by (rule connection_ok)
  have r: "world_ok (fst (fst ?g), fst (ssh_run (ssh nt) conn cmd (snd (fst ?g))))" for conn cmd
    by (rule run_ok [OF g])
  show ?thesis
    using h g r poll_ok [OF assms(1) r]
    by (cases ?g; cases "snd ?g") (auto simp: ensure_agent_running_def Let_def case_prod_beta assms(1) split: option.splits)
qed

lemma script_state_ok: "cl_net c = nt \<Longrightarrow> world_ok v \<Longrightarrow> world_ok (fst (client_script_state c n v))"
  using send_ok [of c v "Get_Script_State n"] by (simp add: client_script_state_def case_prod_beta)

lemma stage_ok: "cl_net c = nt \<Longrightarrow> world_ok v \<Longrightarrow> world_ok (fst (client_stage_script c n content md5 meta v))"
  using send_ok [of c v] by (simp add: client_stage_script_def case_prod_beta)

lemma submit_ok: "cl_net c = nt \<Longrightarrow> world_ok v \<Longrightarrow> world_ok (fst (client_submit_job c q v))"
  using send_ok [of c v "Post_Job q"] by (simp add: client_submit_job_def Let_def case_prod_beta)

lemma sync_ok:
  assumes net: "cl_net c = nt" and ok: "world_ok (snd sv)"
  shows "world_ok (snd (fst (sync_script now m sc c sv)))"
proof -
  obtain s v where sv: "sv = (s, v)" by (cases sv)
  obtain v1 r where 1: "client_script_state c (sc_name sc) v = (v1, r)" by fastforce
  have ok1: "world_ok v1" using script_state_ok [OF net, of v "sc_name sc"] ok sv 1 by simp
  obtain v2 r2 where 2: "client_stage_script c (sc_name sc) (sc_content sc) (sc_md5 sc) (sc_meta_yaml sc) v1 = (v2, r2)"
    by fastforce
  have "world_ok v2" using stage_ok [OF net ok1, of "sc_name sc" "sc_content sc" "sc_md5 sc" "sc_meta_yaml sc"] 2 by simp
  then show ?thesis using ok1
    by (cases r; cases r2) (simp_all add: sync_script_def sv 1 2 Let_def)
qed

text \<open>When the sync says that the script is approved, the agent has approved the library's MD5.\<close>

lemma script_state_tells:
  assumes "world_ok v" "reaches c m" "client_script_state c n v = (v', Inr d)" "d_state d = Approved"
  shows "approved m (snd v') n = d_approved_md5 d"
proof -
  obtain w r where s: "send c (Get_Script_State n) v = (w, r)" by fastforce
  with assms(3) obtain st where "r = Some (st, B_Descriptor d)" "w = v'"
    by (auto simp: client_script_state_def bindR_eq_Inr)
  with state_tells [OF assms(1,2) _ assms(4)] s show ?thesis by simp
qed

lemma stage_script_tells:
  assumes "world_ok v" "reaches c m" "client_stage_script c n content md5 meta v = (v', Inr s)" "g_state s = Approved"
  shows "approved m (snd v') n = Some md5"
proof -
  let ?g = "\<lparr>g_content = content, g_md5 = md5, g_meta_yaml = meta\<rparr>"
  obtain w r where s: "send c (Post_Stage n ?g) v = (w, r)" by fastforce
  with assms(3) obtain st where "r = Some (st, B_Staged s)" "w = v'"
    by (auto simp: client_stage_script_def bindR_eq_Inr)
  with stage_tells [OF assms(1,2) _ assms(4), of n ?g v' st] s show ?thesis by simp
qed

lemma sync_approved:
  assumes "world_ok v" "reaches c m" "sync_script now m sc c (s, v) = ((s', v'), Inr (approval_state_text Approved))"
  shows "approved m (snd v') (sc_name sc) = Some (sc_md5 sc)"
proof -
  obtain v1 r where 1: "client_script_state c (sc_name sc) v = (v1, r)" by fastforce
  with assms(3) obtain d where r: "r = Inr d" by (cases r) (simp_all add: sync_script_def)
  have ok1: "world_ok v1"
    using script_state_ok [OF _ assms(1), of c "sc_name sc"] reaches_client [OF assms(2)] 1 by simp
  show ?thesis
  proof (cases "d_state d = Absent \<or> resolve_state sc d = APPROVED_STALE")
    case True
    obtain v2 r2 where 2: "client_stage_script c (sc_name sc) (sc_content sc) (sc_md5 sc) (sc_meta_yaml sc) v1 = (v2, r2)"
      by fastforce
    with assms(3) 1 r True obtain g where "r2 = Inr g" "v' = v2" "g_state g = Approved"
      by (cases r2) (auto simp: sync_script_def Let_def)
    with stage_script_tells [OF ok1 assms(2)] 2 show ?thesis by blast
  next
    case False
    with assms(3) 1 r have "resolve_state sc d = approval_state_text Approved" "v' = v1"
      by (auto simp: sync_script_def Let_def)
    then have "d_state d = Approved" "d_approved_md5 d = Some (sc_md5 sc)"
      using False by (auto simp: resolve_state_def approval_state_text_inj(2) [symmetric] split: if_splits)
    with script_state_tells [OF assms(1,2)] 1 r \<open>v' = v1\<close> show ?thesis by simp
  qed
qed

lemma submit_job_runs:
  assumes "world_ok v" "reaches c m" "client_submit_job c q v = (v', Inr resp)"
  shows "runs m (snd v') q"
proof -
  obtain w r where s: "send c (Post_Job q) v = (w, r)" by fastforce
  with assms(3) obtain st where "r = Some (st, B_Job resp)" "w = v'"
    by (auto simp: client_submit_job_def bindR_eq_Inr Let_def split: option.splits if_splits body.splits)
  with job_tells [OF assms(1,2)] s show ?thesis by simp
qed

text \<open>A submission that answers has run the request of the library's script.\<close>

lemma submit_to_agent_runs:
  assumes "world_ok (snd sv)" "reaches c m"
    and "submit_to_agent now u user m sc name ps c sv = (sv', Inr resp)"
  shows "runs m (snd (snd sv')) (job_request_of u sc name ps)"
proof -
  obtain s v where sv: "sv = (s, v)" by (cases sv)
  obtain v1 r1 where 1: "ensure_agent_running c v = (v1, r1)" by fastforce
  have ok1: "world_ok v1"
    using ensure_ok [of c v] reaches_client [OF assms(2)] assms(1) 1 sv by simp
  from assms(3) 1 sv obtain x where r1: "r1 = Inr x" by (cases r1) (simp_all add: submit_to_agent_def)
  obtain s2 v2 r2 where 2: "sync_script now m sc c (s, v1) = ((s2, v2), r2)" by (metis prod.collapse)
  have ok2: "world_ok v2" using sync_ok [of c "(s, v1)" now m sc] reaches_client [OF assms(2)] ok1 2 by simp
  from assms(3) 1 2 sv r1 obtain resolved where r2: "r2 = Inr resolved" by (cases r2) (simp_all add: submit_to_agent_def)
  with assms(3) 1 2 sv r1 have res: "resolved = approval_state_text Approved"
    by (auto simp: submit_to_agent_def Let_def split: if_splits)
  obtain v3 r3 where 3: "client_submit_job c (job_request_of u sc name ps) v2 = (v3, r3)" by fastforce
  have "r3 = Inr resp \<and> snd sv' = v3"
  proof (cases r3)
    case (Inl e)
    with assms(3) 1 2 3 sv r1 r2 res show ?thesis
      by (cases e) (auto simp: submit_to_agent_def Let_def split: prod.splits sum.splits)
  next
    case (Inr y)
    with assms(3) 1 2 3 sv r1 r2 res show ?thesis by (auto simp: submit_to_agent_def Let_def)
  qed
  with submit_job_runs [OF ok2 assms(2)] 3 show ?thesis by simp
qed

lemma with_client_runs:
  assumes "world_ok (snd sv)"
    and "with_client nt m (submit_to_agent now u user m sc name ps) sv = (sv', Inr resp)"
  shows "runs m (snd (snd sv')) (job_request_of u sc name ps)"
proof -
  from assms(2) obtain key where k: "decrypt_key nt m = Inr key"
    by (cases "decrypt_key nt m") (simp_all add: with_client_def)
  obtain v1 r1 where 1: "open_client nt m key (snd sv) = (v1, r1)" by fastforce
  with assms(2) k obtain c where c: "r1 = Inr c" by (cases r1) (simp_all add: with_client_def)
  have reach: "reaches c m" using open_reaches [OF assms(1)] 1 c by simp
  have ok1: "world_ok v1" using open_ok [OF assms(1), of m key] 1 by simp
  obtain s2 v2 r2 where 2: "submit_to_agent now u user m sc name ps c (fst sv, v1) = ((s2, v2), r2)"
    by (metis prod.collapse)
  with assms(2) k 1 c have r2: "r2 = Inr resp" "sv' = (s2, close_client c v2)"
    by (simp_all add: with_client_def)
  have "runs m (snd v2) (job_request_of u sc name ps)"
    using submit_to_agent_runs [OF _ reach, of "(fst sv, v1)" now u user sc name ps "(s2, v2)" resp] ok1 2 r2(1) by simp
  with r2(2) reaches_client [OF reach] show ?thesis by (simp add: close_client_def close_runs)
qed

end

end
