(* ===== verification/Station.thy ===== *)
theory Station
  imports Agent_Service Agent_Main_Props
begin

text \<open>
  The whole system: agents behind \<open>sshd\<close>, reached through the pool.  A target host runs one agent; its SSH
  server lets in whom \<open>lets_in\<close> says, forwards to any local port, and hands commands to the gateway
  (\<open>cmd_ssh_gateway\<close>), which can start the agent.  Every request may be lost, or its answer; while the
  control station sleeps, anything may happen to the agent that \<open>agent_step\<close> allows.
\<close>

section \<open>Targets\<close>

datatype delivery = Delivered | Request_Lost | Answer_Lost

record ('t, 'u) target_host =
  th_agent :: "('t, 'u) agent"
  th_up :: bool
  th_ssh_alive :: bool
  th_links :: "delivery list"

type_synonym ('t, 'u) targets = "string \<Rightarrow> ('t, 'u) target_host"

record ('t, 'u) lan =
  ln_surroundings :: "('t, 'u) surroundings"
  ln_windows :: bool
  ln_macos :: bool
  ln_lets_in :: "conn_key \<Rightarrow> string \<Rightarrow> string option \<Rightarrow> bool"
  ln_imports :: "string \<Rightarrow> bool"
  ln_passes :: "string \<Rightarrow> nat \<Rightarrow> agent_act list"
  ln_aead :: aead
  ln_master_key :: string

text \<open>A request through a listener, which is a host and a port of it.\<close>

definition deliver ::
  "('t, 'u) surroundings \<Rightarrow> string \<times> int \<Rightarrow> http_request \<Rightarrow> ('t, 'u) targets \<Rightarrow> ('t, 'u) targets \<times> response option" where
  "deliver x l q w =
     (let (h, port) = l; t = w h;
          how = (case th_links t of [] \<Rightarrow> Delivered | d # ds \<Rightarrow> d); t' = t\<lparr>th_links := tl (th_links t)\<rparr>
      in if \<not> th_up t \<or> port \<noteq> listen_port (agent_sec (ag_config (th_agent t))) \<or> how = Request_Lost then (w(h := t'), None)
         else let (a, r) = serve x q (th_agent t)
              in (w(h := t'\<lparr>th_agent := a\<rparr>), if how = Answer_Lost then None else Some r))"

definition start_agent :: "('t, 'u) surroundings \<Rightarrow> ('t, 'u) target_host \<Rightarrow> ('t, 'u) target_host" where
  "start_agent x t = (if th_up t then t else t\<lparr>th_up := True, th_agent := agent_step x Restart (th_agent t)\<rparr>)"

definition run_command :: "('t, 'u) lan \<Rightarrow> string \<Rightarrow> string \<Rightarrow> ('t, 'u) targets \<Rightarrow> ('t, 'u) targets \<times> bool" where
  "run_command lan h cmd w =
     (case cmd_ssh_gateway (\<lambda>_. 0) (ln_windows lan) (ln_macos lan) (Some cmd) of
        (Some c, rc) \<Rightarrow>
          (if map_of WAKEUP_CMD (current_platform_name (ln_windows lan) (ln_macos lan)) = Some c
           then w(h := start_agent (ln_surroundings lan) (w h)) else w, True)
      | (None, rc) \<Rightarrow> (w, True))"

definition agents_ssh :: "('t, 'u) lan \<Rightarrow> (string, string \<times> int, ('t, 'u) targets) ssh_lib" where
  "agents_ssh lan =
     \<lparr>ssh_import_key = ln_imports lan, ssh_import_hosts = ln_imports lan,
      ssh_connect = (\<lambda>(h, port, user) key known w.
         if ln_lets_in lan (h, port, user) key known then (w(h := (w h)\<lparr>th_ssh_alive := True\<rparr>), Some h) else (w, None)),
      ssh_is_closed = (\<lambda>h w. \<not> th_ssh_alive (w h)),
      ssh_forward = (\<lambda>h port w. (w, if th_ssh_alive (w h) then Some (h, port) else None)),
      ssh_run = run_command lan,
      ssh_close_listener = (\<lambda>l w. w),
      ssh_close = (\<lambda>h w. w(h := (w h)\<lparr>th_ssh_alive := False\<rparr>))\<rparr>"

definition pass_time :: "('t, 'u) lan \<Rightarrow> nat \<Rightarrow> ('t, 'u) targets \<Rightarrow> ('t, 'u) targets" where
  "pass_time lan d w =
     (\<lambda>h. (w h)\<lparr>th_agent := run (agent_step (ln_surroundings lan)) (ln_passes lan h d) (th_agent (w h))\<rparr>)"

definition agents_net :: "('t, 'u) lan \<Rightarrow> (string, string \<times> int, ('t, 'u) targets) net" where
  "agents_net lan =
     \<lparr>ssh = agents_ssh lan, http_send = deliver (ln_surroundings lan), http_stream = (\<lambda>l q w. (w, None)),
      net_sleep = pass_time lan, net_aead = ln_aead lan, master_key = ln_master_key lan\<rparr>"

section \<open>The invariant\<close>

definition targets_ok :: "('t, 'u) lan \<Rightarrow> ('t, 'u) targets \<Rightarrow> bool" where
  "targets_ok lan w \<longleftrightarrow> (\<forall>h. agent_inv (ln_surroundings lan) (th_agent (w h)))"

text \<open>Every pooled connection goes to the host of its key.\<close>

definition pool_ok :: "(string, 'l) pool \<Rightarrow> bool" where
  "pool_ok p \<longleftrightarrow> dict_all (\<lambda>k e. e_conn e = fst k) p"

definition wire_ok :: "('t, 'u) lan \<Rightarrow> (string, string \<times> int, ('t, 'u) targets) wire \<Rightarrow> bool" where
  "wire_ok lan v \<longleftrightarrow> pool_ok (fst v) \<and> targets_ok lan (snd v)"

definition reaches_machine :: "('t, 'u) lan \<Rightarrow> (string, string \<times> int, ('t, 'u) targets) client \<Rightarrow> machine_row \<Rightarrow> bool" where
  "reaches_machine lan c m \<longleftrightarrow>
     cl_net c = agents_net lan \<and> cl_machine c = m \<and> cl_listener c = (m_ssh_host m, m_agent_port m)"

text \<open>The MD5 the agent of a machine has approved for a script, as its manager remembers it.\<close>

definition approved_md5_at :: "machine_row \<Rightarrow> ('t, 'u) targets \<Rightarrow> string \<Rightarrow> string option" where
  "approved_md5_at m w n =
     (case map_of (mem_store (fst (ag_approvals (th_agent (w (m_ssh_host m)))))) n of
        None \<Rightarrow> None
      | Some r \<Rightarrow> if r_state r = Approved then r_approved_md5 r else None)"

text \<open>The script directory of a machine holds a file for the request with the MD5 it pins, and its parameters fit.\<close>

definition runs_request :: "('t, 'u) lan \<Rightarrow> machine_row \<Rightarrow> ('t, 'u) targets \<Rightarrow> job_request \<Rightarrow> bool" where
  "runs_request lan m w q \<longleftrightarrow>
     (let a = th_agent (w (m_ssh_host m)); e = x_env (ln_surroundings lan); fs = disk_files (snd (ag_approvals a))
      in \<exists>f c. find_script (is_windows e) (q_script_name q) fs = Inr f \<and> fs (Scripts_Dir, f) = Some c
           \<and> q_expected_md5 q \<in> {None, Some (md5_hex e c)}
           \<and> validate_params e (q_script_name q) (q_params q) fs = Inr ())"

section \<open>What an answer of an agent tells\<close>

lemma find_script_cong:
  assumes "\<And>f. fs (Scripts_Dir, f) = fs' (Scripts_Dir, f)"
  shows "find_script win n fs = find_script win n fs'"
proof -
  have "first_existing fs cs = first_existing fs' cs" for cs
    using assms by (induction cs) (simp_all add: exists_file_def)
  with assms show ?thesis by (simp add: find_script_def exists_file_def)
qed

lemma validate_params_cong:
  "(\<And>f. fs (Scripts_Dir, f) = fs' (Scripts_Dir, f)) \<Longrightarrow> validate_params e n ps fs = validate_params e n ps fs'"
  by (simp add: validate_params_def)

lemma submit_job_status: "snd (submit_job x q a) = (st, B_Job r) \<Longrightarrow> st = 202"
  by (auto simp: submit_job_def submit_persistent_def submit_foreground_def Let_def case_prod_beta
      split: option.splits if_splits sum.splits prod.splits start_error.splits elim!: run_error_response.elims)

lemma submit_persistent_scripts:
  "disk_files (snd (ag_approvals (fst (submit_persistent x q a)))) (Scripts_Dir, f) =
     disk_files (snd (ag_approvals a)) (Scripts_Dir, f)"
  by (auto simp: submit_persistent_def Let_def case_prod_beta start_files start_approvals split: sum.splits start_error.splits)

lemma submit_foreground_scripts:
  "disk_files (snd (ag_approvals (fst (submit_foreground x q a)))) (Scripts_Dir, f) =
     disk_files (snd (ag_approvals a)) (Scripts_Dir, f)"
proof -
  let ?r = "run_script (x_env x) (get_state (x_codec x)) (x_exec x) (q_script_name q) (q_params q)
             (disk_files (snd (ag_approvals a))) (ag_approvals a)"
  obtain p r where r: "?r = (p, r)" by fastforce
  have "snd p = snd (ag_approvals a)"
    using run_script_approvals [of "x_env x" "get_state (x_codec x)" "x_exec x" "q_script_name q" "q_params q"
        "disk_files (snd (ag_approvals a))" "ag_approvals a"] r by simp
  then show ?thesis by (cases r) (simp_all add: submit_foreground_def r write_file_def)
qed

lemma submit_job_scripts:
  "disk_files (snd (ag_approvals (fst (submit_job x q a)))) (Scripts_Dir, f) =
     disk_files (snd (ag_approvals a)) (Scripts_Dir, f)"
  by (auto simp: submit_job_def Let_def case_prod_beta submit_persistent_scripts submit_foreground_scripts
      split: option.splits)

lemma serve_accepted:
  assumes "snd (serve x q a) = (st, b)" "\<And>e. b \<noteq> B_Error e"
  shows "serve x q a = route x (target q) (active a)"
  using assms by (auto simp: serve_def auth_check_def Let_def split: option.splits if_splits)

lemma get_state_tells:
  assumes "target q = Get_Script_State n" "serve x q a = (a', st, B_Descriptor d)" "d_state d = Approved"
  shows "\<exists>r. map_of (mem_store (fst (ag_approvals a'))) n = Some r \<and> r_state r = Approved
    \<and> r_approved_md5 r = d_approved_md5 d"
  using serve_accepted [of x q a st "B_Descriptor d"] assms
  by (auto simp: route_def get_script_state_def get_state_def Let_def absent_descriptor_def descriptor_def endpoint_name_safe
      split: sum.splits option.splits)

lemma stage_tells:
  assumes "target q = Post_Stage n g" "serve x q a = (a', st, B_Staged s)" "g_state s = Approved"
  shows "\<exists>r. map_of (mem_store (fst (ag_approvals a'))) n = Some r \<and> r_state r = Approved
    \<and> r_approved_md5 r = Some (g_md5 g)"
proof -
  let ?p = "ag_approvals (active a)"
  have route: "route x (Post_Stage n g) (active a) = (a', st, B_Staged s)"
    using serve_accepted [of x q a st "B_Staged s"] assms(1,2) by simp
  then have "snd (stage (x_codec x) n (g_content g) (g_md5 g) (g_meta_yaml g) ?p) = Inr Approved"
    and a': "ag_approvals a' = fst (stage (x_codec x) n (g_content g) (g_md5 g) (g_meta_yaml g) ?p)"
    using assms(3) by (auto simp: route_def stage_script_def endpoint_name_safe split: sum.splits prod.splits)
  then show ?thesis
    by (cases rule: stage_cases [of ?p n "x_codec x" "g_content g" "g_md5 g" "g_meta_yaml g"])
      (auto simp: a' already_staged_def state_of_def empty_record_def split: option.splits)
qed

lemma job_tells:
  assumes "agent_inv x a" "target q = Post_Job j" "serve x q a = (a', st, B_Job r)"
  shows "let fs = disk_files (snd (ag_approvals a')) in
    \<exists>f c. find_script (is_windows (x_env x)) (q_script_name j) fs = Inr f \<and> fs (Scripts_Dir, f) = Some c
      \<and> q_expected_md5 j \<in> {None, Some (md5_hex (x_env x) c)}
      \<and> validate_params (x_env x) (q_script_name j) (q_params j) fs = Inr ()"
proof -
  have job: "submit_job x j (active a) = (a', st, B_Job r)"
    using serve_accepted [of x q a st "B_Job r"] assms(2,3) by (simp add: route_def)
  then have acc: "snd (submit_job x j (active a)) = (202, B_Job r)"
    using submit_job_status [of x j "active a" st r] by simp
  have same: "disk_files (snd (ag_approvals a')) (Scripts_Dir, f) = disk_files (snd (ag_approvals (active a))) (Scripts_Dir, f)" for f
    using submit_job_scripts [of x j "active a" f] job by simp
  have "agent_inv x (active a)" using assms(1) by (simp add: agent_inv_def)
  note acc = submit_job_accepted [OF this acc]
  have "find_script w n (disk_files (snd (ag_approvals a'))) = find_script w n (disk_files (snd (ag_approvals (active a))))"
    "validate_params e n ps (disk_files (snd (ag_approvals a'))) = validate_params e n ps (disk_files (snd (ag_approvals (active a))))"
    for w n e ps
    by (rule find_script_cong [of "disk_files (snd (ag_approvals a'))"] validate_params_cong [of "disk_files (snd (ag_approvals a'))"],
        rule same)+
  then show ?thesis
    using acc same by (cases "q_expected_md5 j") (auto simp: Let_def)
qed

section \<open>The contract holds\<close>

lemma deliver_Some:
  assumes "deliver x (h, port) q w = (w', Some r)"
  shows "serve x q (th_agent (w h)) = (th_agent (w' h), r)"
  using assms by (auto simp: deliver_def Let_def split: prod.splits if_splits)

lemma agent_request_inv: "agent_inv x a \<Longrightarrow> agent_inv x (fst (serve x q a))"
  using agent_step_inv [of x a "Request q"] by simp

lemma targets_ok_upd:
  "targets_ok lan w \<Longrightarrow> agent_inv (ln_surroundings lan) (th_agent t) \<Longrightarrow> targets_ok lan (w(h := t))"
  by (simp add: targets_ok_def)

lemma targets_okD: "targets_ok lan w \<Longrightarrow> agent_inv (ln_surroundings lan) (th_agent (w h))"
  by (simp add: targets_ok_def)

lemma deliver_ok: "targets_ok lan w \<Longrightarrow> targets_ok lan (fst (deliver (ln_surroundings lan) l q w))"
  by (auto simp: deliver_def Let_def case_prod_beta intro!: targets_ok_upd agent_request_inv dest: targets_okD)

lemma run_command_ok:
  assumes "targets_ok lan w"
  shows "targets_ok lan (fst (run_command lan h cmd w))"
proof -
  have "agent_inv (ln_surroundings lan) (agent_step (ln_surroundings lan) Restart (th_agent (w h)))"
    by (rule agent_step_inv [THEN conjunct1, OF targets_okD [OF assms]])
  then show ?thesis
    using assms by (auto simp: run_command_def start_agent_def case_prod_beta intro!: targets_ok_upd dest: targets_okD
        split: option.splits simp del: agent_step.simps)
qed

lemma agent_run_inv: "agent_inv x a \<Longrightarrow> agent_inv x (run (agent_step x) as a)"
  by (induction as arbitrary: a) (simp_all add: agent_step_inv del: agent_step.simps)

lemma pass_time_ok: "targets_ok lan w \<Longrightarrow> targets_ok lan (pass_time lan d w)"
  by (simp add: targets_ok_def pass_time_def agent_run_inv)

lemma agents_connect:
  assumes "connect (agents_ssh lan) (h, port, user) key hk w = (w', r)" "targets_ok lan w"
  shows "targets_ok lan w'" "r = Inr c \<Longrightarrow> c = h"
  using assms by (auto simp: connect_def agents_ssh_def split: if_splits prod.splits option.splits
      intro!: targets_ok_upd dest: targets_okD)

lemma agents_get_connection:
  assumes "get_connection (agents_ssh lan) k key hk v = (v', r)" "wire_ok lan v"
  shows "wire_ok lan v'" "r = Inr c \<Longrightarrow> c = fst k"
proof -
  obtain h port user where k: "k = (h, port, user)" by (cases k)
  have ok: "pool_ok (fst v)" "targets_ok lan (snd v)" using assms(2) by (simp_all add: wire_ok_def)
  have "wire_ok lan v' \<and> (\<forall>c. r = Inr c \<longrightarrow> c = fst k)"
  proof (cases rule: get_connection_cases [of v k "agents_ssh lan" key hk])
    case (cached e)
    with ok assms show ?thesis by (auto simp: pool_ok_def dest: dict_allD)
  next
    case (failed w' x)
    with ok assms agents_connect(1) [of lan h port user key hk "snd v" w'] k show ?thesis by (auto simp: wire_ok_def)
  next
    case (fresh w' c)
    with agents_connect [of lan h port user key hk "snd v" w' "Inr c"] ok(2) k have "targets_ok lan w'" "c = h" by auto
    moreover have "pool_ok (AList.update k \<lparr>e_conn = c, e_listeners = []\<rparr> (fst v))"
      using ok(1) \<open>c = h\<close> k unfolding pool_ok_def by (intro dict_all_update) simp_all
    ultimately show ?thesis using fresh assms(1) k by (auto simp: wire_ok_def)
  qed
  then show "wire_ok lan v'" "r = Inr c \<Longrightarrow> c = fst k" by blast+
qed

lemma pool_ok_update: "pool_ok p \<Longrightarrow> e_conn e = fst k \<Longrightarrow> pool_ok (AList.update k e p)"
  unfolding pool_ok_def by (rule dict_all_update)

lemma pool_okD: "pool_ok p \<Longrightarrow> map_of p k = Some e \<Longrightarrow> e_conn e = fst k"
  unfolding pool_ok_def by (rule dict_allD)

lemma agents_open_tunnel:
  assumes "open_tunnel (agents_ssh lan) k key port hk v = (v', r)" "wire_ok lan v"
  shows "wire_ok lan v'" "r = Inr l \<Longrightarrow> l = (fst k, port)"
proof -
  obtain v1 r1 where g: "get_connection (agents_ssh lan) k key hk v = (v1, r1)" by fastforce
  note ok = agents_get_connection [OF g assms(2)]
  have "wire_ok lan v' \<and> (\<forall>l. r = Inr l \<longrightarrow> l = (fst k, port))"
  proof (cases r1)
    case (Inl e)
    with assms(1) g ok(1) show ?thesis by (auto simp: open_tunnel_def)
  next
    case (Inr c)
    obtain p w where v1: "v1 = (p, w)" by fastforce
    have "ssh_forward (agents_ssh lan) c port w = (w, if th_ssh_alive (w c) then Some (c, port) else None)"
      by (simp add: agents_ssh_def)
    with assms(1) g Inr v1 ok show ?thesis
      by (auto simp: open_tunnel_def wire_ok_def intro!: pool_ok_update split: if_splits option.splits)
        (metis pool_okD)
  qed
  then show "wire_ok lan v'" "r = Inr l \<Longrightarrow> l = (fst k, port)" by blast+
qed

lemma agents_open_client:
  assumes "open_client (agents_net lan) m key v = (v', r)" "wire_ok lan v"
  shows "wire_ok lan v'" "r = Inr c \<Longrightarrow> reaches_machine lan c m"
proof -
  obtain v1 r1 where t: "open_tunnel (agents_ssh lan) (machine_key m) key (m_agent_port m) (m_ssh_host_key m) v = (v1, r1)"
    by fastforce
  note ok = agents_open_tunnel [OF t assms(2)]
  have ssh: "ssh (agents_net lan) = agents_ssh lan" by (simp add: agents_net_def)
  have "wire_ok lan v' \<and> (\<forall>c. r = Inr c \<longrightarrow> reaches_machine lan c m)"
    using assms(1) t ok
    by (cases r1) (auto simp: open_client_def ssh machine_key_def reaches_machine_def split: sum.splits)
  then show "wire_ok lan v'" "r = Inr c \<Longrightarrow> reaches_machine lan c m" by blast+
qed

lemma agents_send:
  assumes "send c e v = (v', Some r)" "reaches_machine lan c m"
  shows "serve (ln_surroundings lan) \<lparr>authorization = cl_authorization c, target = e\<rparr> (th_agent (snd v (m_ssh_host m)))
    = (th_agent (snd v' (m_ssh_host m)), r)"
  using assms deliver_Some [of "ln_surroundings lan" "m_ssh_host m" "m_agent_port m"]
  by (auto simp: send_def reaches_machine_def agents_net_def split: prod.splits)

lemma agents_send_ok:
  assumes "wire_ok lan v" "cl_net c = agents_net lan"
  shows "wire_ok lan (fst (send c e v))"
  using assms deliver_ok [of lan "snd v" "cl_listener c"] by (simp add: send_def case_prod_beta wire_ok_def agents_net_def)

lemma agents_run_ok:
  "wire_ok lan v \<Longrightarrow> wire_ok lan (fst v, fst (ssh_run (ssh (agents_net lan)) conn cmd (snd v)))"
  by (simp add: wire_ok_def agents_net_def agents_ssh_def run_command_ok)

interpretation agents: agent_service "agents_net lan" "wire_ok lan" "reaches_machine lan" approved_md5_at "runs_request lan"
  for lan
proof (unfold_locales, goal_cases)
  case (1 c m)
  then show ?case by (simp add: reaches_machine_def)
next
  case (2 v m key v' c)
  then show ?case using agents_open_client(2) by blast
next
  case (3 v m key)
  then show ?case using agents_open_client(1) by (metis prod.collapse)
next
  case (4 v l)
  then show ?case by (simp add: agents_net_def agents_ssh_def)
next
  case (5 c v e)
  then show ?case using agents_send_ok by blast
next
  case (6 v t)
  then show ?case by (simp add: wire_ok_def agents_net_def pass_time_ok)
next
  case (7 v k key hk)
  then show ?case using agents_get_connection(1) by (metis agents_net_def net.select_convs(1) prod.collapse)
next
  case (8 m w q l)
  then show ?case by (simp add: agents_net_def agents_ssh_def)
next
  case (9 v conn cmd)
  then show ?case by (rule agents_run_ok)
next
  case (10 v c m n v' st d)
  with get_state_tells [OF _ agents_send [OF 10(3,2)]] show ?case by (auto simp: approved_md5_at_def)
next
  case (11 v c m n g v' st s)
  with stage_tells [OF _ agents_send [OF 11(3,2)]] show ?case by (auto simp: approved_md5_at_def)
next
  case (12 v c m q v' st r)
  then have "agent_inv (ln_surroundings lan) (th_agent (snd v (m_ssh_host m)))"
    by (simp add: wire_ok_def targets_okD)
  from job_tells [OF this _ agents_send [OF 12(3,2)]] show ?case by (simp add: runs_request_def Let_def)
qed

section \<open>From the request of a user to the process on a target\<close>

lemma accessible_machine_Inr:
  "accessible_machine al now tok mid db = Inr (u, m) \<longleftrightarrow>
     current_user al now tok db = Inr u \<and> find_machine mid db = Some m
     \<and> (u_role u = ''admin'' \<or> bookmarked (u_id u) mid db)"
  by (auto simp: accessible_machine_def get_machine_or_404_def assert_access_def bindR_eq_Inr
      split: option.splits if_splits)

end
