(* ===== verification/Station_Props.thy ===== *)
theory Station_Props
  imports Station Registry_Props
begin

text \<open>The composed system: what an accepted job runs, and what the station records of a submission.\<close>


section \<open>A target that has approved a script\<close>

definition calm :: "(store, (string, job_entry) dict) agent \<Rightarrow> bool" where
  "calm a \<longleftrightarrow> ag_config a = example_config None \<and> fst (ag_approvals a) = fst approved_example
     \<and> disk_files (snd (ag_approvals a)) = example_files \<and> approvals_json (snd (ag_approvals a)) = None"

lemma calm_approvals:
  assumes "calm a"
  shows "sync_from_disk plain_codec (ag_approvals a) = ag_approvals a"
    "snd (get_state plain_codec ''a.sh'' (ag_approvals a)) =
      \<lparr>d_name = ''a.sh'', d_state = Approved, d_persistent = False, d_approved_md5 = Some ''echo'', d_pending_md5 = None\<rparr>"
proof -
  obtain m w where a: "ag_approvals a = (m, w)" by fastforce
  with assms have w: "m = fst approved_example" "approvals_json w = None" by (auto simp: calm_def)
  then show "sync_from_disk plain_codec (ag_approvals a) = ag_approvals a"
    by (simp add: a current_sig_def approved_example_def Let_def empty_disk_def)
  then show "snd (get_state plain_codec ''a.sh'' (ag_approvals a)) =
      \<lparr>d_name = ''a.sh'', d_state = Approved, d_persistent = False, d_approved_md5 = Some ''echo'', d_pending_md5 = None\<rparr>"
    using w by (simp add: get_state_def Let_def a approved_example_def descriptor_def empty_record_def)
qed

lemma with_files_json [simp]: "approvals_json (snd (with_files fs p)) = approvals_json (snd p)"
  by (simp add: with_files_def)

lemma calm_health:
  assumes "calm a"
  shows "\<exists>a' h. serve example_surroundings \<lparr>authorization = None, target = Healthz\<rparr> a = (a', 200, B_Health h) \<and> calm a'"
  using assms
  by (simp add: serve_def auth_check_def calm_def example_config_def route_def healthz_def Let_def case_prod_beta
      running_count_pm poll_jobs_files)

lemma calm_state:
  assumes "calm a"
  shows "\<exists>a'. serve example_surroundings \<lparr>authorization = None, target = Get_Script_State ''a.sh''\<rparr> a =
      (a', 200, B_Descriptor (snd (get_state plain_codec ''a.sh'' (ag_approvals a)))) \<and> calm a'"
proof -
  have n: "endpoint_name ''a.sh'' = Inr ''a.sh''"
    by (simp add: endpoint_name_safe safe_filename_def name_char_def name_stem_def WINDOWS_RESERVED_def py_simps)
  have a: "ag_approvals (active a) = ag_approvals a" by simp
  show ?thesis
    using assms calm_approvals(1) [OF assms]
    by (simp add: serve_def auth_check_def calm_def example_config_def route_def n get_script_state_def case_prod_beta
        example_surroundings_def)
qed

definition example_job :: job_request where
  "example_job =
     \<lparr>q_job_uuid = ''j1'', q_script_name = ''a.sh'', q_params = [(''size'', PInt 600)], q_persistent = True,
      q_expected_md5 = Some ''echo''\<rparr>"

lemma calm_job:
  assumes "calm a"
  shows "\<exists>a' r. serve example_surroundings \<lparr>authorization = None, target = Post_Job example_job\<rparr> a = (a', 202, B_Job r)"
proof -
  have prep: "\<exists>ce. prepare example_env ''a.sh'' [(''size'', PInt 600)] (Some ''echo'') example_files = Inr ce"
    using example_validates
    by (simp add: prepare_def find_script_def example_files_def example_env_def LINUX_EXTENSIONS_def file_defs
        verify_script_integrity_def file_md5_def build_command_def path_suffix_def py_simps)
  show ?thesis
    using assms calm_approvals [OF assms] prep
    by (auto simp: serve_def auth_check_def calm_def example_config_def route_def submit_job_def submit_persistent_def
        start_def Let_def case_prod_beta example_surroundings_def example_job_def)
qed

section \<open>A station with this target\<close>

definition example_lan :: "(store, (string, job_entry) dict) lan" where
  "example_lan =
     \<lparr>ln_surroundings = example_surroundings, ln_windows = False, ln_macos = False, ln_lets_in = (\<lambda>k key known. True),
      ln_imports = (\<lambda>x. True), ln_passes = (\<lambda>h d. []), ln_aead = example_aead, ln_master_key = ''master''\<rparr>"

definition example_targets :: "(store, (string, job_entry) dict) targets" where
  "example_targets =
     (\<lambda>h. \<lparr>th_agent = (example_agent None)\<lparr>ag_approvals := approved_example\<rparr>, th_up = True, th_ssh_alive = True, th_links = []\<rparr>)"

definition example_machine :: machine_row where
  "example_machine =
     \<lparr>m_id = 1, m_name = ''box'', m_ssh_host = ''box.lan'', m_ssh_port = 22, m_ssh_user = ''csl'',
      m_ssh_key_encrypted = encrypt example_aead ''nonce-nonce-'' ''key'' ''master'', m_key_fingerprint = ''fp'',
      m_ssh_host_key = Some ''ssh-ed25519 A'', m_agent_token_encrypted = None, m_agent_port = 47731,
      m_scripts_dir = ''/home/u/.csl/scripts'', m_platform = ''linux'', m_mac_address = None, m_created_at = 0\<rparr>"

definition example_script :: script_row where
  "example_script =
     \<lparr>sc_id = 1, sc_name = ''a.sh'', sc_content = ''echo'', sc_meta_yaml = Some ''x'', sc_md5 = ''echo'',
      sc_persistent = True, sc_updated_at = 0, sc_updated_by = 1\<rparr>"

lemma example_wire_ok: "wire_ok example_lan ([], example_targets)"
  by (simp add: wire_ok_def pool_ok_def targets_ok_def example_targets_def example_lan_def agent_inv_def
      example_surroundings_def sys_inv_def approved_example_def Let_def store_wf_def dict_ok_def record_wf_def
      empty_record_def load_store_def empty_disk_def example_agent_def lifespan_def example_config_def
      restore_state_def load_running_state_def pm_of_def)

lemma example_open:
  "\<exists>c v. open_client (agents_net example_lan) example_machine ''key'' ([], example_targets) = (v, Inr c)
     \<and> reaches_machine example_lan c example_machine \<and> cl_authorization c = None \<and> snd v = example_targets"
  by (auto simp: open_client_def agents_net_def agents_ssh_def example_lan_def example_machine_def open_tunnel_def
      get_connection_def connect_def build_known_hosts_def auth_headers_def machine_key_def reaches_machine_def
      example_targets_def)

text \<open>A host on which \<open>calm\<close> agent answers everything.\<close>

definition calm_host :: "(store, (string, job_entry) dict) targets \<Rightarrow> bool" where
  "calm_host w \<longleftrightarrow> (let t = w ''box.lan'' in calm (th_agent t) \<and> th_up t \<and> th_links t = [])"

lemma example_send:
  assumes "reaches_machine example_lan c example_machine" "cl_authorization c = None" "calm_host (snd v)"
    and "serve example_surroundings \<lparr>authorization = None, target = e\<rparr> (th_agent (snd v ''box.lan'')) = (a, r)"
  shows "send c e v = ((fst v, (snd v)(''box.lan'' := (snd v ''box.lan'')\<lparr>th_links := [], th_agent := a\<rparr>)), Some r)"
proof -
  have "ag_config (th_agent (snd v ''box.lan'')) = example_config None" "th_up (snd v ''box.lan'')" "th_links (snd v ''box.lan'') = []"
    using assms(3) by (simp_all add: calm_host_def calm_def Let_def)
  with assms show ?thesis
    by (simp add: send_def agents_net_def reaches_machine_def deliver_def Let_def example_machine_def example_lan_def
        example_config_def)
qed

lemma example_calm: "calm_host example_targets"
  by (simp add: calm_host_def calm_def example_targets_def example_agent_def lifespan_def Let_def approved_example_def
      empty_disk_def)

lemma calm_host_upd:
  "calm a \<Longrightarrow> th_up (w ''box.lan'') \<Longrightarrow> calm_host (w(''box.lan'' := (w ''box.lan'')\<lparr>th_links := [], th_agent := a\<rparr>))"
  by (simp add: calm_host_def Let_def)

lemma calm_hostD: "calm_host w \<Longrightarrow> calm (th_agent (w ''box.lan'')) \<and> th_up (w ''box.lan'')"
  by (simp add: calm_host_def Let_def)

lemma example_submission:
  assumes c: "reaches_machine example_lan c example_machine" "cl_authorization c = None" and v: "calm_host (snd v)"
  shows "\<exists>sv r. submit_to_agent 5 ''j1'' user example_machine example_script ''a.sh'' [(''size'', PInt 600)] c (s, v) = (sv, Inr r)"
proof -
  from calm_health [OF conjunct1 [OF calm_hostD [OF v]]] obtain a1 h where
    1: "serve example_surroundings \<lparr>authorization = None, target = Healthz\<rparr> (th_agent (snd v ''box.lan'')) = (a1, 200, B_Health h)"
    "calm a1" by blast
  note s1 = example_send [OF c v 1(1)]
  define v1 where "v1 = (fst v, (snd v)(''box.lan'' := (snd v ''box.lan'')\<lparr>th_links := [], th_agent := a1\<rparr>))"
  have e: "ensure_agent_running c v = (v1, Inr ())"
    by (simp add: ensure_agent_running_def is_healthy_def s1 v1_def)
  have v1: "calm_host (snd v1)" using calm_host_upd [OF 1(2)] calm_hostD [OF v] by (simp add: v1_def)
  from calm_state [OF conjunct1 [OF calm_hostD [OF v1]]] obtain a2 where
    2: "serve example_surroundings \<lparr>authorization = None, target = Get_Script_State ''a.sh''\<rparr> (th_agent (snd v1 ''box.lan'')) =
      (a2, 200, B_Descriptor (snd (get_state plain_codec ''a.sh'' (ag_approvals (th_agent (snd v1 ''box.lan''))))))" "calm a2"
    by blast
  note s2 = example_send [OF c v1 2(1)]
  define v2 where "v2 = (fst v1, (snd v1)(''box.lan'' := (snd v1 ''box.lan'')\<lparr>th_links := [], th_agent := a2\<rparr>))"
  have sync: "\<exists>s2. sync_script 5 example_machine example_script c (s, v1) = ((s2, v2), Inr (approval_state_text Approved))"
    using calm_approvals(2) [OF conjunct1 [OF calm_hostD [OF v1]]]
    by (simp add: sync_script_def client_script_state_def example_script_def s2 raise_for_status_def resolve_state_def
        v2_def Let_def)
  have v2: "calm_host (snd v2)" using calm_host_upd [OF 2(2)] calm_hostD [OF v1] by (simp add: v2_def)
  from calm_job [OF conjunct1 [OF calm_hostD [OF v2]]] obtain a3 r where
    3: "serve example_surroundings \<lparr>authorization = None, target = Post_Job example_job\<rparr> (th_agent (snd v2 ''box.lan'')) = (a3, 202, B_Job r)"
    by blast
  have "job_request_of ''j1'' example_script ''a.sh'' [(''size'', PInt 600)] = example_job"
    by (simp add: job_request_of_def example_script_def example_job_def)
  with example_send [OF c v2 3] sync e show ?thesis
    by (auto simp: submit_to_agent_def client_submit_job_def raise_for_status_def Let_def)
qed

definition example_station :: "(claims, string, string \<times> int, (store, (string, job_entry) dict) targets) station" where
  "example_station =
     \<lparr>st_auth = example_auth_libs, st_net = agents_net example_lan, st_json = example_json (bundle_payload example_bundle),
      st_safe_load = (\<lambda>t. None), st_version = ''0.1'', st_probe = (\<lambda>k key cmd w. (w, None))\<rparr>"

definition example_db :: database where
  "example_db = one_user\<lparr>machines := [example_machine], scripts := [example_script]\<rparr>"

lemma example_accepted:
  "\<exists>sv row. submit_job_endpoint example_station 5 ''j1'' (create_access_token example_auth_libs 1 1 ''admin'') 1 ''a.sh''
      [(''size'', PInt 600)] (begin_session example_db, ([], example_targets)) = (sv, Inr row)"
proof -
  have user: "current_user example_auth_libs 5 (create_access_token example_auth_libs 1 1 ''admin'') example_db = Inr example_user"
    by (simp add: current_user_def decode_access_token_def decode_token_def create_access_token_def example_auth_libs_def
        ACCESS_TOKEN_EXPIRE_MINUTES_def find_user_def example_db_def one_user_def example_user_def)
  have a: "accessible_machine example_auth_libs 5 (create_access_token example_auth_libs 1 1 ''admin'') 1 example_db
      = Inr (example_user, example_machine)"
  proof -
    have "find_machine 1 example_db = Some example_machine" "u_role example_user = ''admin''"
      by (simp_all add: find_machine_def example_db_def example_machine_def example_user_def)
    then show ?thesis by (simp add: accessible_machine_Inr user)
  qed
  have sc: "get_script ''a.sh'' example_db = Some example_script"
    by (simp add: get_script_def example_db_def example_script_def)
  have key: "decrypt_key (agents_net example_lan) example_machine = Inr ''key''"
    using decrypt_encrypt [OF example_aead_ok, of "''nonce-nonce-''" "''key''" "''master''"]
    by (simp add: decrypt_key_def agents_net_def example_lan_def example_machine_def NONCE_SIZE_def)
  obtain c v where c: "open_client (agents_net example_lan) example_machine ''key'' ([], example_targets) = (v, Inr c)"
    "reaches_machine example_lan c example_machine" "cl_authorization c = None" "snd v = example_targets"
    using example_open by blast
  obtain s2 v2 r where "submit_to_agent 5 ''j1'' example_user example_machine example_script ''a.sh'' [(''size'', PInt 600)] c
      (begin_session example_db, v) = ((s2, v2), Inr r)"
    using example_submission [OF c(2,3)] example_calm c(4) by (metis prod.collapse)
  then have "with_client (agents_net example_lan) example_machine (submit_to_agent 5 ''j1'' example_user example_machine
      example_script ''a.sh'' [(''size'', PInt 600)]) (begin_session example_db, ([], example_targets))
      = ((s2, close_client c v2), Inr r)"
    by (simp add: with_client_def key c(1))
  then show ?thesis
    by (simp add: submit_job_endpoint_def example_station_def a get_script_or_raise_def sc Let_def)
qed


end
