(* ===== verification/Job_Reconciler.thy ===== *)
theory Job_Reconciler
  imports Server_Jobs
begin

text \<open>
  \<open>server/core/job_reconciler.py\<close>: one pass over the jobs that are still running or pending.  Every write is a
  session of its own, committed at once, so the state is the database and the wire.  The machines are
  visited in the order of their first job (the code iterates over a set).
\<close>

type_synonym ('c, 'l, 'w) reconciler = "database \<times> ('c, 'l, 'w) wire"

definition active_status :: "job_status \<Rightarrow> bool" where
  "active_status s = (s \<in> {Job_Running, Job_Pending})"

text \<open>The job is looked up again before it is written; no row, no write.\<close>

definition reconcile_job :: "('c, 'l, 'w) client \<Rightarrow> job_row \<Rightarrow> ('c, 'l, 'w) reconciler \<Rightarrow> ('c, 'l, 'w) reconciler" where
  "reconcile_job c j dv =
     (let (db, v) = dv; u = jb_job_uuid j in
      case client_job_status c u v of
        (v', Inr resp) \<Rightarrow> (if active_status (s_status resp) then db else update_job u (refreshed resp) db, v')
      | (v', Inl e) \<Rightarrow>
          (if agent_client_error e then db else update_job u (\<lambda>r. r\<lparr>jb_status := Job_Failed\<rparr>) db, v'))"

definition reconcile_machine ::
  "('c, 'l, 'w) net \<Rightarrow> job_row list \<Rightarrow> machine_row \<Rightarrow> ('c, 'l, 'w) reconciler \<Rightarrow> ('c, 'l, 'w) reconciler" where
  "reconcile_machine nt jobs m dv =
     (let (db, v) = dv; mine = filter (\<lambda>j. jb_machine_id j = m_id m) jobs in
      case decrypt_key nt m of
        Inl e \<Rightarrow> dv
      | Inr key \<Rightarrow>
          (case open_client nt m key v of
             (v1, Inl e) \<Rightarrow> (db, v1)
           | (v1, Inr c) \<Rightarrow>
               (let (db', v2) = fold (reconcile_job c) mine (db, v1) in (db', close_client c v2))))"

definition reconcile_once :: "('c, 'l, 'w) net \<Rightarrow> ('c, 'l, 'w) reconciler \<Rightarrow> ('c, 'l, 'w) reconciler" where
  "reconcile_once nt dv =
     (let db = fst dv;
          jobs = filter (\<lambda>j. active_status (jb_status j)) (job_rows db);
          ms = List.map_filter (\<lambda>i. find_machine i db) (remdups (map jb_machine_id jobs))
      in fold (reconcile_machine nt jobs) ms dv)"

end
