(* ===== verification/Jobs_Props.thy ===== *)
theory Jobs_Props
  imports Job_Reconciler Server_Auth_Props
begin

text \<open>
  Correctness of the job records of the control station, whatever the network does: what a submission
  leaves in the database, and what a reconciliation pass may change.
\<close>

section \<open>What a submission does to the session\<close>

text \<open>A session whose transaction and committed state are both \<open>db\<close> with another state cache.\<close>

definition cached :: "database \<Rightarrow> session \<Rightarrow> bool" where
  "cached db s \<longleftrightarrow> (\<exists>ts. committed s = db\<lparr>target_states := ts\<rparr>) \<and> (\<exists>ts. current s = db\<lparr>target_states := ts\<rparr>)"

lemma cached_begin [simp]: "cached db (begin_session db)"
  unfolding cached_def by (auto intro!: exI [of _ "target_states db"])

lemma cached_commit [simp]: "cached db s \<Longrightarrow> cached db (session_commit s)"
  by (auto simp: cached_def)

lemma cached_upsert [simp]: "cached db s \<Longrightarrow> cached db (upsert_state now mid sid r d s)"
  by (auto simp: cached_def upsert_state_def Let_def)

lemma cached_sync: "cached db (fst sv) \<Longrightarrow> cached db (fst (fst (sync_script now m sc c sv)))"
  by (auto simp: sync_script_def Let_def case_prod_beta split: sum.splits)

text \<open>A refusal: nothing but the cache, or one audit row of the rejection.\<close>

definition refused :: "database \<Rightarrow> http_error \<Rightarrow> database \<Rightarrow> bool" where
  "refused db e db' \<longleftrightarrow>
     (\<exists>ts. db' = db\<lparr>target_states := ts\<rparr>
        \<or> (he_status e = 409 \<and> (\<exists>row. db' = db\<lparr>target_states := ts, audit_rows := audit_rows db @ [row]\<rparr>
             \<and> au_action row = ''job.submit'' \<and> au_result row = ''rejected'')))"

lemma refused_cached: "cached db s \<Longrightarrow> refused db e (committed s)"
  by (auto simp: cached_def refused_def)

lemma refused_current: "cached db s \<Longrightarrow> refused db e (current s)"
  by (auto simp: cached_def refused_def)

lemma refused_audit:
  assumes "cached db s" "he_status e = 409"
  shows "refused db e (committed (record_audit now ''job.submit'' tt ti ''rejected'' u d True s))"
proof -
  obtain ts where "current s = db\<lparr>target_states := ts\<rparr>" using assms(1) by (auto simp: cached_def)
  then show ?thesis
    using assms(2) unfolding refused_def by (intro exI [of _ ts]) (auto simp: add_audit_row_def)
qed

lemma approval_error_status [simp]: "he_status (approval_error_response st n) = 409"
  by (simp add: approval_error_response_def Let_def csl_exception_def)

lemma submit_to_agent_session:
  assumes "cached db (fst sv)" "submit_to_agent now u user m sc name ps c sv = ((s', v'), r)"
  shows "case r of Inl e \<Rightarrow> refused db e (committed s') | Inr resp \<Rightarrow> cached db s'"
proof -
  obtain s v where sv: "sv = (s, v)" by (cases sv)
  obtain v1 r1 where 1: "ensure_agent_running c v = (v1, r1)" by fastforce
  obtain s2 v2 r2 where 2: "sync_script now m sc c (s, v1) = ((s2, v2), r2)" by (metis prod.collapse)
  have s2: "cached db s2" using cached_sync [of db "(s, v1)" now m sc c] assms(1) 2 sv by simp
  show ?thesis
  proof (cases "\<exists>x. r1 = Inr x \<and> r2 = Inr (approval_state_text Approved)")
    case False
    then show ?thesis
      using assms 1 2 sv s2 refused_audit [OF cached_commit [OF s2]]
      by (cases r1; cases r2) (auto simp: submit_to_agent_def Let_def refused_cached split: if_splits)
  next
    case True
    obtain v3 r3 where 3: "client_submit_job c (job_request_of u sc name ps) v2 = (v3, r3)" by fastforce
    obtain s4 v4 r4 where 4: "sync_script now m sc c (session_commit s2, v3) = ((s4, v4), r4)" by (metis prod.collapse)
    have s4: "cached db s4" using cached_sync [of db "(session_commit s2, v3)" now m sc c] s2 4 by simp
    show ?thesis
    proof (cases r3)
      case (Inl e)
      have "\<exists>e'. r = Inl e' \<and> s' \<in> {session_commit s2, s4, session_commit s4}"
      proof (cases "\<exists>st d. e = Agent_Approval st d")
        case True
        with Inl \<open>\<exists>x. r1 = Inr x \<and> r2 = Inr (approval_state_text Approved)\<close> assms(2) 1 2 3 4 sv show ?thesis
          by (cases r4) (auto simp: submit_to_agent_def Let_def)
      next
        case False
        with Inl \<open>\<exists>x. r1 = Inr x \<and> r2 = Inr (approval_state_text Approved)\<close> assms(2) 1 2 3 sv show ?thesis
          by (cases e) (auto simp: submit_to_agent_def Let_def)
      qed
      then show ?thesis using s2 s4 by (auto simp: refused_cached refused_current)
    next
      case (Inr resp)
      with True assms(2) 1 2 3 sv s2 show ?thesis by (auto simp: submit_to_agent_def Let_def)
    qed
  qed
qed

lemma with_client_session:
  assumes "cached db (fst sv)" "with_client nt m (submit_to_agent now u user m sc name ps) sv = ((s', v'), r)"
  shows "case r of Inl e \<Rightarrow> refused db e (committed s') | Inr resp \<Rightarrow> cached db s'"
proof (cases "decrypt_key nt m")
  case (Inl e)
  with assms show ?thesis by (auto simp: with_client_def refused_cached)
next
  case (Inr key)
  obtain v1 r1 where o1: "open_client nt m key (snd sv) = (v1, r1)" by fastforce
  show ?thesis
  proof (cases r1)
    case (Inl e)
    with assms Inr o1 show ?thesis by (auto simp: with_client_def refused_cached)
  next
    case (Inr c)
    obtain s2 v2 r2 where 2: "submit_to_agent now u user m sc name ps c (fst sv, v1) = ((s2, v2), r2)"
      by (metis prod.collapse)
    with assms \<open>decrypt_key nt m = Inr key\<close> o1 Inr have "s' = s2" "r = r2" by (auto simp: with_client_def)
    with submit_to_agent_session [OF _ 2, of db] assms(1) show ?thesis by (simp split: sum.splits)
  qed
qed

text \<open>
  C32. What a submission leaves behind, whatever the network and the agent answer: an accepted one exactly
  one new job row with the given identifier, a refused one none; besides the state cache the only
  other change is one audit row, of the success or, with a 409, of the rejection.
\<close>

theorem submission_recorded_exactly:
  "case submit_job_endpoint st now u tok mid name ps (begin_session db, v) of
     ((s', v'), Inl e) \<Rightarrow> refused db e (finish s')
   | ((s', v'), Inr row) \<Rightarrow>
       (\<exists>ts a. finish s' = db\<lparr>target_states := ts, job_rows := job_rows db @ [row], audit_rows := audit_rows db @ [a]\<rparr>
         \<and> jb_job_uuid row = u \<and> jb_machine_id row = mid
         \<and> au_action a = ''job.submit'' \<and> au_result a = ''success'' \<and> au_target_id a = u \<and> au_user_id a = Some (jb_user_id row))"
proof -
  let ?r = "submit_job_endpoint st now u tok mid name ps (begin_session db, v)"
  have keep: "refused db e (finish (begin_session db))" for e
    by (simp add: finish_def refused_cached [OF cached_begin, simplified])
  show ?thesis
  proof (cases "accessible_machine (st_auth st) now tok mid db")
    case (Inl e)
    with keep show ?thesis by (simp add: submit_job_endpoint_def)
  next
    case (Inr um)
    obtain user m where um: "um = (user, m)" by (cases um)
    show ?thesis
    proof (cases "get_script_or_raise name db")
      case (Inl e)
      with keep Inr um show ?thesis by (simp add: submit_job_endpoint_def)
    next
      case (Inr sc)
      obtain s1 v1 r where w: "with_client (st_net st) m (submit_to_agent now u user m sc name ps) (begin_session db, v) = ((s1, v1), r)"
        by (metis prod.collapse)
      note ses = with_client_session [OF _ w, of db, simplified]
      show ?thesis
      proof (cases r)
        case Inl
        with ses w \<open>accessible_machine (st_auth st) now tok mid db = Inr um\<close> Inr um show ?thesis
          by (simp add: submit_job_endpoint_def finish_def)
      next
        case (Inr resp)
        with ses obtain ts where "current s1 = db\<lparr>target_states := ts\<rparr>" by (auto simp: cached_def)
        with Inr w \<open>accessible_machine (st_auth st) now tok mid db = Inr um\<close> \<open>get_script_or_raise name db = Inr sc\<close> um
        show ?thesis
          by (simp add: submit_job_endpoint_def finish_def Let_def new_job_row_def add_audit_row_def)
            (rule exI [of _ ts], rule exI, rule conjI, rule refl, simp)
      qed
    qed
  qed
qed

section \<open>Reconciliation\<close>

text \<open>What a pass may do to a job row: nothing, or end a job that was active.\<close>

definition with_outcome_of :: "job_row \<Rightarrow> job_row \<Rightarrow> job_row" where
  "with_outcome_of j r = r\<lparr>jb_status := jb_status j, jb_ended_at := jb_ended_at j, jb_exit_code := jb_exit_code j\<rparr>"

definition may_end :: "job_row \<Rightarrow> job_row \<Rightarrow> bool" where
  "may_end j j' \<longleftrightarrow>
     j' = j \<or> (active_status (jb_status j) \<and> terminal_status (jb_status j') \<and> with_outcome_of j j' = j)"

lemma with_outcome_simps [simp]:
  "with_outcome_of j (with_outcome_of k r) = with_outcome_of j r" "with_outcome_of j j = j"
  "with_outcome_of j (r\<lparr>jb_status := st\<rparr>) = with_outcome_of j r"
  "with_outcome_of j (refreshed resp r) = with_outcome_of j r"
  "jb_job_uuid (with_outcome_of j r) = jb_job_uuid r"
  by (simp_all add: with_outcome_of_def refreshed_def)

definition reconciled :: "database \<Rightarrow> database \<Rightarrow> bool" where
  "reconciled db db' \<longleftrightarrow> (\<exists>js. db' = db\<lparr>job_rows := js\<rparr> \<and> list_all2 may_end (job_rows db) js)"

lemma may_end_refl [simp]: "may_end j j"
  by (simp add: may_end_def)

lemma may_end_uuid: "may_end j j' \<Longrightarrow> jb_job_uuid j' = jb_job_uuid j"
  unfolding may_end_def by (metis with_outcome_simps(5))

lemma reconciled_refl [simp]: "reconciled db db"
  unfolding reconciled_def by (intro exI [of _ "job_rows db"]) (simp add: list_all2_refl)

lemma active_terminal: "\<not> active_status s \<Longrightarrow> terminal_status s"
  by (cases s) (simp_all add: active_status_def)

text \<open>Writing the row of a job that was active at the start.\<close>

lemma reconciled_update:
  assumes "distinct (map jb_job_uuid (job_rows db))" "reconciled db db'"
    and "j \<in> set (job_rows db)" "active_status (jb_status j)"
    and end_j: "\<And>r. terminal_status (jb_status (g r)) \<and> (\<forall>k. with_outcome_of k (g r) = with_outcome_of k r)"
  shows "reconciled db (update_job (jb_job_uuid j) g db')"
proof -
  obtain js where js: "db' = db\<lparr>job_rows := js\<rparr>" "list_all2 may_end (job_rows db) js"
    using assms(2) by (auto simp: reconciled_def)
  let ?f = "\<lambda>r. if jb_job_uuid r = jb_job_uuid j then g r else r"
  have step: "may_end a (?f b)" if "a \<in> set (job_rows db)" "may_end a b" for a b
  proof (cases "jb_job_uuid b = jb_job_uuid j")
    case True
    then have "a = j"
      using may_end_uuid [OF that(2)] that(1) assms(1,3) by (simp add: distinct_map inj_on_def)
    moreover have "with_outcome_of a (g b) = a" using end_j that(2) by (auto simp: may_end_def)
    ultimately show ?thesis
      using True assms(4) end_j [of b] by (simp add: may_end_def)
  qed (use that in simp)
  have "list_all2 may_end (job_rows db) (map ?f js)"
    using js(2) step by (simp add: list_all2_map2 list_all2_conv_all_nth)
  then show ?thesis
    unfolding reconciled_def by (intro exI [of _ "map ?f js"]) (simp add: js(1) update_job_def)
qed

lemma reconcile_job_keeps:
  assumes "distinct (map jb_job_uuid (job_rows db))" "reconciled db (fst dv)"
    and "j \<in> set (job_rows db)" "active_status (jb_status j)"
  shows "reconciled db (fst (reconcile_job c j dv))"
proof -
  obtain db' v where dv: "dv = (db', v)" by (cases dv)
  obtain v' r where r: "client_job_status c (jb_job_uuid j) v = (v', r)" by fastforce
  have ok: "reconciled db db'" using assms(2) dv by simp
  have "reconciled db (update_job (jb_job_uuid j) (\<lambda>r. r\<lparr>jb_status := Job_Failed\<rparr>) db')"
    by (rule reconciled_update [OF assms(1) ok assms(3,4)]) simp
  moreover have "reconciled db (update_job (jb_job_uuid j) (refreshed resp) db')" if "\<not> active_status (s_status resp)" for resp
    by (rule reconciled_update [OF assms(1) ok assms(3,4)])
      (use active_terminal [OF that] in \<open>simp add: refreshed_def with_outcome_of_def\<close>)
  ultimately show ?thesis
    using ok by (cases r) (auto simp: reconcile_job_def dv r Let_def)
qed

lemma reconcile_jobs_keep:
  assumes "distinct (map jb_job_uuid (job_rows db))" "set js \<subseteq> {j \<in> set (job_rows db). active_status (jb_status j)}"
  shows "reconciled db (fst dv) \<Longrightarrow> reconciled db (fst (fold (reconcile_job c) js dv))"
  using assms(2)
proof (induction js arbitrary: dv)
  case (Cons j js)
  then have "reconciled db (fst (reconcile_job c j dv))" by (intro reconcile_job_keeps [OF assms(1)]) auto
  with Cons show ?case by simp
qed simp

lemma reconcile_machine_keeps:
  assumes "distinct (map jb_job_uuid (job_rows db))" "set js \<subseteq> {j \<in> set (job_rows db). active_status (jb_status j)}"
    and "reconciled db (fst dv)"
  shows "reconciled db (fst (reconcile_machine nt js m dv))"
proof -
  obtain db' v where dv: "dv = (db', v)" by (cases dv)
  have "set (filter (\<lambda>j. jb_machine_id j = m_id m) js) \<subseteq> {j \<in> set (job_rows db). active_status (jb_status j)}"
    using assms(2) by auto
  note keep = reconcile_jobs_keep [OF assms(1) this]
  show ?thesis
  proof (cases "decrypt_key nt m")
    case (Inr key)
    obtain v1 r where o1: "open_client nt m key v = (v1, r)" by fastforce
    show ?thesis
    proof (cases r)
      case Inl
      with assms(3) Inr o1 show ?thesis by (simp add: reconcile_machine_def dv Let_def)
    next
      case (Inr c)
      have "reconciled db (fst (fold (reconcile_job c) (filter (\<lambda>j. jb_machine_id j = m_id m) js) (db', v1)))"
        by (rule keep) (use assms(3) dv in simp)
      with \<open>decrypt_key nt m = Inr key\<close> o1 Inr show ?thesis
        by (simp add: reconcile_machine_def dv Let_def case_prod_beta)
    qed
  qed (use assms(3) in \<open>simp add: reconcile_machine_def dv Let_def\<close>)
qed

text \<open>
  C33. A reconciliation pass, whatever the network answers, only ends jobs: a job that had ended keeps its
  row as it was, a job that was running or pending keeps it or gets a final status with the end time
  and exit code that go with it, and no other table changes.
\<close>

theorem reconciler_only_ends_jobs:
  assumes "distinct (map jb_job_uuid (job_rows db))"
  shows "reconciled db (fst (reconcile_once nt (db, v)))"
proof -
  let ?jobs = "filter (\<lambda>j. active_status (jb_status j)) (job_rows db)"
  have "reconciled db (fst (fold (reconcile_machine nt ?jobs) ms dv))" if "reconciled db (fst dv)" for ms dv
    using that
  proof (induction ms arbitrary: dv)
    case (Cons m ms)
    have "set ?jobs \<subseteq> {j \<in> set (job_rows db). active_status (jb_status j)}" by auto
    from Cons.IH [OF reconcile_machine_keeps [OF assms this Cons.prems]] show ?case by simp
  qed simp
  then show ?thesis by (simp add: reconcile_once_def Let_def)
qed

definition example_row :: "string \<Rightarrow> job_status \<Rightarrow> job_row" where
  "example_row u st =
     \<lparr>jb_id = 1, jb_job_uuid = u, jb_machine_id = 1, jb_script_id = None, jb_built_in_action = None, jb_user_id = 1,
      jb_params = [], jb_status = st, jb_persistent = True, jb_started_at = 0, jb_ended_at = None, jb_exit_code = None\<rparr>"

text \<open>Two different jobs, one running and one ended.\<close>

theorem reconciler_only_ends_jobs_witness:
  "\<forall>nt v. let db = empty_database\<lparr>job_rows := [example_row ''j1'' Job_Running, example_row ''j2'' Job_Killed]\<rparr>
    in reconciled db (fst (reconcile_once nt (db, v)))"
  unfolding Let_def by (intro allI reconciler_only_ends_jobs) (simp add: example_row_def)

section \<open>A lost request fails a job\<close>

text \<open>
  The client never raises \<open>AgentClientError\<close> for a status query, so every failure of the network takes the
  reconciler's last branch: the job is marked failed although its process may be running.
\<close>

lemma status_query_errors: "snd (client_job_status c u v) = Inl e \<Longrightarrow> \<not> agent_client_error e"
  by (auto simp: client_job_status_def raise_for_status_def Let_def case_prod_beta bindR_eq_Inl
      split: option.splits prod.splits if_splits body.splits)

lemma lost_status_query_fails_job:
  assumes "client_job_status c (jb_job_uuid j) v = (v', Inl e)"
  shows "reconcile_job c j (db, v) = (update_job (jb_job_uuid j) (\<lambda>r. r\<lparr>jb_status := Job_Failed\<rparr>) db, v')"
  using assms status_query_errors [of c "jb_job_uuid j" v e] by (simp add: reconcile_job_def Let_def)

end
