(* ===== verification/Machines_Props.thy ===== *)
theory Machines_Props
  imports Server_Machines Server_Auth_Props
begin

text \<open>
  Correctness of the machine list: what a registration stores is what the bundle says and opens the
  agent's client; who sees which machine; and the consistency of the tables along every run.
\<close>

section \<open>Registration\<close>

lemma new_machine_simps [simp]:
  "m_id (new_machine nt now n1 n2 i b u hk db) = new_id (map m_id (machines db))"
  "m_name (new_machine nt now n1 n2 i b u hk db) = in_name i"
  "m_ssh_host_key (new_machine nt now n1 n2 i b u hk db) = Some hk"
  "m_ssh_user (new_machine nt now n1 n2 i b u hk db) = u"
  by (simp_all add: new_machine_def)

text \<open>The only way to a registered machine.\<close>

lemma register_accepted:
  assumes "register_machine_from_input st now n1 n2 i admin (s, v) = (sv', Inr m)"
  obtains b w' hk where
    "decode_bundle (st_json st) (in_bundle i) = Inr b"
    "assert_version_compatible (st_version st) (rb_agent_version b) = Inr ()"
    "in_name i \<notin> m_name ` set (machines (current s))"
    "ssh_connection_test st b (in_ssh_host i, in_ssh_port i, m_ssh_user m) (snd v) = (w', Inr hk)"
    "m = new_machine (st_net st) now n1 n2 i b (m_ssh_user m) hk (current s)"
    "sv' = (session_commit (record_audit now ''machine.register'' ''machine'' (int_str (m_id m)) ''success'' (Some admin)
              [(''name'', m_name m), (''ssh_host'', m_ssh_host m), (''platform'', m_platform m)] False
              (on_db (\<lambda>db. db\<lparr>machines := machines db @ [m]\<rparr>) s)), (fst v, w'))"
proof -
  from assms obtain b where b: "decode_bundle (st_json st) (in_bundle i) = Inr b"
    by (auto simp: register_machine_from_input_def split: sum.splits)
  let ?u = "case in_ssh_user i of None \<Rightarrow> rb_ssh_user b | Some u \<Rightarrow> if u = [] then rb_ssh_user b else u"
  from assms b have ver: "assert_version_compatible (st_version st) (rb_agent_version b) = Inr ()"
    by (auto simp: register_machine_from_input_def split: sum.splits)
  with assms b have nm: "in_name i \<notin> m_name ` set (machines (current s))"
    by (auto simp: register_machine_from_input_def Let_def list_ex_iff split: if_splits)
  obtain w' r where t: "ssh_connection_test st b (in_ssh_host i, in_ssh_port i, ?u) (snd v) = (w', r)" by fastforce
  have dup: "\<not> list_ex (\<lambda>m. m_name m = in_name i) (machines (current s))"
    using nm by (force simp: list_ex_iff)
  show ?thesis
  proof (cases r)
    case (Inl e)
    with assms b ver dup t show ?thesis by (cases e) (simp_all add: register_machine_from_input_def Let_def)
  next
    case (Inr hk)
    with assms b ver dup t have m: "m = new_machine (st_net st) now n1 n2 i b ?u hk (current s)"
      by (simp add: register_machine_from_input_def Let_def)
    then have "m_ssh_user m = ?u" by simp
    with m assms b ver dup t Inr show ?thesis
      by (intro that [OF b ver nm, of w' hk]) (simp_all add: register_machine_from_input_def Let_def)
  qed
qed

lemma connection_test_accepted:
  assumes "ssh_connection_test st b key w = (w', Inr hk)"
  shows "ssh_import_key (ssh (st_net st)) (rb_private_key b)
    \<and> (\<exists>line out. st_probe st key (rb_private_key b) (remote_config_cmd (rb_platform b)) w = (w', Some (Some line, out))
         \<and> hk = py_strip line \<and> remote_fingerprint (st_safe_load st) out = Inr (YStr (rb_key_fingerprint b)))"
  using assms by (auto simp: ssh_connection_test_def bindR_eq_Inr split: if_splits option.splits prod.splits)

lemma encrypt_not_empty: "length n = NONCE_SIZE \<Longrightarrow> encrypt a n p k \<noteq> []"
  by (auto simp: encrypt_def NONCE_SIZE_def)

text \<open>The secrets of a new machine decrypt back.\<close>

lemma new_machine_secrets:
  assumes "m = new_machine nt now n1 n2 i b u hk db" "aead_ok (net_aead nt)" "length n1 = NONCE_SIZE" "length n2 = NONCE_SIZE"
  shows "decrypt_key nt m = Inr (rb_private_key b)"
    and "auth_headers (net_aead nt) (master_key nt) m = Inr (Some (''Bearer '' @ rb_api_token b))"
  using assms(2-4) by (simp_all add: assms(1) decrypt_key_def auth_headers_def new_machine_def decrypt_encrypt encrypt_not_empty)

text \<open>
  C35. A machine is registered by an administrator only, and what is stored is what the target sent: the
  secrets of its bundle decrypt back (the key the control station will log in with, and the bearer
  token it will send), the host key it showed is pinned, its config printed the fingerprint of the
  bundle, its major version agrees where both have one, its name is new, and besides the machine and
  one audit row the database stays as it was.
\<close>

theorem registered_machine_usable:
  assumes "register_machine st now n1 n2 tok i (begin_session db, v) = ((s', v'), Inr m)"
    and "aead_ok (net_aead (st_net st))" "length n1 = NONCE_SIZE" "length n2 = NONCE_SIZE"
  shows "\<exists>b u line out audit admin.
    decode_bundle (st_json st) (in_bundle i) = Inr b
    \<and> decrypt_key (st_net st) m = Inr (rb_private_key b)
    \<and> auth_headers (net_aead (st_net st)) (master_key (st_net st)) m = Inr (Some (''Bearer '' @ rb_api_token b))
    \<and> st_probe st (in_ssh_host i, in_ssh_port i, m_ssh_user m) (rb_private_key b) (remote_config_cmd (rb_platform b)) (snd v)
        = (snd v', Some (Some line, out))
    \<and> m_ssh_host_key m = Some (py_strip line)
    \<and> remote_fingerprint (st_safe_load st) out = Inr (YStr (rb_key_fingerprint b))
    \<and> (major (rb_agent_version b) = major (st_version st) \<or> None \<in> {major (rb_agent_version b), major (st_version st)})
    \<and> current_user (st_auth st) now tok db = Inr admin \<and> u_role admin = ''admin''
    \<and> m_name m = in_name i \<and> in_name i \<notin> m_name ` set (machines db) \<and> m_id m \<notin> m_id ` set (machines db)
    \<and> finish s' = db\<lparr>machines := machines db @ [m], audit_rows := audit_rows db @ [audit]\<rparr>
    \<and> au_action audit = ''machine.register'' \<and> au_user_id audit = Some (u_id admin)"
proof -
  from assms(1) obtain admin where ad: "require_admin (st_auth st) now tok db = Inr admin"
    and reg: "register_machine_from_input st now n1 n2 i (u_id admin) (begin_session db, v) = ((s', v'), Inr m)"
    by (auto simp: register_machine_def split: sum.splits)
  from ad have ad: "current_user (st_auth st) now tok db = Inr admin" "u_role admin = ''admin''"
    by (auto simp: require_admin_def bindR_eq_Inr split: if_splits)
  from reg obtain b w' hk where b: "decode_bundle (st_json st) (in_bundle i) = Inr b"
    and ver: "assert_version_compatible (st_version st) (rb_agent_version b) = Inr ()"
    and nm: "in_name i \<notin> m_name ` set (machines db)"
    and test: "ssh_connection_test st b (in_ssh_host i, in_ssh_port i, m_ssh_user m) (snd v) = (w', Inr hk)"
    and m: "m = new_machine (st_net st) now n1 n2 i b (m_ssh_user m) hk db"
    and sv': "(s', v') = (session_commit (record_audit now ''machine.register'' ''machine'' (int_str (m_id m)) ''success''
        (Some (u_id admin)) [(''name'', m_name m), (''ssh_host'', m_ssh_host m), (''platform'', m_platform m)] False
        (on_db (\<lambda>db. db\<lparr>machines := machines db @ [m]\<rparr>) (begin_session db))), (fst v, w'))"
    by (rule register_accepted) simp
  from sv' have v': "v' = (fst v, w')"
    and s': "\<exists>audit. finish s' = db\<lparr>machines := machines db @ [m], audit_rows := audit_rows db @ [audit]\<rparr>
      \<and> au_action audit = ''machine.register'' \<and> au_user_id audit = Some (u_id admin)"
    by (auto simp: finish_def add_audit_row_def)
  from connection_test_accepted [OF test] obtain line out where
    probe: "st_probe st (in_ssh_host i, in_ssh_port i, m_ssh_user m) (rb_private_key b) (remote_config_cmd (rb_platform b)) (snd v)
        = (w', Some (Some line, out))"
      "hk = py_strip line" "remote_fingerprint (st_safe_load st) out = Inr (YStr (rb_key_fingerprint b))"
    by blast
  note new_machine_secrets [OF m assms(2-4)]
  moreover have "m_ssh_host_key m = Some (py_strip line)" "m_name m = in_name i" "m_id m \<notin> m_id ` set (machines db)"
    using probe(2) new_id_fresh [of "map m_id (machines db)"] by (subst m; simp)+
  moreover have "major (rb_agent_version b) = major (st_version st) \<or> None \<in> {major (rb_agent_version b), major (st_version st)}"
    using ver by (auto simp: assert_version_compatible_def split: option.splits if_splits)
  ultimately show ?thesis
    using b ad nm probe s' v' by auto
qed

text \<open>A control station whose network is one target that answers the registration test.\<close>

definition example_net :: "(unit, unit, unit) net" where
  "example_net =
     \<lparr>ssh = \<lparr>ssh_import_key = (\<lambda>k. True), ssh_import_hosts = (\<lambda>l. True), ssh_connect = (\<lambda>k pk h w. (w, Some ())),
        ssh_is_closed = (\<lambda>c w. False), ssh_forward = (\<lambda>c p w. (w, Some ())), ssh_run = (\<lambda>c cmd w. (w, True)),
        ssh_close_listener = (\<lambda>l w. w), ssh_close = (\<lambda>c w. w)\<rparr>,
      http_send = (\<lambda>l q w. (w, None)), http_stream = (\<lambda>l q w. (w, None)), net_sleep = (\<lambda>d w. w),
      net_aead = example_aead, master_key = ''master''\<rparr>"

definition example_config_text :: "string \<Rightarrow> yaml option" where
  "example_config_text t =
     (if t = ''cat ~/.csl/config.yaml''
      then Some (YMap [(''identity'', YMap [(''key_fingerprint'', YStr ''SHA256:k'')])]) else None)"

definition example_control :: "(claims, unit, unit, unit) station" where
  "example_control =
     \<lparr>st_auth = example_auth_libs, st_net = example_net, st_json = example_json (bundle_payload example_bundle),
      st_safe_load = example_config_text, st_version = ''0.2'',
      st_probe = (\<lambda>k key cmd w. (w, Some (Some ''ssh-ed25519 A'', ''cat ~/.csl/config.yaml'')))\<rparr>"

definition example_input :: register_input where
  "example_input =
     \<lparr>in_bundle = encode_bundle (example_json (bundle_payload example_bundle)) example_bundle, in_name = ''box'',
      in_ssh_host = ''box.lan'', in_ssh_port = 22, in_ssh_user = None, in_mac_address = None\<rparr>"

definition example_token :: claims where
  "example_token = create_access_token example_auth_libs 1 1 ''admin''"

lemma example_admin: "require_admin example_auth_libs 5 example_token one_user = Inr example_user"
  by (simp add: require_admin_def current_user_def decode_access_token_def decode_token_def create_access_token_def
      example_auth_libs_def ACCESS_TOKEN_EXPIRE_MINUTES_def find_user_def one_user_def example_user_def example_token_def)

lemma example_decode: "decode_bundle (st_json example_control) (in_bundle example_input) = Inr example_bundle"
  unfolding example_control_def example_input_def decode_bundle_def encode_bundle_def
  by (simp add: option.case_eq_if)
    (simp add: example_json_def example_bundle_def bundle_payload_def REQUIRED_FIELDS_def text_field_def VALID_PLATFORMS_def)

lemma example_version: "assert_version_compatible (st_version example_control) (rb_agent_version example_bundle) = Inr ()"
  by (simp add: assert_version_compatible_def example_control_def example_bundle_def major_def is_space_def is_digit_def ccode_def
      split: option.split)

lemma example_test:
  "ssh_connection_test example_control example_bundle k () = ((), Inr ''ssh-ed25519 A'')"
  by (simp add: ssh_connection_test_def example_control_def example_net_def example_bundle_def remote_fingerprint_def
      example_config_text_def py_strip_def rstrip_chars_def lstrip_chars_def is_space_def ccode_def)

lemma example_registered:
  "\<exists>s' m. register_machine example_control 5 ''nonce-nonce-'' ''nonce2nonce2'' example_token example_input
     (begin_session one_user, ([], ())) = ((s', ([], ())), Inr m)"
proof -
  have "st_auth example_control = example_auth_libs" "machines one_user = []"
    by (simp_all add: example_control_def one_user_def empty_database_def)
  then show ?thesis
    by (simp add: register_machine_def example_admin register_machine_from_input_def example_decode example_version
        example_test Let_def)
qed

theorem registered_machine_usable_witness:
  "\<exists>s' m. register_machine example_control 5 ''nonce-nonce-'' ''nonce2nonce2'' example_token example_input
     (begin_session one_user, ([], ())) = ((s', ([], ())), Inr m)
   \<and> decrypt_key example_net m = Inr ''key'' \<and> m_ssh_host_key m = Some (py_strip ''ssh-ed25519 A'')"
proof -
  obtain s' m where reg: "register_machine example_control 5 ''nonce-nonce-'' ''nonce2nonce2'' example_token example_input
     (begin_session one_user, ([], ())) = ((s', ([], ())), Inr m)"
    using example_registered by blast
  have net: "net_aead (st_net example_control) = example_aead" "st_net example_control = example_net"
    by (simp_all add: example_control_def example_net_def)
  have "st_probe example_control k key cmd w = (w, Some (Some ''ssh-ed25519 A'', ''cat ~/.csl/config.yaml''))" for k key cmd w
    by (simp add: example_control_def)
  with registered_machine_usable [OF reg] net example_aead_ok show ?thesis
    using reg by (auto simp: NONCE_SIZE_def example_decode example_bundle_def)
qed

section \<open>Who sees a machine\<close>

lemma find_by_key: "distinct (map f xs) \<Longrightarrow> find (\<lambda>x. f x = f a) xs = Some a \<longleftrightarrow> a \<in> set xs"
  by (induction xs) (auto simp: rev_image_eqI)

text \<open>
  The list of machines a user gets is exactly the machines whose detail the user may read: an
  administrator all of them, another user those with a bookmark; a disabled or unknown one none.
\<close>

theorem listed_machines_accessible:
  assumes "list_machines al now tok s = Inr ms" "distinct (map m_id (machines (current s)))"
  shows "m \<in> set ms \<longleftrightarrow> get_machine al now tok (m_id m) s = Inr m"
proof -
  from assms(1) obtain u where u: "current_user al now tok (current s) = Inr u"
    by (auto simp: list_machines_def bindR_eq_Inr)
  have "find_machine (m_id m) (current s) = Some m \<longleftrightarrow> m \<in> set (machines (current s))"
    using assms(2) by (simp add: find_machine_def find_by_key)
  with assms(1) u show ?thesis
    by (auto simp: list_machines_def get_machine_def accessible_machine_def get_machine_or_404_def assert_access_def
        bindR_eq_Inr split: option.splits if_splits)
qed

lemma require_admin_cong:
  assumes "users db = users db'"
  shows "require_admin al now tok db = require_admin al now tok db'"
  unfolding require_admin_def current_user_def find_user_def assms by (rule refl)

theorem listed_machines_accessible_witness:
  "\<exists>m. get_machine example_auth_libs 5 example_token 7 (begin_session (one_user\<lparr>machines := [m]\<rparr>)) = Inr m"
proof -
  let ?m = "new_machine example_net 0 [] [] example_input example_bundle ''csl'' ''A'' one_user\<lparr>m_id := 7\<rparr>"
  let ?s = "begin_session (one_user\<lparr>machines := [?m]\<rparr>)"
  have "require_admin example_auth_libs 5 example_token (one_user\<lparr>machines := [?m]\<rparr>) = Inr example_user"
    using example_admin require_admin_cong [of "one_user\<lparr>machines := [?m]\<rparr>" one_user example_auth_libs 5 example_token]
    by simp
  then have "list_machines example_auth_libs 5 example_token ?s = Inr [?m]"
    by (simp add: list_machines_def require_admin_def bindR_eq_Inr split: if_splits) (auto simp: bindR_eq_Inr)
  from listed_machines_accessible [OF this, of ?m] show ?thesis by (intro exI [of _ ?m]) simp
qed

section \<open>The tables along every run\<close>

text \<open>Machines have different ids and names; a bookmark is unique and of a machine that exists.\<close>

definition machines_wf :: "database \<Rightarrow> bool" where
  "machines_wf db \<longleftrightarrow>
     distinct (map m_id (machines db)) \<and> distinct (map m_name (machines db)) \<and> distinct (user_machines db)
     \<and> list_all (\<lambda>r. um_machine_id r \<in> m_id ` set (machines db)) (user_machines db)"

lemma machines_wf_audit [simp]: "machines_wf (add_audit_row now a tt ti r u d db) = machines_wf db"
  by (simp add: machines_wf_def)

datatype 'k machine_act =
    Register int string string 'k register_input
  | Delete int 'k int
  | Bookmark int 'k int
  | Unbookmark int 'k int

fun machine_step ::
  "('k, 'c, 'l, 'w) station \<Rightarrow> 'k machine_act \<Rightarrow> database \<times> ('c, 'l, 'w) wire \<Rightarrow> database \<times> ('c, 'l, 'w) wire" where
  "machine_step st (Register now n1 n2 tok i) (db, v) =
     (let ((s, v'), r) = register_machine st now n1 n2 tok i (begin_session db, v) in (finish s, v'))"
| "machine_step st (Delete now tok mid) (db, v) = (finish (fst (delete_machine (st_auth st) now tok mid (begin_session db))), v)"
| "machine_step st (Bookmark now tok mid) (db, v) = (finish (fst (add_bookmark (st_auth st) now tok mid (begin_session db))), v)"
| "machine_step st (Unbookmark now tok mid) (db, v) =
     (finish (fst (remove_bookmark (st_auth st) now tok mid (begin_session db))), v)"

lemma register_refused:
  "register_machine_from_input st now n1 n2 i admin (s, v) = (sv', Inl e) \<Longrightarrow> fst sv' = s"
  by (auto simp: register_machine_from_input_def Let_def split: sum.splits if_splits prod.splits test_error.splits)

lemma register_wf:
  assumes "machines_wf db" "register_machine st now n1 n2 tok i (begin_session db, v) = ((s, v'), r)"
  shows "machines_wf (finish s)"
proof (cases "require_admin (st_auth st) now tok db")
  case (Inl e)
  with assms show ?thesis by (auto simp: register_machine_def finish_def)
next
  case (Inr admin)
  with assms(2) have reg: "register_machine_from_input st now n1 n2 i (u_id admin) (begin_session db, v) = ((s, v'), r)"
    by (simp add: register_machine_def)
  show ?thesis
  proof (cases r)
    case (Inl e)
    with reg register_refused [of st now n1 n2 i "u_id admin" "begin_session db" v "(s, v')" e] assms(1)
    show ?thesis by (simp add: finish_def)
  next
    case (Inr m)
    from reg [unfolded Inr] have "in_name i \<notin> m_name ` set (machines db)" "m_name m = in_name i"
      "m_id m = new_id (map m_id (machines db))" "\<exists>a. finish s = db\<lparr>machines := machines db @ [m], audit_rows := a\<rparr>"
      by (auto elim!: register_accepted simp: finish_def add_audit_row_def dest: arg_cong [where f = m_name] arg_cong [where f = m_id])
    moreover have "new_id (map m_id (machines db)) \<notin> m_id ` set (machines db)"
      using new_id_fresh [of "map m_id (machines db)"] by simp
    ultimately show ?thesis using assms(1) by (auto simp: machines_wf_def list_all_iff)
  qed
qed

lemma delete_wf: "machines_wf db \<Longrightarrow> machines_wf (finish (fst (delete_machine al now tok mid (begin_session db))))"
  by (auto simp: delete_machine_def finish_def Let_def machines_wf_def list_all_iff distinct_map_filter split: sum.splits)

lemma find_machine_Some: "find_machine mid db = Some m \<Longrightarrow> mid \<in> m_id ` set (machines db)"
  by (auto simp: find_machine_def find_Some_iff)

lemma not_bookmarked: "\<not> bookmarked uid mid db \<longleftrightarrow> \<lparr>um_user_id = uid, um_machine_id = mid\<rparr> \<notin> set (user_machines db)"
proof -
  have "r = \<lparr>um_user_id = uid, um_machine_id = mid\<rparr> \<longleftrightarrow> um_user_id r = uid \<and> um_machine_id r = mid"
    for r :: user_machine_row by (cases r) auto
  then show ?thesis by (auto simp: bookmarked_def list_ex_iff) metis
qed

lemma add_bookmark_wf: "machines_wf db \<Longrightarrow> machines_wf (finish (fst (add_bookmark al now tok mid (begin_session db))))"
  by (auto simp: add_bookmark_def finish_def Let_def machines_wf_def list_all_iff not_bookmarked bindR_eq_Inr get_machine_or_404_def
      dest: find_machine_Some split: sum.splits option.splits)

lemma remove_bookmark_wf: "machines_wf db \<Longrightarrow> machines_wf (finish (fst (remove_bookmark al now tok mid (begin_session db))))"
  by (auto simp: remove_bookmark_def finish_def Let_def machines_wf_def list_all_iff split: sum.splits)

lemma machine_step_wf: "machines_wf (fst dv) \<Longrightarrow> machines_wf (fst (machine_step st a dv))"
proof -
  assume wf: "machines_wf (fst dv)"
  obtain db v where dv: "dv = (db, v)" by (cases dv)
  show ?thesis
  proof (cases a)
    case (Register now n1 n2 tok i)
    obtain s v' r where "register_machine st now n1 n2 tok i (begin_session db, v) = ((s, v'), r)" by (metis prod.collapse)
    with register_wf [OF _ this] wf dv Register show ?thesis by simp
  qed (use wf dv in \<open>simp_all add: delete_wf add_bookmark_wf remove_bookmark_wf\<close>)
qed

interpretation machine_list: act_system "machine_step st" "\<lambda>dv. machines_wf (fst dv)" for st
  by unfold_locales (rule machine_step_wf)

text \<open>
  Along every run of registrations, deletions and bookmark changes, whoever sends them and whatever
  the network answers, the tables stay consistent: no two machines share an id or a name, and every
  bookmark is unique and belongs to a machine that exists.
\<close>

theorem machine_tables_consistent:
  "machines_wf (fst (run (machine_step st) as (empty_database\<lparr>users := us\<rparr>, v)))"
  by (rule machine_list.run_inv) (simp add: machines_wf_def empty_database_def)

section \<open>Reused identifiers\<close>

text \<open>
  An id is the successor of the largest one in use: deleting the newest machine frees its id for the
  next one, which then shows the jobs and the state cache of the deleted machine, since those rows stay.
\<close>

lemma deleted_machine_id_reused:
  assumes "machines_wf db" "delete_machine al now tok (new_id (map m_id (machines db))) (begin_session (db\<lparr>machines := machines db @ [m]\<rparr>)) = (s, Inr ())"
    and "m_id m = new_id (map m_id (machines db))"
  shows "m_id (new_machine nt now' n1 n2 i b u hk (finish s)) = m_id m" "job_rows (finish s) = job_rows db"
proof -
  have "filter (\<lambda>x. m_id x \<noteq> m_id m) (machines db) = machines db"
    using new_id_fresh [of "map m_id (machines db)"] assms(3) by (intro filter_True) (metis in_set_conv_nth length_map nth_map)
  with assms(2,3) have "machines (finish s) = machines db" "job_rows (finish s) = job_rows db"
    by (auto simp: delete_machine_def finish_def Let_def split: sum.splits)
  then show "m_id (new_machine nt now' n1 n2 i b u hk (finish s)) = m_id m" "job_rows (finish s) = job_rows db"
    using assms(3) by simp_all
qed

end
