(* ===== verification/Magic_Packet.thy ===== *)
theory Magic_Packet
  imports Server_Errors "HOL-Library.Word"
begin

text \<open>\<open>server/core/magic_packet.py\<close>: the Wake-on-LAN packet of a MAC address, as bytes (\<^typ>\<open>8 word\<close>).\<close>

section \<open>Parsing\<close>

definition hex_value :: "char \<Rightarrow> nat option" where
  "hex_value c =
     (if is_digit c then Some (ccode c - 48)
      else if 97 \<le> ccode c \<and> ccode c \<le> 102 then Some (ccode c - 87)
      else if 65 \<le> ccode c \<and> ccode c \<le> 70 then Some (ccode c - 55)
      else None)"

text \<open>The separator of the pattern is optional, and may change from one place to the next.\<close>

fun skip_separator :: "string \<Rightarrow> string" where
  "skip_separator (c # s) = (if c = CHR '':'' \<or> c = CHR ''-'' then s else c # s)"
| "skip_separator [] = []"

text \<open>\<open>_MAC_RE\<close> with \<open>n\<close> octets left.\<close>

fun match_octets :: "nat \<Rightarrow> string \<Rightarrow> 8 word list option" where
  "match_octets 0 s = (if s = [] then Some [] else None)"
| "match_octets (Suc n) (a # b # s) =
     (case (hex_value a, hex_value b) of
        (Some x, Some y) \<Rightarrow>
          map_option (\<lambda>r. of_nat (x * 16 + y) # r) (match_octets n (if n = 0 then s else skip_separator s))
      | _ \<Rightarrow> None)"
| "match_octets (Suc n) s = None"

definition build_packet :: "string \<Rightarrow> 8 word list option" where
  "build_packet mac =
     (case match_octets 6 (py_strip mac) of
        None \<Rightarrow> None
      | Some octets \<Rightarrow> Some (replicate 6 0xFF @ concat (replicate 16 octets)))"

text \<open>\<open>broadcast\<close>: what \<open>udp\<close> (the socket) answers, or the text of the exception.\<close>

definition broadcast ::
  "(string \<Rightarrow> int \<Rightarrow> 8 word list \<Rightarrow> 'w \<Rightarrow> 'w \<times> string option) \<Rightarrow> string \<Rightarrow> string \<Rightarrow> int \<Rightarrow> 'w \<Rightarrow> 'w \<times> string option" where
  "broadcast udp mac addr port w =
     (case build_packet mac of
        None \<Rightarrow> (w, Some (''Invalid MAC address: '' @ py_repr mac))
      | Some packet \<Rightarrow> udp addr port packet w)"

section \<open>The packet\<close>

text \<open>An address as text: two hexadecimal digits per octet, with a separator between octets.\<close>

definition hex_octet :: "(nat \<Rightarrow> char) \<Rightarrow> 8 word \<Rightarrow> string" where
  "hex_octet digit b = [digit (unat b div 16), digit (unat b mod 16)]"

definition hex_upper :: "nat \<Rightarrow> char" where
  "hex_upper n = char_of (if n < 10 then 48 + n else 55 + n)"

fun mac_text :: "(nat \<Rightarrow> char) \<Rightarrow> string \<Rightarrow> 8 word list \<Rightarrow> string" where
  "mac_text digit sep [] = []"
| "mac_text digit sep [b] = hex_octet digit b"
| "mac_text digit sep (b # bs) = hex_octet digit b @ sep @ mac_text digit sep bs"

definition hex_digits :: "(nat \<Rightarrow> char) \<Rightarrow> bool" where
  "hex_digits digit \<longleftrightarrow> list_all (\<lambda>n. hex_value (digit n) = Some n) [0..<16]"

lemma hex_digits_value: "hex_digits digit \<Longrightarrow> n < 16 \<Longrightarrow> hex_value (digit n) = Some n"
  by (simp add: hex_digits_def list_all_iff)

lemma hex_digits [simp]: "hex_digits hex_digit" "hex_digits hex_upper"
  by (simp_all add: hex_digits_def hex_digit_def hex_upper_def hex_value_def is_digit_def ccode_def upt_rec)

lemma hex_value_plain:
  assumes "hex_value c = Some n"
  shows "\<not> is_space c" "c \<noteq> CHR '':''" "c \<noteq> CHR ''-''"
proof -
  have "(48 \<le> ccode c \<and> ccode c \<le> 57) \<or> (97 \<le> ccode c \<and> ccode c \<le> 102) \<or> (65 \<le> ccode c \<and> ccode c \<le> 70)"
    using assms by (auto simp: hex_value_def is_digit_def split: if_splits)
  then show "\<not> is_space c" "c \<noteq> CHR '':''" "c \<noteq> CHR ''-''"
    by (auto simp: is_space_def ccode_def)
qed

lemma octet_bounds: "unat (b :: 8 word) div 16 < 16" "unat (b :: 8 word) mod 16 < 16"
  using unsigned_less [of b, where ?'a = nat] by simp_all

lemma match_octet:
  assumes "hex_digits digit"
  shows "match_octets (Suc n) (hex_octet digit b @ s) =
    map_option (\<lambda>r. b # r) (match_octets n (if n = 0 then s else skip_separator s))"
  using assms by (simp add: hex_octet_def hex_digits_value octet_bounds)

lemma skip_octet:
  assumes "hex_digits digit" "sep \<in> {[], '':'', ''-''}"
  shows "skip_separator (sep @ hex_octet digit b @ s) = hex_octet digit b @ s"
  using assms hex_value_plain [OF hex_digits_value [OF assms(1) octet_bounds(1)], of b]
  by (auto simp: hex_octet_def)

lemma mac_text_cases: "mac_text digit sep (b # bs) = hex_octet digit b @ (if bs = [] then [] else sep @ mac_text digit sep bs)"
  by (cases bs) simp_all

lemma match_mac_text:
  assumes "hex_digits digit" "sep \<in> {[], '':'', ''-''}"
  shows "match_octets (length bs) (mac_text digit sep bs) = Some bs"
proof (induction bs)
  case (Cons b bs)
  show ?case
  proof (cases bs)
    case Nil
    then show ?thesis by (simp add: match_octet [OF assms(1), of _ _ "[]", simplified] del: match_octets.simps(2))
  next
    case (Cons c cs)
    with Cons.IH show ?thesis
      by (simp add: match_octet [OF assms(1)] mac_text_cases skip_octet [OF assms] del: match_octets.simps(2) mac_text.simps)
  qed
qed simp

lemma mac_text_not_Nil: "bs \<noteq> [] \<Longrightarrow> mac_text digit sep bs \<noteq> []"
  by (cases bs) (simp_all add: mac_text_cases hex_octet_def)

lemma mac_text_strip:
  assumes "hex_digits digit" "bs \<noteq> []"
  shows "py_strip (mac_text digit sep bs) = mac_text digit sep bs"
proof (rule py_strip_id)
  have plain: "\<not> is_space (digit (unat b div 16))" "\<not> is_space (digit (unat b mod 16))" for b :: "8 word"
    using hex_value_plain(1) [OF hex_digits_value [OF assms(1) octet_bounds(1)]]
      hex_value_plain(1) [OF hex_digits_value [OF assms(1) octet_bounds(2)]] by blast+
  show "mac_text digit sep bs \<noteq> []" "\<not> is_space (hd (mac_text digit sep bs))"
    using assms(2) plain by (cases bs; simp add: mac_text_cases hex_octet_def)+
  show "\<not> is_space (last (mac_text digit sep bs))"
    using assms(2) plain by (induction bs rule: list_nonempty_induct) (simp_all add: mac_text_cases hex_octet_def mac_text_not_Nil)
qed

lemma build_packet_text:
  assumes "hex_digits digit" "sep \<in> {[], '':'', ''-''}" "length bs = 6"
  shows "build_packet (mac_text digit sep bs) = Some (replicate 6 0xFF @ concat (replicate 16 bs))"
proof -
  have "bs \<noteq> []" using assms(3) by auto
  then show ?thesis
    using match_mac_text [OF assms(1,2), of bs] mac_text_strip [OF assms(1)] assms(3) by (simp add: build_packet_def)
qed

text \<open>
  Each of the three notations of a MAC address, in lower or upper case, gives the same packet of 102
  bytes: six times 255, then the six octets sixteen times.
\<close>

theorem magic_packet_notations:
  "let p = replicate 6 0xFF @ concat (replicate 16 [a, b, c, d, e, f])
   in length p = 102
      \<and> build_packet (mac_text hex_upper '':'' [a, b, c, d, e, f]) = Some p
      \<and> build_packet (mac_text hex_upper ''-'' [a, b, c, d, e, f]) = Some p
      \<and> build_packet (mac_text hex_upper [] [a, b, c, d, e, f]) = Some p
      \<and> build_packet (mac_text hex_digit '':'' [a, b, c, d, e, f]) = Some p
      \<and> build_packet (mac_text hex_digit ''-'' [a, b, c, d, e, f]) = Some p
      \<and> build_packet (mac_text hex_digit [] [a, b, c, d, e, f]) = Some p"
  unfolding Let_def by (intro conjI build_packet_text) (simp_all add: length_concat sum_list_replicate)

text \<open>The separators may be mixed.\<close>

lemma mixed_separators_accepted: "build_packet ''AA:BB-CCDD:EE-FF'' \<noteq> None"
  by (simp add: build_packet_def py_strip_def rstrip_chars_def lstrip_chars_def is_space_def ccode_def hex_value_def
      is_digit_def numeral_eq_Suc)

end
