(* ===== verification/Server_Audit.thy ===== *)
theory Server_Audit
  imports Server_Machines Magic_Packet "HOL-Library.Multiset"
begin

text \<open>
  \<open>server/api/builtin.py\<close> and \<open>server/api/audit.py\<close>: Wake-on-LAN and the audit-log pages.  The socket is the
  parameter \<open>udp\<close> of \<open>broadcast\<close>.
\<close>

section \<open>Wake-on-LAN\<close>

definition wake_on_lan ::
  "(string \<Rightarrow> int \<Rightarrow> 8 word list \<Rightarrow> 'v \<Rightarrow> 'v \<times> string option) \<Rightarrow> 'k auth_libs \<Rightarrow> int \<Rightarrow> 'k \<Rightarrow> int \<Rightarrow> string \<Rightarrow> int
     \<Rightarrow> session \<times> 'v \<Rightarrow> (session \<times> 'v) \<times> (http_error + unit)" where
  "wake_on_lan udp al now tok mid addr port sv =
     (let (s, v) = sv in
      case accessible_machine al now tok mid (current s) of
        Inl e \<Rightarrow> (sv, Inl e)
      | Inr (u, m) \<Rightarrow>
          (case m_mac_address m of
             None \<Rightarrow> (sv, Inl (http_exception 400 ''Machine has no MAC address configured''))
           | Some mac \<Rightarrow>
               if mac = [] then (sv, Inl (http_exception 400 ''Machine has no MAC address configured''))
               else
                 let (v', failure) = broadcast udp mac addr port v;
                     details = [(''mac_address'', mac), (''broadcast_addr'', addr), (''port'', int_str port)];
                     audit = record_audit now ''machine.wol'' ''machine'' (int_str mid)
                 in (case failure of
                       None \<Rightarrow> ((audit ''success'' (Some (u_id u)) details True s, v'), Inr ())
                     | Some e \<Rightarrow>
                         ((audit ''failure'' (Some (u_id u)) (details @ [(''error'', e)]) True s, v'),
                          Inl (http_exception 502 e)))))"

section \<open>The audit log\<close>

text \<open>\<open>LIKE\<close> as SQLite matches it: \<open>%\<close> and \<open>_\<close> are wildcards, ASCII letters match in either case.\<close>

fun sql_like :: "string \<Rightarrow> string \<Rightarrow> bool" where
  "sql_like [] s = (s = [])"
| "sql_like (p # ps) [] = (p = CHR ''%'' \<and> sql_like ps [])"
| "sql_like (p # ps) (c # s) =
     (if p = CHR ''%'' then sql_like ps (c # s) \<or> sql_like (p # ps) s
      else (p = CHR ''_'' \<or> to_lower p = to_lower c) \<and> sql_like ps s)"

text \<open>\<open>column.contains(x)\<close>, which does not escape the wildcards of \<open>x\<close>.\<close>

definition contains :: "string \<Rightarrow> string \<Rightarrow> bool" where
  "contains x t = sql_like (CHR ''%'' # x @ ''%'') t"

definition username_of :: "database \<Rightarrow> audit_row \<Rightarrow> string option" where
  "username_of db r =
     (case au_user_id r of None \<Rightarrow> None | Some i \<Rightarrow> map_option u_username (find_user i db))"

text \<open>A filter that is missing or empty selects everything.\<close>

definition given :: "string option \<Rightarrow> (string \<Rightarrow> bool) \<Rightarrow> bool" where
  "given x P = (case x of None \<Rightarrow> True | Some t \<Rightarrow> t = [] \<or> P t)"

definition audit_selection :: "string option \<Rightarrow> string option \<Rightarrow> string option \<Rightarrow> database \<Rightarrow> audit_row list" where
  "audit_selection action target_type username db =
     sort_key (\<lambda>r. - au_timestamp r) (sort_key (\<lambda>r. - au_id r)
       (filter (\<lambda>r. given action (\<lambda>t. contains t (au_action r)) \<and> given target_type (\<lambda>t. au_target_type r = t)
           \<and> given username (\<lambda>t. username_of db r = Some t)) (audit_rows db)))"

record audit_page =
  pg_items :: "(audit_row \<times> string option) list"
  pg_limit :: nat
  pg_offset :: nat
  pg_has_next :: bool

definition list_audit_entries ::
  "'k auth_libs \<Rightarrow> int \<Rightarrow> 'k \<Rightarrow> string option \<Rightarrow> string option \<Rightarrow> string option \<Rightarrow> nat \<Rightarrow> nat \<Rightarrow> session
     \<Rightarrow> http_error + audit_page" where
  "list_audit_entries al now tok action target_type username limit off s =
     bindR (require_admin al now tok (current s)) (\<lambda>_.
       let rows = take (limit + 1) (drop off (audit_selection action target_type username (current s)))
       in Inr \<lparr>pg_items = map (\<lambda>r. (r, username_of (current s) r)) (take limit rows), pg_limit = limit,
               pg_offset = off, pg_has_next = length rows > limit\<rparr>)"

section \<open>Substring matching\<close>

definition plain_pattern :: "string \<Rightarrow> bool" where
  "plain_pattern p \<longleftrightarrow> CHR ''%'' \<notin> set p \<and> CHR ''_'' \<notin> set p"

lemma plain_pattern_Cons [simp]:
  "plain_pattern (c # p) \<longleftrightarrow> c \<noteq> CHR ''%'' \<and> c \<noteq> CHR ''_'' \<and> plain_pattern p" "plain_pattern []"
  by (auto simp: plain_pattern_def)

lemma sql_like_percent [simp]: "sql_like ''%'' s"
  by (induction s) simp_all

lemma sql_like_prefix: "plain_pattern p \<Longrightarrow> sql_like (p @ ''%'') s \<longleftrightarrow> prefix (py_lower p) (py_lower s)"
proof (induction p arbitrary: s)
  case (Cons a p)
  then show ?case by (cases s) (auto simp: py_lower_def)
qed (simp add: py_lower_def)

lemma contains_plain:
  "plain_pattern p \<Longrightarrow> contains p s \<longleftrightarrow> sublist (py_lower p) (py_lower s)"
proof (induction s)
  case Nil
  then show ?case using sql_like_prefix [OF Nil] by (simp add: contains_def py_lower_def)
next
  case (Cons c s)
  then show ?case using sql_like_prefix [OF Cons.prems, of "c # s"]
    by (simp add: contains_def sublist_Cons_right py_lower_def)
qed

section \<open>Pages\<close>

definition page :: "nat \<Rightarrow> nat \<Rightarrow> 'a list \<Rightarrow> 'a list" where
  "page n k xs = take n (drop (k * n) xs)"

lemma pages_take: "concat (map (\<lambda>i. page n i xs) [0..<k]) = take (k * n) xs"
proof (induction k)
  case (Suc k)
  have "take (Suc k * n) xs = take (k * n) xs @ take n (drop (k * n) xs)"
    by (metis add.commute mult_Suc take_add)
  with Suc show ?case by (simp add: page_def del: mult_Suc)
qed simp

lemma pages_cover: "concat (map (\<lambda>i. page (Suc n) i xs) [0..<Suc (length xs div Suc n)]) = xs"
proof -
  have "length xs \<le> Suc (length xs div Suc n) * Suc n"
    using dividend_less_times_div [of "Suc n" "length xs"] by (simp add: mult.commute)
  then show ?thesis by (simp only: pages_take take_all)
qed

lemma audit_selection_sorted: "sorted (map (\<lambda>r. - au_timestamp r) (audit_selection a t u db))"
  by (simp add: audit_selection_def)

lemma audit_selection_mset:
  "mset (audit_selection a t u db) = mset (filter (\<lambda>r. given a (\<lambda>t. contains t (au_action r))
     \<and> given t (\<lambda>t. au_target_type r = t) \<and> given u (\<lambda>t. username_of db r = Some t)) (audit_rows db))"
  by (simp add: audit_selection_def)

text \<open>
  The pages of the audit log that an administrator gets, of any size, put one after another, are the
  whole selection, newest first and each row once; a page says that there is a next one exactly
  if there is.  Anybody else is refused.
\<close>

theorem audit_pages_complete:
  "list_audit_entries al now tok a t u (Suc n) (i * Suc n) s =
     (case require_admin al now tok (current s) of
        Inl e \<Rightarrow> Inl e
      | Inr _ \<Rightarrow> Inr \<lparr>pg_items = map (\<lambda>r. (r, username_of (current s) r)) (page (Suc n) i (audit_selection a t u (current s))),
                     pg_limit = Suc n, pg_offset = i * Suc n,
                     pg_has_next = (Suc i * Suc n < length (audit_selection a t u (current s)))\<rparr>)
   \<and> concat (map (\<lambda>i. page (Suc n) i (audit_selection a t u (current s)))
       [0..<Suc (length (audit_selection a t u (current s)) div Suc n)]) = audit_selection a t u (current s)
   \<and> sorted (map (\<lambda>r. - au_timestamp r) (audit_selection a t u (current s)))
   \<and> mset (audit_selection a t u (current s)) =
       mset (filter (\<lambda>r. given a (\<lambda>t. contains t (au_action r)) \<and> given t (\<lambda>t. au_target_type r = t)
         \<and> given u (\<lambda>t. username_of (current s) r = Some t)) (audit_rows (current s)))"
proof (intro conjI pages_cover audit_selection_sorted audit_selection_mset)
  show "list_audit_entries al now tok a t u (Suc n) (i * Suc n) s = (case require_admin al now tok (current s) of
        Inl e \<Rightarrow> Inl e
      | Inr _ \<Rightarrow> Inr \<lparr>pg_items = map (\<lambda>r. (r, username_of (current s) r)) (page (Suc n) i (audit_selection a t u (current s))),
                     pg_limit = Suc n, pg_offset = i * Suc n,
                     pg_has_next = (Suc i * Suc n < length (audit_selection a t u (current s)))\<rparr>)"
    by (cases "require_admin al now tok (current s)")
      (auto simp: list_audit_entries_def Let_def page_def min_def)
qed

end
