(* ===== verification/Web_Deps.thy ===== *)
theory Web_Deps
  imports Server_Jobs
begin

text \<open>
  \<open>server/web/deps.py\<close> and \<open>server/web/auth.py\<close>: what every web route shares, the login and logout pages.  A page is
  its status and the context given to the template (the HTML itself is not modelled); a redirect may
  carry a flash message.  Cookies are the arguments of a handler.
\<close>

datatype 'p web_response =
    Html nat 'p
  | Redirect nat string "(string \<times> string) option"
  | Failed http_error

section \<open>The user of a web request\<close>

definition to_login :: "'p web_response" where
  "to_login = Redirect 302 ''/login'' None"

definition web_current_user :: "'k auth_libs \<Rightarrow> int \<Rightarrow> 'k option \<Rightarrow> database \<Rightarrow> 'p web_response + user_row" where
  "web_current_user lb now csl_access db =
     (case csl_access of
        None \<Rightarrow> Inl to_login
      | Some token \<Rightarrow>
          (case decode_access_token lb now token of
             Inl Jwt_Error \<Rightarrow> Inl to_login
           | Inl Claim_Error \<Rightarrow> Inl (Failed internal_error)
           | Inr (i, role) \<Rightarrow>
               (case find_user i db of
                  None \<Rightarrow> Inl to_login
                | Some u \<Rightarrow> if u_disabled u then Inl to_login else Inr u)))"

definition web_require_admin :: "'k auth_libs \<Rightarrow> int \<Rightarrow> 'k option \<Rightarrow> database \<Rightarrow> 'p web_response + user_row" where
  "web_require_admin lb now csl_access db =
     bindR (web_current_user lb now csl_access db) (\<lambda>u.
       if u_role u \<noteq> ''admin'' then Inl (Failed (http_exception 403 ''Admin access required'')) else Inr u)"

section \<open>Flash messages\<close>

text \<open>The value of the cookie, and the category and message it is split into.\<close>

definition set_flash :: "string \<Rightarrow> string \<Rightarrow> string" where
  "set_flash message category = category @ ''|'' @ message"

definition read_flash :: "string option \<Rightarrow> (string \<times> string) option" where
  "read_flash cookie =
     (case cookie of
        None \<Rightarrow> None
      | Some raw \<Rightarrow>
          if CHR ''|'' \<in> set raw
          then Some (takeWhile (\<lambda>c. c \<noteq> CHR ''|'') raw, drop 1 (dropWhile (\<lambda>c. c \<noteq> CHR ''|'') raw))
          else None)"

definition redirect_with_flash :: "string \<Rightarrow> string \<Rightarrow> string \<Rightarrow> nat \<Rightarrow> 'p web_response" where
  "redirect_with_flash url message category status = Redirect status url (Some (category, message))"

lemma read_set_flash: "CHR ''|'' \<notin> set category \<Longrightarrow> read_flash (Some (set_flash message category)) = Some (category, message)"
  by (induction category) (auto simp: read_flash_def set_flash_def)

section \<open>Login and logout\<close>

record login_page_ctx =
  lp_flash :: "(string \<times> string) option"
  lp_error :: "string option"

text \<open>What a response does to the two authentication cookies.\<close>

datatype 'k cookies = Keep_Cookies | Set_Cookies 'k 'k | Clear_Cookies

definition login_page :: "'k option \<Rightarrow> string option \<Rightarrow> login_page_ctx web_response" where
  "login_page csl_access flash =
     (case csl_access of
        Some t \<Rightarrow> Redirect 302 ''/'' None
      | None \<Rightarrow> Html 200 \<lparr>lp_flash = read_flash flash, lp_error = None\<rparr>)"

definition login_submit ::
  "'k auth_libs \<Rightarrow> int \<Rightarrow> string \<Rightarrow> string \<Rightarrow> string \<Rightarrow> session
     \<Rightarrow> session \<times> 'k cookies \<times> login_page_ctx web_response" where
  "login_submit lb now jti username password s =
     (let failure = (s, Keep_Cookies, Html 401 \<lparr>lp_flash = None, lp_error = Some ''Invalid username or password.''\<rparr>)
      in case find (\<lambda>u. u_username u = username) (users (current s)) of
           None \<Rightarrow> failure
         | Some u \<Rightarrow>
             if u_disabled u \<or> \<not> verify_password lb password (u_password_hash u) then failure
             else (session_commit (on_db (store_refresh_token lb now (u_id u) jti) s),
                   Set_Cookies (create_access_token lb now (u_id u) (u_role u)) (create_refresh_token lb now jti (u_id u)),
                   Redirect 302 ''/'' None))"

text \<open>An undecodable token is ignored; an ambiguous row or a missing claim is a 500, before any cookie is cleared.\<close>

definition web_logout ::
  "'k auth_libs \<Rightarrow> int \<Rightarrow> 'k option \<Rightarrow> session \<Rightarrow> session \<times> 'k cookies \<times> unit web_response" where
  "web_logout lb now refresh_token s =
     (let bye = redirect_with_flash ''/login'' ''You have been logged out.'' ''info'' 302
      in case refresh_token of
           None \<Rightarrow> (s, Clear_Cookies, bye)
         | Some token \<Rightarrow>
             (case decode_refresh_token lb now token of
                Inl Jwt_Error \<Rightarrow> (s, Clear_Cookies, bye)
              | Inl Claim_Error \<Rightarrow> (s, Keep_Cookies, Failed internal_error)
              | Inr (i, jti) \<Rightarrow>
                  (case revoke_jti lb jti (current s) of
                     Inl e \<Rightarrow> (s, Keep_Cookies, Failed e)
                   | Inr db \<Rightarrow> (session_commit (on_db (\<lambda>_. db) s), Clear_Cookies, bye))))"

end
