(* ===== verification/Web_Admin.thy ===== *)
theory Web_Admin
  imports Web_Deps Server_Audit
begin

text \<open>
  \<open>server/web/admin.py\<close>: the pages of the administrator for scripts, machines, users and the audit log, and the
  fingerprint of a host key that a registration shows.
\<close>

section \<open>Scripts\<close>

record scripts_page =
  sp_user :: user_row
  sp_scripts :: "script_row list"
  sp_flash :: "(string \<times> string) option"

text \<open>The editor: the script if it exists, the error, and the fields given back after a failed creation.\<close>

record script_edit =
  se_user :: user_row
  se_script :: "script_row option"
  se_error :: "string option"
  se_fields :: "(string \<times> string \<times> string) option"

text \<open>\<open>x.strip() or None\<close>\<close>

definition strip_or_none :: "string \<Rightarrow> string option" where
  "strip_or_none t = (let x = py_strip t in if x = [] then None else Some x)"

definition quoted :: "string \<Rightarrow> string" where
  "quoted t = [CHR 0x27] @ t @ [CHR 0x27]"

definition admin_scripts ::
  "'k auth_libs \<Rightarrow> int \<Rightarrow> 'k option \<Rightarrow> string option \<Rightarrow> session \<Rightarrow> scripts_page web_response" where
  "admin_scripts al now cookie flash s =
     (case web_require_admin al now cookie (current s) of
        Inl r \<Rightarrow> r
      | Inr u \<Rightarrow> Html 200 \<lparr>sp_user = u, sp_scripts = list_scripts (current s), sp_flash = read_flash flash\<rparr>)"

definition admin_script_new_form :: "'k auth_libs \<Rightarrow> int \<Rightarrow> 'k option \<Rightarrow> session \<Rightarrow> script_edit web_response" where
  "admin_script_new_form al now cookie s =
     (case web_require_admin al now cookie (current s) of
        Inl r \<Rightarrow> r
      | Inr u \<Rightarrow> Html 200 \<lparr>se_user = u, se_script = None, se_error = None, se_fields = None\<rparr>)"

definition admin_script_new_submit ::
  "'k auth_libs \<Rightarrow> registry_libs \<Rightarrow> int \<Rightarrow> 'k option \<Rightarrow> string \<Rightarrow> string \<Rightarrow> string \<Rightarrow> session
     \<Rightarrow> session \<times> script_edit web_response" where
  "admin_script_new_submit al lb now cookie name content meta_yaml s =
     (case web_require_admin al now cookie (current s) of
        Inl r \<Rightarrow> (s, r)
      | Inr u \<Rightarrow>
          (case create_script lb now name content (strip_or_none meta_yaml) (u_id u) s of
             (s', Inl e) \<Rightarrow>
               (s', Html 422 \<lparr>se_user = u, se_script = None, se_error = Some (registry_message e),
                              se_fields = Some (name, content, meta_yaml)\<rparr>)
           | (s', Inr r) \<Rightarrow>
               (session_commit s', redirect_with_flash ''/admin/scripts'' (''Script '' @ quoted name @ '' created.'') ''success'' 303)))"

definition admin_script_edit_form ::
  "'k auth_libs \<Rightarrow> int \<Rightarrow> 'k option \<Rightarrow> string \<Rightarrow> session \<Rightarrow> script_edit web_response" where
  "admin_script_edit_form al now cookie name s =
     (case web_require_admin al now cookie (current s) of
        Inl r \<Rightarrow> r
      | Inr u \<Rightarrow>
          (case get_script name (current s) of
             None \<Rightarrow> Redirect 303 ''/admin/scripts'' None
           | Some sc \<Rightarrow> Html 200 \<lparr>se_user = u, se_script = Some sc, se_error = None, se_fields = None\<rparr>))"

definition admin_script_edit_submit ::
  "'k auth_libs \<Rightarrow> registry_libs \<Rightarrow> int \<Rightarrow> 'k option \<Rightarrow> string \<Rightarrow> string \<Rightarrow> string \<Rightarrow> session
     \<Rightarrow> session \<times> script_edit web_response" where
  "admin_script_edit_submit al lb now cookie name content meta_yaml s =
     (case web_require_admin al now cookie (current s) of
        Inl r \<Rightarrow> (s, r)
      | Inr u \<Rightarrow>
          (case update_script lb now name content (strip_or_none meta_yaml) (u_id u) s of
             (s', Inl e) \<Rightarrow>
               (s', case get_script name (current s') of
                      None \<Rightarrow> Redirect 303 ''/admin/scripts'' None
                    | Some sc \<Rightarrow> Html 422 \<lparr>se_user = u, se_script = Some sc, se_error = Some (registry_message e),
                                          se_fields = None\<rparr>)
           | (s', Inr r) \<Rightarrow>
               (session_commit s',
                redirect_with_flash ''/admin/scripts'' (''Script '' @ quoted (sc_name r) @ '' updated.'') ''success'' 303)))"

definition admin_script_delete ::
  "'k auth_libs \<Rightarrow> int \<Rightarrow> 'k option \<Rightarrow> string \<Rightarrow> session \<Rightarrow> session \<times> unit web_response" where
  "admin_script_delete al now cookie name s =
     (case web_require_admin al now cookie (current s) of
        Inl r \<Rightarrow> (s, r)
      | Inr u \<Rightarrow>
          (case delete_script name s of
             (s', Inl e) \<Rightarrow>
               (s', redirect_with_flash ''/admin/scripts'' (''Script '' @ quoted name @ '' not found.'') ''error'' 303)
           | (s', Inr _) \<Rightarrow>
               (session_commit s',
                redirect_with_flash ''/admin/scripts'' (''Script '' @ quoted name @ '' deleted.'') ''success'' 303)))"

section \<open>Machines\<close>

record machines_page =
  am_user :: user_row
  am_machines :: "machine_row list"
  am_flash :: "(string \<times> string) option"

definition admin_machines ::
  "'k auth_libs \<Rightarrow> int \<Rightarrow> 'k option \<Rightarrow> string option \<Rightarrow> session \<Rightarrow> machines_page web_response" where
  "admin_machines al now cookie flash s =
     (case web_require_admin al now cookie (current s) of
        Inl r \<Rightarrow> r
      | Inr u \<Rightarrow> Html 200 \<lparr>am_user = u, am_machines = sort_key m_name (machines (current s)), am_flash = read_flash flash\<rparr>)"

text \<open>
  \<open>_host_key_fingerprint\<close> with the digest as parameter; \<open>Inl\<close> is the
  \<open>binascii.Error\<close> of a text that ends within a group.
\<close>

definition host_key_fingerprint :: "(string \<Rightarrow> string) \<Rightarrow> string option \<Rightarrow> unit + string option" where
  "host_key_fingerprint sha256 line =
     (case line of
        None \<Rightarrow> Inr None
      | Some l \<Rightarrow>
          (case split_words [] l of
             a # b # ws \<Rightarrow>
               (case b64_decode_lenient b of
                  None \<Rightarrow> Inl ()
                | Some key \<Rightarrow> Inr (Some (''SHA256:'' @ rstrip_chars (\<lambda>c. c = CHR ''='') (b64_encode (sha256 key)))))
           | _ \<Rightarrow> Inr None))"

record machine_form =
  mf_bundle :: string
  mf_name :: string
  mf_ssh_host :: string
  mf_ssh_port :: int
  mf_ssh_user :: string
  mf_mac_address :: string

text \<open>The page: its user, the detail of the error, and the form as it was sent (at first only a port).\<close>

definition admin_machine_new_form ::
  "'k auth_libs \<Rightarrow> int \<Rightarrow> 'k option \<Rightarrow> session \<Rightarrow> (user_row \<times> detail option \<times> machine_form option) web_response" where
  "admin_machine_new_form al now cookie s =
     (case web_require_admin al now cookie (current s) of Inl r \<Rightarrow> r | Inr u \<Rightarrow> Html 200 (u, None, None))"

definition input_of_form :: "machine_form \<Rightarrow> register_input" where
  "input_of_form f =
     \<lparr>in_bundle = py_strip (mf_bundle f), in_name = py_strip (mf_name f), in_ssh_host = py_strip (mf_ssh_host f),
      in_ssh_port = mf_ssh_port f, in_ssh_user = strip_or_none (mf_ssh_user f),
      in_mac_address = strip_or_none (mf_mac_address f)\<rparr>"

definition registered_message :: "string \<Rightarrow> string option \<Rightarrow> string" where
  "registered_message name fp =
     ''Machine '' @ quoted name @ '' registered. Confirm this SSH host-key fingerprint with the target owner out-of-band: ''
       @ (case fp of None \<Rightarrow> ''None'' | Some t \<Rightarrow> t)"

definition admin_machine_new_submit ::
  "('k, 'c, 'l, 'w) station \<Rightarrow> (string \<Rightarrow> string) \<Rightarrow> int \<Rightarrow> string \<Rightarrow> string \<Rightarrow> 'k option \<Rightarrow> machine_form
     \<Rightarrow> ('c, 'l, 'w) server \<Rightarrow> ('c, 'l, 'w) server \<times> (user_row \<times> detail option \<times> machine_form option) web_response" where
  "admin_machine_new_submit st sha256 now nonce1 nonce2 cookie form sv =
     (case web_require_admin (st_auth st) now cookie (current (fst sv)) of
        Inl r \<Rightarrow> (sv, r)
      | Inr u \<Rightarrow>
          (case register_machine_from_input st now nonce1 nonce2 (input_of_form form) (u_id u) sv of
             (sv', Inl e) \<Rightarrow>
               (sv', if e = internal_error then Failed e else Html 422 (u, Some (he_detail e), Some form))
           | (sv', Inr m) \<Rightarrow>
               (sv', case host_key_fingerprint sha256 (m_ssh_host_key m) of
                       Inl _ \<Rightarrow> Failed internal_error
                     | Inr fp \<Rightarrow> redirect_with_flash ''/admin/machines'' (registered_message (m_name m) fp) ''success'' 303)))"

definition admin_machine_delete ::
  "'k auth_libs \<Rightarrow> int \<Rightarrow> 'k option \<Rightarrow> int \<Rightarrow> session \<Rightarrow> session \<times> unit web_response" where
  "admin_machine_delete al now cookie mid s =
     (case web_require_admin al now cookie (current s) of
        Inl r \<Rightarrow> (s, r)
      | Inr u \<Rightarrow>
          (case find_machine mid (current s) of
             None \<Rightarrow> (s, redirect_with_flash ''/admin/machines'' ''Machine not found.'' ''error'' 303)
           | Some m \<Rightarrow>
               (session_commit (on_db (\<lambda>db. db\<lparr>user_machines := filter (\<lambda>r. um_machine_id r \<noteq> mid) (user_machines db),
                                            machines := filter (\<lambda>x. m_id x \<noteq> mid) (machines db)\<rparr>) s),
                redirect_with_flash ''/admin/machines'' (''Machine '' @ quoted (m_name m) @ '' deleted.'') ''success'' 303)))"

section \<open>Users\<close>

record users_page =
  au_user :: user_row
  au_users :: "user_row list"
  au_flash :: "(string \<times> string) option"

definition admin_users ::
  "'k auth_libs \<Rightarrow> int \<Rightarrow> 'k option \<Rightarrow> string option \<Rightarrow> session \<Rightarrow> users_page web_response" where
  "admin_users al now cookie flash s =
     (case web_require_admin al now cookie (current s) of
        Inl r \<Rightarrow> r
      | Inr u \<Rightarrow> Html 200 \<lparr>au_user = u, au_users = sort_key u_username (users (current s)), au_flash = read_flash flash\<rparr>)"

definition set_user :: "int \<Rightarrow> (user_row \<Rightarrow> user_row) \<Rightarrow> database \<Rightarrow> database" where
  "set_user i f db = db\<lparr>users := map (\<lambda>u. if u_id u = i then f u else u) (users db)\<rparr>"

definition admin_user_toggle ::
  "'k auth_libs \<Rightarrow> int \<Rightarrow> 'k option \<Rightarrow> int \<Rightarrow> session \<Rightarrow> session \<times> unit web_response" where
  "admin_user_toggle al now cookie uid s =
     (case web_require_admin al now cookie (current s) of
        Inl r \<Rightarrow> (s, r)
      | Inr admin \<Rightarrow>
          (case find_user uid (current s) of
             None \<Rightarrow> (s, redirect_with_flash ''/admin/users'' ''User not found.'' ''error'' 303)
           | Some t \<Rightarrow>
               if u_id t = u_id admin
               then (s, redirect_with_flash ''/admin/users'' ''Cannot disable your own account.'' ''error'' 303)
               else (session_commit (on_db (set_user uid (\<lambda>u. u\<lparr>u_disabled := \<not> u_disabled t\<rparr>)) s),
                     redirect_with_flash ''/admin/users''
                       (''User '' @ quoted (u_username t) @ (if u_disabled t then '' enabled.'' else '' disabled.''))
                       ''success'' 303)))"

definition admin_user_role ::
  "'k auth_libs \<Rightarrow> int \<Rightarrow> 'k option \<Rightarrow> int \<Rightarrow> string \<Rightarrow> session \<Rightarrow> session \<times> unit web_response" where
  "admin_user_role al now cookie uid role s =
     (case web_require_admin al now cookie (current s) of
        Inl r \<Rightarrow> (s, r)
      | Inr admin \<Rightarrow>
          if role \<notin> {''admin'', ''user''} then (s, redirect_with_flash ''/admin/users'' ''Invalid role.'' ''error'' 303)
          else (case find_user uid (current s) of
             None \<Rightarrow> (s, redirect_with_flash ''/admin/users'' ''User not found.'' ''error'' 303)
           | Some t \<Rightarrow>
               if u_id t = u_id admin \<and> role \<noteq> ''admin''
               then (s, redirect_with_flash ''/admin/users'' ''Cannot demote your own account.'' ''error'' 303)
               else (session_commit (on_db (set_user uid (\<lambda>u. u\<lparr>u_role := role\<rparr>)) s),
                     redirect_with_flash ''/admin/users''
                       (''User '' @ quoted (u_username t) @ '' role set to '' @ quoted role @ ''.'') ''success'' 303)))"

section \<open>Audit log\<close>

definition ADMIN_PAGE_SIZE :: nat where
  "ADMIN_PAGE_SIZE = 50"

record audit_view =
  av_user :: user_row
  av_rows :: "(audit_row \<times> string option) list"
  av_has_next :: bool
  av_page :: nat
  av_action :: string
  av_target_type :: string
  av_username :: string
  av_actions :: "string list"
  av_target_types :: "string list"
  av_flash :: "(string \<times> string) option"

definition or_empty :: "string option \<Rightarrow> string" where
  "or_empty x = (case x of None \<Rightarrow> [] | Some t \<Rightarrow> t)"

text \<open>Rows of one time, whose order the query leaves open, come as in the JSON API.\<close>

definition admin_audit ::
  "'k auth_libs \<Rightarrow> int \<Rightarrow> 'k option \<Rightarrow> string option \<Rightarrow> string option \<Rightarrow> string option \<Rightarrow> string option \<Rightarrow> int
     \<Rightarrow> session \<Rightarrow> audit_view web_response" where
  "admin_audit al now cookie flash action target_type username pg s =
     (let db = current s in
      case web_require_admin al now cookie db of
        Inl r \<Rightarrow> r
      | Inr u \<Rightarrow>
          (let n = nat (max 1 pg);
               rows = take (ADMIN_PAGE_SIZE + 1) (drop ((n - 1) * ADMIN_PAGE_SIZE) (audit_selection action target_type username db))
           in Html 200
                \<lparr>av_user = u, av_rows = map (\<lambda>r. (r, username_of db r)) (take ADMIN_PAGE_SIZE rows),
                 av_has_next = length rows > ADMIN_PAGE_SIZE, av_page = n, av_action = or_empty action,
                 av_target_type = or_empty target_type, av_username = or_empty username,
                 av_actions = sort (remdups (map au_action (audit_rows db))),
                 av_target_types = sort (remdups (map au_target_type (audit_rows db))), av_flash = read_flash flash\<rparr>))"

end
