(* ===== verification/Py_Float.thy ===== *)
theory Py_Float
  imports Models "HOL-Library.Log_Nat"
begin

text \<open>
  Python's \<open>float\<close> of a text or an integer, at the width the language has: the nearest IEEE 754 double of the
  exact decimal value, ties to even, infinite when it is too large for \<open>float\<close> of a text and an
  \<open>OverflowError\<close> for an integer.  A double is the rational it stands for (\<^typ>\<open>pyfloat\<close>), without the sign
  of zero.
\<close>

section \<open>Rounding to a double\<close>

definition round_half_even :: "rat \<Rightarrow> int" where
  "round_half_even q =
     (let f = \<lfloor>q\<rfloor>; d = q - of_int f
      in if d < 1 / 2 \<or> (d = 1 / 2 \<and> even f) then f else f + 1)"

definition two_power :: "int \<Rightarrow> rat" where
  "two_power e = (if 0 \<le> e then 2 ^ nat e else 1 / 2 ^ nat (- e))"

text \<open>The binary exponent of a positive rational: \<open>2 ^ e \<le> q < 2 ^ (e + 1)\<close>.\<close>

definition binary_exponent :: "rat \<Rightarrow> int" where
  "binary_exponent q =
     (let (n, d) = quotient_of q; e = int (floorlog 2 (nat n)) - int (floorlog 2 (nat d))
      in if two_power e \<le> q then e else e - 1)"

text \<open>53 bits of precision, the last of them never below \<open>2 ^ -1074\<close>.\<close>

definition nearest_double :: "rat \<Rightarrow> pyfloat" where
  "nearest_double q =
     (if q = 0 then Fin 0
      else let unit = two_power (max (binary_exponent \<bar>q\<bar> - 52) (- 1074));
               r = of_int (round_half_even (q / unit)) * unit
           in if r \<ge> two_power 1024 then Pos_Inf else if r \<le> - two_power 1024 then Neg_Inf else Fin r)"

section \<open>Reading a number\<close>

text \<open>Digits with single underscores between them: their value, their number, and the rest of the text.\<close>

fun digit_part :: "bool \<Rightarrow> nat \<Rightarrow> nat \<Rightarrow> string \<Rightarrow> nat \<times> nat \<times> string" where
  "digit_part after_digit acc k [] = (acc, k, [])"
| "digit_part after_digit acc k (c # s) =
     (if is_digit c then digit_part True (acc * 10 + (ccode c - 48)) (k + 1) s
      else if c = CHR ''_'' \<and> after_digit \<and> (case s of [] \<Rightarrow> False | d # _ \<Rightarrow> is_digit d) then digit_part False acc k s
      else (acc, k, c # s))"

definition read_sign :: "string \<Rightarrow> bool \<times> string" where
  "read_sign s =
     (case s of [] \<Rightarrow> (False, [])
      | c # r \<Rightarrow> if c = CHR ''-'' then (True, r) else if c = CHR ''+'' then (False, r) else (False, s))"

definition read_exponent :: "string \<Rightarrow> int option" where
  "read_exponent s =
     (case s of
        [] \<Rightarrow> Some 0
      | c # r \<Rightarrow>
          if to_lower c \<noteq> CHR ''e'' then None
          else let (neg, t) = read_sign r; (e, k, rest) = digit_part False 0 0 t
               in if k = 0 \<or> rest \<noteq> [] then None else Some (if neg then - int e else int e))"

definition ten_power :: "int \<Rightarrow> rat" where
  "ten_power e = (if 0 \<le> e then 10 ^ nat e else 1 / 10 ^ nat (- e))"

definition read_decimal :: "string \<Rightarrow> rat option" where
  "read_decimal s =
     (let (i, k, r) = digit_part False 0 0 s;
          (a, n, r') = (case r of c # t \<Rightarrow> if c = CHR ''.'' then digit_part False i 0 t else (i, 0, r) | [] \<Rightarrow> (i, 0, []))
      in if k + n = 0 then None
         else map_option (\<lambda>e. of_nat a * ten_power (e - int n)) (read_exponent r'))"

definition py_float :: "string \<Rightarrow> pyfloat option" where
  "py_float s =
     (let (neg, t) = read_sign (py_strip s); word = py_lower t
      in if word \<in> {''inf'', ''infinity''} then Some (if neg then Neg_Inf else Pos_Inf)
         else if word = ''nan'' then Some NaN
         else map_option (\<lambda>q. nearest_double (if neg then - q else q)) (read_decimal t))"

section \<open>Exactness\<close>

lemma round_half_even_int [simp]: "round_half_even (of_int i) = i"
  by (simp add: round_half_even_def)

lemma binary_exponent_int:
  assumes "0 < i" "i < 2 ^ 53"
  shows "binary_exponent (of_int i) \<le> 52"
proof -
  have "floorlog 2 (nat i) \<le> 53"
    using assms by (intro floorlog_leI) auto
  moreover have "floorlog 2 (nat 1) = 1" by (simp add: floorlog_def)
  moreover have "quotient_of (of_int i) = (i, 1)"
    unfolding of_int_rat quotient_of_Fract by (simp add: Rat.normalize_def)
  ultimately show ?thesis by (simp add: binary_exponent_def Let_def)
qed

text \<open>The integers of up to 53 bits are doubles.\<close>

lemma nearest_double_int:
  assumes "\<bar>i\<bar> < 2 ^ 53"
  shows "nearest_double (of_int i) = Fin (of_int i)"
proof (cases "i = 0")
  case False
  let ?u = "max (binary_exponent \<bar>of_int i\<bar> - 52) (- 1074)"
  have "binary_exponent (of_int \<bar>i\<bar>) \<le> 52" using assms False by (intro binary_exponent_int) auto
  then have u: "?u \<le> 0" by simp
  define k where "k = nat (- ?u)"
  have unit: "two_power ?u = 1 / 2 ^ k" using u by (cases "?u = 0") (simp_all add: two_power_def k_def)
  have "of_int i / two_power ?u = of_int (i * 2 ^ k)" by (simp add: unit)
  then have r: "of_int (round_half_even (of_int i / two_power ?u)) * two_power ?u = of_int i"
    by (simp only: round_half_even_int) (simp add: unit)
  have "(of_int \<bar>i\<bar> :: rat) < of_int (2 ^ 53)" using assms by (simp only: of_int_less_iff)
  moreover have "of_int (2 ^ 53) < two_power 1024" by (simp add: two_power_def)
  ultimately have "\<not> of_int i \<ge> two_power 1024" "\<not> of_int i \<le> - two_power 1024" by simp_all
  with r False show ?thesis by (simp add: nearest_double_def Let_def)
qed (simp add: nearest_double_def)

end
