(* ===== verification/Web_Run.thy ===== *)
theory Web_Run
  imports Web_Deps Py_Float
begin

text \<open>
  The run dialog of \<open>server/web/machines.py\<close>: the form of a script's parameters, the values it submits, and the
  submission itself.  A form is the list of its fields in order; the value of a field is \<open>None\<close> when a file
  was sent.  \<open>str\<close> of a loaded YAML value is the parameter \<open>str_of\<close>.
\<close>

section \<open>Access\<close>

definition web_accessible ::
  "'k auth_libs \<Rightarrow> int \<Rightarrow> 'k option \<Rightarrow> int \<Rightarrow> database \<Rightarrow> 'p web_response + user_row \<times> machine_row" where
  "web_accessible al now cookie mid db =
     bindR (web_current_user al now cookie db) (\<lambda>u.
       case get_machine_or_404 mid db of
         Inl e \<Rightarrow> Inl (Failed e)
       | Inr m \<Rightarrow> (case assert_access u mid db of Inl e \<Rightarrow> Inl (Failed e) | Inr _ \<Rightarrow> Inr (u, m)))"

section \<open>Form values\<close>

type_synonym form = "(string \<times> string option) list"

text \<open>The last value sent for a name counts.\<close>

definition form_value :: "form \<Rightarrow> string \<Rightarrow> string option" where
  "form_value form n = (case map_of (rev form) n of None \<Rightarrow> None | Some v \<Rightarrow> v)"

text \<open>\<open>int\<close> and \<open>float\<close> of a default: \<open>Bad_Value\<close> is a \<open>ValueError\<close> or \<open>TypeError\<close>, which the route handles.\<close>

datatype conversion_error = Bad_Value | Overflow

fun int_of_default :: "yaml \<Rightarrow> conversion_error + int" where
  "int_of_default (YInt i) = Inr i"
| "int_of_default (YBool b) = Inr (if b then 1 else 0)"
| "int_of_default (YStr s) = (case py_int s of None \<Rightarrow> Inl Bad_Value | Some i \<Rightarrow> Inr i)"
| "int_of_default (YFloat (Fin q)) = Inr (trunc_rat q)"
| "int_of_default (YFloat Pos_Inf) = Inl Overflow"
| "int_of_default (YFloat Neg_Inf) = Inl Overflow"
| "int_of_default y = Inl Bad_Value"

fun float_of_default :: "yaml \<Rightarrow> conversion_error + pyfloat" where
  "float_of_default (YInt i) =
     (case nearest_double (of_int i) of Fin q \<Rightarrow> Inr (Fin q) | f \<Rightarrow> Inl Overflow)"
| "float_of_default (YBool b) = Inr (Fin (if b then 1 else 0))"
| "float_of_default (YStr s) = (case py_float s of None \<Rightarrow> Inl Bad_Value | Some f \<Rightarrow> Inr f)"
| "float_of_default (YFloat f) = Inr f"
| "float_of_default y = Inl Bad_Value"

text \<open>The expression under \<open>try\<close>: the text if there is one, the default otherwise, or a zero.\<close>

definition number_field ::
  "(string \<Rightarrow> 'n option) \<Rightarrow> (yaml \<Rightarrow> conversion_error + 'n) \<Rightarrow> 'n \<Rightarrow> string option \<Rightarrow> yaml \<Rightarrow> 'n option" where
  "number_field read of_default zero raw dflt =
     (let r = (case raw of
                 Some (c # cs) \<Rightarrow> (case read (c # cs) of None \<Rightarrow> Inl Bad_Value | Some n \<Rightarrow> Inr n)
               | _ \<Rightarrow> if dflt = YNull then Inr zero else of_default dflt)
      in case r of Inr n \<Rightarrow> Some n | Inl Bad_Value \<Rightarrow> Some zero | Inl Overflow \<Rightarrow> None)"

definition form_param :: "(yaml \<Rightarrow> string) \<Rightarrow> form \<Rightarrow> param_descriptor \<Rightarrow> param_value option" where
  "form_param str_of form d =
     (let raw = form_value form (p_name d) in
      if p_type d = T_bool then Some (PBool (raw \<noteq> None))
      else if p_type d = T_int then map_option PInt (number_field py_int int_of_default 0 raw (p_default d))
      else if p_type d = T_float then
        map_option PFloat (number_field py_float float_of_default (Fin 0) raw (p_default d))
      else Some (PStr (case raw of Some t \<Rightarrow> t | None \<Rightarrow> if p_default d = YNull then [] else str_of (p_default d))))"

text \<open>\<open>None\<close>: the \<open>OverflowError\<close> of a default.\<close>

fun form_params :: "(yaml \<Rightarrow> string) \<Rightarrow> form \<Rightarrow> param_descriptor list \<Rightarrow> params \<Rightarrow> params option" where
  "form_params str_of form [] acc = Some acc"
| "form_params str_of form (d # ds) acc =
     (case form_param str_of form d of
        None \<Rightarrow> None
      | Some v \<Rightarrow> form_params str_of form ds (AList.update (p_name d) v acc))"

definition meta_params :: "registry_libs \<Rightarrow> script_row \<Rightarrow> param_descriptor list" where
  "meta_params lb sc =
     (case sc_meta_yaml sc of
        None \<Rightarrow> []
      | Some y \<Rightarrow> if y = [] then []
                  else (case parse_meta_yaml (r_yaml lb) y of Inl e \<Rightarrow> [] | Inr m \<Rightarrow> m_params m))"

section \<open>The dialog\<close>

record run_dialog =
  rd_user :: user_row
  rd_machine :: machine_row
  rd_script :: script_row
  rd_params :: "param_descriptor list"
  rd_error :: "(string \<times> string) option"

definition run_form ::
  "'k auth_libs \<Rightarrow> registry_libs \<Rightarrow> int \<Rightarrow> 'k option \<Rightarrow> int \<Rightarrow> string \<Rightarrow> session \<Rightarrow> run_dialog web_response" where
  "run_form al lb now cookie mid name s =
     (case web_accessible al now cookie mid (current s) of
        Inl r \<Rightarrow> r
      | Inr (u, m) \<Rightarrow>
          (case get_script_or_raise name (current s) of
             Inl e \<Rightarrow> Failed (http_exception 404 (registry_message e))
           | Inr sc \<Rightarrow> Html 200 \<lparr>rd_user = u, rd_machine = m, rd_script = sc, rd_params = meta_params lb sc, rd_error = None\<rparr>))"

definition approval_msg :: "string \<Rightarrow> string \<Rightarrow> string" where
  "approval_msg state name =
     (let q = ''Script '' @ [CHR 0x27] @ name @ [CHR 0x27] in
      if state = ''pending'' then q @ '' is pending approval on this machine''
      else if state = ''update_pending'' then q @ '' has a pending update awaiting re-approval''
      else if state = ''rejected'' then q @ '' was rejected on this machine''
      else q @ '' is not approved (state='' @ py_repr state @ '')'')"

definition error_ctx :: "user_row \<Rightarrow> machine_row \<Rightarrow> script_row \<Rightarrow> param_descriptor list \<Rightarrow> string \<Rightarrow> string \<Rightarrow> run_dialog" where
  "error_ctx u m sc ds name approval_error =
     \<lparr>rd_user = u, rd_machine = m, rd_script = sc, rd_params = ds,
      rd_error = Some (approval_error, approval_msg approval_error name)\<rparr>"

text \<open>
  The part inside \<open>async with\<close>: the resolved state when it is not \<open>approved\<close>, the agent's answer, or the
  exception.  The request pins no MD5.
\<close>

datatype run_outcome = Not_Approved_Page string | Started job_status_response

definition web_job_request :: "string \<Rightarrow> script_row \<Rightarrow> string \<Rightarrow> params \<Rightarrow> job_request" where
  "web_job_request u sc name ps =
     \<lparr>q_job_uuid = u, q_script_name = name, q_params = ps, q_persistent = sc_persistent sc, q_expected_md5 = None\<rparr>"

definition run_on_agent ::
  "int \<Rightarrow> string \<Rightarrow> machine_row \<Rightarrow> script_row \<Rightarrow> string \<Rightarrow> params \<Rightarrow> ('c, 'l, 'w) client
     \<Rightarrow> ('c, 'l, 'w) server \<Rightarrow> ('c, 'l, 'w) server \<times> (http_error + (client_error + run_outcome))" where
  "run_on_agent now u m sc name ps c sv =
     (case ensure_agent_running c (snd sv) of
        (v1, Inl e) \<Rightarrow> ((fst sv, v1), Inr (Inl e))
      | (v1, Inr _) \<Rightarrow>
          (case sync_script now m sc c (fst sv, v1) of
             (sv2, Inl e) \<Rightarrow> (sv2, Inr (Inl e))
           | ((s2, v2), Inr resolved) \<Rightarrow>
               (if resolved \<noteq> approval_state_text Approved
                then ((session_commit s2, v2), Inr (Inr (Not_Approved_Page resolved)))
                else (case client_submit_job c (web_job_request u sc name ps) v2 of
                        (v3, Inl e) \<Rightarrow> ((session_commit s2, v3), Inr (Inl e))
                      | (v3, Inr resp) \<Rightarrow> ((session_commit s2, v3), Inr (Inr (Started resp)))))))"

definition run_submit ::
  "('k, 'c, 'l, 'w) station \<Rightarrow> registry_libs \<Rightarrow> (yaml \<Rightarrow> string) \<Rightarrow> int \<Rightarrow> string \<Rightarrow> 'k option \<Rightarrow> int \<Rightarrow> string \<Rightarrow> form
     \<Rightarrow> ('c, 'l, 'w) server \<Rightarrow> ('c, 'l, 'w) server \<times> run_dialog web_response" where
  "run_submit st lb str_of now u cookie mid name form sv =
     (case web_accessible (st_auth st) now cookie mid (current (fst sv)) of
        Inl r \<Rightarrow> (sv, r)
      | Inr (user, m) \<Rightarrow>
          (case get_script_or_raise name (current (fst sv)) of
             Inl e \<Rightarrow> (sv, Failed (http_exception 404 (registry_message e)))
           | Inr sc \<Rightarrow>
               (let ds = meta_params lb sc in
                case form_params str_of form ds [] of
                  None \<Rightarrow> (sv, Failed internal_error)
                | Some ps \<Rightarrow>
                    (case with_client (st_net st) m (run_on_agent now u m sc name ps) sv of
                       (sv', Inl e) \<Rightarrow> (sv', Failed e)
                     | (sv', Inr (Inl e)) \<Rightarrow>
                         (sv', if agent_client_error e then Html 502 (error_ctx user m sc ds name ''agent_error'')
                               else Failed internal_error)
                     | (sv', Inr (Inr (Not_Approved_Page resolved))) \<Rightarrow>
                         (sv', Html 409 (error_ctx user m sc ds name resolved))
                     | ((s', v'), Inr (Inr (Started resp))) \<Rightarrow>
                         let row = new_job_row u mid sc user ps resp (current s')
                         in ((session_commit (on_db (\<lambda>db. db\<lparr>job_rows := job_rows db @ [row]\<rparr>) s'), v'),
                             redirect_with_flash (''/jobs/'' @ u) (''Job started: '' @ name) ''success'' 303)))))"

end
