(* ===== verification/Web_Machines.thy ===== *)
theory Web_Machines
  imports Web_Run Server_Audit
begin

text \<open>
  The other routes of \<open>server/web/machines.py\<close> and \<open>server/web/dashboard.py\<close>: the machine page, the approval
  badges with their refresh and re-staging, the job history and the job page, the log stream, the kill button,
  the dashboard and its ping badge.  Jobs of equal start time keep their order.
\<close>

section \<open>Machine page\<close>

record script_state_ctx =
  sx_script :: script_row
  sx_description :: string
  sx_state :: string
  sx_approved_md5 :: "string option"
  sx_pending_md5 :: "string option"

record machine_page =
  mp_user :: user_row
  mp_machine :: machine_row
  mp_script_states :: "script_state_ctx list"
  mp_running_jobs :: "job_row list"
  mp_show_all :: bool
  mp_flash :: "(string \<times> string) option"

definition find_state :: "int \<Rightarrow> int \<Rightarrow> database \<Rightarrow> target_state_row option" where
  "find_state mid sid db = find (\<lambda>t. ts_machine_id t = mid \<and> ts_script_id t = sid) (target_states db)"

definition cached_state :: "target_state_row option \<Rightarrow> string" where
  "cached_state row = (case row of None \<Rightarrow> ''absent'' | Some t \<Rightarrow> ts_state t)"

definition script_description :: "registry_libs \<Rightarrow> script_row \<Rightarrow> string" where
  "script_description lb sc =
     (case sc_meta_yaml sc of
        None \<Rightarrow> []
      | Some y \<Rightarrow> if y = [] then []
                  else (case parse_meta_yaml (r_yaml lb) y of Inl e \<Rightarrow> [] | Inr m \<Rightarrow> m_description m))"

definition machine_detail ::
  "'k auth_libs \<Rightarrow> registry_libs \<Rightarrow> int \<Rightarrow> 'k option \<Rightarrow> string option \<Rightarrow> int \<Rightarrow> bool \<Rightarrow> session \<Rightarrow> machine_page web_response"
where
  "machine_detail al lb now cookie flash mid show_all s =
     (let db = current s in
      case web_accessible al now cookie mid db of
        Inl r \<Rightarrow> r
      | Inr (u, m) \<Rightarrow>
          Html 200
            \<lparr>mp_user = u, mp_machine = m,
             mp_script_states =
               map (\<lambda>sc. let row = find_state mid (sc_id sc) db
                         in \<lparr>sx_script = sc, sx_description = script_description lb sc, sx_state = cached_state row,
                             sx_approved_md5 = Option.bind row ts_approved_md5, sx_pending_md5 = Option.bind row ts_pending_md5\<rparr>)
                 (filter (\<lambda>sc. show_all \<or> cached_state (find_state mid (sc_id sc) db) \<noteq> ''absent'')
                    (sort_key sc_name (scripts db))),
             mp_running_jobs =
               sort_key (\<lambda>j. - jb_started_at j)
                 (filter (\<lambda>j. jb_machine_id j = mid \<and> jb_persistent j \<and> jb_status j \<in> {Job_Running, Job_Pending}) (job_rows db)),
             mp_show_all = show_all, mp_flash = read_flash flash\<rparr>)"

section \<open>Approval badges\<close>

record badge =
  bd_script_id :: int
  bd_script_name :: string
  bd_script_md5 :: "string option"
  bd_state :: string
  bd_approved_md5 :: "string option"
  bd_pending_md5 :: "string option"
  bd_unreachable :: bool

definition no_script_badge :: "string \<Rightarrow> badge" where
  "no_script_badge name =
     \<lparr>bd_script_id = 0, bd_script_name = name, bd_script_md5 = None, bd_state = ''absent'', bd_approved_md5 = None,
      bd_pending_md5 = None, bd_unreachable = False\<rparr>"

definition cached_badge :: "script_row \<Rightarrow> target_state_row option \<Rightarrow> bool \<Rightarrow> badge" where
  "cached_badge sc row unreachable =
     \<lparr>bd_script_id = sc_id sc, bd_script_name = sc_name sc, bd_script_md5 = Some (sc_md5 sc),
      bd_state = cached_state row, bd_approved_md5 = Option.bind row ts_approved_md5,
      bd_pending_md5 = Option.bind row ts_pending_md5, bd_unreachable = unreachable\<rparr>"

definition fresh_badge :: "script_row \<Rightarrow> string \<Rightarrow> script_descriptor \<Rightarrow> badge" where
  "fresh_badge sc state d =
     \<lparr>bd_script_id = sc_id sc, bd_script_name = sc_name sc, bd_script_md5 = Some (sc_md5 sc), bd_state = state,
      bd_approved_md5 = d_approved_md5 d, bd_pending_md5 = d_pending_md5 d, bd_unreachable = False\<rparr>"

text \<open>The loop of \<open>sync_states\<close>: a query that fails leaves its row as it was.\<close>

fun sync_rows ::
  "int \<Rightarrow> int \<Rightarrow> ('c, 'l, 'w) client \<Rightarrow> (target_state_row \<times> script_row) list \<Rightarrow> ('c, 'l, 'w) server
     \<Rightarrow> ('c, 'l, 'w) server \<times> badge list" where
  "sync_rows now mid c [] sv = (sv, [])"
| "sync_rows now mid c ((t, sc) # rest) sv =
     (let (s, v) = sv;
          (s', v', b) = (case client_script_state c (sc_name sc) v of
             (v1, Inl e) \<Rightarrow> (s, v1, cached_badge sc (Some t) True)
           | (v1, Inr d) \<Rightarrow>
               (upsert_state now mid (sc_id sc) (resolve_state sc d) d s, v1, fresh_badge sc (resolve_state sc d) d));
          (sv'', bs) = sync_rows now mid c rest (s', v')
      in (sv'', b # bs))"

definition staged_scripts :: "int \<Rightarrow> database \<Rightarrow> (target_state_row \<times> script_row) list" where
  "staged_scripts mid db =
     sort_key (\<lambda>(t, sc). sc_name sc)
       (concat (map (\<lambda>t. map (Pair t) (filter (\<lambda>sc. sc_id sc = ts_script_id t) (scripts db)))
          (filter (\<lambda>t. ts_machine_id t = mid) (target_states db))))"

definition sync_on_agent ::
  "int \<Rightarrow> int \<Rightarrow> (target_state_row \<times> script_row) list \<Rightarrow> ('c, 'l, 'w) client \<Rightarrow> ('c, 'l, 'w) server
     \<Rightarrow> ('c, 'l, 'w) server \<times> (http_error + badge list)" where
  "sync_on_agent now mid staged c sv =
     (case ensure_agent_running c (snd sv) of
        (v1, Inl e) \<Rightarrow> ((fst sv, v1), Inl internal_error)
      | (v1, Inr _) \<Rightarrow> (let (sv', bs) = sync_rows now mid c staged (fst sv, v1) in (sv', Inr bs)))"

definition sync_states ::
  "('k, 'c, 'l, 'w) station \<Rightarrow> int \<Rightarrow> 'k option \<Rightarrow> int \<Rightarrow> ('c, 'l, 'w) server
     \<Rightarrow> ('c, 'l, 'w) server \<times> badge list web_response" where
  "sync_states st now cookie mid sv =
     (case web_accessible (st_auth st) now cookie mid (current (fst sv)) of
        Inl r \<Rightarrow> (sv, r)
      | Inr (u, m) \<Rightarrow>
          (let staged = staged_scripts mid (current (fst sv)) in
           if staged = [] then (sv, Html 200 [])
           else case decrypt_key (st_net st) m of
             Inl e \<Rightarrow> (sv, Failed internal_error)
           | Inr key \<Rightarrow>
               (let ((s', v'), r) = with_client (st_net st) m (sync_on_agent now mid staged) sv
                in ((session_commit s', v'),
                    Html 200 (case r of Inl e \<Rightarrow> map (\<lambda>(t, sc). cached_badge sc (Some t) True) staged | Inr bs \<Rightarrow> bs)))))"

definition ask_state ::
  "string \<Rightarrow> ('c, 'l, 'w) client \<Rightarrow> ('c, 'l, 'w) server \<Rightarrow> ('c, 'l, 'w) server \<times> (http_error + script_descriptor)" where
  "ask_state name c sv =
     (case client_script_state c name (snd sv) of
        (v', Inl e) \<Rightarrow> ((fst sv, v'), Inl internal_error)
      | (v', Inr d) \<Rightarrow> ((fst sv, v'), Inr d))"

definition script_state_badge ::
  "('k, 'c, 'l, 'w) station \<Rightarrow> int \<Rightarrow> 'k option \<Rightarrow> int \<Rightarrow> string \<Rightarrow> ('c, 'l, 'w) server
     \<Rightarrow> ('c, 'l, 'w) server \<times> badge web_response" where
  "script_state_badge st now cookie mid name sv =
     (case web_accessible (st_auth st) now cookie mid (current (fst sv)) of
        Inl r \<Rightarrow> (sv, r)
      | Inr (u, m) \<Rightarrow>
          (case get_script name (current (fst sv)) of
             None \<Rightarrow> (sv, Html 200 (no_script_badge name))
           | Some sc \<Rightarrow>
               (case decrypt_key (st_net st) m of
                  Inl e \<Rightarrow> (sv, Failed internal_error)
                | Inr key \<Rightarrow>
                    (case with_client (st_net st) m (ask_state name) sv of
                       (sv', Inl e) \<Rightarrow> (sv', Html 200 (cached_badge sc (find_state mid (sc_id sc) (current (fst sv))) True))
                     | ((s', v'), Inr d) \<Rightarrow>
                         ((session_commit (upsert_state now mid (sc_id sc) (resolve_state sc d) d s'), v'),
                          Html 200 (fresh_badge sc (resolve_state sc d) d))))))"

text \<open>Re-staging; the state shown afterwards is the agent's own, so an outdated approval reads \<open>approved\<close>.\<close>

definition stage_on_agent ::
  "script_row \<Rightarrow> ('c, 'l, 'w) client \<Rightarrow> ('c, 'l, 'w) server
     \<Rightarrow> ('c, 'l, 'w) server \<times> (http_error + (client_error + script_descriptor))" where
  "stage_on_agent sc c sv =
     (let s = fst sv in
      case ensure_agent_running c (snd sv) of
        (v1, Inl e) \<Rightarrow> ((s, v1), Inr (Inl e))
      | (v1, Inr _) \<Rightarrow>
          (case client_stage_script c (sc_name sc) (sc_content sc) (sc_md5 sc) (sc_meta_yaml sc) v1 of
             (v2, Inl e) \<Rightarrow> ((s, v2), Inr (Inl e))
           | (v2, Inr g) \<Rightarrow> (let (v3, r) = client_script_state c (sc_name sc) v2 in ((s, v3), Inr r))))"

definition restage ::
  "('k, 'c, 'l, 'w) station \<Rightarrow> int \<Rightarrow> 'k option \<Rightarrow> int \<Rightarrow> string \<Rightarrow> ('c, 'l, 'w) server
     \<Rightarrow> ('c, 'l, 'w) server \<times> badge web_response" where
  "restage st now cookie mid name sv =
     (case web_accessible (st_auth st) now cookie mid (current (fst sv)) of
        Inl r \<Rightarrow> (sv, r)
      | Inr (u, m) \<Rightarrow>
          (case get_script name (current (fst sv)) of
             None \<Rightarrow> (sv, Html 200 (no_script_badge name))
           | Some sc \<Rightarrow>
               (case with_client (st_net st) m (stage_on_agent sc) sv of
                  (sv', Inl e) \<Rightarrow> (sv', Failed e)
                | (sv', Inr (Inl e)) \<Rightarrow>
                    (sv', if agent_client_error e
                          then Html 200 (cached_badge sc (find_state mid (sc_id sc) (current (fst sv))) False)
                          else Failed internal_error)
                | ((s', v'), Inr (Inr d)) \<Rightarrow>
                    let state = approval_state_text (d_state d)
                    in ((session_commit (upsert_state now mid (sc_id sc) state d s'), v'), Html 200 (fresh_badge sc state d)))))"

section \<open>Job history\<close>

definition JOB_PAGE_SIZE :: nat where
  "JOB_PAGE_SIZE = 50"

record job_line =
  jl_job :: job_row
  jl_machine :: "machine_row option"
  jl_script :: "script_row option"
  jl_duration :: string
  jl_running :: bool

record jobs_page =
  jp_jobs :: "job_line list"
  jp_machines :: "machine_row list"
  jp_scripts :: "script_row list"
  jp_machine_id :: "int option"
  jp_script_name :: "string option"
  jp_status :: "string option"
  jp_page :: nat
  jp_total :: nat
  jp_has_prev :: bool
  jp_has_next :: bool
  jp_flash :: "(string \<times> string) option"

text \<open>Times are in microseconds; \<open>int\<close> truncates the seconds.\<close>

definition duration_text :: "int \<Rightarrow> string" where
  "duration_text us =
     (let secs = trunc_rat (of_int us / 1000000) in
      if secs < 60 then int_str secs @ ''s''
      else if secs < 3600 then int_str (secs div 60) @ ''m '' @ int_str (secs mod 60) @ ''s''
      else int_str (secs div 3600) @ ''h '' @ int_str (secs mod 3600 div 60) @ ''m'')"

definition job_duration :: "int \<Rightarrow> job_row \<Rightarrow> string" where
  "job_duration now j = duration_text ((case jb_ended_at j of None \<Rightarrow> now | Some e \<Rightarrow> e) - jb_started_at j)"

definition user_machine_list :: "user_row \<Rightarrow> database \<Rightarrow> machine_row list" where
  "user_machine_list u db =
     sort_key m_name (if u_role u = ''admin'' then machines db
                      else filter (\<lambda>m. bookmarked (u_id u) (m_id m) db) (machines db))"

definition job_script :: "database \<Rightarrow> job_row \<Rightarrow> script_row option" where
  "job_script db j = (case jb_script_id j of None \<Rightarrow> None | Some i \<Rightarrow> find (\<lambda>sc. sc_id sc = i) (scripts db))"

definition job_selection ::
  "user_row \<Rightarrow> int option \<Rightarrow> string option \<Rightarrow> string option \<Rightarrow> database \<Rightarrow> job_row list" where
  "job_selection u mid script_name status db =
     sort_key (\<lambda>j. - jb_started_at j)
       (filter (\<lambda>j. jb_machine_id j \<in> set (map m_id (user_machine_list u db))
           \<and> (case mid of None \<Rightarrow> True | Some i \<Rightarrow> jb_machine_id j = i)
           \<and> given script_name (\<lambda>n. map_option sc_name (job_script db j) = Some n)
           \<and> given status (\<lambda>t. status_text (jb_status j) = t)) (job_rows db))"

definition or_none :: "string option \<Rightarrow> string option" where
  "or_none x = (case x of None \<Rightarrow> None | Some t \<Rightarrow> if t = [] then None else Some t)"

text \<open>The filters come as text: empty means all, a machine id that is no number is an unhandled \<open>ValueError\<close>.\<close>

definition jobs_list ::
  "'k auth_libs \<Rightarrow> int \<Rightarrow> 'k option \<Rightarrow> string option \<Rightarrow> string option \<Rightarrow> string option \<Rightarrow> string option \<Rightarrow> int
     \<Rightarrow> session \<Rightarrow> jobs_page web_response" where
  "jobs_list al now cookie flash machine_id script_name status pg s =
     (let db = current s in
      case web_current_user al now cookie db of
        Inl r \<Rightarrow> r
      | Inr u \<Rightarrow>
          (case (case machine_id of None \<Rightarrow> Some None
                 | Some t \<Rightarrow> if t = [] then Some None else map_option Some (py_int t)) of
             None \<Rightarrow> Failed internal_error
           | Some mid \<Rightarrow>
               (let n = nat (max 1 pg); offset = (n - 1) * JOB_PAGE_SIZE;
                    sel = job_selection u mid script_name status db; total = length sel
                in Html 200
                     \<lparr>jp_jobs = map (\<lambda>j. \<lparr>jl_job = j, jl_machine = find_machine (jb_machine_id j) db,
                                          jl_script = job_script db j, jl_duration = job_duration now j,
                                          jl_running = jb_status j \<in> {Job_Running, Job_Pending}\<rparr>)
                                  (take JOB_PAGE_SIZE (drop offset sel)),
                      jp_machines = user_machine_list u db, jp_scripts = sort_key sc_name (scripts db),
                      jp_machine_id = mid, jp_script_name = or_none script_name,
                      jp_status = or_none status, jp_page = n, jp_total = total, jp_has_prev = n > 1,
                      jp_has_next = offset + JOB_PAGE_SIZE < total, jp_flash = read_flash flash\<rparr>)))"

section \<open>One job\<close>

record job_page =
  jo_user :: user_row
  jo_job :: job_row
  jo_machine :: "machine_row option"
  jo_script :: "script_row option"
  jo_flash :: "(string \<times> string) option"

text \<open>Like the other routes of one job, it checks neither the job's owner nor access to its machine.\<close>

definition job_detail ::
  "'k auth_libs \<Rightarrow> int \<Rightarrow> 'k option \<Rightarrow> string option \<Rightarrow> string \<Rightarrow> session \<Rightarrow> job_page web_response" where
  "job_detail al now cookie flash u s =
     (let db = current s in
      case web_current_user al now cookie db of
        Inl r \<Rightarrow> r
      | Inr user \<Rightarrow>
          (case get_job_or_404 u db of
             Inl e \<Rightarrow> Failed e
           | Inr j \<Rightarrow> Html 200 \<lparr>jo_user = user, jo_job = j, jo_machine = find_machine (jb_machine_id j) db,
                                jo_script = job_script db j, jo_flash = read_flash flash\<rparr>))"

definition sse_end :: string where
  "sse_end = ''event: end'' @ [newline] @ ''data: done'' @ [newline, newline]"

text \<open>The events of the stream; as in \<open>relay_events\<close> a failed stream has sent no line.\<close>

definition web_events ::
  "('c, 'l, 'w) net \<Rightarrow> machine_row \<Rightarrow> string \<Rightarrow> string \<Rightarrow> ('c, 'l, 'w) wire \<Rightarrow> ('c, 'l, 'w) wire \<times> string list" where
  "web_events nt m key u v =
     (case open_client nt m key v of
        (v1, Inl e) \<Rightarrow> (v1, [sse_data ''[log not available]'', sse_end])
      | (v1, Inr c) \<Rightarrow>
          (let (v2, r) = client_stream_logs c u v1
           in (close_client c v2,
               (case r of Inl e \<Rightarrow> [sse_data ''[log not available]''] | Inr ls \<Rightarrow> map sse_data ls) @ [sse_end])))"

definition job_log_stream ::
  "('k, 'c, 'l, 'w) station \<Rightarrow> int \<Rightarrow> 'k option \<Rightarrow> string \<Rightarrow> ('c, 'l, 'w) server
     \<Rightarrow> ('c, 'l, 'w) server \<times> string list web_response" where
  "job_log_stream st now cookie u sv =
     (let db = current (fst sv) in
      case web_current_user (st_auth st) now cookie db of
        Inl r \<Rightarrow> (sv, r)
      | Inr user \<Rightarrow>
          (case get_job_or_404 u db of
             Inl e \<Rightarrow> (sv, Failed e)
           | Inr j \<Rightarrow>
               (case find_machine (jb_machine_id j) db of
                  None \<Rightarrow> (sv, Html 200 [sse_end])
                | Some m \<Rightarrow>
                    (case decrypt_key (st_net st) m of
                       Inl e \<Rightarrow> (sv, Failed internal_error)
                     | Inr key \<Rightarrow> (let (v', es) = web_events (st_net st) m key u (snd sv) in ((fst sv, v'), Html 200 es))))))"

definition web_tell_kill ::
  "string \<Rightarrow> ('c, 'l, 'w) client \<Rightarrow> ('c, 'l, 'w) server \<Rightarrow> ('c, 'l, 'w) server \<times> (http_error + (client_error + unit))" where
  "web_tell_kill u c sv = (let (v', r) = client_kill_job c u (snd sv) in ((fst sv, v'), Inr r))"

text \<open>The badge the page shows; the text of the exception in the second one is left out.\<close>

datatype kill_badge = Machine_Not_Found | Kill_Failed | Killed

definition kill_job_web ::
  "('k, 'c, 'l, 'w) station \<Rightarrow> int \<Rightarrow> 'k option \<Rightarrow> string \<Rightarrow> ('c, 'l, 'w) server
     \<Rightarrow> ('c, 'l, 'w) server \<times> kill_badge web_response" where
  "kill_job_web st now cookie u sv =
     (let db = current (fst sv) in
      case web_current_user (st_auth st) now cookie db of
        Inl r \<Rightarrow> (sv, r)
      | Inr user \<Rightarrow>
          (case get_job_or_404 u db of
             Inl e \<Rightarrow> (sv, Failed e)
           | Inr j \<Rightarrow>
               (case find_machine (jb_machine_id j) db of
                  None \<Rightarrow> (sv, Html 200 Machine_Not_Found)
                | Some m \<Rightarrow>
                    (case with_client (st_net st) m (web_tell_kill u) sv of
                       (sv', Inl e) \<Rightarrow> (sv', Failed e)
                     | (sv', Inr (Inl e)) \<Rightarrow> (sv', if agent_client_error e then Html 200 Kill_Failed else Failed internal_error)
                     | ((s', v'), Inr (Inr _)) \<Rightarrow>
                         ((session_commit (on_db (update_job u (\<lambda>j. j\<lparr>jb_status := Job_Killed, jb_ended_at := Some now\<rparr>)) s'), v'),
                          Html 200 Killed)))))"

section \<open>Dashboard\<close>

record dashboard_page =
  da_user :: user_row
  da_machines :: "machine_row list"
  da_flash :: "(string \<times> string) option"

definition dashboard ::
  "'k auth_libs \<Rightarrow> int \<Rightarrow> 'k option \<Rightarrow> string option \<Rightarrow> session \<Rightarrow> dashboard_page web_response" where
  "dashboard al now cookie flash s =
     (let db = current s in
      case web_current_user al now cookie db of
        Inl r \<Rightarrow> r
      | Inr u \<Rightarrow>
          Html 200 \<lparr>da_user = u,
                    da_machines = (if u_role u = ''admin'' then machines db
                                   else filter (\<lambda>m. bookmarked (u_id u) (m_id m) db) (machines db)),
                    da_flash = read_flash flash\<rparr>)"

text \<open>Whether the badge says reachable; the latency is left out.  No machine or no access is unreachable.\<close>

definition ping_badge ::
  "('k, 'c, 'l, 'w) station \<Rightarrow> int \<Rightarrow> 'k option \<Rightarrow> int \<Rightarrow> ('c, 'l, 'w) server \<Rightarrow> ('c, 'l, 'w) server \<times> bool web_response" where
  "ping_badge st now cookie mid sv =
     (let (s, v) = sv; db = current s; lib = ssh (st_net st) in
      case web_current_user (st_auth st) now cookie db of
        Inl r \<Rightarrow> (sv, r)
      | Inr u \<Rightarrow>
          (case find_machine mid db of
             None \<Rightarrow> (sv, Html 200 False)
           | Some m \<Rightarrow>
               if u_role u \<noteq> ''admin'' \<and> \<not> bookmarked (u_id u) mid db then (sv, Html 200 False)
               else case decrypt_key (st_net st) m of
                 Inl e \<Rightarrow> (sv, Failed internal_error)
               | Inr key \<Rightarrow>
                   (case connect lib (machine_key m) key (m_ssh_host_key m) (snd v) of
                      (w', Inl Import_Failed) \<Rightarrow> ((s, (fst v, w')), Failed internal_error)
                    | (w', Inl Ssh_Error) \<Rightarrow> ((s, (fst v, w')), Html 200 False)
                    | (w', Inr c) \<Rightarrow> ((s, (fst v, ssh_close lib c w')), Html 200 True))))"

end
