(* ===== verification/Web_Props.thy ===== *)
theory Web_Props
  imports Web_Admin Web_Machines Machines_Props
begin

text \<open>
  Correctness of the web interface: it changes what the JSON API changes, it never locks the last administrator
  out, its history shows accessible machines only, its forms give the declared types, and the loop a stale
  cookie causes.
\<close>

section \<open>The user of a request\<close>

text \<open>The cookie of the web and the header of the API decide alike.\<close>

definition web_refusal :: "http_error \<Rightarrow> 'p web_response" where
  "web_refusal e =
     (if e = internal_error then Failed internal_error
      else if he_status e = 403 then Failed (http_exception 403 ''Admin access required'') else to_login)"

lemma web_current_user_api [simp]:
  "web_current_user al now None db = Inl to_login"
  "web_current_user al now (Some t) db =
     (case current_user al now t db of Inr u \<Rightarrow> Inr u | Inl e \<Rightarrow> Inl (web_refusal e))"
  by (auto simp: web_current_user_def current_user_def credentials_exception_def internal_error_def web_refusal_def
      csl_exception_def http_exception_def split: sum.splits token_error.splits option.splits)

lemma web_require_admin_api [simp]:
  "web_require_admin al now None db = Inl to_login"
  "web_require_admin al now (Some t) db =
     (case require_admin al now t db of Inr u \<Rightarrow> Inr u | Inl e \<Rightarrow> Inl (web_refusal e))"
  by (auto simp: web_require_admin_def require_admin_def bindR_def web_refusal_def internal_error_def csl_exception_def
      http_exception_def split: sum.splits)

section \<open>The same changes as the JSON API\<close>

definition without_audit :: "database \<Rightarrow> database" where
  "without_audit db = db\<lparr>audit_rows := []\<rparr>"

lemma without_audit_add [simp]: "without_audit (add_audit_row now a tt ti r u d db) = without_audit db"
  by (simp add: without_audit_def add_audit_row_def)

text \<open>Two final states that agree but for the audit log, where the web added nothing.\<close>

definition silent_twin :: "database \<Rightarrow> session \<Rightarrow> session \<Rightarrow> bool" where
  "silent_twin db web api \<longleftrightarrow>
     without_audit (finish web) = without_audit (finish api) \<and> audit_rows (finish web) = audit_rows db"

lemma finish_begin [simp]: "finish (begin_session db) = db"
  by (simp add: finish_def)

lemma login_twin:
  "silent_twin db (fst (login_submit al now jti n p (begin_session db))) (fst (login al now jti n p (begin_session db)))"
  by (auto simp: silent_twin_def login_submit_def login_def Let_def finish_def store_refresh_token_def split: option.splits)

lemma revoke_audit [simp]: "revoke_jti lb jti db = Inr db' \<Longrightarrow> audit_rows db' = audit_rows db"
  by (auto simp: revoke_jti_def split: list.splits)

lemma logout_twin:
  "silent_twin db (fst (web_logout al now cookie (begin_session db))) (fst (logout al now cookie (begin_session db)))"
  by (auto simp: silent_twin_def web_logout_def logout_def Let_def finish_def split: option.splits sum.splits token_error.splits)

lemma create_script_twin:
  "silent_twin db
     (fst (admin_script_new_submit al lb now (Some t) n c m (begin_session db)))
     (fst (create_script_endpoint al lb now t n c (strip_or_none m) (begin_session db)))"
proof (cases "require_admin al now t db")
  case (Inr u)
  then show ?thesis
    by (auto simp: silent_twin_def admin_script_new_submit_def create_script_endpoint_def finish_def create_script_def Let_def
        split: sum.splits)
qed (simp add: silent_twin_def admin_script_new_submit_def create_script_endpoint_def)

lemma update_script_twin:
  "silent_twin db
     (fst (admin_script_edit_submit al lb now (Some t) n c m (begin_session db)))
     (fst (update_script_endpoint al lb now t n c (strip_or_none m) (begin_session db)))"
proof (cases "require_admin al now t db")
  case (Inr u)
  then show ?thesis
    by (auto simp: silent_twin_def admin_script_edit_submit_def update_script_endpoint_def finish_def update_script_def Let_def
        split: sum.splits)
qed (simp add: silent_twin_def admin_script_edit_submit_def update_script_endpoint_def)

lemma delete_script_twin:
  "silent_twin db
     (fst (admin_script_delete al now (Some t) n (begin_session db))) (fst (delete_script_endpoint al now t n (begin_session db)))"
proof (cases "require_admin al now t db")
  case (Inr u)
  then show ?thesis
    by (auto simp: silent_twin_def admin_script_delete_def delete_script_endpoint_def finish_def delete_script_def
        split: sum.splits)
qed (simp add: silent_twin_def admin_script_delete_def delete_script_endpoint_def)

lemma delete_machine_twin:
  "silent_twin db
     (fst (admin_machine_delete al now (Some t) mid (begin_session db))) (fst (delete_machine al now t mid (begin_session db)))"
proof (cases "require_admin al now t db")
  case (Inr u)
  then show ?thesis
    by (auto simp: silent_twin_def admin_machine_delete_def delete_machine_def finish_def get_machine_or_404_def Let_def
        split: option.splits)
qed (simp add: silent_twin_def admin_machine_delete_def delete_machine_def)


section \<open>There is always an administrator\<close>

definition has_admin :: "database \<Rightarrow> bool" where
  "has_admin db = list_ex (\<lambda>u. u_role u = ''admin'' \<and> \<not> u_disabled u) (users db)"

datatype 'k user_act = Toggle_User int "'k option" int | Set_Role int "'k option" int string

fun user_step :: "'k auth_libs \<Rightarrow> 'k user_act \<Rightarrow> database \<Rightarrow> database" where
  "user_step al (Toggle_User now cookie uid) db = finish (fst (admin_user_toggle al now cookie uid (begin_session db)))"
| "user_step al (Set_Role now cookie uid role) db = finish (fst (admin_user_role al now cookie uid role (begin_session db)))"

lemma find_user_Some: "find_user i db = Some u \<Longrightarrow> u \<in> set (users db) \<and> u_id u = i"
  by (auto simp: find_user_def find_Some_iff)

lemma require_admin_Inr:
  assumes "require_admin al now t db = Inr u"
  shows "u \<in> set (users db)" "u_role u = ''admin''" "\<not> u_disabled u"
  using assms by (auto simp: require_admin_def current_user_def bindR_eq_Inr dest!: find_user_Some
      split: option.splits sum.splits token_error.splits if_splits)

lemma set_user_keeps: "u \<in> set (users db) \<Longrightarrow> u_id u \<noteq> i \<Longrightarrow> u \<in> set (users (set_user i f db))"
  by (auto simp: set_user_def rev_image_eqI)

text \<open>The one who acts is an enabled administrator, and stays one.\<close>

lemma toggle_admin:
  assumes "has_admin db"
  shows "has_admin (finish (fst (admin_user_toggle al now (Some t) uid (begin_session db))))"
proof (cases "require_admin al now t db")
  case (Inr u)
  note u = require_admin_Inr [OF Inr]
  have "u \<in> set (users (set_user uid f db))" if "u_id u \<noteq> uid" for f
    using set_user_keeps [OF u(1) that] .
  with u Inr assms show ?thesis
    by (auto simp: admin_user_toggle_def finish_def has_admin_def list_ex_iff dest!: find_user_Some split: option.split)
qed (use assms in \<open>simp add: admin_user_toggle_def\<close>)

lemma has_adminI: "u \<in> set (users db) \<Longrightarrow> u_role u = ''admin'' \<Longrightarrow> \<not> u_disabled u \<Longrightarrow> has_admin db"
  by (auto simp: has_admin_def list_ex_iff)

lemma set_user_member: "u \<in> set (users db) \<Longrightarrow> (if u_id u = i then f u else u) \<in> set (users (set_user i f db))"
  by (simp add: set_user_def rev_image_eqI)

lemma role_admin:
  assumes "has_admin db"
  shows "has_admin (finish (fst (admin_user_role al now (Some t) uid role (begin_session db))))"
proof (cases "require_admin al now t db")
  case (Inr u)
  note u = require_admin_Inr [OF Inr]
  have "has_admin (set_user uid (\<lambda>x. x\<lparr>u_role := role\<rparr>) db)" if "u_id u = uid \<longrightarrow> role = ''admin''"
    by (rule has_adminI [OF set_user_member [OF u(1)]]) (use that u in simp_all)
  with Inr assms show ?thesis
    by (auto simp: admin_user_role_def finish_def dest!: find_user_Some split: option.split)
qed (use assms in \<open>simp add: admin_user_role_def\<close>)

lemma user_step_admin: "has_admin db \<Longrightarrow> has_admin (user_step al a db)"
proof (induction al a db rule: user_step.induct)
  case (1 al now cookie uid db)
  then show ?case by (cases cookie) (simp_all add: toggle_admin, simp add: admin_user_toggle_def)
next
  case (2 al now cookie uid role db)
  then show ?case by (cases cookie) (simp_all add: role_admin, simp add: admin_user_role_def)
qed

interpretation user_admin: act_system "user_step al" has_admin for al
  by unfold_locales (rule user_step_admin)

text \<open>
  The administrators can never lock themselves out: whatever sequence of enabling, disabling and role
  changes is sent through the web interface, by whomever, an enabled administrator remains.
\<close>

theorem administrator_remains:
  assumes "has_admin db"
  shows "has_admin (run (user_step al) as db)"
  using assms by (rule user_admin.run_inv)

theorem administrator_remains_witness:
  "has_admin (run (user_step example_auth_libs)
     [Toggle_User 5 (Some example_token) 1, Set_Role 6 (Some example_token) 1 ''user'', Toggle_User 7 None 1] one_user)"
  by (rule administrator_remains) (simp add: has_admin_def one_user_def example_user_def)

section \<open>The job history\<close>

text \<open>The jobs a page of the history shows.\<close>

definition shown_jobs :: "jobs_page web_response \<Rightarrow> job_row list" where
  "shown_jobs r = (case r of Html st p \<Rightarrow> map jl_job (jp_jobs p) | _ \<Rightarrow> [])"

lemma shown_jobs_page:
  "shown_jobs (jobs_list al now (Some t) flash None sn st (int i + 1) s) =
     (case current_user al now t (current s) of
        Inl e \<Rightarrow> [] | Inr u \<Rightarrow> page JOB_PAGE_SIZE i (job_selection u None sn st (current s)))"
proof -
  have "nat (max 1 (int i + 1)) = Suc i" by simp
  then show ?thesis
    by (simp add: shown_jobs_def jobs_list_def Let_def page_def web_refusal_def to_login_def comp_def split: sum.split)
qed

lemma find_SomeD: "find P xs = Some x \<Longrightarrow> x \<in> set xs \<and> P x"
  by (auto simp: find_Some_iff)

lemma accessible_iff:
  assumes "current_user al now t db = Inr u"
  shows "\<not> isl (accessible_machine al now t i db)
    \<longleftrightarrow> i \<in> m_id ` set (machines db) \<and> (u_role u = ''admin'' \<or> bookmarked (u_id u) i db)"
proof (cases "find_machine i db")
  case None
  then have "i \<notin> m_id ` set (machines db)" by (auto simp: find_machine_def find_None_iff)
  with None assms show ?thesis by (simp add: accessible_machine_def get_machine_or_404_def bindR_def)
next
  case (Some m)
  then have "i \<in> m_id ` set (machines db)" by (auto simp: find_machine_def dest: find_SomeD)
  with Some assms show ?thesis by (simp add: accessible_machine_def get_machine_or_404_def assert_access_def bindR_def)
qed

lemma user_machine_ids:
  "i \<in> set (map m_id (user_machine_list u db))
    \<longleftrightarrow> i \<in> m_id ` set (machines db) \<and> (u_role u = ''admin'' \<or> bookmarked (u_id u) i db)"
  by (auto simp: user_machine_list_def)

lemma job_selection_filter:
  assumes "current_user al now t db = Inr u"
  shows "mset (job_selection u None None None db) =
    mset (filter (\<lambda>j. \<not> isl (accessible_machine al now t (jb_machine_id j) db)) (job_rows db))"
  unfolding accessible_iff [OF assms] job_selection_def user_machine_ids by (simp add: given_def)

text \<open>
  The pages of the job history, one after another and without filters, are the jobs of the machines whose
  data the JSON API gives the same user, every one of them once and the latest start first; a visitor
  without a valid login sees none.
\<close>

theorem job_history_complete:
  "\<exists>jobs. concat (map (\<lambda>i. shown_jobs (jobs_list al now (Some t) flash None None None (int i + 1) s))
       [0..<Suc (length (job_rows (current s)) div JOB_PAGE_SIZE)]) = jobs
   \<and> mset jobs = mset (filter (\<lambda>j. \<not> isl (accessible_machine al now t (jb_machine_id j) (current s))) (job_rows (current s)))
   \<and> sorted (map (\<lambda>j. - jb_started_at j) jobs)"
proof (cases "current_user al now t (current s)")
  case (Inl e)
  then have "concat (map (\<lambda>i. shown_jobs (jobs_list al now (Some t) flash None None None (int i + 1) s))
       [0..<Suc (length (job_rows (current s)) div JOB_PAGE_SIZE)]) = []"
    by (simp add: shown_jobs_page)
  with Inl show ?thesis by (intro exI [of _ "[]"]) (simp add: accessible_machine_def bindR_def del: upt_Suc)
next
  case (Inr u)
  let ?sel = "job_selection u None None None (current s)"
  let ?n = "length (job_rows (current s))"
  have "length ?sel \<le> ?n"
    by (simp add: job_selection_def)
  also have "?n \<le> Suc (?n div JOB_PAGE_SIZE) * JOB_PAGE_SIZE" by (simp add: JOB_PAGE_SIZE_def)
  finally have "concat (map (\<lambda>i. page JOB_PAGE_SIZE i ?sel) [0..<Suc (?n div JOB_PAGE_SIZE)]) = ?sel"
    by (simp only: pages_take take_all)
  moreover have "sorted (map (\<lambda>j. - jb_started_at j) ?sel)" by (simp add: job_selection_def)
  ultimately show ?thesis using Inr by (simp add: shown_jobs_page job_selection_filter [OF Inr] del: upt_Suc)
qed

section \<open>The parameters of a form\<close>

lemma form_params_map:
  assumes "form_params str_of form ds acc = Some ps" "distinct (map p_name ds)"
  shows "map_of ps k = (case find (\<lambda>d. p_name d = k) ds of None \<Rightarrow> map_of acc k | Some d \<Rightarrow> form_param str_of form d)
    \<and> fst ` set ps = fst ` set acc \<union> p_name ` set ds"
  using assms
proof (induction ds arbitrary: acc)
  case (Cons d ds)
  then obtain v where v: "form_param str_of form d = Some v" and
    ps: "form_params str_of form ds (AList.update (p_name d) v acc) = Some ps"
    by (auto split: option.splits)
  from Cons.IH [OF ps] Cons.prems(2) v show ?case
    by (auto simp: update_conv' dom_update find_None_iff split: option.split dest!: find_SomeD)
qed simp

lemma form_param_typed:
  "form_param str_of form d = Some v \<Longrightarrow> e \<in> set (validate_value d v)
     \<Longrightarrow> e \<in> {Not_A_Choice (p_name d), Below_Min (p_name d), Above_Max (p_name d)}"
  by (cases "p_type d") (auto simp: form_param_def Let_def validate_value_def check_bounds_def split: option.splits if_splits)

text \<open>With exactly the declared parameters present, every objection is one to a value.\<close>

lemma complete_param_errors:
  assumes "e \<in> set (param_errors m ps)" "fst ` set ps = p_name ` set (m_params m)"
  obtains d v where "d \<in> set (m_params m)" "map_of ps (p_name d) = Some v" "e \<in> set (validate_value d v)"
proof -
  have names: "k \<in> p_name ` set (m_params m)" if "(k, v) \<in> set ps" for k v
    using assms(2) that by (metis fst_conv image_eqI)
  have "concat (map (\<lambda>(key, _). if key \<in> set (map p_name (m_params m)) then [] else [Unknown_Param key]) ps) = []"
    using names by (auto split: if_splits)
  then obtain d where d: "d \<in> set (m_params m)" "e \<in> set (case map_of ps (p_name d) of
      None \<Rightarrow> if p_required d then [Missing_Param (p_name d)] else [] | Some v \<Rightarrow> validate_value d v)"
    using assms(1) unfolding param_errors_def by auto
  have "map_of ps (p_name d) \<noteq> None" using d(1) assms(2) by (simp add: map_of_eq_None_iff)
  with d that show thesis by auto
qed

text \<open>
  C38. The parameters the run dialog makes of any form, whatever was typed or left out, are complete and of the
  types the script's metadata declares: the agent, validating against the same metadata, can object to a
  choice that is not offered and to a bound, and to nothing else.
\<close>

theorem form_gives_declared_types:
  assumes "parse_meta_yaml lb y = Inr m" "form_params str_of form (m_params m) [] = Some ps"
  shows "set (param_errors m ps) \<subseteq>
    (\<Union>d \<in> set (m_params m). {Not_A_Choice (p_name d), Below_Min (p_name d), Above_Max (p_name d)})"
proof
  fix e assume e: "e \<in> set (param_errors m ps)"
  have d: "distinct (map p_name (m_params m))" using parse_meta_yaml_wf [OF assms(1)] by (simp add: meta_wf_def)
  note fm = form_params_map [OF assms(2) d]
  have names: "fst ` set ps = p_name ` set (m_params m)" using fm by simp
  have lookup: "map_of ps (p_name x) = form_param str_of form x" if "x \<in> set (m_params m)" for x
    using fm [of "p_name x"] that d
    by (auto split: option.splits simp: find_None_iff dest!: find_SomeD) (metis distinct_map inj_on_eq_iff)
  obtain x v where x: "x \<in> set (m_params m)" "map_of ps (p_name x) = Some v" "e \<in> set (validate_value x v)"
    using complete_param_errors [OF e names] .
  have "form_param str_of form x = Some v" using lookup [OF x(1)] x(2) by (rule trans [OF sym])
  then have "e \<in> {Not_A_Choice (p_name x), Below_Min (p_name x), Above_Max (p_name x)}"
    using x(3) by (rule form_param_typed)
  with x(1) show "e \<in> (\<Union>d \<in> set (m_params m). {Not_A_Choice (p_name d), Below_Min (p_name d), Above_Max (p_name d)})"
    by (rule UN_I)
qed

theorem form_gives_declared_types_witness:
  "\<exists>ps. form_params (\<lambda>y. []) [(''size'', Some ''9'')] [example_descriptor] [] = Some ps
    \<and> set (param_errors \<lparr>m_description = [], m_persistent = False, m_tags = [], m_params = [example_descriptor]\<rparr> ps)
        \<subseteq> {Not_A_Choice ''size'', Below_Min ''size'', Above_Max ''size''}"
proof -
  let ?m = "\<lparr>m_description = [], m_persistent = False, m_tags = [], m_params = [example_descriptor]\<rparr>"
  have "py_int ''9'' = Some 9" by code_simp
  then have "form_param (\<lambda>y. []) [(''size'', Some ''9'')] example_descriptor = Some (PInt 9)"
    by (simp add: form_param_def example_descriptor_def form_value_def number_field_def)
  then have ps: "form_params (\<lambda>y. []) [(''size'', Some ''9'')] (m_params ?m) [] = Some [(''size'', PInt 9)]"
    by (simp add: example_descriptor_def)
  have "p_name example_descriptor = ''size''" by (simp add: example_descriptor_def)
  with form_gives_declared_types [OF parse_example ps] ps show ?thesis by simp
qed

text \<open>A choice parameter whose choices are all numbers or booleans cannot be satisfied by a form.\<close>

lemma text_is_no_number:
  assumes "p_type d = T_choice" "p_choices d = Some cs" "list_all (\<lambda>c. \<forall>t. c \<noteq> PStr t) cs"
    "form_param str_of form d = Some v"
  shows "validate_value d v = [Not_A_Choice (p_name d)]"
proof -
  obtain t where "v = PStr t" using assms(1,4) by (auto simp: form_param_def Let_def)
  moreover have "\<not> py_eq (PStr t) c" if "c \<in> set cs" for c
    using assms(3) that by (cases c) (auto simp: list_all_iff)
  ultimately show ?thesis using assms(1,2) by (auto simp: validate_value_def list_ex_iff)
qed

section \<open>A cookie that has become invalid\<close>

text \<open>
  A browser follows redirects and keeps its cookie (whose value is not empty).  \<open>redirects n\<close> says that it
  arrives at a page after at most \<open>n\<close> of them.
\<close>

definition location :: "'p web_response \<Rightarrow> string option" where
  "location r = (case r of Redirect st url fl \<Rightarrow> Some url | _ \<Rightarrow> None)"

definition visit :: "'k auth_libs \<Rightarrow> int \<Rightarrow> 'k option \<Rightarrow> session \<Rightarrow> string \<Rightarrow> string option" where
  "visit al now cookie s url =
     (if url = ''/'' then location (dashboard al now cookie None s)
      else if url = ''/login'' then location (login_page cookie None) else None)"

fun arrives :: "(string \<Rightarrow> string option) \<Rightarrow> nat \<Rightarrow> string \<Rightarrow> bool" where
  "arrives next 0 url = (next url = None)"
| "arrives next (Suc n) url = (case next url of None \<Rightarrow> True | Some u \<Rightarrow> arrives next n u)"

lemma arrives_loop:
  assumes "next a = Some b" "next b = Some a"
  shows "\<not> arrives next n a \<and> \<not> arrives next n b"
  using assms by (induction n) simp_all

text \<open>The user behind a token that is signed and not expired.\<close>

definition token_user :: "'k auth_libs \<Rightarrow> int \<Rightarrow> 'k \<Rightarrow> database \<Rightarrow> user_row option" where
  "token_user al now t db =
     (case decode_access_token al now t of Inl e \<Rightarrow> None | Inr (i, r) \<Rightarrow> find_user i db)"

lemma dashboard_location:
  "location (dashboard al now (Some t) None s) =
     (if decode_access_token al now t = Inl Claim_Error then None
      else case token_user al now t (current s) of
             None \<Rightarrow> Some ''/login'' | Some u \<Rightarrow> if u_disabled u then Some ''/login'' else None)"
  unfolding dashboard_def web_current_user_def token_user_def
  by (auto simp: Let_def location_def to_login_def split: sum.split token_error.split option.split)

lemma visit_front:
  "visit al now (Some t) s ''/'' =
     (if decode_access_token al now t = Inl Claim_Error
        \<or> (\<exists>u. token_user al now t (current s) = Some u \<and> u_disabled u = False)
      then None else Some ''/login'')"
  by (cases "token_user al now t (current s)") (simp_all add: visit_def dashboard_location)

text \<open>
  The front page is reached after at most one redirect without a cookie and with that of an enabled user;
  with any other well-formed cookie it is never reached: the dashboard sends the browser to the login page,
  and the login page, which only looks whether there is a cookie, sends it back.
\<close>

theorem stale_cookie_never_arrives:
  "arrives (visit al now None s) 1 ''/''
   \<and> (\<exists>n. arrives (visit al now (Some t) s) n ''/'') =
       (decode_access_token al now t = Inl Claim_Error
        \<or> (\<exists>u. token_user al now t (current s) = Some u \<and> u_disabled u = False))"
proof
  show "arrives (visit al now None s) 1 ''/''"
    by (simp add: visit_def dashboard_def web_current_user_def login_page_def location_def to_login_def Let_def)
  have login: "visit al now (Some t) s ''/login'' = Some ''/''"
    by (simp add: visit_def login_page_def location_def)
  show "(\<exists>n. arrives (visit al now (Some t) s) n ''/'') =
       (decode_access_token al now t = Inl Claim_Error
        \<or> (\<exists>u. token_user al now t (current s) = Some u \<and> u_disabled u = False))"
    using arrives_loop [of "visit al now (Some t) s", OF _ login] visit_front [of al now t s]
    by (metis arrives.simps(1))
qed

end
