(* ===== verification/Agent_Cli.thy ===== *)
theory Agent_Cli
  imports Agent_Config Approvals_Props "HOL-Library.List_Lexorder" "HOL-Library.Char_ord"
begin

text \<open>
  \<open>agent/cli/cmd_approvals.py\<close> and \<open>agent/cli/cmd_policy.py\<close>: the owner's commands.  A command is a function of
  the disk or of the text of \<open>config.yaml\<close>; what it prints and how it ends is an \<open>outcome\<close>.  Every command
  loads the configuration and builds a manager of its own.
\<close>

section \<open>What a command prints\<close>

text \<open>
  The text of a unified diff is not computed: \<open>Unified_Diff a b\<close> stands for it.  An exception that is not
  handled ends the process with its traceback.
\<close>

datatype printed = Print string | Unified_Diff "string list" "string list" | Help

datatype cli_end = Returns | Exits int | Raises string

record cli_outcome =
  o_stdout :: "printed list"
  o_stderr :: string
  o_end :: cli_end

definition line :: "string \<Rightarrow> string" where
  "line t = t @ [newline]"

definition says :: "string \<Rightarrow> cli_outcome" where
  "says t = \<lparr>o_stdout = [Print (line t)], o_stderr = [], o_end = Returns\<rparr>"

definition fails :: "string \<Rightarrow> cli_outcome" where
  "fails t = \<lparr>o_stdout = [], o_stderr = line t, o_end = Exits 1\<rparr>"

definition raises :: "string \<Rightarrow> cli_outcome" where
  "raises e = \<lparr>o_stdout = [], o_stderr = [], o_end = Raises e\<rparr>"

definition single_quoted :: "string \<Rightarrow> string" where
  "single_quoted t = [CHR 0x27] @ t @ [CHR 0x27]"

text \<open>The characters outside ASCII, in UTF-8.\<close>

definition em_dash :: string where
  "em_dash = [CHR 0xE2, CHR 0x80, CHR 0x94]"

definition check_mark :: string where
  "check_mark = [CHR 0xE2, CHR 0x9C, CHR 0x93]"

definition ballot_x :: string where
  "ballot_x = [CHR 0xE2, CHR 0x9C, CHR 0x97]"

text \<open>\<open>str(exc)\<close> of an \<open>ApprovalError\<close>; the path of the pending file is that of the configuration.\<close>

fun approval_error_text :: "agent_section \<Rightarrow> approval_error \<Rightarrow> string" where
  "approval_error_text a (Err_Rejected n) =
     single_quoted n @ '' is rejected; run '' @ single_quoted (''csl-agent approvals clear '' @ n) @ '' first''"
| "approval_error_text a (Err_Not_Found n) = single_quoted n @ '' not found; use stage to register it first''"
| "approval_error_text a (Err_Cannot_Approve n s) =
     ''cannot approve '' @ single_quoted n @ '': current state is '' @ single_quoted (approval_state_text s)
       @ '' (expected pending or update_pending)''"
| "approval_error_text a (Err_Pending_File_Missing n) =
     ''pending file for '' @ single_quoted n @ '' not found at '' @ path_join (pending_dir a) n"
| "approval_error_text a (Err_Cannot_Reject n s) =
     ''cannot reject '' @ single_quoted n @ '': current state is '' @ single_quoted (approval_state_text s)
       @ '' (expected pending or update_pending)''"

section \<open>\<open>csl-agent approvals\<close>\<close>

definition load_approvals :: "config_libs \<Rightarrow> 't codec \<Rightarrow> config_file \<Rightarrow> 't disk \<Rightarrow> config_error + 't mgr \<times> agent_config" where
  "load_approvals lb cd f w =
     bindR (load_config lb f) (\<lambda>cfg. Inr (new_manager cd (auto_approve_list cfg) w, cfg))"

definition state_badge :: "string \<Rightarrow> string" where
  "state_badge s =
     (case map_of
        [(''absent'', ''absent''),
         (''pending'', ''PENDING (awaiting approval)''),
         (''approved'', ''approved''),
         (''update_pending'', ''UPDATE PENDING (new version staged)''),
         (''rejected'', ''REJECTED'')] s of
        None \<Rightarrow> s | Some t \<Rightarrow> t)"

definition pad_right :: "nat \<Rightarrow> string \<Rightarrow> string" where
  "pad_right n t = t @ replicate (n - length t) CHR '' ''"

definition truthy_md5 :: "string \<Rightarrow> string option \<Rightarrow> string" where
  "truthy_md5 label m =
     (case m of None \<Rightarrow> [] | Some t \<Rightarrow> if t = [] then [] else ''  '' @ label @ ''='' @ take 8 t)"

definition list_row :: "nat \<Rightarrow> script_descriptor \<Rightarrow> string" where
  "list_row col d =
     pad_right col (d_name d) @ ''  '' @ state_badge (approval_state_text (d_state d))
       @ truthy_md5 ''approved'' (d_approved_md5 d) @ truthy_md5 ''pending'' (d_pending_md5 d)"

text \<open>A command of the approvals group, once its manager is loaded: the disk it leaves and its outcome.\<close>

definition cmd_approvals_list :: "'t codec \<Rightarrow> 't mgr \<Rightarrow> cli_outcome" where
  "cmd_approvals_list cd p =
     (let ds = snd (list_all_scripts cd p) in
      if ds = [] then says ''No scripts registered on this agent.''
      else let col = Max (set (map (length \<circ> d_name) ds))
           in \<lparr>o_stdout = map (Print \<circ> line)
                 ([pad_right col ''SCRIPT'' @ ''  STATE'', replicate (col + 2 + 30) CHR ''-'']
                  @ map (list_row col) (sort_key d_name ds)),
               o_stderr = [], o_end = Returns\<rparr>)"

text \<open>\<open>read_text\<close>: every line end becomes a newline.\<close>

fun universal_newlines :: "string \<Rightarrow> string" where
  "universal_newlines [] = []"
| "universal_newlines [c] = [if c = carriage_return then newline else c]"
| "universal_newlines (c # d # s) =
     (if c = carriage_return then newline # (if d = newline then universal_newlines s else universal_newlines (d # s))
      else c # universal_newlines (d # s))"

definition cmd_approvals_show :: "'t codec \<Rightarrow> agent_config \<Rightarrow> string \<Rightarrow> 't mgr \<Rightarrow> cli_outcome" where
  "cmd_approvals_show cd cfg name p =
     (let state = approval_state_text (d_state (snd (get_state cd name p)))
      in if state \<notin> {''pending'', ''update_pending''} then
           fails (single_quoted name @ '' is '' @ state_badge state @ '' '' @ em_dash @ '' nothing pending to show.'')
         else case disk_files (snd p) (Pending_Dir, name) of
           None \<Rightarrow> fails (''Pending file not found: '' @ path_join (pending_dir (agent_sec cfg)) name)
         | Some t \<Rightarrow>
             \<lparr>o_stdout = [Print (line (''=== Pending content of '' @ single_quoted name @ '' ==='')),
                          Print (universal_newlines t)],
              o_stderr = [], o_end = Returns\<rparr>)"

text \<open>\<open>splitlines(keepends=True)\<close> of a text whose line ends are newlines already.\<close>

fun keep_lines :: "string \<Rightarrow> string \<Rightarrow> string list" where
  "keep_lines acc [] = (if acc = [] then [] else [rev acc])"
| "keep_lines acc (c # s) =
     (if (10 \<le> ccode c \<and> ccode c \<le> 12) \<or> (28 \<le> ccode c \<and> ccode c \<le> 30) then rev (c # acc) # keep_lines [] s
      else keep_lines (c # acc) s)"

definition cmd_approvals_diff :: "'t codec \<Rightarrow> string \<Rightarrow> 't mgr \<Rightarrow> cli_outcome" where
  "cmd_approvals_diff cd name p =
     (let state = approval_state_text (d_state (snd (get_state cd name p)));
          fs = disk_files (snd p)
      in if state \<noteq> ''update_pending'' then
           fails (single_quoted name @ '' is '' @ state_badge state @ '' '' @ em_dash
             @ '' diff only available for update_pending scripts.'')
         else case (fs (Scripts_Dir, name), fs (Pending_Dir, name)) of
           (Some a, Some b) \<Rightarrow>
             let al = keep_lines [] (universal_newlines a); bl = keep_lines [] (universal_newlines b)
             in if al = bl then says ''(files are identical)''
                else \<lparr>o_stdout = [Unified_Diff al bl], o_stderr = [], o_end = Returns\<rparr>
         | _ \<Rightarrow> raises ''FileNotFoundError'')"

definition cmd_approvals_approve ::
  "'t codec \<Rightarrow> agent_config \<Rightarrow> string \<Rightarrow> 't mgr \<Rightarrow> 't disk \<times> cli_outcome" where
  "cmd_approvals_approve cd cfg name p =
     (case approve cd name p of
        (q, Inl e) \<Rightarrow> (snd q, fails (''Error: '' @ approval_error_text (agent_sec cfg) e))
      | (q, Inr _) \<Rightarrow> (snd q, says (check_mark @ '' '' @ single_quoted name @ '' approved.'')))"

definition cmd_approvals_reject ::
  "'t codec \<Rightarrow> agent_config \<Rightarrow> string \<Rightarrow> 't mgr \<Rightarrow> 't disk \<times> cli_outcome" where
  "cmd_approvals_reject cd cfg name p =
     (case reject cd name p of
        (q, Inl e) \<Rightarrow> (snd q, fails (''Error: '' @ approval_error_text (agent_sec cfg) e))
      | (q, Inr _) \<Rightarrow> (snd q, says (ballot_x @ '' '' @ single_quoted name @ '' rejected.'')))"

definition cmd_approvals_clear ::
  "'t codec \<Rightarrow> agent_config \<Rightarrow> string \<Rightarrow> 't mgr \<Rightarrow> 't disk \<times> cli_outcome" where
  "cmd_approvals_clear cd cfg name p =
     (case clear cd name p of
        (q, Inl e) \<Rightarrow> (snd q, fails (''Error: '' @ approval_error_text (agent_sec cfg) e))
      | (q, Inr _) \<Rightarrow> (snd q, says (single_quoted name @ '' removed (state reset to absent).'')))"

section \<open>Purging\<close>

text \<open>Whether the backing file of an entry exists, which is asked of the files as they are at its turn.\<close>

definition has_backing_file :: "files \<Rightarrow> string \<Rightarrow> string \<Rightarrow> bool" where
  "has_backing_file fs state name =
     (if state = ''approved'' then exists_file fs Scripts_Dir name
      else if state \<in> {''pending'', ''update_pending''} then exists_file fs Pending_Dir name
      else True)"

record purge_counts =
  pu_out :: "printed list"
  pu_err :: string
  pu_removed :: nat
  pu_skipped :: nat

fun purge_loop ::
  "'t codec \<Rightarrow> agent_section \<Rightarrow> bool \<Rightarrow> script_descriptor list \<Rightarrow> 't mgr \<Rightarrow> purge_counts \<Rightarrow> 't mgr \<times> purge_counts" where
  "purge_loop cd a dry [] p k = (p, k)"
| "purge_loop cd a dry (d # ds) p k =
     (let name = d_name d; state = approval_state_text (d_state d)
      in if has_backing_file (disk_files (snd p)) state name then
           purge_loop cd a dry ds p (k\<lparr>pu_skipped := Suc (pu_skipped k)\<rparr>)
         else if dry then
           purge_loop cd a dry ds p
             (k\<lparr>pu_out := pu_out k @ [Print (line (''  would remove: '' @ name @ '' ('' @ state @ '')''))]\<rparr>)
         else case clear cd name p of
           (q, Inr _) \<Rightarrow> purge_loop cd a dry ds q (k\<lparr>pu_removed := Suc (pu_removed k)\<rparr>)
         | (q, Inl e) \<Rightarrow>
             purge_loop cd a dry ds q
               (k\<lparr>pu_err := pu_err k @ line (''  warning: could not clear '' @ py_repr name @ '': '' @ approval_error_text a e)\<rparr>))"

definition cmd_approvals_purge ::
  "'t codec \<Rightarrow> agent_config \<Rightarrow> bool \<Rightarrow> 't mgr \<Rightarrow> 't disk \<times> cli_outcome" where
  "cmd_approvals_purge cd cfg dry p =
     (let (p', ds) = list_all_scripts cd p;
          (q, k) = purge_loop cd (agent_sec cfg) dry ds p' \<lparr>pu_out = [], pu_err = [], pu_removed = 0, pu_skipped = 0\<rparr>;
          summary = (if dry then ''Dry run: '' @ nat_str (pu_skipped k) @ '' entries kept, would remove orphaned entries above.''
                     else ''Purged '' @ nat_str (pu_removed k) @ '' orphaned entries. '' @ nat_str (pu_skipped k) @ '' entries kept.'')
      in (snd q, \<lparr>o_stdout = pu_out k @ [Print (line summary)], o_stderr = pu_err k, o_end = Returns\<rparr>))"

section \<open>Dispatch\<close>

datatype approvals_cmd =
    No_Approvals_Cmd | A_List | A_Show string | A_Diff string | A_Approve string | A_Reject string | A_Clear string
  | A_Purge bool

fun run_approvals_cmd :: "'t codec \<Rightarrow> agent_config \<Rightarrow> approvals_cmd \<Rightarrow> 't mgr \<Rightarrow> 't disk \<times> cli_outcome" where
  "run_approvals_cmd cd cfg No_Approvals_Cmd p = (snd p, \<lparr>o_stdout = [Help], o_stderr = [], o_end = Exits 1\<rparr>)"
| "run_approvals_cmd cd cfg A_List p = (snd p, cmd_approvals_list cd p)"
| "run_approvals_cmd cd cfg (A_Show n) p = (snd p, cmd_approvals_show cd cfg n p)"
| "run_approvals_cmd cd cfg (A_Diff n) p = (snd p, cmd_approvals_diff cd n p)"
| "run_approvals_cmd cd cfg (A_Approve n) p = cmd_approvals_approve cd cfg n p"
| "run_approvals_cmd cd cfg (A_Reject n) p = cmd_approvals_reject cd cfg n p"
| "run_approvals_cmd cd cfg (A_Clear n) p = cmd_approvals_clear cd cfg n p"
| "run_approvals_cmd cd cfg (A_Purge dry) p = cmd_approvals_purge cd cfg dry p"

text \<open>Without a subcommand the help is printed before anything is loaded.\<close>

definition dispatch_approvals ::
  "config_libs \<Rightarrow> 't codec \<Rightarrow> config_file \<Rightarrow> approvals_cmd \<Rightarrow> 't disk \<Rightarrow> 't disk \<times> cli_outcome" where
  "dispatch_approvals lb cd f c w =
     (if c = No_Approvals_Cmd then (w, \<lparr>o_stdout = [Help], o_stderr = [], o_end = Exits 1\<rparr>)
      else case load_approvals lb cd f w of
        Inl e \<Rightarrow> (w, raises ''ConfigError'')
      | Inr (p, cfg) \<Rightarrow> run_approvals_cmd cd cfg c p)"

section \<open>\<open>csl-agent policy\<close>\<close>

definition cmd_policy_show :: "config_libs \<Rightarrow> config_file \<Rightarrow> cli_outcome" where
  "cmd_policy_show lb f =
     (case load_config lb f of
        Inl e \<Rightarrow> raises ''ConfigError''
      | Inr cfg \<Rightarrow>
          (let names = auto_approve_list cfg in
           if names = [] then says ''Auto-approve list is empty. All scripts require manual approval.''
           else \<lparr>o_stdout = map (Print \<circ> line) (''Scripts on the auto-approve list:'' # map (\<lambda>n. ''  '' @ n) (sort names)),
                 o_stderr = [], o_end = Returns\<rparr>))"

text \<open>
  The configuration as it is written back: \<open>auto_approve\<close> of the mapping \<open>approval_policy\<close>, which is made if it
  is missing.  Any other value there, a null included, raises (\<open>None\<close>).
\<close>

definition set_auto_approve :: "string list \<Rightarrow> (string \<times> yaml) list \<Rightarrow> (string \<times> yaml) list option" where
  "set_auto_approve names kvs =
     (case (case map_of kvs ''approval_policy'' of None \<Rightarrow> YMap [] | Some v \<Rightarrow> v) of
        YMap policy \<Rightarrow>
          Some (AList.update ''approval_policy'' (YMap (AList.update ''auto_approve'' (YList (map YStr names)) policy)) kvs)
      | _ \<Rightarrow> None)"

definition write_policy ::
  "(yaml \<Rightarrow> string) \<Rightarrow> config_libs \<Rightarrow> string list \<Rightarrow> string \<Rightarrow> config_file \<Rightarrow> config_file \<times> cli_outcome" where
  "write_policy dump_yaml lb names message f =
     (case f of
        Config_Text t \<Rightarrow>
          (let kvs = (case c_safe_load lb t of Some (YMap kvs) \<Rightarrow> kvs | _ \<Rightarrow> []) in
           case set_auto_approve names kvs of
             None \<Rightarrow> (f, raises ''TypeError'')
           | Some kvs' \<Rightarrow> (Config_Text (dump_yaml (YMap kvs')), says message))
      | _ \<Rightarrow> (f, raises ''FileNotFoundError''))"

definition policy_set_entry ::
  "(yaml \<Rightarrow> string) \<Rightarrow> config_libs \<Rightarrow> string \<Rightarrow> bool \<Rightarrow> config_file \<Rightarrow> config_file \<times> cli_outcome" where
  "policy_set_entry dump_yaml lb name add f =
     (case load_config lb f of
        Inl e \<Rightarrow> (f, raises ''ConfigError'')
      | Inr cfg \<Rightarrow>
          (let names = auto_approve_list cfg; q = single_quoted name in
           if add then
             (if name \<in> set names then (f, says (q @ '' is already on the auto-approve list.''))
              else write_policy dump_yaml lb (names @ [name]) (q @ '' added to the auto-approve list.'') f)
           else
             (if name \<notin> set names then (f, says (q @ '' is not on the auto-approve list.''))
              else write_policy dump_yaml lb (remove1 name names) (q @ '' removed from the auto-approve list.'') f)))"

datatype policy_cmd = No_Policy_Cmd | P_Show | P_Auto_Approve string | P_Manual string

fun dispatch_policy ::
  "(yaml \<Rightarrow> string) \<Rightarrow> config_libs \<Rightarrow> policy_cmd \<Rightarrow> config_file \<Rightarrow> config_file \<times> cli_outcome" where
  "dispatch_policy dump_yaml lb No_Policy_Cmd f = (f, \<lparr>o_stdout = [Help], o_stderr = [], o_end = Exits 1\<rparr>)"
| "dispatch_policy dump_yaml lb P_Show f = (f, cmd_policy_show lb f)"
| "dispatch_policy dump_yaml lb (P_Auto_Approve n) f = policy_set_entry dump_yaml lb n True f"
| "dispatch_policy dump_yaml lb (P_Manual n) f = policy_set_entry dump_yaml lb n False f"

end
