(* ===== verification/Agent_Cli_Props.thy ===== *)
theory Agent_Cli_Props
  imports Agent_Cli
begin

text \<open>
  Correctness of the owner's commands: what \<open>show\<close> displays is what \<open>approve\<close> installs, as long as nothing is
  staged in between; \<open>purge\<close> removes the orphaned entries and nothing else; what the policy commands write.
\<close>

section \<open>Review and approval\<close>

lemma get_state_fresh:
  "snd (get_state cd n (new_manager cd auto w)) =
     (case map_of (load_store cd w) n of None \<Rightarrow> absent_descriptor n | Some r \<Rightarrow> descriptor n r)"
  by (simp add: get_state_def new_manager_def Let_def)

lemma load_approvals_Inr:
  "load_approvals lb cd f w = Inr (p, cfg) \<longleftrightarrow> load_config lb f = Inr cfg \<and> p = new_manager cd (auto_approve_list cfg) w"
  by (auto simp: load_approvals_def bindR_eq_Inr)

lemma show_returns:
  assumes "o_end (cmd_approvals_show cd cfg n (new_manager cd auto w)) = Returns"
  obtains r c where "map_of (load_store cd w) n = Some r" "r_state r \<in> {Pending, Update_Pending}"
    "disk_files w (Pending_Dir, n) = Some c"
    "o_stdout (cmd_approvals_show cd cfg n (new_manager cd auto w)) =
       [Print (line (''=== Pending content of '' @ single_quoted n @ '' ==='')), Print (universal_newlines c)]"
proof (cases "map_of (load_store cd w) n")
  case None
  with assms show ?thesis
    by (simp add: cmd_approvals_show_def get_state_fresh absent_descriptor_def approval_state_text_def fails_def)
next
  case (Some r)
  with assms that show ?thesis
    by (cases "r_state r"; cases "disk_files w (Pending_Dir, n)")
      (simp_all add: cmd_approvals_show_def get_state_fresh descriptor_def approval_state_text_def fails_def)
qed

text \<open>
  C40. What the owner reviews is what the owner approves: when \<open>approvals show\<close> displays a script, an immediately
  following \<open>approvals approve\<close> of it succeeds, and the file it installs in the scripts directory is the one
  that was displayed (whose line ends the display normalises); \<open>show\<close> itself changes nothing.
\<close>

theorem shown_content_is_installed:
  assumes "codec_ok cd" "dispatch_approvals lb cd f (A_Show n) w = (w1, shown)" "o_end shown = Returns"
  shows "w1 = w \<and> (\<exists>c w2. o_stdout shown =
        [Print (line (''=== Pending content of '' @ single_quoted n @ '' ==='')), Print (universal_newlines c)]
      \<and> dispatch_approvals lb cd f (A_Approve n) w = (w2, says (check_mark @ '' '' @ single_quoted n @ '' approved.''))
      \<and> disk_files w2 (Scripts_Dir, n) = Some c
      \<and> state_of (load_store cd w2) n = Approved)"
proof -
  obtain cfg where cfg: "load_config lb f = Inr cfg"
    using assms(2,3) by (cases "load_config lb f") (auto simp: dispatch_approvals_def load_approvals_def bindR_def raises_def)
  let ?p = "new_manager cd (auto_approve_list cfg) w"
  have p: "load_approvals lb cd f w = Inr (?p, cfg)" by (simp add: load_approvals_Inr cfg)
  have "dispatch_approvals lb cd f (A_Show n) w = (w, cmd_approvals_show cd cfg n ?p)"
    by (simp add: dispatch_approvals_def p)
  with assms(2) have "(w1, shown) = (w, cmd_approvals_show cd cfg n ?p)" by (rule trans [OF sym])
  then have w1: "w1 = w" and shown: "shown = cmd_approvals_show cd cfg n ?p" by (rule Pair_inject, simp)+
  obtain r c where r: "map_of (load_store cd w) n = Some r" "r_state r \<in> {Pending, Update_Pending}"
    and c: "disk_files w (Pending_Dir, n) = Some c"
    and out: "o_stdout shown =
       [Print (line (''=== Pending content of '' @ single_quoted n @ '' ==='')), Print (universal_newlines c)]"
    using show_returns [of cd cfg n "auto_approve_list cfg" w] assms(3) shown by metis
  let ?st = "AList.update n (cli_record r (clock w)) (load_store cd w)"
  let ?q = "commit cd ?st (promote n (disk_files w)) Audit_Approve n (r_state r) Approved ?p"
  have ok: "approve cd n ?p = (?q, Inr ())"
    using r c by (cases rule: approve_cases [of ?p n cd]) (auto simp: exists_file_def)
  then have "dispatch_approvals lb cd f (A_Approve n) w =
      (snd ?q, says (check_mark @ '' '' @ single_quoted n @ '' approved.''))"
    by (simp add: dispatch_approvals_def p cmd_approvals_approve_def)
  moreover have "load_store cd (snd ?q) = ?st" using assms(1) by (simp add: load_store_def codec_okD)
  then have "state_of (load_store cd (snd ?q)) n = Approved" by (simp add: state_of_def empty_record_def)
  ultimately show ?thesis using out c w1 by (intro conjI exI) simp_all
qed

text \<open>
  The approval names no version: when the control station stages another one after the display, the command
  installs that one, which nobody has read.
\<close>

lemma restaged_version_is_approved:
  fixes p :: "'t mgr" and unread md5 :: string and meta :: "string option"
  assumes "codec_ok cd" "state_of (mem_store (fst p)) n \<in> {Pending, Update_Pending}" "n \<notin> set (auto_approve (fst p))"
    and "\<not> already_staged (mem_store (fst p)) n md5"
  defines "w \<equiv> snd (fst (stage cd n unread md5 meta p))"
  shows "snd (approve cd n (new_manager cd auto w)) = Inr ()
    \<and> disk_files (snd (fst (approve cd n (new_manager cd auto w)))) (Scripts_Dir, n) = Some unread"
proof -
  have stage: "map_of (load_store cd w) n = Some (pending_record md5)" "disk_files w (Pending_Dir, n) = Some unread"
    unfolding w_def
    by (cases rule: stage_cases [of p n cd unread md5 meta];
        use assms(1-4) in \<open>auto simp: load_store_def codec_okD state_of_def\<close>)+
  then show ?thesis
    by (cases rule: approve_cases [of "new_manager cd auto w" n cd]) (auto simp: exists_file_def empty_record_def)
qed

section \<open>Purging\<close>

text \<open>An entry without its file: the names \<open>purge\<close> removes.\<close>

definition orphan :: "files \<Rightarrow> string \<times> script_record \<Rightarrow> bool" where
  "orphan fs e = (case e of (n, r) \<Rightarrow> \<not> has_backing_file fs (approval_state_text (r_state r)) n)"

text \<open>The files of the names \<open>ns\<close> and of their metadata, gone from the two script directories.\<close>

definition without_files :: "string set \<Rightarrow> files \<Rightarrow> files" where
  "without_files ns fs = (\<lambda>(d, f). if d \<noteq> Logs_Dir \<and> f \<in> ns \<union> meta_name ` ns then None else fs (d, f))"

lemma without_files_empty [simp]: "without_files {} fs = fs"
  by (auto simp: without_files_def)

lemma remove_files_without: "remove_files n fs = without_files {n} fs"
proof
  fix x :: "dir \<times> string"
  obtain d f where x: "x = (d, f)" by (cases x)
  show "remove_files n fs x = without_files {n} fs x"
    by (cases d) (auto simp: x remove_files_def without_files_def file_defs)
qed

lemma without_files_without: "without_files a (without_files b fs) = without_files (a \<union> b) fs"
  by (auto simp: without_files_def fun_eq_iff)

lemma backing_without:
  assumes "n \<notin> ns" "\<not> meta_like n"
  shows "has_backing_file (without_files ns fs) s n = has_backing_file fs s n"
proof -
  have "n \<notin> meta_name ` ns" using assms(2) by auto
  with assms(1) show ?thesis by (simp add: has_backing_file_def exists_file_def without_files_def)
qed

text \<open>The loop over a part \<open>es\<close> of the store: what it leaves, and what it counts.\<close>

lemma purge_loop_exact:
  assumes "codec_ok cd" "dict_ok (mem_store (fst p))" "set es \<subseteq> set (mem_store (fst p))" "dict_ok es"
    and "\<forall>e \<in> set es. \<not> meta_like (fst e)" "load_store cd (snd p) = mem_store (fst p)"
  defines "gone \<equiv> fst ` set (filter (orphan (disk_files (snd p))) es)"
  shows "\<exists>q k'. purge_loop cd a False (map (\<lambda>(n, r). descriptor n r) es) p k = (q, k')
    \<and> mem_store (fst q) = filter (\<lambda>(n, r). n \<notin> gone) (mem_store (fst p))
    \<and> load_store cd (snd q) = mem_store (fst q)
    \<and> disk_files (snd q) = without_files gone (disk_files (snd p))
    \<and> pu_err k' = pu_err k \<and> pu_out k' = pu_out k \<and> pu_removed k' = pu_removed k + card gone"
  using assms(2-6) unfolding gone_def
proof (induction es arbitrary: p k)
  case Nil
  then show ?case by (simp add: case_prod_unfold)
next
  case (Cons e es)
  obtain n r where e: "e = (n, r)" by (cases e)
  let ?fs = "disk_files (snd p)"
  have n: "n \<notin> fst ` set es" "dict_ok es" "\<not> meta_like n" "map_of (mem_store (fst p)) n = Some r"
    using Cons.prems by (auto simp: e dict_ok_def)
  show ?case
  proof (cases "orphan ?fs (n, r)")
    case False
    then have "has_backing_file ?fs (approval_state_text (r_state r)) n" by (simp add: orphan_def)
    with Cons.IH [of p "k\<lparr>pu_skipped := Suc (pu_skipped k)\<rparr>"] Cons.prems n False show ?thesis
      by (simp add: e descriptor_def)
  next
    case True
    let ?st = "filter (\<lambda>(m, r). m \<noteq> n) (mem_store (fst p))"
    have del: "AList.delete n (mem_store (fst p)) = ?st"
      by (auto simp: AList.delete_eq intro!: filter_cong)
    obtain q where q: "clear cd n p = (q, Inr ())" "mem_store (fst q) = ?st"
      "disk_files (snd q) = without_files {n} ?fs" "load_store cd (snd q) = ?st"
      by (cases rule: clear_cases [of p n cd])
        (use n(4) assms(1) in \<open>auto simp: del remove_files_without load_store_def codec_okD\<close>)
    have same: "orphan (disk_files (snd q)) x = orphan ?fs x" if "x \<in> set es" for x
    proof -
      obtain m r' where x: "x = (m, r')" by (cases x)
      then have "m \<notin> {n}" "\<not> meta_like m" using that n(1) Cons.prems(4) by (auto simp: rev_image_eqI)
      then show ?thesis by (simp add: x orphan_def q(3) backing_without)
    qed
    then have flt: "filter (orphan (disk_files (snd q))) es = filter (orphan ?fs) es" by (intro filter_cong) auto
    have "dict_ok ?st" "set es \<subseteq> set ?st" "\<forall>e \<in> set es. \<not> meta_like (fst e)" "load_store cd (snd q) = ?st"
      using Cons.prems n(1) q(4) by (auto simp: dict_ok_def distinct_map_filter rev_image_eqI)
    from Cons.IH [of q "k\<lparr>pu_removed := Suc (pu_removed k)\<rparr>", unfolded flt, unfolded q(2,3), OF this(1,2) n(2) this(3,4)]
    obtain q' k' where "purge_loop cd a False (map (\<lambda>(n, r). descriptor n r) es) q
         (k\<lparr>pu_removed := Suc (pu_removed k)\<rparr>) = (q', k')"
      "mem_store (fst q') = filter (\<lambda>(m, r). m \<notin> fst ` set (filter (orphan ?fs) es)) ?st"
      "load_store cd (snd q') = mem_store (fst q')"
      "disk_files (snd q') = without_files (fst ` set (filter (orphan ?fs) es)) (without_files {n} ?fs)"
      "pu_err k' = pu_err k" "pu_out k' = pu_out k"
      "pu_removed k' = Suc (pu_removed k) + card (fst ` set (filter (orphan ?fs) es))"
      by auto
    moreover have "n \<notin> fst ` set (filter (orphan ?fs) es)" using n(1) by auto
    ultimately show ?thesis using True
      by (auto simp: e descriptor_def orphan_def q(1) without_files_without case_prod_unfold intro!: filter_cong)
  qed
qed

lemma purge_loop_dry: "fst (purge_loop cd a True ds p k) = p"
  by (induction ds arbitrary: k) (simp_all add: Let_def)

lemma sync_fresh [simp]: "sync_from_disk cd (new_manager cd auto w) = new_manager cd auto w"
  by (simp add: new_manager_def Let_def)

lemma list_all_fresh:
  "list_all_scripts cd (new_manager cd auto w) =
     (new_manager cd auto w, map (\<lambda>(n, r). descriptor n r) (load_store cd w))"
  by (simp add: list_all_scripts_def new_manager_def Let_def)

text \<open>
  \<open>approvals purge\<close> removes exactly the entries whose backing file is missing, with what is left of their
  files, and afterwards no entry is without its file; every other entry and every other file stays as it
  was, and with \<open>--dry-run\<close> everything does.  (No script is named like a metadata file.)
\<close>

theorem purge_removes_orphans:
  assumes "codec_ok cd" "load_config lb f = Inr cfg" "dict_ok (load_store cd w)"
    and "list_all (\<lambda>e. \<not> meta_like (fst e)) (load_store cd w)"
    and "dispatch_approvals lb cd f (A_Purge False) w = (w', outcome)"
    and "gone = fst ` set (filter (orphan (disk_files w)) (load_store cd w))"
  shows "load_store cd w' = filter (\<lambda>(n, r). n \<notin> gone) (load_store cd w)
    \<and> disk_files w' = without_files gone (disk_files w)
    \<and> list_ex (orphan (disk_files w')) (load_store cd w') = False
    \<and> o_end outcome = Returns \<and> o_stderr outcome = []
    \<and> fst (dispatch_approvals lb cd f (A_Purge True) w) = w"
proof -
  let ?p = "new_manager cd (auto_approve_list cfg) w"
  let ?k = "\<lparr>pu_out = [], pu_err = [], pu_removed = 0, pu_skipped = 0\<rparr>"
  have p: "load_approvals lb cd f w = Inr (?p, cfg)" by (simp add: load_approvals_Inr assms(2))
  have names: "\<forall>e \<in> set (load_store cd w). \<not> meta_like (fst e)" using assms(4) by (simp add: list_all_iff)
  obtain q k' where loop: "purge_loop cd (agent_sec cfg) False (map (\<lambda>(n, r). descriptor n r) (load_store cd w)) ?p ?k = (q, k')"
    "mem_store (fst q) = filter (\<lambda>(n, r). n \<notin> gone) (load_store cd w)" "load_store cd (snd q) = mem_store (fst q)"
    "disk_files (snd q) = without_files gone (disk_files w)" "pu_err k' = []"
    using purge_loop_exact [of cd ?p "load_store cd w" "agent_sec cfg" ?k] assms(1,3,6) names by auto
  have w': "w' = snd q" "o_end outcome = Returns" "o_stderr outcome = []"
    using assms(5) loop(1,5)
    by (auto simp: dispatch_approvals_def p cmd_approvals_purge_def list_all_fresh Let_def split: if_splits)
  have "\<not> orphan (without_files gone (disk_files w)) e" if "e \<in> set (load_store cd w)" "fst e \<notin> gone" for e
  proof -
    obtain n r where e: "e = (n, r)" by (cases e)
    have "\<not> orphan (disk_files w) e" using that assms(6) by force
    moreover have "n \<notin> gone" "\<not> meta_like n" using that names e by auto
    ultimately show ?thesis by (simp add: e orphan_def backing_without)
  qed
  then have "list_ex (orphan (disk_files w')) (load_store cd w') = False"
    by (auto simp: w' loop list_ex_iff)
  moreover have "fst (dispatch_approvals lb cd f (A_Purge True) w) = w"
    by (simp add: purge_loop_dry dispatch_approvals_def p cmd_approvals_purge_def list_all_fresh Let_def case_prod_beta)
  ultimately show ?thesis using w' loop by simp
qed

definition example_config_libs :: config_libs where
  "example_config_libs =
     \<lparr>c_safe_load = (\<lambda>t. None), c_fields = (\<lambda>y. Inl []), c_path = (\<lambda>y. []), c_expanduser = (\<lambda>t. t), c_base = ''/home/u/.csl''\<rparr>"

text \<open>An approved script whose file is gone, and a staged one whose file is there.\<close>

definition example_disk :: "store disk" where
  "example_disk =
     \<lparr>disk_files = [(Pending_Dir, ''b'') \<mapsto> ''echo b''],
      approvals_json = Some ([(''a'', (empty_record Approved)\<lparr>r_approved_md5 := Some ''m''\<rparr>),
                              (''b'', (empty_record Pending)\<lparr>r_pending_md5 := Some ''n''\<rparr>)], 1),
      clock = 2, audit_log = []\<rparr>"

lemma example_config: "\<exists>cfg. load_config example_config_libs No_File = Inr cfg"
  by (simp add: load_config_def)

theorem purge_removes_orphans_witness:
  "\<exists>r. load_store plain_codec (fst (dispatch_approvals example_config_libs plain_codec No_File (A_Purge False) example_disk)) = [(''b'', r)]"
proof -
  let ?run = "dispatch_approvals example_config_libs plain_codec No_File (A_Purge False) example_disk"
  obtain cfg where cfg: "load_config example_config_libs No_File = Inr cfg" using example_config ..
  have st: "load_store plain_codec example_disk =
      [(''a'', (empty_record Approved)\<lparr>r_approved_md5 := Some ''m''\<rparr>), (''b'', (empty_record Pending)\<lparr>r_pending_md5 := Some ''n''\<rparr>)]"
    by (simp add: load_store_def plain_codec_def example_disk_def)
  have names: "dict_ok (load_store plain_codec example_disk)"
    "list_all (\<lambda>e. \<not> meta_like (fst e)) (load_store plain_codec example_disk)"
    unfolding st by (simp add: dict_ok_def, simp add: meta_like_def endswith_def suffix_def)
  have gone: "fst ` set (filter (orphan (disk_files example_disk)) (load_store plain_codec example_disk)) = {''a''}"
    unfolding st by (simp add: orphan_def has_backing_file_def exists_file_def example_disk_def empty_record_def approval_state_text_def)
  have "?run = (fst ?run, snd ?run)" by simp
  from purge_removes_orphans [OF plain_codec_ok cfg names this gone [symmetric]]
  have "load_store plain_codec (fst ?run) = filter (\<lambda>(n, r). n \<notin> {''a''}) (load_store plain_codec example_disk)" ..
  then show ?thesis unfolding st by simp
qed

theorem shown_content_is_installed_witness:
  "\<exists>c w2. disk_files w2 (Scripts_Dir, ''b'') = Some c
     \<and> dispatch_approvals example_config_libs plain_codec No_File (A_Approve ''b'') example_disk
        = (w2, says (check_mark @ '' '' @ single_quoted ''b'' @ '' approved.''))"
proof -
  let ?run = "dispatch_approvals example_config_libs plain_codec No_File (A_Show ''b'') example_disk"
  obtain cfg where cfg: "load_config example_config_libs No_File = Inr cfg" using example_config ..
  have "o_end (snd ?run) = Returns"
    by (simp add: dispatch_approvals_def load_approvals_def cfg bindR_def cmd_approvals_show_def get_state_fresh
        load_store_def plain_codec_def example_disk_def descriptor_def empty_record_def approval_state_text_def)
  moreover have "?run = (fst ?run, snd ?run)" by simp
  ultimately show ?thesis using shown_content_is_installed [OF plain_codec_ok] by blast
qed

section \<open>The policy\<close>

text \<open>
  What \<open>policy auto-approve\<close> and \<open>policy manual\<close> do: nothing when the list is already as asked, else the
  configuration is written back with \<open>approval_policy.auto_approve\<close> changed and every other key as it was.
  One \<open>manual\<close> removes one occurrence: a name listed twice by hand stays approved.
\<close>

definition policy_list :: "(string \<times> yaml) list \<Rightarrow> yaml option" where
  "policy_list kvs =
     (case map_of kvs ''approval_policy'' of Some (YMap policy) \<Rightarrow> map_of policy ''auto_approve'' | _ \<Rightarrow> None)"

lemma set_auto_approve_exact:
  assumes "set_auto_approve names kvs = Some kvs'"
  shows "policy_list kvs' = Some (YList (map YStr names))"
    and "k \<noteq> ''approval_policy'' \<Longrightarrow> map_of kvs' k = map_of kvs k"
  using assms by (auto simp: set_auto_approve_def policy_list_def split: option.splits yaml.splits)

lemma policy_set_entry_exact:
  assumes "load_config lb (Config_Text t) = Inr cfg" "policy_set_entry dump_yaml lb name add (Config_Text t) = (f', out)"
    "o_end out = Returns"
  shows "f' = Config_Text t \<and> (name \<in> set (auto_approve_list cfg) \<longleftrightarrow> add)
    \<or> (\<exists>kvs kvs'. f' = Config_Text (dump_yaml (YMap kvs'))
        \<and> policy_list kvs' = Some (YList (map YStr
             (if add then auto_approve_list cfg @ [name] else remove1 name (auto_approve_list cfg))))
        \<and> (c_safe_load lb t = Some (YMap kvs) \<or> kvs = [])
        \<and> (\<forall>k. k \<noteq> ''approval_policy'' \<longrightarrow> map_of kvs' k = map_of kvs k))"
proof -
  let ?kvs = "case c_safe_load lb t of Some (YMap kvs) \<Rightarrow> kvs | _ \<Rightarrow> []"
  have kvs: "c_safe_load lb t = Some (YMap ?kvs) \<or> ?kvs = []" by (auto split: option.split yaml.split)
  show ?thesis
  proof (cases "name \<in> set (auto_approve_list cfg) \<longleftrightarrow> add")
    case True
    with assms show ?thesis by (auto simp: policy_set_entry_def Let_def split: if_splits)
  next
    case False
    let ?names = "if add then auto_approve_list cfg @ [name] else remove1 name (auto_approve_list cfg)"
    obtain kvs' where kvs': "set_auto_approve ?names ?kvs = Some kvs'" "f' = Config_Text (dump_yaml (YMap kvs'))"
      using assms False
      by (auto simp: policy_set_entry_def write_policy_def Let_def raises_def split: if_splits option.splits)
    show ?thesis
      by (intro disjI2 exI [of _ ?kvs] exI [of _ kvs'] conjI allI impI kvs kvs'(2)
          set_auto_approve_exact(1) [OF kvs'(1)] set_auto_approve_exact(2) [OF kvs'(1)])
  qed
qed

end
