(* ===== verification/Agent_Policy.thy ===== *)
theory Agent_Policy
  imports Agent_Cli_Props Agent_Main_Props
begin

text \<open>
  The auto-approve policy from end to end: the command \<open>csl-agent policy\<close> rewrites \<open>config.yaml\<close>
  (\<open>agent/cli/cmd_policy.py\<close>), the agent that starts next reads it (\<open>agent/config.py\<close>, \<open>agent/main.py\<close>), and
  stages by it (\<open>agent/approvals.py\<close>).  The libraries in between are PyYAML and pydantic; \<open>policy_libs\<close> says what is
  relied on: a dumped mapping loads as a mapping with the same auto-approve list (the dump sorts the keys), a valid
  configuration carries the list that its mapping has, and a declared field is never reported as an extra one.
\<close>

section \<open>Loaded mappings\<close>

text \<open>A loaded value is made of Python dictionaries: no mapping has a key twice.\<close>

fun dict_keys_ok :: "yaml \<Rightarrow> bool" where
  "dict_keys_ok (YMap kvs) \<longleftrightarrow> distinct (map fst kvs) \<and> (\<forall>e \<in> set kvs. dict_keys_ok (snd e))"
| "dict_keys_ok (YList ys) \<longleftrightarrow> (\<forall>y \<in> set ys. dict_keys_ok y)"
| "dict_keys_ok y \<longleftrightarrow> True"

definition policy_locs :: "loc \<Rightarrow> bool" where
  "policy_locs l \<longleftrightarrow>
     l = [Key ''approval_policy''] \<or> take 2 l = [Key ''approval_policy'', Key ''auto_approve'']"

definition policy_libs :: "config_libs \<Rightarrow> (yaml \<Rightarrow> string) \<Rightarrow> bool" where
  "policy_libs lb dump_yaml \<longleftrightarrow>
     (\<forall>t y. c_safe_load lb t = Some y \<longrightarrow> dict_keys_ok y)
   \<and> (\<forall>kvs names. dict_keys_ok (YMap kvs) \<longrightarrow> policy_list kvs = Some (YList (map YStr names)) \<longrightarrow>
        (\<exists>kvs'. c_safe_load lb (dump_yaml (YMap kvs)) = Some (YMap kvs') \<and> policy_list kvs' = policy_list kvs))
   \<and> (\<forall>kvs c names. c_fields lb (YMap kvs) = Inr c \<longrightarrow> policy_list kvs = Some (YList (map YStr names))
        \<longrightarrow> auto_approve_list c = names)
   \<and> (\<forall>y es e. c_fields lb y = Inl es \<longrightarrow> e \<in> set es \<longrightarrow> e_type e = extra_forbidden \<longrightarrow> \<not> policy_locs (e_loc e))"

lemma set_update: "set (AList.update k v kvs) \<subseteq> insert (k, v) (set kvs)"
  by (induction kvs) auto

lemma dict_keys_ok_update:
  assumes "dict_keys_ok (YMap kvs)" "dict_keys_ok v"
  shows "dict_keys_ok (YMap (AList.update k v kvs))"
  using assms set_update [of k v kvs] by (auto simp: distinct_update)

lemma dict_keys_ok_lookup: "dict_keys_ok (YMap kvs) \<Longrightarrow> map_of kvs k = Some v \<Longrightarrow> dict_keys_ok v"
  using map_of_SomeD by fastforce

lemma set_auto_approve_keys:
  assumes "set_auto_approve names kvs = Some kvs'" "dict_keys_ok (YMap kvs)"
  shows "dict_keys_ok (YMap kvs')"
proof -
  let ?section = "case map_of kvs ''approval_policy'' of None \<Rightarrow> YMap [] | Some v \<Rightarrow> v"
  have names: "dict_keys_ok (YList (map YStr names))" by auto
  have sec: "dict_keys_ok ?section"
    using dict_keys_ok_lookup [OF assms(2), of "''approval_policy''"] by (cases "map_of kvs ''approval_policy''") auto
  obtain policy where p: "?section = YMap policy"
    "kvs' = AList.update ''approval_policy'' (YMap (AList.update ''auto_approve'' (YList (map YStr names)) policy)) kvs"
    using assms(1) unfolding set_auto_approve_def by (cases ?section) auto
  show ?thesis unfolding p(2)
    by (rule dict_keys_ok_update [OF assms(2) dict_keys_ok_update [OF sec [unfolded p(1)] names]])
qed

section \<open>Stripping unknown fields keeps the list\<close>

lemma policy_list_other:
  "k \<noteq> ''approval_policy'' \<Longrightarrow> policy_list (AList.update k v kvs) = policy_list kvs"
  "k \<noteq> ''approval_policy'' \<Longrightarrow> policy_list (AList.delete k kvs) = policy_list kvs"
  by (simp_all add: policy_list_def AList.delete_conv')

lemma delete_at_path_map:
  assumes "delete_at_path l (YMap kvs) = Some y" "k \<notin> Key -` set (take 1 l)"
  shows "\<exists>kvs'. y = YMap kvs' \<and> map_of kvs' k = map_of kvs k"
  using assms by (cases "(l, YMap kvs)" rule: delete_at_path.cases)
    (auto simp: pop_last_def AList.delete_conv' split: loc_part.splits option.splits)

lemma delete_at_path_policy:
  assumes "delete_at_path l (YMap kvs) = Some y" "\<not> policy_locs l" "policy_list kvs = Some ys"
  shows "\<exists>kvs'. y = YMap kvs' \<and> policy_list kvs' = Some ys"
proof (cases "take 1 l = [Key ''approval_policy'']")
  case False
  then have "''approval_policy'' \<notin> Key -` set (take 1 l)" by (cases l) auto
  from delete_at_path_map [OF assms(1) this] assms(3) show ?thesis by (auto simp: policy_list_def)
next
  case True
  then obtain rest where l: "l = Key ''approval_policy'' # rest" by (cases l) auto
  obtain policy where p: "map_of kvs ''approval_policy'' = Some (YMap policy)" "map_of policy ''auto_approve'' = Some ys"
    using assms(3) by (auto simp: policy_list_def split: option.splits yaml.splits)
  have rest: "rest \<noteq> []" "''auto_approve'' \<notin> Key -` set (take 1 rest)"
    using assms(2) l by (cases rest; force simp: policy_locs_def)+
  then obtain v where v: "delete_at_path rest (YMap policy) = Some v" "y = YMap (AList.update ''approval_policy'' v kvs)"
    using assms(1) p(1) by (cases rest) (auto simp: l)
  from delete_at_path_map [OF v(1) rest(2)] p(2) show ?thesis by (auto simp: v(2) policy_list_def)
qed

lemma delete_all_policy:
  "delete_all ls (YMap kvs) = Some y \<Longrightarrow> \<forall>l \<in> set ls. \<not> policy_locs l \<Longrightarrow> policy_list kvs = Some ys
    \<Longrightarrow> \<exists>kvs'. y = YMap kvs' \<and> policy_list kvs' = Some ys"
proof (induction ls arbitrary: kvs)
  case (Cons l ls)
  from Cons.prems(1) obtain z where z: "delete_at_path l (YMap kvs) = Some z" "delete_all ls z = Some y"
    by (auto simp: bind_eq_Some_conv)
  with delete_at_path_policy [OF z(1)] Cons.prems Cons.IH show ?case by auto
qed auto

lemma config_model_validate_policy:
  assumes "policy_libs lb dump_yaml" "config_model_validate lb (YMap kvs) = Inr c" "policy_list kvs = Some (YList (map YStr names))"
  shows "auto_approve_list c = names"
proof -
  define raw where "raw = AList.update ''agent''
      (derive_path_defaults lb (case map_of kvs ''agent'' of None \<Rightarrow> YMap [] | Some v \<Rightarrow> v)) kvs"
  obtain c0 where c0: "c_fields lb (YMap raw) = Inr c0" "auto_approve_list c = auto_approve_list c0"
    using assms(2) by (auto simp: config_model_validate_def raw_def bindR_eq_Inr)
  have "policy_list raw = Some (YList (map YStr names))" by (simp add: raw_def policy_list_other assms(3))
  with assms(1) c0 show ?thesis unfolding policy_libs_def by metis
qed

lemma validated_policy:
  assumes "policy_libs lb dump_yaml" "validate_stripping_unknowns (config_model_validate lb) (YMap kvs) = Inr c"
    "policy_list kvs = Some (YList (map YStr names))"
  shows "auto_approve_list c = names"
proof (cases "config_model_validate lb (YMap kvs)")
  case (Inr c')
  with assms(2) have "config_model_validate lb (YMap kvs) = Inr c" by (simp add: validate_stripping_unknowns_def)
  then show ?thesis by (rule config_model_validate_policy [OF assms(1) _ assms(3)])
next
  case (Inl es)
  let ?extra = "filter (\<lambda>e. e_type e = extra_forbidden) es"
  obtain y where y: "delete_all (map e_loc ?extra) (YMap kvs) = Some y" "config_model_validate lb y = Inr c"
    using assms(2) Inl by (auto simp: validate_stripping_unknowns_def Let_def split: if_splits option.splits)
  have "\<exists>raw. c_fields lb raw = Inl es"
    using Inl by (auto simp: config_model_validate_def bindR_def split: sum.splits)
  then have "\<forall>l \<in> set (map e_loc ?extra). \<not> policy_locs l"
    using assms(1) unfolding policy_libs_def by auto
  from delete_all_policy [OF y(1) this assms(3)] obtain kvs' where "y = YMap kvs'" "policy_list kvs' = Some (YList (map YStr names))"
    by blast
  with y(2) show ?thesis by (auto intro: config_model_validate_policy [OF assms(1)])
qed

section \<open>The command\<close>

definition policy_names :: "bool \<Rightarrow> string \<Rightarrow> string list \<Rightarrow> string list" where
  "policy_names trust n names =
     (if n \<in> set names \<longleftrightarrow> trust then names else if trust then names @ [n] else remove1 n names)"

lemma policy_names_set:
  "trust \<or> distinct names \<Longrightarrow> n \<in> set (policy_names trust n names) \<longleftrightarrow> trust"
  "m \<noteq> n \<Longrightarrow> m \<in> set (policy_names trust n names) \<longleftrightarrow> m \<in> set names"
  by (auto simp: policy_names_def)

text \<open>The configuration that is loaded after the command.\<close>

lemma policy_reloaded:
  assumes "policy_libs lb dump_yaml" "load_config lb (Config_Text t) = Inr cfg"
    "policy_set_entry dump_yaml lb n trust (Config_Text t) = (f', out)" "o_end out = Returns" "load_config lb f' = Inr cfg'"
  shows "auto_approve_list cfg' = policy_names trust n (auto_approve_list cfg)"
proof (cases "n \<in> set (auto_approve_list cfg) \<longleftrightarrow> trust")
  case True
  with assms show ?thesis by (auto simp: policy_set_entry_def policy_names_def Let_def split: if_splits)
next
  case False
  let ?names = "policy_names trust n (auto_approve_list cfg)"
  let ?kvs = "case c_safe_load lb t of Some (YMap kvs) \<Rightarrow> kvs | _ \<Rightarrow> []"
  obtain kvs where w: "set_auto_approve ?names ?kvs = Some kvs" "f' = Config_Text (dump_yaml (YMap kvs))"
    using assms(2-4) False
    by (auto simp: policy_set_entry_def write_policy_def policy_names_def Let_def raises_def split: if_splits option.splits)
  have "dict_keys_ok y" if "c_safe_load lb t = Some y" for y
    using assms(1) that unfolding policy_libs_def by simp
  then have "dict_keys_ok (YMap ?kvs)" by (simp split: option.split yaml.split del: dict_keys_ok.simps) simp
  from set_auto_approve_keys [OF w(1) this] set_auto_approve_exact(1) [OF w(1)] assms(1) obtain kvs' where
    kvs': "c_safe_load lb (dump_yaml (YMap kvs)) = Some (YMap kvs')" "policy_list kvs' = policy_list kvs"
    unfolding policy_libs_def by blast
  have "validate_stripping_unknowns (config_model_validate lb) (YMap kvs') = Inr cfg'"
    using assms(5) by (simp add: w(2) load_config_def kvs'(1) split: sum.splits)
  then show ?thesis
    by (rule validated_policy [OF assms(1)]) (simp add: kvs'(2) set_auto_approve_exact(1) [OF w(1)])
qed

section \<open>The agent that starts next\<close>

lemma restarted_agent:
  "ag_config (lifespan x cfg w ps rj now) = cfg"
  "auto_approve (fst (ag_approvals (lifespan x cfg w ps rj now))) = auto_approve_list cfg"
  "mem_store (fst (ag_approvals (lifespan x cfg w ps rj now))) = load_store (x_codec x) w"
  by (simp_all add: lifespan_def Let_def put_pm_def with_files_def new_manager_def)

lemma staged_request:
  assumes "target q = Post_Stage n b" "endpoint_name n = Inr n" "auth_check (api_token (identity (ag_config a))) (authorization q) = None"
  shows "serve x q a = stage_script x n b (active a)" "ag_approvals (active a) = ag_approvals a"
  by (simp_all add: serve_def assms route_def active_def)

text \<open>
  C30. The policy command takes effect in the agent that starts next, for the named script only: after
  \<open>csl-agent policy auto-approve n\<close> a version of \<open>n\<close> that is not yet known is approved and installed as soon as it is
  staged; after \<open>csl-agent policy manual n\<close> (with no name listed twice) the next version waits in the pending directory
  for the owner, while a version that was approved before stays approved.  A rejected script stays rejected and a version
  that already waits keeps waiting under either policy, and no other name enters or leaves the list.
\<close>

theorem policy_takes_effect:
  assumes "policy_libs lb dump_yaml" "load_config lb (Config_Text t) = Inr cfg" "trust \<or> distinct (auto_approve_list cfg)"
    and "dispatch_policy dump_yaml lb (if trust then P_Auto_Approve n else P_Manual n) (Config_Text t) = (f', out)"
    and "o_end out = Returns" "load_config lb f' = Inr cfg'"
    and "target q = Post_Stage n b" "endpoint_name n = Inr n" "auth_check (api_token (identity cfg')) (authorization q) = None"
  shows "(\<forall>m. m \<noteq> n \<longrightarrow> (m \<in> set (auto_approve_list cfg') \<longleftrightarrow> m \<in> set (auto_approve_list cfg)))
    \<and> (let st = load_store (x_codec x) w; known = already_staged st n (g_md5 b);
           (a', response) = serve x q (lifespan x cfg' w ps rj now)
       in case stage_result known trust (state_of st n) of
            None \<Rightarrow> response = (409, B_Error (Approval_Refused (Err_Rejected n)))
          | Some s \<Rightarrow> response = (200, B_Staged \<lparr>g_name = n, g_state = s\<rparr>)
              \<and> (\<not> known \<longrightarrow> disk_files (snd (ag_approvals a')) (if s = Approved then Scripts_Dir else Pending_Dir, n)
                                = Some (g_content b)))"
proof -
  let ?a = "lifespan x cfg' w ps rj now" and ?st = "load_store (x_codec x) w"
  have "policy_set_entry dump_yaml lb n trust (Config_Text t) = (f', out)" using assms(4) by (cases trust) auto
  from policy_reloaded [OF assms(1,2) this assms(5,6)]
  have names: "auto_approve_list cfg' = policy_names trust n (auto_approve_list cfg)" .
  have auto: "n \<in> set (auto_approve (fst (ag_approvals ?a))) \<longleftrightarrow> trust"
    by (simp add: restarted_agent names policy_names_set(1) [OF assms(3)])
  have "serve x q ?a = stage_script x n b (active ?a)"
    by (rule staged_request) (simp_all add: assms restarted_agent)
  with stage_functional [where p = "ag_approvals ?a" and n = n and ?md5.0 = "g_md5 b" and cd = "x_codec x" and c = "g_content b"
        and meta = "g_meta_yaml b", unfolded auto restarted_agent(3)]
  show ?thesis
    by (cases "stage_result (already_staged ?st n (g_md5 b)) trust (state_of ?st n)"; cases "already_staged ?st n (g_md5 b)")
      (auto simp: stage_script_def active_def names policy_names_set(2))
qed

section \<open>An example\<close>

text \<open>Libraries whose text form of a configuration is the auto-approve list alone, each name ended by \<open>1\<close>.\<close>

fun spell :: "string \<Rightarrow> string" where
  "spell [] = ''1''"
| "spell (c # cs) = CHR ''0'' # c # spell cs"

fun spelt :: "string \<Rightarrow> string \<Rightarrow> string list" where
  "spelt acc (m # c # cs) = (if m = CHR ''0'' then spelt (acc @ [c]) cs else acc # spelt [] (c # cs))"
| "spelt acc [m] = [acc]"
| "spelt acc [] = []"

lemma spelt_spell: "spelt acc (spell n @ t) = (acc @ n) # spelt [] t"
  by (induction n arbitrary: acc) (cases t; simp)+

lemma spelt_all: "spelt [] (concat (map spell ns)) = ns"
  by (induction ns) (simp_all add: spelt_spell)

definition names_of :: "(string \<times> yaml) list \<Rightarrow> string list" where
  "names_of kvs = (case policy_list kvs of Some (YList ys) \<Rightarrow> map (\<lambda>y. case y of YStr n \<Rightarrow> n | _ \<Rightarrow> []) ys | _ \<Rightarrow> [])"

definition policy_yaml :: "string list \<Rightarrow> (string \<times> yaml) list" where
  "policy_yaml ns = [(''approval_policy'', YMap [(''auto_approve'', YList (map YStr ns))])]"

definition example_policy_dump :: "yaml \<Rightarrow> string" where
  "example_policy_dump y = (case y of YMap kvs \<Rightarrow> concat (map spell (names_of kvs)) | _ \<Rightarrow> [])"

definition example_policy_libs :: config_libs where
  "example_policy_libs =
     \<lparr>c_safe_load = (\<lambda>t. Some (YMap (policy_yaml (spelt [] t)))),
      c_fields = (\<lambda>y. case y of YMap kvs \<Rightarrow> Inr ((example_config None)\<lparr>auto_approve_list := names_of kvs\<rparr>) | _ \<Rightarrow> Inl []),
      c_path = (\<lambda>y. []), c_expanduser = (\<lambda>p. p), c_base = ''/home/u/.csl''\<rparr>"

lemma policy_yaml_list: "policy_list (policy_yaml ns) = Some (YList (map YStr ns))"
  by (simp add: policy_list_def policy_yaml_def)

lemma names_of_list: "policy_list kvs = Some (YList (map YStr ns)) \<Longrightarrow> names_of kvs = ns"
  by (simp add: names_of_def comp_def)

lemma example_policy_libs_ok: "policy_libs example_policy_libs example_policy_dump"
  by (auto simp: policy_libs_def example_policy_libs_def example_policy_dump_def names_of_list spelt_all policy_yaml_list
      split: yaml.splits) (auto simp: policy_yaml_def)

lemma example_policy_load:
  "\<exists>cfg. load_config example_policy_libs (Config_Text t) = Inr cfg \<and> auto_approve_list cfg = spelt [] t \<and> api_token (identity cfg) = None"
  by (simp add: load_config_def example_policy_libs_def validate_stripping_unknowns_def config_model_validate_def bindR_def
      names_of_list policy_list_other policy_yaml_list example_config_def)

definition example_stage :: http_request where
  "example_stage = \<lparr>authorization = None,
     target = Post_Stage ''b'' \<lparr>g_content = ''echo b'', g_md5 = ''m'', g_meta_yaml = None\<rparr>\<rparr>"

theorem policy_takes_effect_witness:
  "\<exists>cfg cfg' f' a'. load_config example_policy_libs (Config_Text ''0a10b1'') = Inr cfg
     \<and> dispatch_policy example_policy_dump example_policy_libs (P_Manual ''b'') (Config_Text ''0a10b1'')
        = (f', says (single_quoted ''b'' @ '' removed from the auto-approve list.''))
     \<and> load_config example_policy_libs f' = Inr cfg' \<and> ''a'' \<in> set (auto_approve_list cfg')
     \<and> serve example_surroundings example_stage (lifespan example_surroundings cfg' empty_disk Map.empty None 0)
        = (a', 200, B_Staged \<lparr>g_name = ''b'', g_state = Pending\<rparr>)"
proof -
  let ?f = "Config_Text ''0a10b1''"
  obtain cfg where cfg: "load_config example_policy_libs ?f = Inr cfg" "auto_approve_list cfg = [''a'', ''b'']"
    using example_policy_load [of "''0a10b1''"] by auto
  have "c_safe_load example_policy_libs ''0a10b1'' = Some (YMap (policy_yaml [''a'', ''b'']))"
    by (simp add: example_policy_libs_def)
  then obtain t where run: "dispatch_policy example_policy_dump example_policy_libs (P_Manual ''b'') ?f
      = (Config_Text t, says (single_quoted ''b'' @ '' removed from the auto-approve list.''))"
    by (simp add: policy_set_entry_def cfg write_policy_def policy_yaml_def set_auto_approve_def Let_def)
  obtain cfg' where cfg': "load_config example_policy_libs (Config_Text t) = Inr cfg'" "api_token (identity cfg') = None"
    using example_policy_load by blast
  let ?a = "lifespan example_surroundings cfg' empty_disk Map.empty None 0"
  have st: "load_store (x_codec example_surroundings) empty_disk = []"
    by (simp add: load_store_def empty_disk_def)
  have q: "target example_stage = Post_Stage ''b'' \<lparr>g_content = ''echo b'', g_md5 = ''m'', g_meta_yaml = None\<rparr>"
    "endpoint_name ''b'' = Inr ''b''" "auth_check (api_token (identity cfg')) (authorization example_stage) = None"
    subgoal by (simp add: example_stage_def)
    subgoal by code_simp
    subgoal by (simp add: cfg' auth_check_def)
    done
  have "dispatch_policy example_policy_dump example_policy_libs (if False then P_Auto_Approve ''b'' else P_Manual ''b'') ?f
      = (Config_Text t, says (single_quoted ''b'' @ '' removed from the auto-approve list.''))"
    using run by simp
  from policy_takes_effect [OF example_policy_libs_ok cfg(1) _ this _ cfg'(1) q, where x = example_surroundings and w = empty_disk and ps = Map.empty
      and rj = None and now = 0]
  have "''a'' \<in> set (auto_approve_list cfg')"
    "snd (serve example_surroundings example_stage ?a) = (200, B_Staged \<lparr>g_name = ''b'', g_state = Pending\<rparr>)"
    by (auto simp: cfg(2) st says_def stage_result_def already_staged_def state_of_def Let_def case_prod_beta)
  then show ?thesis using cfg(1) run cfg'(1) by (metis prod.collapse)
qed

end
