(* ===== verification/Agent_Setup.thy ===== *)
theory Agent_Setup
  imports Agent_Cli Ssh_Gateway
begin

text \<open>
  \<open>agent/cli/cmd_setup.py\<close>: the readiness checks and the fixes \<open>csl-agent setup\<close> tries.  What a command of the operating system
  does is the parameter \<open>system\<close>; a command that is not installed raises \<open>FileNotFoundError\<close>.
\<close>

section \<open>The machine\<close>

datatype os_name = Linux | Macos | Windows | Other_Platform

text \<open>\<open>shared/platform_info.py\<close>: the three flags of \<open>platform.system()\<close>; \<open>sys.platform\<close> names the same system.\<close>

definition current_os :: "string \<Rightarrow> os_name" where
  "current_os platform_system =
     (if platform_system = ''Linux'' then Linux
      else if platform_system = ''Windows'' then Windows
      else if platform_system = ''Darwin'' then Macos
      else Other_Platform)"

record process_result =
  pr_code :: int
  pr_stdout :: string
  pr_stderr :: string

text \<open>The text files the commands write, by path, and the rest of the machine.  Directories are not modelled;
  the line ends of Windows, which Python adds when it writes and removes when it reads, are not either.\<close>

record 'w machine =
  text_files :: "string \<rightharpoonup> string"
  world :: 'w

record 'w system =
  platform :: os_name
  is_admin :: bool
  which :: "string \<Rightarrow> 'w \<Rightarrow> string option"
  path_exists :: "string \<Rightarrow> 'w \<Rightarrow> bool"
  execute :: "string list \<Rightarrow> 'w machine \<Rightarrow> 'w \<times> process_result option"

text \<open>A step on the machine that may raise, by the name of the exception, and their composition.\<close>

type_synonym ('w, 'a) step = "'w machine \<Rightarrow> 'w machine \<times> (string + 'a)"

definition ret :: "'a \<Rightarrow> ('w, 'a) step" where
  "ret a m = (m, Inr a)"

definition throw :: "string \<Rightarrow> ('w, 'a) step" where
  "throw e m = (m, Inl e)"

definition andthen :: "('w, 'a) step \<Rightarrow> ('a \<Rightarrow> ('w, 'b) step) \<Rightarrow> ('w, 'b) step" where
  "andthen s k m = (case s m of (m', Inl e) \<Rightarrow> (m', Inl e) | (m', Inr a) \<Rightarrow> k a m')"

lemma step_simps [simp]:
  "ret a m = (m, Inr a)" "throw e m = (m, Inl e)"
  "s m = (m', Inl e) \<Longrightarrow> andthen s k m = (m', Inl e)"
  "s m = (m', Inr a) \<Longrightarrow> andthen s k m = k a m'"
  by (simp_all add: ret_def throw_def andthen_def)

lemma andthen_Inr:
  "andthen s k m = (m', Inr b) \<longleftrightarrow> (\<exists>a m1. s m = (m1, Inr a) \<and> k a m1 = (m', Inr b))"
  by (auto simp: andthen_def split: prod.splits sum.splits)

definition run_process :: "'w system \<Rightarrow> string list \<Rightarrow> ('w, process_result) step" where
  "run_process sys args m =
     (case execute sys args m of
        (w, None) \<Rightarrow> (m\<lparr>world := w\<rparr>, Inl ''FileNotFoundError'')
      | (w, Some r) \<Rightarrow> (m\<lparr>world := w\<rparr>, Inr r))"

definition write_text :: "string \<Rightarrow> string \<Rightarrow> 'w machine \<Rightarrow> 'w machine" where
  "write_text path t m = m\<lparr>text_files := (text_files m)(path \<mapsto> t)\<rparr>"

section \<open>Readiness\<close>

record readiness_issue =
  ri_severity :: string
  ri_description :: string
  ri_fix_hint :: string

definition issue :: "string \<Rightarrow> string \<Rightarrow> string \<Rightarrow> readiness_issue" where
  "issue severity description fix_hint =
     \<lparr>ri_severity = severity, ri_description = description, ri_fix_hint = fix_hint\<rparr>"

fun any_service_active :: "'w system \<Rightarrow> string list \<Rightarrow> ('w, bool) step" where
  "any_service_active sys [] = ret False"
| "any_service_active sys (s # ss) =
     andthen (run_process sys [''systemctl'', ''is-active'', ''--quiet'', s]) (\<lambda>r.
       if pr_code r = 0 then ret True else any_service_active sys ss)"

definition sshd_process_found :: "'w system \<Rightarrow> ('w, bool) step" where
  "sshd_process_found sys =
     andthen (run_process sys [''pgrep'', ''-x'', ''sshd'']) (\<lambda>r. ret (pr_code r = 0))"

definition sshd_running_linux :: "'w system \<Rightarrow> ('w, bool) step" where
  "sshd_running_linux sys =
     andthen (any_service_active sys [''ssh'', ''sshd'']) (\<lambda>active.
       if active then ret True else sshd_process_found sys)"

definition check_readiness_linux :: "'w system \<Rightarrow> ('w, readiness_issue list) step" where
  "check_readiness_linux sys m =
     (if (case which sys ''sshd'' (world m) of None \<Rightarrow> True | Some p \<Rightarrow> p = []) then
        ret [issue ''error'' ''OpenSSH server (sshd) is not installed.''
          (line ''Install it, e.g.:''
           @ line ''  sudo apt install openssh-server   # Debian/Ubuntu''
           @ line ''  sudo dnf install openssh-server   # Fedora/RHEL''
           @ ''  sudo pacman -S openssh            # Arch'')] m
      else andthen (sshd_running_linux sys) (\<lambda>running.
        ret (if running then []
             else [issue ''warning'' ''SSH daemon is installed but not running.'' ''sudo systemctl enable --now ssh''])) m)"

definition SSHD_EXE_WINDOWS :: string where
  "SSHD_EXE_WINDOWS = ''C:/Windows/System32/OpenSSH/sshd.exe''"

definition sshd_running_windows :: "'w system \<Rightarrow> ('w, bool) step" where
  "sshd_running_windows sys =
     andthen (run_process sys [''sc'', ''query'', ''sshd'']) (\<lambda>r. ret (sublist ''RUNNING'' (pr_stdout r)))"

text \<open>\<open>Path.parent\<close>.\<close>

definition path_parent :: "string \<Rightarrow> string" where
  "path_parent p =
     (case dropWhile (\<lambda>c. c \<noteq> CHR ''/'') (rev p) of [] \<Rightarrow> ''.'' | c # r \<Rightarrow> if r = [] then ''/'' else rev r)"

definition check_readiness_windows :: "'w system \<Rightarrow> agent_config \<Rightarrow> ('w, readiness_issue list) step" where
  "check_readiness_windows sys cfg m =
     (if \<not> path_exists sys SSHD_EXE_WINDOWS (world m) then
        ret [issue ''error'' ''OpenSSH Server is not installed.''
          (line ''Install via Settings > System > Optional Features > Add a feature > OpenSSH Server,''
           @ line ''  or in an admin PowerShell:''
           @ ''  Add-WindowsCapability -Online -Name OpenSSH.Server~~~~0.0.1.0'')] m
      else andthen (sshd_running_windows sys) (\<lambda>running m1.
        let stopped = (if running then []
              else [issue ''warning'' ''OpenSSH Server is installed but the sshd service is not running.''
                (line ''Start and enable it in an admin terminal:'' @ line ''  sc start sshd'' @ ''  sc config sshd start= auto'')]);
            dir = path_parent (windows_admin_authorized_keys_path cfg);
            no_dir = (if is_admin sys \<and> \<not> path_exists sys dir (world m1)
              then [issue ''warning'' (dir @ '' does not exist.'')
                (''Usually created by the OpenSSH Server installer '' @ em_dash @ '' try reinstalling it.'')]
              else [])
        in ret (stopped @ no_dir) m1) m)"

definition sshd_running_macos :: "'w system \<Rightarrow> ('w, bool) step" where
  "sshd_running_macos sys =
     andthen (run_process sys [''launchctl'', ''list'', ''com.openssh.sshd'']) (\<lambda>r.
       if pr_code r = 0 then ret True else sshd_process_found sys)"

definition check_readiness_macos :: "'w system \<Rightarrow> ('w, readiness_issue list) step" where
  "check_readiness_macos sys =
     andthen (sshd_running_macos sys) (\<lambda>running.
       ret (if running then []
            else [issue ''warning'' ''Remote Login (SSH) is not enabled.''
              (line ''Enable it:'' @ line ''  sudo systemsetup -setremotelogin on''
               @ ''  or: System Settings > General > Sharing > Remote Login'')]))"

definition check_readiness :: "'w system \<Rightarrow> agent_config \<Rightarrow> ('w, readiness_issue list) step" where
  "check_readiness sys cfg =
     (case platform sys of
        Windows \<Rightarrow> check_readiness_windows sys cfg
      | Macos \<Rightarrow> check_readiness_macos sys
      | Linux \<Rightarrow> check_readiness_linux sys
      | Other_Platform \<Rightarrow> ret [])"

section \<open>Fixes\<close>

text \<open>What a fix prints, to \<open>stderr\<close>, and the exception that ended it, if any.\<close>

type_synonym 'w fix_step = "'w machine \<Rightarrow> 'w machine \<times> string \<times> string option"

fun enable_service :: "'w system \<Rightarrow> string list \<Rightarrow> ('w, string option) step" where
  "enable_service sys [] = ret None"
| "enable_service sys (s # ss) =
     andthen (run_process sys [''sudo'', ''systemctl'', ''enable'', ''--now'', s]) (\<lambda>r.
       if pr_code r = 0 then ret (Some s) else enable_service sys ss)"

definition setup_linux :: "'w system \<Rightarrow> 'w fix_step" where
  "setup_linux sys m =
     (let start = line ''Attempting to enable and start SSH daemon...''
      in case enable_service sys [''ssh'', ''sshd''] m of
           (m', Inl e) \<Rightarrow> (m', start, Some e)
         | (m', Inr (Some s)) \<Rightarrow>
             (m', start @ line (''  ssh daemon enabled and started (service: '' @ py_repr s @ '').''), None)
         | (m', Inr None) \<Rightarrow>
             (m', start @ line ''  Could not start sshd automatically (sudo may be required).''
                @ line ''  Run manually: sudo systemctl enable --now ssh'', None))"

definition setup_windows :: "'w system \<Rightarrow> 'w fix_step" where
  "setup_windows sys m =
     (let start = line ''Attempting to start OpenSSH Server service...''
      in case run_process sys [''sc'', ''start'', ''sshd''] m of
           (m1, Inl e) \<Rightarrow> (m1, start, Some e)
         | (m1, Inr r) \<Rightarrow>
             if pr_code r = 0 then
               (case run_process sys [''sc'', ''config'', ''sshd'', ''start='', ''auto''] m1 of
                  (m2, Inl e) \<Rightarrow> (m2, start, Some e)
                | (m2, Inr _) \<Rightarrow> (m2, start @ line ''  sshd service started and set to automatic.'', None))
             else (m1, start @ line ''  Could not start sshd (admin privileges may be required).''
                     @ line ''  Run in an admin terminal: sc start sshd && sc config sshd start= auto'', None))"

definition setup_macos :: "'w system \<Rightarrow> 'w fix_step" where
  "setup_macos sys m =
     (let start = line ''Attempting to enable Remote Login (SSH)...''
      in case run_process sys [''sudo'', ''systemsetup'', ''-setremotelogin'', ''on''] m of
           (m1, Inl e) \<Rightarrow> (m1, start, Some e)
         | (m1, Inr r) \<Rightarrow>
             if pr_code r = 0 then (m1, start @ line ''  Remote Login enabled.'', None)
             else (m1, start @ line ''  Could not enable Remote Login automatically (sudo may be required).''
                     @ line ''  Run manually: sudo systemsetup -setremotelogin on''
                     @ line ''  or: System Settings > General > Sharing > Remote Login'', None))"

definition setup_system :: "'w system \<Rightarrow> 'w fix_step" where
  "setup_system sys =
     (case platform sys of
        Windows \<Rightarrow> setup_windows sys | Macos \<Rightarrow> setup_macos sys | _ \<Rightarrow> setup_linux sys)"

section \<open>\<open>csl-agent setup\<close>\<close>

definition print_issues :: "readiness_issue list \<Rightarrow> string" where
  "print_issues is =
     concat (map (\<lambda>i. line ((if ri_severity i = ''error'' then ''[ERROR]'' else ''[WARN] '') @ '' '' @ ri_description i)
       @ concat (map (\<lambda>l. line (''         '' @ l)) (split_lines [] (ri_fix_hint i)))) is)"

text \<open>The fixes and the second check, after the first one found the issues \<open>is\<close>.\<close>

definition try_fixes :: "'w system \<Rightarrow> agent_config \<Rightarrow> readiness_issue list \<Rightarrow> 'w machine \<Rightarrow> 'w machine \<times> cli_outcome" where
  "try_fixes sys cfg is m =
     (let out = [Print (line ''Prerequisite check results:''), Print (newline # line ''Attempting automatic fixes...'')];
          err = print_issues is
      in case setup_system sys m of
           (m1, t, Some e) \<Rightarrow> (m1, \<lparr>o_stdout = out, o_stderr = err @ t, o_end = Raises e\<rparr>)
         | (m1, t, None) \<Rightarrow>
             (case check_readiness sys cfg m1 of
                (m2, Inl e) \<Rightarrow> (m2, \<lparr>o_stdout = out, o_stderr = err @ t, o_end = Raises e\<rparr>)
              | (m2, Inr remaining) \<Rightarrow>
                  if remaining = [] then
                    (m2, \<lparr>o_stdout = out @ [Print (newline # line ''All issues resolved.'')], o_stderr = err @ t, o_end = Returns\<rparr>)
                  else
                    (m2, \<lparr>o_stdout = out @ [Print (newline # line ''The following issues could not be fixed automatically:'')],
                          o_stderr = err @ t @ print_issues remaining @ newline
                            # line (''Please apply the fixes above manually, then re-run '' @ single_quoted ''csl-agent setup'' @ ''.''),
                          o_end = Exits 1\<rparr>)))"

definition cmd_setup :: "'w system \<Rightarrow> config_libs \<Rightarrow> config_file \<Rightarrow> 'w machine \<Rightarrow> 'w machine \<times> cli_outcome" where
  "cmd_setup sys lb f m =
     (case load_config lb f of
        Inl e \<Rightarrow> (m, raises ''ConfigError'')
      | Inr cfg \<Rightarrow>
          (case check_readiness sys cfg m of
             (m1, Inl e) \<Rightarrow> (m1, raises e)
           | (m1, Inr is) \<Rightarrow>
               if is = [] then (m1, says (''All prerequisite checks passed '' @ em_dash @ '' system is ready.''))
               else try_fixes sys cfg is m1))"

section \<open>Lines of a file\<close>

lemma universal_newlines_id: "carriage_return \<notin> set t \<Longrightarrow> universal_newlines t = t"
  by (induction t rule: universal_newlines.induct) auto

lemma join_lines_no_return:
  "list_all (list_all (\<lambda>c. \<not> is_line_break c)) ls \<Longrightarrow> carriage_return \<notin> set (join_lines ls)"
  by (induction ls) (auto simp: join_lines_def list_all_iff is_line_break_def carriage_return_def newline_def ccode_def)

end
