(* ===== verification/Service_Installer.thy ===== *)
theory Service_Installer
  imports Agent_Setup
begin

text \<open>
  \<open>agent/service_installer.py\<close>: the service definitions of the three platforms and their registration.  A
  \<open>ServiceInstallError\<close> carries a message, which its only caller prints.
\<close>

section \<open>Names and paths\<close>

definition SYSTEMD_UNIT_NAME :: string where
  "SYSTEMD_UNIT_NAME = ''csl-agent''"

definition LAUNCHD_LABEL :: string where
  "LAUNCHD_LABEL = ''com.controlstationlite.agent''"

definition WINDOWS_TASK_NAME :: string where
  "WINDOWS_TASK_NAME = ''CSL-Agent''"

definition systemd_unit_path :: "string \<Rightarrow> string" where
  "systemd_unit_path home =
     path_join (path_join (path_join (path_join home ''.config'') ''systemd'') ''user'') (SYSTEMD_UNIT_NAME @ ''.service'')"

definition launchd_plist_path :: "string \<Rightarrow> string" where
  "launchd_plist_path home = path_join (path_join (path_join home ''Library'') ''LaunchAgents'') (LAUNCHD_LABEL @ ''.plist'')"

section \<open>Contents\<close>

definition systemd_unit_content :: "string \<Rightarrow> string" where
  "systemd_unit_content executable =
     line ''[Unit]''
     @ line (''Description=CSL Agent '' @ em_dash @ '' Control Station Lite on-demand agent'')
     @ line ''After=network.target''
     @ line ''''
     @ line ''[Service]''
     @ line ''Type=exec''
     @ line (''ExecStart='' @ executable @ '' -m control_station_lite.agent'')
     @ line ''Restart=no''
     @ line ''StandardOutput=journal''
     @ line ''StandardError=journal''
     @ line ''''
     @ line (''# No Install section '' @ em_dash @ '' service is on-demand only, do not enable it.'')
     @ line ''# Start on demand: systemctl --user start csl-agent''"

definition xml_attribute :: "string \<Rightarrow> string \<Rightarrow> string" where
  "xml_attribute k v = k @ ''='' @ dquote @ v @ dquote"

definition launchd_plist_content :: "string \<Rightarrow> string" where
  "launchd_plist_content executable =
     line (''<?xml '' @ xml_attribute ''version'' ''1.0'' @ '' '' @ xml_attribute ''encoding'' ''UTF-8'' @ ''?>'')
     @ line (''<!DOCTYPE plist PUBLIC '' @ dquote @ ''-//Apple//DTD PLIST 1.0//EN'' @ dquote @ '' ''
         @ dquote @ ''http://www.apple.com/DTDs/PropertyList-1.0.dtd'' @ dquote @ ''>'')
     @ line (''<plist '' @ xml_attribute ''version'' ''1.0'' @ ''>'')
     @ line ''<dict>''
     @ line ''    <key>Label</key>''
     @ line (''    <string>'' @ LAUNCHD_LABEL @ ''</string>'')
     @ line ''    <key>ProgramArguments</key>''
     @ line ''    <array>''
     @ line (''        <string>'' @ executable @ ''</string>'')
     @ line ''        <string>-m</string>''
     @ line ''        <string>control_station_lite.agent</string>''
     @ line ''    </array>''
     @ line ''    <key>RunAtLoad</key>''
     @ line ''    <false/>''
     @ line ''    <key>KeepAlive</key>''
     @ line ''    <false/>''
     @ line ''</dict>''
     @ line ''</plist>''"

definition windows_task_xml :: "string \<Rightarrow> string" where
  "windows_task_xml executable =
     line (''<?xml '' @ xml_attribute ''version'' ''1.0'' @ '' '' @ xml_attribute ''encoding'' ''UTF-16'' @ ''?>'')
     @ line (''<Task '' @ xml_attribute ''version'' ''1.2'' @ '' ''
         @ xml_attribute ''xmlns'' ''http://schemas.microsoft.com/windows/2004/02/mit/task'' @ ''>'')
     @ line ''  <RegistrationInfo>''
     @ line (''    <Description>CSL Agent '' @ em_dash @ '' Control Station Lite on-demand agent</Description>'')
     @ line ''  </RegistrationInfo>''
     @ line ''  <Triggers/>''
     @ line ''  <Settings>''
     @ line ''    <MultipleInstancesPolicy>IgnoreNew</MultipleInstancesPolicy>''
     @ line ''    <DisallowStartIfOnBatteries>false</DisallowStartIfOnBatteries>''
     @ line ''    <StopIfGoingOnBatteries>false</StopIfGoingOnBatteries>''
     @ line ''    <ExecutionTimeLimit>PT0S</ExecutionTimeLimit>''
     @ line ''  </Settings>''
     @ line (''  <Actions '' @ xml_attribute ''Context'' ''Author'' @ ''>'')
     @ line ''    <Exec>''
     @ line (''      <Command>'' @ executable @ ''</Command>'')
     @ line ''      <Arguments>-m control_station_lite.agent</Arguments>''
     @ line ''    </Exec>''
     @ line ''  </Actions>''
     @ line ''</Task>''"

section \<open>Installation\<close>

text \<open>\<open>raise ServiceInstallError(...)\<close> when the registration ends with another code than 0.\<close>

definition check_registered :: "string \<Rightarrow> process_result \<Rightarrow> ('w, unit) step" where
  "check_registered what r =
     (if pr_code r \<noteq> 0
      then throw (what @ '' failed (exit '' @ int_str (pr_code r) @ ''):'' @ [newline] @ py_strip (pr_stderr r))
      else ret ())"

definition install_linux :: "'w system \<Rightarrow> string \<Rightarrow> string \<Rightarrow> ('w, unit) step" where
  "install_linux sys home executable m =
     andthen (run_process sys [''systemctl'', ''--user'', ''daemon-reload''])
       (check_registered ''systemctl --user daemon-reload'')
       (write_text (systemd_unit_path home) (systemd_unit_content executable) m)"

definition install_macos :: "'w system \<Rightarrow> string \<Rightarrow> string \<Rightarrow> ('w, unit) step" where
  "install_macos sys home executable m =
     (let path = launchd_plist_path home;
          unload = (if text_files m path = None then ret ()
                    else andthen (run_process sys [''launchctl'', ''unload'', path]) (\<lambda>_. ret ()))
      in andthen unload (\<lambda>_ m1.
           andthen (run_process sys [''launchctl'', ''load'', path]) (check_registered ''launchctl load'')
             (write_text path (launchd_plist_content executable) m1)) m)"

text \<open>The task definition goes through a temporary file, removed whatever the command does.\<close>

definition install_windows :: "'w system \<Rightarrow> string \<Rightarrow> string \<Rightarrow> ('w, unit) step" where
  "install_windows sys tmp executable m =
     (let (m1, r) = run_process sys [''schtasks'', ''/create'', ''/tn'', WINDOWS_TASK_NAME, ''/xml'', tmp, ''/f'']
                      (write_text tmp (windows_task_xml executable) m);
          m2 = m1\<lparr>text_files := (text_files m1)(tmp := None)\<rparr>
      in case r of Inl e \<Rightarrow> (m2, Inl e) | Inr p \<Rightarrow> check_registered ''schtasks /create'' p m2)"

definition agent_executable :: "'w system \<Rightarrow> string \<Rightarrow> 'w machine \<Rightarrow> string" where
  "agent_executable sys interpreter m =
     (let pythonw = path_join (path_parent interpreter) ''pythonw.exe''
      in if platform sys = Windows \<and> path_exists sys pythonw (world m) then pythonw else interpreter)"

definition install_service :: "'w system \<Rightarrow> string \<Rightarrow> string \<Rightarrow> string \<Rightarrow> ('w, unit) step" where
  "install_service sys home tmp interpreter m =
     (let executable = agent_executable sys interpreter m
      in case platform sys of
           Windows \<Rightarrow> install_windows sys tmp executable m
         | Macos \<Rightarrow> install_macos sys home executable m
         | _ \<Rightarrow> install_linux sys home executable m)"

end
