(* ===== verification/Agent_Init.thy ===== *)
theory Agent_Init
  imports Service_Installer Registration
begin

text \<open>
  \<open>agent/cli/cmd_init.py\<close>: \<open>csl-agent init\<close>.  The key pair, the control station's entry in \<open>authorized_keys\<close>,
  \<open>config.yaml\<close>, \<open>approvals.json\<close>, the service, and the registration bundle it prints.  The text of an
  exception in the warning is a \<open>ServiceInstallError\<close>'s own, and its name for any other.
\<close>

section \<open>What it runs in\<close>

text \<open>
  \<open>keygen\<close>: the PEM text of a new Ed25519 key and its public part in OpenSSH form; \<open>token_urlsafe\<close>: a new token;
  \<open>sha256\<close>: the digest; then the answers of \<open>socket\<close>, \<open>getpass\<close>, \<open>importlib.metadata\<close>, \<open>sys\<close>, \<open>tempfile\<close> and \<open>pathlib\<close>.
\<close>

record 'w init_env =
  ie_system :: "'w system"
  ie_config :: config_libs
  ie_dump_yaml :: "yaml \<Rightarrow> string"
  ie_json :: json_libs
  ie_keygen :: "'w \<Rightarrow> 'w \<times> string \<times> string"
  ie_token_urlsafe :: "'w \<Rightarrow> 'w \<times> string"
  ie_sha256 :: "string \<Rightarrow> string"
  ie_hostname :: string
  ie_user :: string
  ie_version :: "string option"
  ie_interpreter :: string
  ie_temp_name :: string
  ie_home :: string

abbreviation ie_base :: "'w init_env \<Rightarrow> string" where
  "ie_base e \<equiv> c_base (ie_config e)"

section \<open>Keys\<close>

definition private_key_path :: "string \<Rightarrow> string" where
  "private_key_path keys_dir = path_join keys_dir ''csl_ed25519''"

definition public_key_path :: "string \<Rightarrow> string" where
  "public_key_path keys_dir = path_join keys_dir ''csl_ed25519.pub''"

definition ssh_fingerprint :: "(string \<Rightarrow> string) \<Rightarrow> string \<Rightarrow> string + string" where
  "ssh_fingerprint sha256 public_openssh =
     (case key_body public_openssh of
        None \<Rightarrow> Inl ''IndexError''
      | Some b64_part \<Rightarrow>
          (case b64_decode_lenient b64_part of
             None \<Rightarrow> Inl ''binascii.Error''
           | Some wire \<Rightarrow> Inr (''SHA256:'' @ rstrip_chars (\<lambda>c. c = CHR ''='') (b64_encode (sha256 wire)))))"

text \<open>A pair that is there is reused; a new one is generated unless both files exist.\<close>

definition generate_keypair :: "'w init_env \<Rightarrow> string \<Rightarrow> ('w, string \<times> string \<times> string) step" where
  "generate_keypair e keys_dir m =
     (let (m', pem, pub) =
        (case (text_files m (private_key_path keys_dir), text_files m (public_key_path keys_dir)) of
           (Some pem, Some pub) \<Rightarrow> (m, universal_newlines pem, pub)
         | _ \<Rightarrow>
             let (w, pem, public_raw) = ie_keygen e (world m);
                 pub = py_strip public_raw @ '' csl-agent@'' @ ie_hostname e @ [newline]
             in (write_text (public_key_path keys_dir) pub
                   (write_text (private_key_path keys_dir) pem (m\<lparr>world := w\<rparr>)), pem, pub))
      in case ssh_fingerprint (ie_sha256 e) pub of
           Inl x \<Rightarrow> (m', Inl x) | Inr fp \<Rightarrow> (m', Inr (pem, fp, pub)))"

section \<open>The key entry\<close>

definition ak_path :: "'w init_env \<Rightarrow> agent_config \<Rightarrow> string" where
  "ak_path e cfg =
     (if platform (ie_system e) = Windows \<and> is_admin (ie_system e) then windows_admin_authorized_keys_path cfg
      else path_join (path_join (ie_home e) ''.ssh'') ''authorized_keys'')"

text \<open>The file is read with universal newlines; on the path of the administrators \<open>icacls\<close> is run on it.\<close>

definition install_key :: "'w init_env \<Rightarrow> agent_config \<Rightarrow> string \<Rightarrow> int \<Rightarrow> ('w, unit) step" where
  "install_key e cfg public_openssh port m =
     (let sys = ie_system e; path = ak_path e cfg
      in case append_authorized_keys (which sys ''csl-agent'' (world m)) public_openssh port
                (map_option universal_newlines (text_files m path)) of
           None \<Rightarrow> (m, Inl ''IndexError'')
         | Some t \<Rightarrow>
             (if platform sys = Windows \<and> is_admin sys then
                andthen (run_process sys [''icacls'', path, ''/inheritance:r'',
                  ''/grant'', ''NT AUTHORITY'' @ backslash @ ''SYSTEM:(F)'',
                  ''/grant'', ''BUILTIN'' @ backslash @ ''Administrators:(F)'']) (\<lambda>_. ret ())
              else ret ()) (write_text path t m))"

section \<open>The configuration\<close>

definition init_config :: "string \<Rightarrow> string \<Rightarrow> string \<Rightarrow> int \<Rightarrow> string \<Rightarrow> string \<Rightarrow> yaml" where
  "init_config base fingerprint hostname port token admin_keys =
     YMap
       [(''agent'', YMap
          [(''listen_port'', YInt port), (''idle_timeout_seconds'', YInt 600),
           (''lifecycle_check_interval_seconds'', YInt 10), (''log_tail_lines'', YInt 1000),
           (''scripts_dir'', YStr (path_join base ''scripts'')),
           (''pending_dir'', YStr (path_join base ''scripts.pending'')),
           (''logs_dir'', YStr (path_join base ''logs'')),
           (''state_path'', YStr (path_join (path_join base ''agent'') ''running.json'')),
           (''approvals_path'', YStr (path_join (path_join base ''agent'') ''approvals.json''))]),
        (''identity'', YMap
          [(''key_fingerprint'', YStr fingerprint), (''hostname_hint'', YStr hostname), (''api_token'', YStr token)]),
        (''approval_policy'', YMap [(''auto_approve'', YList [])]),
        (''advanced'', YMap [(''windows_admin_authorized_keys_path'', YStr admin_keys)])]"

definition config_path :: "'w init_env \<Rightarrow> string" where
  "config_path e = path_join (ie_base e) ''config.yaml''"

definition write_config :: "'w init_env \<Rightarrow> string \<Rightarrow> int \<Rightarrow> string \<Rightarrow> 'w machine \<Rightarrow> 'w machine" where
  "write_config e fingerprint port token =
     write_text (config_path e)
       (ie_dump_yaml e (init_config (ie_base e) fingerprint (ie_hostname e) port token
          (c_expanduser (ie_config e) ''C:/ProgramData/ssh/administrators_authorized_keys'')))"

text \<open>\<open>json.dumps({"scripts": {}}, indent=2)\<close>\<close>

definition EMPTY_APPROVALS :: string where
  "EMPTY_APPROVALS = ''{'' @ [newline] @ ''  '' @ dquote @ ''scripts'' @ dquote @ '': {}'' @ [newline] @ ''}''"

definition write_approvals :: "string \<Rightarrow> 'w machine \<Rightarrow> 'w machine" where
  "write_approvals path m = (case text_files m path of Some t \<Rightarrow> m | None \<Rightarrow> write_text path EMPTY_APPROVALS m)"

section \<open>The command\<close>

definition config_file_of :: "'w init_env \<Rightarrow> 'w machine \<Rightarrow> config_file" where
  "config_file_of e m = (case text_files m (config_path e) of None \<Rightarrow> No_File | Some t \<Rightarrow> Config_Text t)"

definition init_platform :: "'w init_env \<Rightarrow> string" where
  "init_platform e = current_platform_name (platform (ie_system e) = Windows) (platform (ie_system e) = Macos)"

definition init_bundle :: "'w init_env \<Rightarrow> string \<Rightarrow> string \<Rightarrow> string \<Rightarrow> int \<Rightarrow> registration_bundle" where
  "init_bundle e private_pem fingerprint token port =
     \<lparr>rb_private_key = private_pem, rb_key_fingerprint = fingerprint, rb_agent_port = port,
      rb_scripts_dir = path_join (ie_base e) ''scripts'', rb_hostname_hint = ie_hostname e,
      rb_platform = init_platform e, rb_ssh_user = ie_user e, rb_api_token = token,
      rb_agent_version = (case ie_version e of None \<Rightarrow> ''unknown'' | Some v \<Rightarrow> v)\<rparr>"

text \<open>The token that the configuration has is kept; an empty one counts as none.\<close>

definition choose_token :: "'w init_env \<Rightarrow> agent_config \<Rightarrow> 'w machine \<Rightarrow> 'w machine \<times> string" where
  "choose_token e cfg m =
     (case api_token (identity cfg) of
        Some (c # cs) \<Rightarrow> (m, c # cs)
      | _ \<Rightarrow> (let (w, t) = ie_token_urlsafe e (world m) in (m\<lparr>world := w\<rparr>, t)))"

definition readiness_report :: "readiness_issue list \<Rightarrow> string" where
  "readiness_report is =
     (if is = [] then []
      else line ''Prerequisite check results:'' @ print_issues is
        @ (if list_ex (\<lambda>i. ri_severity i = ''error'') is
           then newline # line (''Errors found '' @ em_dash @ '' run '' @ single_quoted ''csl-agent setup'' @ '' to attempt automatic fixes.'')
           else [])
        @ line '''')"

definition install_warning :: "string \<Rightarrow> string" where
  "install_warning x =
     line (''Warning: service installation failed '' @ em_dash @ '' '' @ x)
     @ line (''You can install it manually later by running: python -c '' @ dquote
         @ ''from control_station_lite.agent.service_installer import install_service; install_service()'' @ dquote)"

definition init_output :: "string \<Rightarrow> string \<Rightarrow> int \<Rightarrow> string \<Rightarrow> printed list" where
  "init_output bundle fingerprint port platform_name =
     [Print (newline # line ''=== REGISTRATION BUNDLE (send this to the control station admin) ===''),
      Print (line bundle),
      Print (line (replicate 70 CHR ''='')),
      Print (newline # line (''Agent will listen on 127.0.0.1:'' @ int_str port)
        @ line (''Key fingerprint: '' @ fingerprint) @ line (''Platform: '' @ platform_name))]"

text \<open>Steps 1 to 4: the token, the keys, the key entry and the configuration; what the bundle is made of.\<close>

definition init_files :: "'w init_env \<Rightarrow> agent_config \<Rightarrow> int \<Rightarrow> ('w, string \<times> string \<times> string) step" where
  "init_files e cfg port m =
     (let (m1, token) = choose_token e cfg m
      in andthen (generate_keypair e (path_join (ie_base e) ''keys'')) (\<lambda>(pem, fp, pub).
           andthen (install_key e cfg pub port) (\<lambda>_ m2.
             (write_config e fp port token m2, Inr (pem, fp, token)))) m1)"

definition cmd_init :: "'w init_env \<Rightarrow> int \<Rightarrow> 'w machine \<Rightarrow> 'w machine \<times> cli_outcome" where
  "cmd_init e port m =
     (case load_config (ie_config e) (config_file_of e m) of
        Inl x \<Rightarrow> (m, raises ''ConfigError'')
      | Inr cfg \<Rightarrow>
          (case check_readiness (ie_system e) cfg m of
             (m1, Inl x) \<Rightarrow> (m1, raises x)
           | (m1, Inr is) \<Rightarrow>
               (case init_files e cfg port m1 of
                  (m2, Inl x) \<Rightarrow> (m2, \<lparr>o_stdout = [], o_stderr = readiness_report is, o_end = Raises x\<rparr>)
                | (m2, Inr (pem, fp, token)) \<Rightarrow>
                    let m3 = write_approvals (path_join (path_join (ie_base e) ''agent'') ''approvals.json'') m2;
                        (m4, r) = install_service (ie_system e) (ie_home e) (ie_temp_name e) (ie_interpreter e) m3;
                        warning = (case r of Inl x \<Rightarrow> install_warning x | Inr _ \<Rightarrow> [])
                    in (m4, \<lparr>o_stdout = init_output (encode_bundle (ie_json e) (init_bundle e pem fp token port)) fp port (init_platform e),
                             o_stderr = readiness_report is @ warning, o_end = Returns\<rparr>))))"

end
