(* ===== verification/Agent_Init_Props.thy ===== *)
theory Agent_Init_Props
  imports Agent_Init
begin

text \<open>
  Correctness of \<open>csl-agent init\<close> on Linux: the bundle it prints, the key entry, the configuration and the key files
  agree, and running it again changes none of them.
\<close>

section \<open>Steps that leave the text files alone\<close>

definition keeps_files :: "('w, 'a) step \<Rightarrow> bool" where
  "keeps_files s \<longleftrightarrow> (\<forall>m. text_files (fst (s m)) = text_files m)"

named_theorems keeps \<open>steps that write no text file\<close>

lemma keeps_filesD: "keeps_files s \<Longrightarrow> s m = (m', r) \<Longrightarrow> text_files m' = text_files m"
  unfolding keeps_files_def by (metis fst_conv)

lemma keeps_ret [keeps]: "keeps_files (ret a)"
  by (simp add: keeps_files_def)

lemma keeps_run_process [keeps]: "keeps_files (run_process sys args)"
  by (simp add: keeps_files_def run_process_def split: prod.split option.split)

lemma keeps_andthen [keeps]: "keeps_files s \<Longrightarrow> (\<And>a. keeps_files (k a)) \<Longrightarrow> keeps_files (andthen s k)"
  by (auto simp: keeps_files_def andthen_def split: prod.split sum.split dest: spec) (metis fst_conv)+

lemma keeps_if [keeps]: "keeps_files s \<Longrightarrow> keeps_files t \<Longrightarrow> keeps_files (if b then s else t)"
  by simp

lemma keeps_services [keeps]: "keeps_files (any_service_active sys ss)"
  by (induction ss) (simp_all only: any_service_active.simps, (intro keeps | assumption)+)

lemma keeps_check_readiness_linux: "keeps_files (check_readiness_linux sys)"
proof -
  have "keeps_files (sshd_running_linux sys)"
    unfolding sshd_running_linux_def sshd_process_found_def by (intro keeps)
  then have "keeps_files (andthen (sshd_running_linux sys) k)" if "\<And>a. keeps_files (k a)" for k :: "bool \<Rightarrow> ('a, readiness_issue list) step"
    using that by (rule keeps_andthen)
  then show ?thesis
    by (simp add: keeps_files_def check_readiness_linux_def)
qed

section \<open>The paths\<close>

lemma last_path_join [simp]: "b \<noteq> [] \<Longrightarrow> last (path_join a b) = last b"
  by (simp add: path_join_def)

lemma paths_differ: "last p \<noteq> last q \<Longrightarrow> p \<noteq> q"
  by auto

definition approvals_file :: "'w init_env \<Rightarrow> string" where
  "approvals_file e = path_join (path_join (ie_base e) ''agent'') ''approvals.json''"

definition keys_dir :: "'w init_env \<Rightarrow> string" where
  "keys_dir e = path_join (ie_base e) ''keys''"

definition linux_keys :: "'w init_env \<Rightarrow> string" where
  "linux_keys e = path_join (path_join (ie_home e) ''.ssh'') ''authorized_keys''"

text \<open>The six files end in six different letters.\<close>

lemma path_ends:
  "last (private_key_path d) = CHR ''9''" "last (public_key_path d) = CHR ''b''" "last (linux_keys e) = CHR ''s''"
  "last (config_path e) = CHR ''l''" "last (approvals_file e) = CHR ''n''" "last (systemd_unit_path h) = CHR ''e''"
  by (simp_all add: private_key_path_def public_key_path_def linux_keys_def config_path_def approvals_file_def
      systemd_unit_path_def)

lemma paths_distinct:
  "distinct [private_key_path d, public_key_path d, linux_keys e, config_path e, approvals_file e, systemd_unit_path h]"
proof -
  have "distinct (map last [private_key_path d, public_key_path d, linux_keys e, config_path e, approvals_file e, systemd_unit_path h])"
    by (simp add: path_ends)
  then show ?thesis by (simp only: distinct_map)
qed

section \<open>What a run that returns has done\<close>

definition key_entry :: "'w init_env \<Rightarrow> string option \<Rightarrow> string \<Rightarrow> int \<Rightarrow> string option \<Rightarrow> string option" where
  "key_entry e exe pub port old = append_authorized_keys exe pub port (map_option universal_newlines old)"

definition config_text :: "'w init_env \<Rightarrow> string \<Rightarrow> int \<Rightarrow> string \<Rightarrow> string" where
  "config_text e fp port token =
     ie_dump_yaml e (init_config (ie_base e) fp (ie_hostname e) port token
       (c_expanduser (ie_config e) ''C:/ProgramData/ssh/administrators_authorized_keys''))"

text \<open>The files after the four steps, given what was chosen and the files of the keys.\<close>

definition final_files ::
  "'w init_env \<Rightarrow> string \<Rightarrow> int \<Rightarrow> string \<Rightarrow> string \<Rightarrow> (string \<rightharpoonup> string) \<Rightarrow> string \<rightharpoonup> string" where
  "final_files e fp port token entries fs =
     (let fs' = fs(linux_keys e \<mapsto> entries, config_path e \<mapsto> config_text e fp port token)
      in fs'(approvals_file e \<mapsto> (case fs (approvals_file e) of Some t \<Rightarrow> t | None \<Rightarrow> EMPTY_APPROVALS),
             systemd_unit_path (ie_home e) \<mapsto> systemd_unit_content (ie_interpreter e)))"

lemma install_linux_files:
  assumes "install_linux sys home exe m = (m', r)"
  shows "text_files m' = (text_files m)(systemd_unit_path home \<mapsto> systemd_unit_content exe)"
proof -
  have "keeps_files (check_registered w p)" for w p
    by (simp add: check_registered_def keeps_files_def)
  then have "keeps_files (andthen (run_process sys args) (check_registered w))" for args w
    by (intro keeps)
  from keeps_filesD [OF this assms [unfolded install_linux_def]] show ?thesis by (simp add: write_text_def)
qed

lemma generate_keypair_cases:
  assumes "generate_keypair e d m = (m', Inr (pem, fp, pub))"
  obtains (old) pem0 where "text_files m (private_key_path d) = Some pem0" "text_files m (public_key_path d) = Some pub"
      "pem = universal_newlines pem0" "m' = m" "ssh_fingerprint (ie_sha256 e) pub = Inr fp"
  | (new) w raw where "ie_keygen e (world m) = (w, pem, raw)" "pub = py_strip raw @ '' csl-agent@'' @ ie_hostname e @ [newline]"
      "text_files m' = (text_files m)(private_key_path d \<mapsto> pem, public_key_path d \<mapsto> pub)"
      "ssh_fingerprint (ie_sha256 e) pub = Inr fp"
proof (cases "text_files m (private_key_path d) = None \<or> text_files m (public_key_path d) = None")
  case True
  obtain w p raw where k: "ie_keygen e (world m) = (w, p, raw)" by (cases "ie_keygen e (world m)")
  show ?thesis
    by (rule new [of w raw])
      (use assms True k in \<open>auto simp: generate_keypair_def Let_def write_text_def split: option.splits sum.splits\<close>)
next
  case False
  then obtain p0 where p0: "text_files m (private_key_path d) = Some p0" by auto
  show ?thesis
    by (rule old [OF p0]) (use assms False p0 in \<open>auto simp: generate_keypair_def Let_def split: option.splits sum.splits\<close>)
qed

lemma choose_token_cases:
  assumes "choose_token e cfg m = (m', token)"
  obtains (kept) "api_token (identity cfg) = Some token" "token \<noteq> []" "m' = m"
  | (fresh) w where "ie_token_urlsafe e (world m) = (w, token)" "text_files m' = text_files m"
  using assms by (auto simp: choose_token_def split: option.splits list.splits prod.splits)

text \<open>
  What a run leaves and prints, in terms of the key pair, the fingerprint and the token it has chosen; keys and token are
  those it found, or fresh ones.
\<close>

definition initialised ::
  "'w init_env \<Rightarrow> int \<Rightarrow> 'w machine \<Rightarrow> cli_outcome \<Rightarrow> string \<Rightarrow> string \<Rightarrow> string \<Rightarrow> string \<Rightarrow> bool" where
  "initialised e port m' out pem fp token pub \<longleftrightarrow>
     (\<exists>p. text_files m' (private_key_path (keys_dir e)) = Some p
        \<and> (pem = universal_newlines p \<or> pem = p \<and> (\<exists>v v' raw. ie_keygen e v = (v', pem, raw))))
     \<and> (token \<noteq> [] \<or> (\<exists>v v'. ie_token_urlsafe e v = (v', token)))
     \<and> text_files m' (public_key_path (keys_dir e)) = Some pub \<and> ssh_fingerprint (ie_sha256 e) pub = Inr fp
     \<and> (\<exists>w old entries. key_entry e (which (ie_system e) ''csl-agent'' w) pub port old = Some entries
          \<and> text_files m' (linux_keys e) = Some entries
          \<and> final_files e fp port token entries (text_files m') = text_files m')
     \<and> text_files m' (config_path e) = Some (config_text e fp port token)
     \<and> o_stdout out = init_output (encode_bundle (ie_json e) (init_bundle e pem fp token port)) fp port (init_platform e)"

lemma final_files_at [simp]:
  "final_files e fp port token entries fs (private_key_path (keys_dir e)) = fs (private_key_path (keys_dir e))"
  "final_files e fp port token entries fs (public_key_path (keys_dir e)) = fs (public_key_path (keys_dir e))"
  "final_files e fp port token entries fs (linux_keys e) = Some entries"
  "final_files e fp port token entries fs (config_path e) = Some (config_text e fp port token)"
  using paths_distinct [of "keys_dir e" e "ie_home e"] by (auto simp: final_files_def Let_def)

lemma final_files_again [simp]:
  "final_files e fp port token entries (final_files e fp port token entries fs) = final_files e fp port token entries fs"
  using paths_distinct [of "keys_dir e" e "ie_home e"] by (auto simp: final_files_def Let_def fun_eq_iff split: option.split)

text \<open>Every run on Linux that returns leaves this.\<close>

lemma cmd_init_initialised:
  assumes "platform (ie_system e) = Linux" "cmd_init e port m = (m', out)" "o_end out = Returns"
  obtains pem fp token pub where "initialised e port m' out pem fp token pub"
proof -
  obtain cfg where cfg: "load_config (ie_config e) (config_file_of e m) = Inr cfg"
    using assms(2,3) by (cases "load_config (ie_config e) (config_file_of e m)") (auto simp: cmd_init_def raises_def)
  obtain m1 found where r: "check_readiness (ie_system e) cfg m = (m1, Inr found)"
    using assms(2,3) cfg by (auto simp: cmd_init_def raises_def split: prod.splits sum.splits)
  have m1: "text_files m1 = text_files m"
    using keeps_filesD [OF keeps_check_readiness_linux] r assms(1) by (simp add: check_readiness_def)
  obtain m2 pem fp token where f: "init_files e cfg port m1 = (m2, Inr (pem, fp, token))"
    using assms(2,3) cfg r by (auto simp: cmd_init_def split: prod.splits sum.splits)
  obtain mt where t: "choose_token e cfg m1 = (mt, token)"
    using f by (cases "choose_token e cfg m1") (auto simp: init_files_def andthen_Inr)
  obtain mk pub mi where k: "generate_keypair e (keys_dir e) mt = (mk, Inr (pem, fp, pub))"
    "install_key e cfg pub port mk = (mi, Inr ())" "m2 = write_config e fp port token mi"
    using f t by (auto simp: init_files_def andthen_Inr keys_dir_def)
  obtain entries where en: "key_entry e (which (ie_system e) ''csl-agent'' (world mk)) pub port (text_files mk (linux_keys e)) = Some entries"
    "text_files mi = (text_files mk)(linux_keys e \<mapsto> entries)"
    using k(2) assms(1)
    by (auto simp: install_key_def key_entry_def ak_path_def linux_keys_def Let_def write_text_def split: option.splits)
  obtain r4 where i: "install_linux (ie_system e) (ie_home e) (ie_interpreter e) (write_approvals (approvals_file e) m2) = (m', r4)"
    and out: "o_stdout out = init_output (encode_bundle (ie_json e) (init_bundle e pem fp token port)) fp port (init_platform e)"
    using assms cfg r f
    by (auto simp: cmd_init_def install_service_def agent_executable_def approvals_file_def Let_def split: prod.splits)
  have "text_files mt = text_files m"
    using t m1 by (cases rule: choose_token_cases) auto
  note dist = paths_distinct [of "keys_dir e" e "ie_home e"]
  have files: "text_files m' = final_files e fp port token entries (text_files mk)"
    using dist install_linux_files [OF i] k(3) en(2)
    by (auto simp: final_files_def write_approvals_def write_config_def config_text_def write_text_def Let_def split: option.split)
  have tok: "token \<noteq> [] \<or> (\<exists>v v'. ie_token_urlsafe e v = (v', token))"
    using t by (cases rule: choose_token_cases) auto
  show ?thesis
  proof (rule that [of pem fp token pub], unfold initialised_def, intro conjI)
    show "ssh_fingerprint (ie_sha256 e) pub = Inr fp" "text_files m' (public_key_path (keys_dir e)) = Some pub"
      "\<exists>p. text_files m' (private_key_path (keys_dir e)) = Some p
        \<and> (pem = universal_newlines p \<or> pem = p \<and> (\<exists>v v' raw. ie_keygen e v = (v', pem, raw)))"
      using k(1) dist \<open>text_files mt = text_files m\<close>
      by (cases rule: generate_keypair_cases; auto simp: files)+
    show "\<exists>w old entries. key_entry e (which (ie_system e) ''csl-agent'' w) pub port old = Some entries
        \<and> text_files m' (linux_keys e) = Some entries \<and> final_files e fp port token entries (text_files m') = text_files m'"
      using en(1) by (auto simp: files)
  qed (use tok out in \<open>simp_all add: files\<close>)
qed

lemma new_entry_last:
  assumes "append_authorized_keys exe pub port old = Some t"
  obtains body kept where "key_body pub = Some body" "list_all (\<lambda>l. \<not> sublist body l) kept"
    "t = join_lines (kept @ [build_authorized_keys_entry exe pub port])"
proof -
  obtain body where b: "key_body pub = Some body" using assms by (auto simp: append_authorized_keys_def split: option.splits)
  show thesis
    by (rule that [OF b, of "filter (\<lambda>l. \<not> sublist body l) (case old of None \<Rightarrow> [] | Some x \<Rightarrow> split_lines [] x)"])
      (use assms b in \<open>auto simp: append_authorized_keys_def list_all_iff Let_def split: option.splits\<close>)
qed

lemma initialised_bundle:
  assumes "platform (ie_system e) = Linux" "json_ok (ie_json e) (bundle_payload (init_bundle e pem fp token port))"
  shows "decode_bundle (ie_json e) (encode_bundle (ie_json e) (init_bundle e pem fp token port)) = Inr (init_bundle e pem fp token port)"
  using assms bundle_roundtrip [of "ie_json e" "init_bundle e pem fp token port"]
  by (simp add: init_bundle_def init_platform_def current_platform_name_def)

text \<open>
  On Linux, what \<open>csl-agent init\<close> prints for the control station fits what it leaves on the machine: the
  bundle decodes to the private key of the key pair on disk, its fingerprint, the port and the token of the
  configuration just written, and \<open>authorized_keys\<close> ends with the one entry of that key, restricted to the
  gateway and to that port.
\<close>

theorem init_bundle_fits_machine:
  assumes "platform (ie_system e) = Linux" "cmd_init e port m = (m', out)" "o_end out = Returns"
  shows "\<exists>b pem pub body kept exe. Print (line (encode_bundle (ie_json e) b)) \<in> set (o_stdout out)
    \<and> (json_ok (ie_json e) (bundle_payload b) \<longrightarrow> decode_bundle (ie_json e) (encode_bundle (ie_json e) b) = Inr b)
    \<and> text_files m' (private_key_path (keys_dir e)) = Some pem \<and> rb_private_key b \<in> {pem, universal_newlines pem}
    \<and> text_files m' (public_key_path (keys_dir e)) = Some pub
    \<and> ssh_fingerprint (ie_sha256 e) pub = Inr (rb_key_fingerprint b) \<and> rb_agent_port b = port
    \<and> text_files m' (config_path e) = Some (config_text e (rb_key_fingerprint b) port (rb_api_token b))
    \<and> key_body pub = Some body \<and> list_all (\<lambda>l. \<not> sublist body l) kept
    \<and> text_files m' (linux_keys e) = Some (join_lines (kept @ [build_authorized_keys_entry exe pub port]))"
proof -
  obtain pem fp token pub where *: "initialised e port m' out pem fp token pub" by (rule cmd_init_initialised [OF assms])
  let ?b = "init_bundle e pem fp token port"
  obtain exe old entries where k: "key_entry e exe pub port old = Some entries" "text_files m' (linux_keys e) = Some entries"
    using * unfolding initialised_def by blast
  obtain body kept where e: "key_body pub = Some body" "list_all (\<lambda>l. \<not> sublist body l) kept"
    "entries = join_lines (kept @ [build_authorized_keys_entry exe pub port])"
    using k(1) unfolding key_entry_def by (rule new_entry_last)
  obtain p where p: "text_files m' (private_key_path (keys_dir e)) = Some p" "rb_private_key ?b \<in> {p, universal_newlines p}"
    using * by (auto simp: initialised_def init_bundle_def)
  have "Print (line (encode_bundle (ie_json e) ?b)) \<in> set (o_stdout out)" using * by (simp add: initialised_def init_output_def)
  moreover have "rb_key_fingerprint ?b = fp" "rb_agent_port ?b = port" "rb_api_token ?b = token" by (simp_all add: init_bundle_def)
  ultimately show ?thesis
    using * initialised_bundle [OF assms(1)] p e(1,2) k(2) [unfolded e(3)] unfolding initialised_def
    by (intro exI [of _ ?b] exI [of _ p] exI [of _ pub] exI [of _ body] exI [of _ kept] exI [of _ exe]) simp
qed

section \<open>Running it again\<close>

lemma key_entry_again:
  assumes "key_entry e exe pub port old = Some t"
    and "list_all (\<lambda>c. \<not> is_line_break c) (build_authorized_keys_entry exe pub port)"
  shows "key_entry e exe pub port (Some t) = Some t"
proof -
  obtain body where body: "key_body pub = Some body"
    using assms(1) by (auto simp: key_entry_def append_authorized_keys_def split: option.splits)
  let ?old = "map_option universal_newlines old"
  let ?lines = "case ?old of None \<Rightarrow> [] | Some x \<Rightarrow> split_lines [] x"
  have t: "append_authorized_keys exe pub port ?old = Some t" using assms(1) by (simp add: key_entry_def)
  then have "t = join_lines (filter (\<lambda>l. \<not> sublist body l) ?lines @ [build_authorized_keys_entry exe pub port])"
    by (simp add: append_authorized_keys_def body Let_def)
  moreover have "list_all (list_all (\<lambda>c. \<not> is_line_break c)) ?lines"
    using split_lines_no_break [of "[]"] by (auto simp: list_all_iff split: option.split)
  ultimately have "carriage_return \<notin> set t"
    using assms(2) by (auto simp: list_all_iff intro!: join_lines_no_return)
  moreover have "append_authorized_keys exe pub port (Some t) = Some t"
    using authorized_keys_upgrade [OF body assms(2) t] by blast
  ultimately show ?thesis by (simp add: key_entry_def universal_newlines_id)
qed

text \<open>
  What the libraries promise: the configuration that \<open>init\<close> writes is loaded with the token and port it was given, a fresh
  token is not empty, the text of a fresh key has no carriage return.
\<close>

definition init_env_ok :: "'w init_env \<Rightarrow> int \<Rightarrow> bool" where
  "init_env_ok e port \<longleftrightarrow>
     (\<forall>fp token. \<exists>cfg. load_config (ie_config e) (Config_Text (config_text e fp port token)) = Inr cfg
         \<and> api_token (identity cfg) = Some token \<and> listen_port (agent_sec cfg) = port)
     \<and> (\<forall>w. snd (ie_token_urlsafe e w) \<noteq> [])
     \<and> (\<forall>w. carriage_return \<notin> set (fst (snd (ie_keygen e w))))"

text \<open>With them, the run has a token, its configuration is loaded, and the private key is read back as it was sent.\<close>

lemma cmd_init_working:
  assumes "platform (ie_system e) = Linux" "init_env_ok e port" "cmd_init e port m = (m', out)" "o_end out = Returns"
  obtains pem fp token pub cfg p where "initialised e port m' out pem fp token pub" "token \<noteq> []"
    "load_config (ie_config e) (config_file_of e m') = Inr cfg" "api_token (identity cfg) = Some token"
    "listen_port (agent_sec cfg) = port"
    "text_files m' (private_key_path (keys_dir e)) = Some p" "pem = universal_newlines p"
proof -
  obtain pem fp token pub where *: "initialised e port m' out pem fp token pub"
    by (rule cmd_init_initialised [OF assms(1,3,4)])
  have "token \<noteq> []" using * assms(2) unfolding initialised_def init_env_ok_def by (metis snd_conv)
  moreover have "universal_newlines pem = pem" if "ie_keygen e v = (v', pem, raw)" for v v' raw
    using assms(2) that unfolding init_env_ok_def by (metis fst_conv snd_conv universal_newlines_id)
  with * obtain p where "text_files m' (private_key_path (keys_dir e)) = Some p" "pem = universal_newlines p"
    unfolding initialised_def by metis
  moreover have "config_file_of e m' = Config_Text (config_text e fp port token)"
    using * by (simp add: initialised_def config_file_of_def)
  with assms(2) obtain cfg where "load_config (ie_config e) (config_file_of e m') = Inr cfg" "api_token (identity cfg) = Some token"
    "listen_port (agent_sec cfg) = port"
    unfolding init_env_ok_def by metis
  ultimately show thesis using that * by blast
qed

text \<open>The steps that change files, on a machine that is initialised.\<close>

lemma init_files_again:
  assumes "platform (ie_system e) = Linux" "initialised e port m out pem fp token pub" "token \<noteq> []"
    and "text_files m (private_key_path (keys_dir e)) = Some p" "pem = universal_newlines p" "api_token (identity cfg) = Some token"
    and "\<And>w. which (ie_system e) ''csl-agent'' w = exe"
    and "list_all (\<lambda>c. \<not> is_line_break c) (build_authorized_keys_entry exe pub port)"
    and "text_files m1 = text_files m"
  obtains m2 entries where "init_files e cfg port m1 = (m2, Inr (pem, fp, token))"
    "text_files m2 = (text_files m)(linux_keys e \<mapsto> entries, config_path e \<mapsto> config_text e fp port token)"
    "final_files e fp port token entries (text_files m) = text_files m"
proof -
  obtain old entries where k: "key_entry e exe pub port old = Some entries" "text_files m (linux_keys e) = Some entries"
    "final_files e fp port token entries (text_files m) = text_files m"
    using assms(2,7) unfolding initialised_def by auto
  have t: "choose_token e cfg m1 = (m1, token)" using assms(3,6) by (cases token) (simp_all add: choose_token_def)
  have g: "generate_keypair e (path_join (ie_base e) ''keys'') m1 = (m1, Inr (pem, fp, pub))"
    using assms(2,4,5) by (simp add: initialised_def generate_keypair_def assms(9) flip: keys_dir_def)
  have "key_entry e exe pub port (Some entries) = Some entries" by (rule key_entry_again [OF k(1) assms(8)])
  then have i: "install_key e cfg pub port m1 = (write_text (linux_keys e) entries m1, Inr ())"
    using assms(1,7) k(2) by (simp add: install_key_def ak_path_def key_entry_def assms(9) ret_def flip: linux_keys_def)
  show thesis
  proof (rule that)
    show "init_files e cfg port m1 = (write_config e fp port token (write_text (linux_keys e) entries m1), Inr (pem, fp, token))"
      using t g i by (simp add: init_files_def)
    show "text_files (write_config e fp port token (write_text (linux_keys e) entries m1))
        = (text_files m)(linux_keys e \<mapsto> entries, config_path e \<mapsto> config_text e fp port token)"
      by (simp add: write_config_def config_text_def write_text_def assms(9))
  qed (rule k(3))
qed

text \<open>
  C31. \<open>csl-agent init\<close> can be repeated: run again on the machine it left, on Linux and for the same port, it writes
  every file as it was, keeps the key pair and the token, and prints the same bundle, so that the
  registration at the control station stays valid.
\<close>

theorem init_again_changes_nothing:
  assumes "platform (ie_system e) = Linux" "init_env_ok e port" "cmd_init e port m = (m', out)" "o_end out = Returns"
    and "\<And>w. which (ie_system e) ''csl-agent'' w = exe"
    and "text_files m' (public_key_path (keys_dir e)) = Some pub"
    and "list_all (\<lambda>c. \<not> is_line_break c) (build_authorized_keys_entry exe pub port)"
    and "check_readiness_linux (ie_system e) m' = (m1, Inr found)"
  shows "\<exists>m'' out'. cmd_init e port m' = (m'', out') \<and> o_end out' = Returns
    \<and> text_files m'' = text_files m' \<and> o_stdout out' = o_stdout out"
proof -
  obtain pem fp token pub' cfg p where *: "initialised e port m' out pem fp token pub'" "token \<noteq> []"
    "load_config (ie_config e) (config_file_of e m') = Inr cfg" "api_token (identity cfg) = Some token"
    "text_files m' (private_key_path (keys_dir e)) = Some p" "pem = universal_newlines p"
    by (rule cmd_init_working [OF assms(1-4)])
  have pub: "pub' = pub" using *(1) assms(6) by (simp add: initialised_def)
  have m1: "text_files m1 = text_files m'" by (rule keeps_filesD [OF keeps_check_readiness_linux assms(8)])
  obtain m2 entries where f: "init_files e cfg port m1 = (m2, Inr (pem, fp, token))"
    "text_files m2 = (text_files m')(linux_keys e \<mapsto> entries, config_path e \<mapsto> config_text e fp port token)"
    "final_files e fp port token entries (text_files m') = text_files m'"
    by (rule init_files_again [OF assms(1) *(1) [unfolded pub] *(2,5,6,4) assms(5,7) m1])
  let ?m3 = "write_approvals (approvals_file e) m2"
  obtain m4 r where s: "install_linux (ie_system e) (ie_home e) (ie_interpreter e) ?m3 = (m4, r)"
    by (cases "install_linux (ie_system e) (ie_home e) (ie_interpreter e) ?m3")
  have "text_files m4 = final_files e fp port token entries (text_files m')"
    using paths_distinct [of "keys_dir e" e "ie_home e"] install_linux_files [OF s]
    by (auto simp: f(2) final_files_def write_approvals_def write_text_def Let_def split: option.split)
  moreover have "check_readiness (ie_system e) cfg m' = (m1, Inr found)" using assms(1,8) by (simp add: check_readiness_def)
  moreover have "install_service (ie_system e) (ie_home e) (ie_temp_name e) (ie_interpreter e) ?m3 = (m4, r)"
    using s assms(1) by (simp add: install_service_def agent_executable_def)
  moreover have "o_stdout out = init_output (encode_bundle (ie_json e) (init_bundle e pem fp token port)) fp port (init_platform e)"
    using *(1) by (simp add: initialised_def)
  ultimately show ?thesis using *(3) f(1,3) by (simp add: cmd_init_def approvals_file_def)
qed

section \<open>An example\<close>

text \<open>A machine with \<open>sshd\<close>, where every command succeeds; its YAML keeps the token, its JSON is that of \<open>field_json\<close>.\<close>

definition example_dump_yaml :: "yaml \<Rightarrow> string" where
  "example_dump_yaml v =
     (case v of YMap [_, (_, YMap [_, _, (_, YStr token)]), _, _] \<Rightarrow> token | _ \<Rightarrow> [])"

definition example_init_config :: "string option \<Rightarrow> agent_config" where
  "example_init_config token =
     \<lparr>agent_sec = \<lparr>listen_port = 80, idle_timeout_seconds = 600, csl_dir = ''/c'', scripts_dir = ''/c/s'', pending_dir = ''/c/p'',
        logs_dir = ''/c/l'', state_path = ''/c/r'', approvals_path = ''/c/a'', lifecycle_check_interval_seconds = 10,
        log_tail_lines = 1000\<rparr>,
      identity = \<lparr>key_fingerprint = None, hostname_hint = None, api_token = token\<rparr>,
      auto_approve_list = [], windows_admin_authorized_keys_path = ''/k''\<rparr>"

definition example_init_libs :: config_libs where
  "example_init_libs =
     \<lparr>c_safe_load = (\<lambda>t. Some (YMap [(''token'', YStr t)])),
      c_fields = (\<lambda>v. Inr (example_init_config (case v of YMap ((_, YStr t) # _) \<Rightarrow> Some t | _ \<Rightarrow> None))),
      c_path = (\<lambda>v. ''/c''), c_expanduser = (\<lambda>p. p), c_base = ''/c''\<rparr>"

definition example_system :: "unit system" where
  "example_system =
     \<lparr>platform = Linux, is_admin = False, which = (\<lambda>p _. Some (''/bin/'' @ p)), path_exists = (\<lambda>_ _. True),
      execute = (\<lambda>_ _. ((), Some \<lparr>pr_code = 0, pr_stdout = [], pr_stderr = []\<rparr>))\<rparr>"

text \<open>A printer and a reader of objects with nine fields, texts and integers: every value with its length in unary.\<close>

definition sized :: "string \<Rightarrow> string" where
  "sized s = replicate (length s) (CHR ''x'') @ CHR '':'' # s"

definition unsized :: "string \<Rightarrow> string \<times> string" where
  "unsized s = (let n = length (takeWhile (\<lambda>c. c = CHR ''x'') s); r = drop (n + 1) s in (take n r, drop n r))"

fun scalar :: "yaml \<Rightarrow> string" where
  "scalar (YStr s) = CHR ''s'' # s"
| "scalar (YInt i) = CHR ''i'' # int_str i"
| "scalar _ = []"

definition unscalar :: "string \<Rightarrow> yaml" where
  "unscalar s = (if take 1 s = ''s'' then YStr (tl s) else case py_int (tl s) of Some i \<Rightarrow> YInt i | None \<Rightarrow> YNull)"

fun write_fields :: "(string \<times> yaml) list \<Rightarrow> string" where
  "write_fields [] = []"
| "write_fields ((k, v) # d) = sized k @ sized (scalar v) @ write_fields d"

fun read_fields :: "nat \<Rightarrow> string \<Rightarrow> (string \<times> yaml) list" where
  "read_fields 0 s = []"
| "read_fields (Suc n) s = (let (k, r) = unsized s; (v, t) = unsized r in (k, unscalar v) # read_fields n t)"

definition field_json :: json_libs where
  "field_json =
     \<lparr>json_dumps = (\<lambda>v. case v of YMap d \<Rightarrow> write_fields d | _ \<Rightarrow> []), json_loads = (\<lambda>s. Some (YMap (read_fields 9 s)))\<rparr>"

lemma unsized_sized [simp]: "unsized (sized s @ r) = (s, r)" "unsized (sized s) = (s, [])"
  by (simp_all add: sized_def unsized_def Let_def takeWhile_append)

lemma unscalar_scalar [simp]: "unscalar (scalar (YStr s)) = YStr s" "unscalar (scalar (YInt i)) = YInt i"
  by (simp_all add: unscalar_def)

lemma field_json_ok: "json_ok field_json (bundle_payload b)"
  by (simp add: json_ok_def field_json_def bundle_payload_def eval_nat_numeral del: scalar.simps)

definition example_init_env :: "unit init_env" where
  "example_init_env =
     \<lparr>ie_system = example_system, ie_config = example_init_libs, ie_dump_yaml = example_dump_yaml,
      ie_json = field_json, ie_keygen = (\<lambda>_. ((), ''PEM'', ''ssh-ed25519 AAAA'')),
      ie_token_urlsafe = (\<lambda>_. ((), ''tok'')), ie_sha256 = (\<lambda>x. x), ie_hostname = ''h'', ie_user = ''u'', ie_version = None,
      ie_interpreter = ''/py'', ie_temp_name = ''/t'', ie_home = ''/home''\<rparr>"

definition example_blank :: "unit machine" where
  "example_blank = \<lparr>text_files = Map.empty, world = ()\<rparr>"

definition example_pub :: string where
  "example_pub = ''ssh-ed25519 AAAA csl-agent@h'' @ [newline]"

lemmas example_init_simps =
  example_init_env_def example_init_libs_def example_system_def example_init_config_def example_blank_def

lemma example_fingerprint: "ssh_fingerprint (\<lambda>x. x) example_pub = Inr ''SHA256:AAAA''"
  by code_simp

lemma example_entries:
  "\<exists>t. append_authorized_keys (Some ''/bin/csl-agent'') example_pub 80 None = Some t"
proof -
  have "key_body example_pub = Some ''AAAA''" by code_simp
  then show ?thesis by (simp add: append_authorized_keys_def Let_def)
qed

lemma example_pub_made: "py_strip ''ssh-ed25519 AAAA'' @ '' csl-agent@'' @ ''h'' @ [newline] = example_pub"
  by code_simp

lemma example_readiness:
  "check_readiness_linux example_system m = (m, Inr [])"
  by (cases m) (simp add: check_readiness_linux_def sshd_running_linux_def run_process_def example_system_def andthen_def ret_def)

lemma example_run:
  obtains m out where "cmd_init example_init_env 80 example_blank = (m, out)" "o_end out = Returns"
    "text_files m (public_key_path (keys_dir example_init_env)) = Some example_pub"
    "text_files m (private_key_path (keys_dir example_init_env)) = Some ''PEM''"
    "o_stdout out = init_output (encode_bundle field_json (init_bundle example_init_env ''PEM'' ''SHA256:AAAA'' ''tok'' 80))
       ''SHA256:AAAA'' 80 (init_platform example_init_env)"
proof -
  let ?e = example_init_env
  let ?cfg = "default_config example_init_libs"
  have l: "load_config (ie_config ?e) (config_file_of ?e example_blank) = Inr ?cfg"
    by (simp add: load_config_def config_file_of_def example_init_env_def example_blank_def)
  have r: "check_readiness (ie_system ?e) ?cfg example_blank = (example_blank, Inr [])"
    using example_readiness [of example_blank] by (simp add: check_readiness_def example_init_env_def example_system_def)
  have t: "choose_token ?e ?cfg example_blank = (example_blank, ''tok'')"
    by (simp add: choose_token_def default_config_def Let_def example_init_env_def example_blank_def)
  define mk where "mk = write_text (public_key_path (keys_dir ?e)) example_pub (write_text (private_key_path (keys_dir ?e)) ''PEM'' example_blank)"
  have k: "generate_keypair ?e (path_join (ie_base ?e) ''keys'') example_blank = (mk, Inr (''PEM'', ''SHA256:AAAA'', example_pub))"
    using example_fingerprint example_pub_made
    by (simp add: generate_keypair_def example_init_env_def example_blank_def mk_def keys_dir_def Let_def)
  obtain entries where en: "append_authorized_keys (Some ''/bin/csl-agent'') example_pub 80 None = Some entries"
    using example_entries ..
  note dist = paths_distinct [of "keys_dir ?e" ?e "ie_home ?e"]
  have "text_files mk (linux_keys ?e) = None"
    using dist by (auto simp: mk_def write_text_def example_blank_def)
  then have i: "install_key ?e ?cfg example_pub 80 mk = (write_text (linux_keys ?e) entries mk, Inr ())"
    using en unfolding linux_keys_def
    by (simp add: install_key_def ak_path_def Let_def example_init_env_def example_system_def)
  define m2 where "m2 = write_config ?e ''SHA256:AAAA'' 80 ''tok'' (write_text (linux_keys ?e) entries mk)"
  have f: "init_files ?e ?cfg 80 example_blank = (m2, Inr (''PEM'', ''SHA256:AAAA'', ''tok''))"
    using t k i by (simp add: init_files_def m2_def)
  obtain m4 r4 where s: "install_service (ie_system ?e) (ie_home ?e) (ie_temp_name ?e) (ie_interpreter ?e)
      (write_approvals (approvals_file ?e) m2) = (m4, r4)"
    by (cases "install_service (ie_system ?e) (ie_home ?e) (ie_temp_name ?e) (ie_interpreter ?e) (write_approvals (approvals_file ?e) m2)")
  have "install_linux (ie_system ?e) (ie_home ?e) (ie_interpreter ?e) (write_approvals (approvals_file ?e) m2) = (m4, r4)"
    using s by (simp add: install_service_def agent_executable_def example_init_env_def example_system_def)
  from install_linux_files [OF this]
  have "text_files m4 (public_key_path (keys_dir ?e)) = Some example_pub" "text_files m4 (private_key_path (keys_dir ?e)) = Some ''PEM''"
    using dist by (auto simp: m2_def mk_def write_approvals_def write_config_def write_text_def split: option.split)
  moreover have "ie_json ?e = field_json" by (simp add: example_init_env_def)
  then obtain out where "cmd_init ?e 80 example_blank = (m4, out)" "o_end out = Returns"
    "o_stdout out = init_output (encode_bundle field_json (init_bundle ?e ''PEM'' ''SHA256:AAAA'' ''tok'' 80))
       ''SHA256:AAAA'' 80 (init_platform ?e)"
    using l r f s by (simp add: cmd_init_def approvals_file_def)
  ultimately show thesis by (intro that)
qed

theorem init_bundle_fits_machine_witness:
  "\<exists>m' out b. cmd_init example_init_env 80 example_blank = (m', out)
     \<and> Print (line (encode_bundle (field_json) b)) \<in> set (o_stdout out)
     \<and> rb_private_key b = ''PEM'' \<and> ssh_fingerprint (\<lambda>x. x) example_pub = Inr (rb_key_fingerprint b)"
proof -
  obtain m out where run: "cmd_init example_init_env 80 example_blank = (m, out)" "o_end out = Returns"
    and keys: "text_files m (public_key_path (keys_dir example_init_env)) = Some example_pub"
      "text_files m (private_key_path (keys_dir example_init_env)) = Some ''PEM''"
    by (rule example_run)
  have p: "platform (ie_system example_init_env) = Linux" by (simp add: example_init_env_def example_system_def)
  have u: "universal_newlines ''PEM'' = ''PEM''" by code_simp
  have e: "ie_json example_init_env = field_json" "ie_sha256 example_init_env = (\<lambda>x. x)"
    by (simp_all add: example_init_env_def)
  obtain b pem pub where b: "Print (line (encode_bundle (field_json) b)) \<in> set (o_stdout out)"
    "Some ''PEM'' = Some pem" "rb_private_key b \<in> {pem, universal_newlines pem}"
    "Some example_pub = Some pub" "ssh_fingerprint (\<lambda>x. x) pub = Inr (rb_key_fingerprint b)"
    using init_bundle_fits_machine [OF p run, unfolded e keys] by (elim exE conjE)
  then have "pem = ''PEM''" "pub = example_pub" by simp_all
  with b u have "rb_private_key b = ''PEM''" "ssh_fingerprint (\<lambda>x. x) example_pub = Inr (rb_key_fingerprint b)"
    by auto
  with run(1) b(1) show ?thesis by (intro exI conjI)
qed

lemma example_init_env_ok: "init_env_ok example_init_env 80"
  by (simp add: init_env_ok_def example_init_env_def example_init_libs_def example_init_config_def example_system_def load_config_def
      config_text_def example_dump_yaml_def init_config_def validate_stripping_unknowns_def config_model_validate_def
      bindR_def carriage_return_def expand_paths_def)

theorem init_again_changes_nothing_witness:
  "\<exists>m out m' out'. cmd_init example_init_env 80 example_blank = (m, out) \<and> cmd_init example_init_env 80 m = (m', out')
     \<and> text_files m' = text_files m \<and> o_stdout out' = o_stdout out"
proof -
  obtain m out where run: "cmd_init example_init_env 80 example_blank = (m, out)" "o_end out = Returns"
    and keys: "text_files m (public_key_path (keys_dir example_init_env)) = Some example_pub"
    by (rule example_run)
  have p: "platform (ie_system example_init_env) = Linux" by (simp add: example_init_env_def example_system_def)
  have w: "which (ie_system example_init_env) ''csl-agent'' w = Some ''/bin/csl-agent''" for w
    by (simp add: example_init_env_def example_system_def)
  have l: "list_all (\<lambda>c. \<not> is_line_break c) (build_authorized_keys_entry (Some ''/bin/csl-agent'') example_pub 80)"
    by code_simp
  have r: "check_readiness_linux (ie_system example_init_env) m = (m, Inr [])"
    using example_readiness by (simp add: example_init_env_def)
  show ?thesis
    using init_again_changes_nothing [OF p example_init_env_ok run w keys l r] run(1) by blast
qed

end
