(* ===== verification/Enrolment.thy ===== *)
theory Enrolment
  imports Agent_Init_Props Machines_Props
begin

text \<open>
  The enrolment of a target, across its two ends: the owner runs \<open>csl-agent init\<close> (\<open>agent/cli/cmd_init.py\<close>) and hands
  the printed bundle to an administrator, who registers the machine (\<open>server/api/machines.py\<close>); from then on the
  client of the control station (\<open>server/core/agent_client.py\<close>) speaks to the agent (\<open>agent/main.py\<close>) that runs with
  the configuration \<open>init\<close> wrote.
\<close>

lemma auth_check_bearer:
  assumes "token \<noteq> []" "is_ascii token"
  shows "auth_check (Some token) (Some (''Bearer '' @ token)) = None"
    and "h \<noteq> Some (''Bearer '' @ token) \<Longrightarrow> \<exists>r. auth_check (Some token) h = Some r \<and> fst r \<in> {401, 500}"
proof -
  show "auth_check (Some token) (Some (''Bearer '' @ token)) = None"
    using assms by (simp add: auth_check_def startswith_def Let_def)
  assume h: "h \<noteq> Some (''Bearer '' @ token)"
  show "\<exists>r. auth_check (Some token) h = Some r \<and> fst r \<in> {401, 500}"
  proof (cases h)
    case (Some t)
    have "t = ''Bearer '' @ drop 7 t" if "startswith t ''Bearer ''"
      using that by (auto simp: startswith_def prefix_def)
    with h Some assms show ?thesis by (auto simp: auth_check_def Let_def)
  qed (use assms in \<open>auto simp: auth_check_def Let_def startswith_def\<close>)
qed

lemma serve_bearer:
  assumes "token \<noteq> []" "is_ascii token" "api_token (identity (ag_config a)) = Some token"
  shows "if authorization q = Some (''Bearer '' @ token) then serve x q a = route x (target q) (active a)
    else fst (serve x q a) = a \<and> fst (snd (serve x q a)) \<in> {401, 500}"
proof (cases "authorization q = Some (''Bearer '' @ token)")
  case True
  then show ?thesis using auth_check_bearer(1) [OF assms(1,2)] by (simp add: serve_def assms(3))
next
  case False
  then obtain r where "auth_check (Some token) (authorization q) = Some r" "fst r \<in> {401, 500}"
    using auth_check_bearer(2) [OF assms(1,2)] by blast
  then have "fst (serve x q a) = a \<and> fst (snd (serve x q a)) \<in> {401, 500}" by (simp add: serve_def assms(3))
  then show ?thesis unfolding if_not_P [OF False] .
qed

lemma registered_row:
  assumes "register_machine st now n1 n2 tok i (begin_session db, v) = ((s', v'), Inr r)" "decode_bundle (st_json st) (in_bundle i) = Inr b"
  obtains hk where "r = new_machine (st_net st) now n1 n2 i b (m_ssh_user r) hk db"
proof -
  obtain admin where "register_machine_from_input st now n1 n2 i admin (begin_session db, v) = ((s', v'), Inr r)"
    using assms(1) by (auto simp: register_machine_def split: sum.splits)
  then show thesis by (rule register_accepted) (use assms(2) that in simp)
qed

text \<open>
  C34. A target that was set up with \<open>csl-agent init\<close> and registered with the bundle it printed is enrolled: the
  control station stores the private key of the key pair on the target and the port of its configuration, and the
  agent that runs with that configuration serves every request that carries the control station's stored token, and
  refuses every other one (401, or 500 for text outside ASCII) without doing anything, whichever agent state it is in.
\<close>

theorem enrolled_target_obeys_station:
  assumes "platform (ie_system e) = Linux" "init_env_ok e port" "cmd_init e port m = (m', out)" "o_end out = Returns"
    and "o_stdout out ! 1 = Print (line (in_bundle i))" "st_json st = ie_json e" "\<forall>b. json_ok (ie_json e) (bundle_payload b)"
    and "register_machine st now n1 n2 tok i (begin_session db, v) = ((s', v'), Inr r)"
    and "aead_ok (net_aead (st_net st))" "length n1 = NONCE_SIZE" "length n2 = NONCE_SIZE"
  shows "\<exists>cfg pem token h.
      load_config (ie_config e) (config_file_of e m') = Inr cfg
    \<and> listen_port (agent_sec cfg) = port \<and> m_agent_port r = port
    \<and> text_files m' (private_key_path (keys_dir e)) = Some pem
    \<and> decrypt_key (st_net st) r \<in> {Inr pem, Inr (universal_newlines pem)}
    \<and> api_token (identity cfg) = Some token \<and> token \<noteq> []
    \<and> auth_headers (net_aead (st_net st)) (master_key (st_net st)) r = Inr h
    \<and> (is_ascii token \<longrightarrow>
        (\<forall>(x :: ('t, 'u) surroundings) a q. ag_config a = cfg \<longrightarrow>
          (if authorization q = h then serve x q a = route x (target q) (active a)
           else fst (serve x q a) = a \<and> fst (snd (serve x q a)) \<in> {401, 500})))"
proof -
  obtain pem fp token pub cfg p where *: "initialised e port m' out pem fp token pub" "token \<noteq> []"
    "load_config (ie_config e) (config_file_of e m') = Inr cfg" "api_token (identity cfg) = Some token"
    "listen_port (agent_sec cfg) = port" "text_files m' (private_key_path (keys_dir e)) = Some p" "pem = universal_newlines p"
    by (rule cmd_init_working [OF assms(1-4)])
  let ?b = "init_bundle e pem fp token port"
  have "in_bundle i = encode_bundle (ie_json e) ?b" using assms(5) *(1) by (simp add: initialised_def init_output_def line_def)
  then have b: "decode_bundle (st_json st) (in_bundle i) = Inr ?b"
    using initialised_bundle [OF assms(1)] assms(6,7) by simp
  obtain hk where r: "r = new_machine (st_net st) now n1 n2 i ?b (m_ssh_user r) hk db"
    by (rule registered_row [OF assms(8) b])
  note secrets = new_machine_secrets [OF r assms(9-11)]
  have "m_agent_port r = port" by (subst r) (simp add: new_machine_def init_bundle_def)
  moreover have "decrypt_key (st_net st) r \<in> {Inr p, Inr (universal_newlines p)}"
    using secrets(1) *(7) by (simp add: init_bundle_def)
  moreover have "auth_headers (net_aead (st_net st)) (master_key (st_net st)) r = Inr (Some (''Bearer '' @ token))"
    using secrets(2) *(2) by (simp add: init_bundle_def)
  moreover have "if authorization q = Some (''Bearer '' @ token) then serve x q a = route x (target q) (active a)
      else fst (serve x q a) = a \<and> fst (snd (serve x q a)) \<in> {401, 500}"
    if "is_ascii token" "ag_config a = cfg" for x :: "('t, 'u) surroundings" and a q
    using serve_bearer [OF *(2) that(1), of a q x] *(4) that(2) by simp
  ultimately show ?thesis using *(2-6) by blast
qed

text \<open>The example of \<open>Agent_Init_Props\<close>, registered.\<close>

definition enrolled_bundle :: registration_bundle where
  "enrolled_bundle = init_bundle example_init_env ''PEM'' ''SHA256:AAAA'' ''tok'' 80"

definition enrolling_control :: "(claims, unit, unit, unit) station" where
  "enrolling_control =
     example_control\<lparr>st_json := field_json,
       st_safe_load := (\<lambda>t. Some (YMap [(''identity'', YMap [(''key_fingerprint'', YStr ''SHA256:AAAA'')])]))\<rparr>"

definition enrolling_input :: register_input where
  "enrolling_input = example_input\<lparr>in_bundle := encode_bundle field_json enrolled_bundle\<rparr>"

lemma enrolled_bundle_fields:
  "rb_private_key enrolled_bundle = ''PEM''" "rb_platform enrolled_bundle = ''linux''"
  "rb_key_fingerprint enrolled_bundle = ''SHA256:AAAA''" "rb_agent_version enrolled_bundle = ''unknown''"
  by (simp_all add: enrolled_bundle_def init_bundle_def init_platform_def current_platform_name_def example_init_env_def example_system_def)

lemma enrolling_decode: "decode_bundle (st_json enrolling_control) (in_bundle enrolling_input) = Inr enrolled_bundle"
  using bundle_roundtrip [of field_json enrolled_bundle] field_json_ok enrolled_bundle_fields(2)
  by (simp add: enrolling_control_def enrolling_input_def)

lemma enrolling_test: "ssh_connection_test enrolling_control enrolled_bundle k () = ((), Inr ''ssh-ed25519 A'')"
  by (simp add: ssh_connection_test_def enrolling_control_def example_control_def example_net_def enrolled_bundle_fields
      remote_fingerprint_def py_strip_def rstrip_chars_def lstrip_chars_def is_space_def ccode_def)

lemma enrolling_registered:
  "\<exists>s' r. register_machine enrolling_control 5 ''nonce-nonce-'' ''nonce2nonce2'' example_token enrolling_input
     (begin_session one_user, ([], ())) = ((s', ([], ())), Inr r)"
proof -
  have "st_auth enrolling_control = example_auth_libs" "machines one_user = []"
    "assert_version_compatible (st_version enrolling_control) (rb_agent_version enrolled_bundle) = Inr ()"
    by (simp_all add: enrolling_control_def example_control_def one_user_def empty_database_def enrolled_bundle_fields
        assert_version_compatible_def major_def is_space_def is_digit_def ccode_def split: option.split)
  then show ?thesis
    by (simp add: register_machine_def example_admin register_machine_from_input_def enrolling_decode enrolling_test Let_def)
qed

theorem enrolled_target_obeys_station_witness:
  "\<exists>m' out s' r h cfg. cmd_init example_init_env 80 example_blank = (m', out)
    \<and> register_machine enrolling_control 5 ''nonce-nonce-'' ''nonce2nonce2'' example_token enrolling_input
         (begin_session one_user, ([], ())) = ((s', ([], ())), Inr r)
    \<and> auth_headers example_aead ''master'' r = Inr h
    \<and> load_config example_init_libs (config_file_of example_init_env m') = Inr cfg \<and> listen_port (agent_sec cfg) = m_agent_port r"
proof -
  let ?e = example_init_env
  obtain m' out where run: "cmd_init ?e 80 example_blank = (m', out)" "o_end out = Returns"
    and o: "o_stdout out = init_output (encode_bundle field_json (init_bundle ?e ''PEM'' ''SHA256:AAAA'' ''tok'' 80))
       ''SHA256:AAAA'' 80 (init_platform ?e)"
    by (rule example_run)
  obtain s' r where reg: "register_machine enrolling_control 5 ''nonce-nonce-'' ''nonce2nonce2'' example_token enrolling_input
     (begin_session one_user, ([], ())) = ((s', ([], ())), Inr r)"
    using enrolling_registered by blast
  have p: "platform (ie_system ?e) = Linux" and lib: "ie_config ?e = example_init_libs"
    by (simp_all add: example_init_env_def example_system_def)
  have t: "o_stdout out ! 1 = Print (line (in_bundle enrolling_input))"
    by (simp add: o init_output_def enrolling_input_def enrolled_bundle_def)
  have j: "st_json enrolling_control = ie_json ?e" "\<forall>b. json_ok (ie_json ?e) (bundle_payload b)"
    using field_json_ok by (simp_all add: enrolling_control_def example_init_env_def)
  have net: "net_aead (st_net enrolling_control) = example_aead" "master_key (st_net enrolling_control) = ''master''"
    by (simp_all add: enrolling_control_def example_control_def example_net_def)
  have a: "aead_ok (net_aead (st_net enrolling_control))" "length ''nonce-nonce-'' = NONCE_SIZE" "length ''nonce2nonce2'' = NONCE_SIZE"
    using example_aead_ok by (simp_all add: net NONCE_SIZE_def)
  obtain cfg h where "load_config (ie_config ?e) (config_file_of ?e m') = Inr cfg" "listen_port (agent_sec cfg) = 80"
    "m_agent_port r = 80" "auth_headers (net_aead (st_net enrolling_control)) (master_key (st_net enrolling_control)) r = Inr h"
    using enrolled_target_obeys_station [OF p example_init_env_ok run t j reg a] by (elim exE conjE) rule
  then have "auth_headers example_aead ''master'' r = Inr h"
    "load_config example_init_libs (config_file_of ?e m') = Inr cfg" "listen_port (agent_sec cfg) = m_agent_port r"
    by (simp_all add: net lib)
  with run(1) reg show ?thesis by (intro exI conjI)
qed

end
