(* ===== verification/Agent_Command.thy ===== *)
theory Agent_Command
  imports Agent_Init
begin

text \<open>
  \<open>agent/cli/_main.py\<close>: which handler a command line of \<open>csl-agent\<close> reaches.  \<open>argparse\<close> gives the parsed command;
  \<open>shell\<close> is the exit code of a command run by the shell.  An \<open>approvals.json\<close> that \<open>init\<close> creates is the empty
  store, as a missing one is, so that the disk of the approvals is not changed by it.
\<close>

datatype agent_command =
  Cmd_Init int | Cmd_Setup | Cmd_Ssh_Gateway | Cmd_Approvals approvals_cmd | Cmd_Policy policy_cmd | No_Command

record ('w, 't) target =
  tg_machine :: "'w machine"
  tg_disk :: "'t disk"

definition DEFAULT_AGENT_PORT :: int where
  "DEFAULT_AGENT_PORT = 36717"

text \<open>The configuration as the policy commands leave it, in the file.\<close>

definition put_config :: "'w init_env \<Rightarrow> config_file \<Rightarrow> 'w machine \<Rightarrow> 'w machine" where
  "put_config e f m = (case f of Config_Text t \<Rightarrow> write_text (config_path e) t m | _ \<Rightarrow> m)"

definition gateway_outcome :: "string option \<times> int \<Rightarrow> cli_outcome" where
  "gateway_outcome r =
     \<lparr>o_stdout = (case fst r of None \<Rightarrow> [Print (line ''csl-agent ssh-gateway: command not permitted'')] | Some _ \<Rightarrow> []),
      o_stderr = [], o_end = Exits (snd r)\<rparr>"

fun agent_main ::
  "'w init_env \<Rightarrow> 't codec \<Rightarrow> (string \<Rightarrow> int) \<Rightarrow> string option \<Rightarrow> agent_command \<Rightarrow> ('w, 't) target
     \<Rightarrow> ('w, 't) target \<times> cli_outcome" where
  "agent_main e cd shell original (Cmd_Init port) g =
     (let (m, out) = cmd_init e port (tg_machine g) in (g\<lparr>tg_machine := m\<rparr>, out))"
| "agent_main e cd shell original Cmd_Ssh_Gateway g =
     (g, gateway_outcome (cmd_ssh_gateway shell (platform (ie_system e) = Windows) (platform (ie_system e) = Macos) original))"
| "agent_main e cd shell original Cmd_Setup g =
     (let (m, out) = cmd_setup (ie_system e) (ie_config e) (config_file_of e (tg_machine g)) (tg_machine g)
      in (g\<lparr>tg_machine := m\<rparr>, out))"
| "agent_main e cd shell original (Cmd_Approvals c) g =
     (let (d, out) = dispatch_approvals (ie_config e) cd (config_file_of e (tg_machine g)) c (tg_disk g)
      in (g\<lparr>tg_disk := d\<rparr>, out))"
| "agent_main e cd shell original (Cmd_Policy c) g =
     (let (f, out) = dispatch_policy (ie_dump_yaml e) (ie_config e) c (config_file_of e (tg_machine g))
      in (g\<lparr>tg_machine := put_config e f (tg_machine g)\<rparr>, out))"
| "agent_main e cd shell original No_Command g = (g, \<lparr>o_stdout = [Help], o_stderr = [], o_end = Exits 1\<rparr>)"

text \<open>The forced command of the control station's key changes none of the files the agent trusts.\<close>

lemma gateway_changes_no_file: "fst (agent_main e cd shell original Cmd_Ssh_Gateway g) = g"
  by simp

lemma gateway_refuses:
  "original \<notin> Some ` set (allowed_commands (current_platform_name (platform (ie_system e) = Windows) (platform (ie_system e) = Macos)))
     \<Longrightarrow> original \<noteq> None \<Longrightarrow> o_end (snd (agent_main e cd shell original Cmd_Ssh_Gateway g)) = Exits REJECTED_EXIT"
  by (auto simp: gateway_outcome_def cmd_ssh_gateway_def Let_def split: option.splits)

end
