(* ===== verification/Server_Cli.thy ===== *)
theory Server_Cli
  imports Registry_Props Agent_Cli
begin

text \<open>
  \<open>server/cli.py\<close>: \<open>csl-admin create-admin\<close> and \<open>csl-admin seed-scripts\<close>.  What is typed is an argument; \<open>hash\<close> is
  \<open>hash_password\<close>, \<open>None\<close> when \<open>bcrypt\<close> refuses the password.  The commands share the tables with the server.
\<close>

record typed =
  ty_username :: string
  ty_password :: string
  ty_confirm :: string

definition new_admin :: "int \<Rightarrow> string \<Rightarrow> string \<Rightarrow> database \<Rightarrow> user_row" where
  "new_admin now username password_hash db =
     \<lparr>u_id = new_id (map u_id (users db)), u_username = username, u_password_hash = password_hash, u_role = ''admin'',
      u_created_at = now, u_disabled = False\<rparr>"

definition create_admin ::
  "(string \<Rightarrow> string option) \<Rightarrow> int \<Rightarrow> typed \<Rightarrow> database \<Rightarrow> database \<times> cli_outcome" where
  "create_admin hash now ty db =
     (let username = py_strip (ty_username ty) in
      if username = [] then (db, fails ''ERROR: username cannot be empty'')
      else if ty_password ty \<noteq> ty_confirm ty then (db, fails ''ERROR: passwords do not match'')
      else if length (ty_password ty) < 8 then (db, fails ''ERROR: password must be at least 8 characters'')
      else if find (\<lambda>u. u_username u = username) (users db) \<noteq> None then
        (db, fails (''ERROR: user '' @ py_repr username @ '' already exists''))
      else case hash (ty_password ty) of
             None \<Rightarrow> (db, raises ''ValueError'')
           | Some h \<Rightarrow>
               let s = begin_session db;
                   s' = session_commit (on_db (\<lambda>d. d\<lparr>users := users d @ [new_admin now username h d]\<rparr>) s)
               in (finish s', says (''Admin user '' @ py_repr username @ '' created.'')))"

definition earliest_admin :: "database \<Rightarrow> int option" where
  "earliest_admin db =
     (case filter (\<lambda>u. u_role u = ''admin'') (users db) of
        [] \<Rightarrow> None | u # us \<Rightarrow> Some (fold min (map u_id us) (u_id u)))"

definition seed_scripts ::
  "registry_libs \<Rightarrow> int \<Rightarrow> (string \<times> string) list option \<Rightarrow> database \<Rightarrow> database \<times> cli_outcome" where
  "seed_scripts lb now dir db =
     (case earliest_admin db of
        None \<Rightarrow> (db, fails (''ERROR: no admin user found '' @ em_dash @ '' run '' @ single_quoted ''csl-admin create-admin'' @ '' first''))
      | Some admin_id \<Rightarrow>
          (case seed_builtin_scripts lb now admin_id dir (begin_session db) of
             (s, Inl e) \<Rightarrow> (finish s, raises (registry_message e))
           | (s, Inr (created, skipped)) \<Rightarrow>
               (finish (session_commit s),
                \<lparr>o_stdout = Print (line (''Built-in scripts: '' @ nat_str (length created) @ '' added, ''
                     @ nat_str (length skipped) @ '' already present.''))
                   # map (\<lambda>n. Print (line (''  + '' @ n))) created,
                 o_stderr = [], o_end = Returns\<rparr>)))"

datatype admin_command = Create_Admin typed | Seed_Scripts

fun admin_main ::
  "(string \<Rightarrow> string option) \<Rightarrow> registry_libs \<Rightarrow> int \<Rightarrow> (string \<times> string) list option \<Rightarrow> admin_command \<Rightarrow> database
     \<Rightarrow> database \<times> cli_outcome" where
  "admin_main hash lb now dir (Create_Admin ty) db = create_admin hash now ty db"
| "admin_main hash lb now dir Seed_Scripts db = seed_scripts lb now dir db"

section \<open>Properties\<close>

lemma outcome_ends [simp]: "o_end (says t) = Returns" "o_end (fails t) = Exits 1" "o_end (raises x) = Raises x"
  by (simp_all add: says_def fails_def raises_def)

lemma create_admin_Returns:
  assumes "create_admin hash now ty db = (db', out)" "o_end out = Returns"
  obtains h where "hash (ty_password ty) = Some h" "find (\<lambda>u. u_username u = py_strip (ty_username ty)) (users db) = None"
    "db' = db\<lparr>users := users db @ [new_admin now (py_strip (ty_username ty)) h db]\<rparr>"
proof -
  let ?n = "py_strip (ty_username ty)"
  have new: "find (\<lambda>u. u_username u = ?n) (users db) = None"
    using assms unfolding create_admin_def Let_def by (cases "find (\<lambda>u. u_username u = ?n) (users db) = None") (auto split: if_splits)
  obtain h where h: "hash (ty_password ty) = Some h"
    using assms new unfolding create_admin_def Let_def by (cases "hash (ty_password ty)") (auto split: if_splits)
  have "db' = db\<lparr>users := users db @ [new_admin now ?n h db]\<rparr>"
    using assms new h unfolding create_admin_def Let_def finish_def by (auto split: if_splits)
  with h new show thesis by (rule that)
qed

text \<open>A command that does not end normally leaves the database as it was.\<close>

lemma create_admin_fails: "create_admin hash now ty db = (db', out) \<Longrightarrow> o_end out \<noteq> Returns \<Longrightarrow> db' = db"
  unfolding create_admin_def Let_def by (cases "hash (ty_password ty)") (auto split: if_splits)

lemma seed_scripts_fails: "seed_scripts lb now dir db = (db', out) \<Longrightarrow> o_end out \<noteq> Returns \<Longrightarrow> db' = db"
proof -
  have "committed s = db" if "seed_loop lb now uid bs [] [] (begin_session db) = (s, r)" for uid bs s r
    using seed_loop_committed [of lb now uid bs "[]" "[]" "begin_session db"] unfolding that by simp
  then show "seed_scripts lb now dir db = (db', out) \<Longrightarrow> o_end out \<noteq> Returns \<Longrightarrow> ?thesis"
    by (auto simp: seed_scripts_def seed_builtin_scripts_def finish_def split: option.splits prod.splits sum.splits)
qed

lemma find_append_new: "find P xs = None \<Longrightarrow> P x \<Longrightarrow> find P (xs @ [x]) = Some x"
  by (induction xs) (auto split: if_splits)

lemma find_new_id: "find (\<lambda>u. u_id u = new_id (map u_id us)) us = None"
  using new_id_greater [of _ "map u_id us"] by (force simp: find_None_iff)

text \<open>
  C28. The administrator that \<open>csl-admin create-admin\<close> reports as created can work: it is the one new user, an enabled
  administrator; a login with the name (without the spaces around it) and the password typed succeeds, its access
  token passes \<open>require_admin\<close> for 30 minutes and its refresh token is accepted for 14 days.
\<close>

theorem created_admin_works:
  assumes "auth_libs_ok al" "\<forall>p h. hash p = Some h \<longrightarrow> verify_password al p h" "token_rows al jti db = []"
    and "create_admin hash now ty db = (db', out)" "o_end out = Returns"
  shows "\<exists>u tp. users db' = users db @ [u] \<and> u_id u \<notin> u_id ` set (users db) \<and> u_username u \<notin> u_username ` set (users db)
    \<and> (let s = login al t0 jti (py_strip (ty_username ty)) (ty_password ty) (begin_session db'); db'' = finish (fst s)
       in snd s = Inr tp
        \<and> (\<forall>t. t0 \<le> t \<and> t \<le> t0 + 1800 \<longrightarrow> require_admin al t (tp_access tp) db'' = Inr u)
        \<and> (\<forall>t j. t0 \<le> t \<and> t \<le> t0 + 1209600
             \<longrightarrow> (\<exists>tp'. snd (refresh al t j (Some (tp_refresh_cookie tp)) (begin_session db'')) = Inr tp')))"
proof -
  obtain h where h: "hash (ty_password ty) = Some h" "find (\<lambda>u. u_username u = py_strip (ty_username ty)) (users db) = None"
    and db': "db' = db\<lparr>users := users db @ [new_admin now (py_strip (ty_username ty)) h db]\<rparr>"
    using assms(4,5) by (rule create_admin_Returns)
  let ?u = "new_admin now (py_strip (ty_username ty)) h db"
  have u: "u_username ?u = py_strip (ty_username ty)" "u_id ?u = new_id (map u_id (users db))" "\<not> u_disabled ?u"
    "u_role ?u = ''admin''" "u_password_hash ?u = h"
    by (simp_all add: new_admin_def)
  have "find (\<lambda>x. u_username x = py_strip (ty_username ty)) (users db') = Some ?u"
    using find_append_new [OF h(2), of ?u] u(1) by (simp add: db')
  moreover have "find_user (u_id ?u) db' = Some ?u"
    using find_append_new [OF find_new_id, of ?u] u(2) by (simp add: db' find_user_def)
  moreover have "verify_password al (ty_password ty) (u_password_hash ?u)" using assms(2) h(1) u(5) by simp
  moreover have "token_rows al jti db' = []" using assms(3) by (simp add: db' token_rows_def)
  ultimately obtain tp where tp: "snd (login al t0 jti (py_strip (ty_username ty)) (ty_password ty) (begin_session db')) = Inr tp"
    "\<forall>t. t0 \<le> t \<and> t \<le> t0 + 1800 \<longrightarrow> current_user al t (tp_access tp)
        (finish (fst (login al t0 jti (py_strip (ty_username ty)) (ty_password ty) (begin_session db')))) = Inr ?u"
    "\<forall>t j. t0 \<le> t \<and> t \<le> t0 + 1209600 \<longrightarrow> (\<exists>tp'. snd (refresh al t j (Some (tp_refresh_cookie tp)) (begin_session
        (finish (fst (login al t0 jti (py_strip (ty_username ty)) (ty_password ty) (begin_session db')))))) = Inr tp')"
    using login_tokens_work [OF assms(1) _ _ u(3), of "py_strip (ty_username ty)" db' "ty_password ty" jti t0]
    unfolding Let_def by blast
  moreover have "u_id ?u \<notin> u_id ` set (users db)" using u(2) new_id_fresh [of "map u_id (users db)"] by simp
  moreover have "u_username ?u \<notin> u_username ` set (users db)" using h(2) u(1) by (auto simp: find_None_iff)
  ultimately show ?thesis
    by (intro exI [of _ ?u] exI [of _ tp]) (simp add: db' require_admin_def u(4) bindR_def Let_def)
qed

theorem created_admin_works_witness:
  "\<exists>db' out u (tp :: claims token_pair). create_admin Some 5 \<lparr>ty_username = '' ann '', ty_password = ''password'', ty_confirm = ''password''\<rparr> empty_database
       = (db', out) \<and> users db' = [u]
     \<and> require_admin example_auth_libs 1900 (tp_access tp)
         (finish (fst (login example_auth_libs 100 ''j1'' ''ann'' ''password'' (begin_session db')))) = Inr u"
proof -
  let ?ty = "\<lparr>ty_username = '' ann '', ty_password = ''password'', ty_confirm = ''password''\<rparr>"
  have n: "py_strip '' ann '' = ''ann''" by code_simp
  obtain db' out where run: "create_admin Some 5 ?ty empty_database = (db', out)" by (cases "create_admin Some 5 ?ty empty_database")
  have r: "o_end out = Returns"
    using run by (auto simp: create_admin_def n Let_def empty_database_def)
  have v: "\<forall>p h. Some p = Some h \<longrightarrow> verify_password example_auth_libs p h"
    by (simp add: example_auth_libs_def)
  have e: "token_rows example_auth_libs ''j1'' empty_database = []" "ty_username ?ty = '' ann ''" "ty_password ?ty = ''password''"
    by (simp_all add: token_rows_def empty_database_def)
  obtain u and tp :: "claims token_pair" where u: "users db' = users empty_database @ [u]"
    and t: "\<forall>t. 100 \<le> t \<and> t \<le> 100 + 1800 \<longrightarrow> require_admin example_auth_libs t (tp_access tp)
      (finish (fst (login example_auth_libs 100 ''j1'' ''ann'' ''password'' (begin_session db')))) = Inr u"
    using created_admin_works [OF example_auth_libs_ok(1) v e(1) run r, of 100, unfolded Let_def e n] by (elim exE conjE) rule
  have "users db' = [u]" using u by (simp add: empty_database_def)
  moreover have "require_admin example_auth_libs 1900 (tp_access tp)
      (finish (fst (login example_auth_libs 100 ''j1'' ''ann'' ''password'' (begin_session db')))) = Inr u"
    using t by simp
  ultimately show ?thesis using run by (intro exI conjI)
qed

end
