(* ===== verification/Server_Settings.thy ===== *)
theory Server_Settings
  imports Registration
begin

text \<open>
  \<open>server/config.py\<close>, \<open>server/middleware.py\<close>, \<open>server/logging_config.py\<close>, \<open>server/api/health.py\<close> and the start of
  \<open>server/main.py\<close>: the settings and their keys, the id of a request, the log lines, the health answer, what the
  server runs with.  A file is its bytes, by path; \<open>decode\<close> is the decoding of a text, \<open>None\<close> for a
  \<open>UnicodeDecodeError\<close>.  Reading the variables of the environment and their types belongs to pydantic.
\<close>

section \<open>Settings\<close>

record settings =
  st_master_key_path :: string
  st_jwt_key_path :: string
  st_database_url :: string
  st_host :: string
  st_port :: int
  st_log_level :: string
  st_cookie_secure :: bool

text \<open>The \<open>ValueError\<close>s of the validators; the text of a decoding error is left out.\<close>

datatype settings_error =
    Master_Key_Missing string | Master_Key_Not_Base64 | Master_Key_Length nat
  | Jwt_Key_Missing string | Jwt_Key_Empty | Bad_Log_Level string

definition VALID_LOG_LEVELS :: "string list" where
  "VALID_LOG_LEVELS = [''DEBUG'', ''INFO'', ''WARNING'', ''ERROR'']"

definition default_settings :: "string \<Rightarrow> string \<Rightarrow> settings" where
  "default_settings master jwt =
     \<lparr>st_master_key_path = master, st_jwt_key_path = jwt,
      st_database_url = ''sqlite+aiosqlite:///data/control-station.sqlite'', st_host = ''127.0.0.1'', st_port = 8000,
      st_log_level = ''INFO'', st_cookie_secure = True\<rparr>"

type_synonym files = "string \<rightharpoonup> string"

definition validate_master_key_path :: "(string \<Rightarrow> string option) \<Rightarrow> files \<Rightarrow> string \<Rightarrow> settings_error + string" where
  "validate_master_key_path decode fs v =
     (case fs v of
        None \<Rightarrow> Inl (Master_Key_Missing v)
      | Some raw \<Rightarrow>
          (case decode raw of
             None \<Rightarrow> Inl Master_Key_Not_Base64
           | Some t \<Rightarrow>
               (case b64_decode (py_strip t) of
                  None \<Rightarrow> Inl Master_Key_Not_Base64
                | Some key \<Rightarrow> if length key \<noteq> 32 then Inl (Master_Key_Length (length key)) else Inr v)))"

definition validate_jwt_key_path :: "files \<Rightarrow> string \<Rightarrow> settings_error + string" where
  "validate_jwt_key_path fs v =
     (case fs v of
        None \<Rightarrow> Inl (Jwt_Key_Missing v)
      | Some raw \<Rightarrow> if raw = [] then Inl Jwt_Key_Empty else Inr v)"

definition validate_log_level :: "string \<Rightarrow> settings_error + string" where
  "validate_log_level v =
     (let upper = py_upper v in if upper \<notin> set VALID_LOG_LEVELS then Inl (Bad_Log_Level v) else Inr upper)"

text \<open>pydantic runs the validator of every field and reports all errors together.\<close>

definition load_settings :: "(string \<Rightarrow> string option) \<Rightarrow> files \<Rightarrow> settings \<Rightarrow> settings_error list + settings" where
  "load_settings decode fs raw =
     (case (validate_master_key_path decode fs (st_master_key_path raw), validate_jwt_key_path fs (st_jwt_key_path raw),
            validate_log_level (st_log_level raw)) of
        (Inr m, Inr j, Inr l) \<Rightarrow> Inr (raw\<lparr>st_master_key_path := m, st_jwt_key_path := j, st_log_level := l\<rparr>)
      | (m, j, l) \<Rightarrow>
          Inl ((case m of Inl e \<Rightarrow> [e] | Inr _ \<Rightarrow> []) @ (case j of Inl e \<Rightarrow> [e] | Inr _ \<Rightarrow> [])
               @ (case l of Inl e \<Rightarrow> [e] | Inr _ \<Rightarrow> [])))"

text \<open>\<open>None\<close>: reading or decoding raises.  The decoder here is the lenient one.\<close>

definition read_master_key :: "(string \<Rightarrow> string option) \<Rightarrow> files \<Rightarrow> settings \<Rightarrow> string option" where
  "read_master_key decode fs s =
     Option.bind (fs (st_master_key_path s)) (\<lambda>raw. Option.bind (decode raw) (\<lambda>t. b64_decode_lenient (py_strip t)))"

definition read_jwt_key :: "files \<Rightarrow> settings \<Rightarrow> string option" where
  "read_jwt_key fs s = fs (st_jwt_key_path s)"

section \<open>The id of a request\<close>

definition REQUEST_ID_HEADER :: string where
  "REQUEST_ID_HEADER = ''X-Request-ID''"

text \<open>A header is a pair of bytes, its name in lower case; of two equal ones the last counts.\<close>

definition request_id_of ::
  "(string \<Rightarrow> string option) \<Rightarrow> string \<Rightarrow> (string \<times> string) list \<Rightarrow> string option" where
  "request_id_of decode fresh headers =
     (case map_of (rev headers) (py_lower REQUEST_ID_HEADER) of
        None \<Rightarrow> Some fresh
      | Some v \<Rightarrow> if v = [] then Some fresh else decode v)"

datatype asgi_message = Response_Start int "(string \<times> string) list" | Response_Body string

fun send_wrapper :: "(string \<Rightarrow> string) \<Rightarrow> string \<Rightarrow> asgi_message \<Rightarrow> asgi_message" where
  "send_wrapper encode rid (Response_Start status headers) =
     Response_Start status (headers @ [(py_lower REQUEST_ID_HEADER, encode rid)])"
| "send_wrapper encode rid (Response_Body b) = Response_Body b"

text \<open>
  The wrapped application takes the value of the context variable and gives the messages it sends and the exception
  that ended it, if any; the middleware gives these and the value afterwards.
\<close>

definition request_id_middleware ::
  "(string \<Rightarrow> string option) \<Rightarrow> (string \<Rightarrow> string) \<Rightarrow> string \<Rightarrow> (string option \<Rightarrow> asgi_message list \<times> string option)
     \<Rightarrow> string \<Rightarrow> (string \<times> string) list \<Rightarrow> string option \<Rightarrow> asgi_message list \<times> string option \<times> string option" where
  "request_id_middleware decode encode fresh app scope_type headers ctx =
     (if scope_type \<noteq> ''http'' then (let (ms, x) = app ctx in (ms, x, ctx))
      else case request_id_of decode fresh headers of
             None \<Rightarrow> ([], Some ''UnicodeDecodeError'', ctx)
           | Some rid \<Rightarrow> (let (ms, x) = app (Some rid) in (map (send_wrapper encode rid) ms, x, ctx)))"

section \<open>Log lines\<close>

text \<open>The attributes every record of the \<open>logging\<close> module has, and three more.\<close>

definition RESERVED :: "string list" where
  "RESERVED = [''name'', ''msg'', ''args'', ''levelname'', ''levelno'', ''pathname'', ''filename'', ''module'', ''exc_info'',
     ''exc_text'', ''stack_info'', ''lineno'', ''funcName'', ''created'', ''msecs'', ''relativeCreated'', ''thread'',
     ''threadName'', ''processName'', ''process'', ''message'', ''asctime'', ''taskName'']"

record log_record =
  lr_time :: string
  lr_levelname :: string
  lr_name :: string
  lr_message :: string
  lr_exc_info :: "string option"
  lr_attributes :: "(string, yaml) dict"

definition log_payload :: "string option \<Rightarrow> log_record \<Rightarrow> (string, yaml) dict" where
  "log_payload request_id r =
     fold (\<lambda>(k, v) p. if k \<notin> set RESERVED \<and> \<not> startswith ''_'' k then AList.update k v p else p) (lr_attributes r)
       ([(''timestamp'', YStr (lr_time r)), (''level'', YStr (lr_levelname r)), (''logger'', YStr (lr_name r)),
         (''message'', YStr (lr_message r))]
        @ (case request_id of None \<Rightarrow> [] | Some i \<Rightarrow> [(''request_id'', YStr i)])
        @ (case lr_exc_info r of None \<Rightarrow> [] | Some x \<Rightarrow> [(''exc_info'', YStr x)]))"

definition format_record :: "json_libs \<Rightarrow> string option \<Rightarrow> log_record \<Rightarrow> string" where
  "format_record j request_id r = json_dumps j (YMap (log_payload request_id r))"

text \<open>The loggers, by name; the root logger's is empty.\<close>

datatype handler = Json_Stdout | Other_Handler string

record logger =
  lg_handlers :: "handler list"
  lg_level :: "string option"
  lg_propagate :: bool

definition UVICORN_LOGGERS :: "string list" where
  "UVICORN_LOGGERS = [''uvicorn'', ''uvicorn.error'', ''uvicorn.access'']"

definition configure_logging :: "string \<Rightarrow> (string \<Rightarrow> logger) \<Rightarrow> string \<Rightarrow> logger" where
  "configure_logging level ls n =
     (if n = [] then (ls n)\<lparr>lg_handlers := [Json_Stdout], lg_level := Some level\<rparr>
      else if n \<in> set UVICORN_LOGGERS then (ls n)\<lparr>lg_handlers := [], lg_propagate := True\<rparr>
      else ls n)"

section \<open>Health and start\<close>

record health_response =
  hr_status :: string
  hr_version :: string
  hr_db :: string

definition package_version :: "string option \<Rightarrow> string" where
  "package_version v = (case v of None \<Rightarrow> ''unknown'' | Some x \<Rightarrow> x)"

definition server_healthz :: "string option \<Rightarrow> bool \<Rightarrow> health_response" where
  "server_healthz version select_ok =
     (let db_status = (if select_ok then ''ok'' else ''error'')
      in \<lparr>hr_status = (if db_status = ''ok'' then ''ok'' else ''degraded''), hr_version = package_version version,
          hr_db = db_status\<rparr>)"

text \<open>The master key the reconciler starts with; without settings it does not start.\<close>

definition lifespan_reconciler ::
  "(string \<Rightarrow> string option) \<Rightarrow> files \<Rightarrow> settings_error list + settings \<Rightarrow> string option" where
  "lifespan_reconciler decode fs r = (case r of Inl _ \<Rightarrow> None | Inr s \<Rightarrow> read_master_key decode fs s)"

record server_options =
  so_host :: string
  so_port :: int
  so_reload :: bool
  so_log_level :: string

text \<open>The flags of the command line, each given or not.\<close>

definition server_main ::
  "settings_error list + settings \<Rightarrow> string option \<Rightarrow> int option \<Rightarrow> bool \<Rightarrow> server_options" where
  "server_main r host port reload =
     (let (level, default_host, default_port) =
        (case r of Inr s \<Rightarrow> (st_log_level s, st_host s, st_port s) | Inl _ \<Rightarrow> (''INFO'', ''127.0.0.1'', 8000))
      in \<lparr>so_host = (case host of Some h \<Rightarrow> h | None \<Rightarrow> default_host),
          so_port = (case port of Some p \<Rightarrow> p | None \<Rightarrow> default_port),
          so_reload = reload, so_log_level = level\<rparr>)"

section \<open>Properties\<close>

text \<open>
  Settings that were accepted can be used: the master key is read back as the 32 bytes that the validation
  decoded, although the reader does not check the base64 alphabet; the JWT key is not empty; the log level is one of
  the four, whatever its case was.  Otherwise every field that is wrong is reported, in order.
\<close>

theorem accepted_settings_usable:
  "case load_settings decode fs raw of
     Inr s \<Rightarrow>
       (\<exists>file t key. fs (st_master_key_path raw) = Some file \<and> decode file = Some t
          \<and> b64_decode (py_strip t) = Some key \<and> length key = 32 \<and> read_master_key decode fs s = Some key
          \<and> lifespan_reconciler decode fs (Inr s) = Some key)
       \<and> (\<exists>jwt. read_jwt_key fs s = Some jwt \<and> jwt \<noteq> [])
       \<and> st_log_level s \<in> set VALID_LOG_LEVELS \<and> st_log_level s = py_upper (st_log_level raw)
   | Inl es \<Rightarrow>
       es \<noteq> [] \<and> distinct es
       \<and> (Master_Key_Missing (st_master_key_path raw) \<in> set es \<longleftrightarrow> fs (st_master_key_path raw) = None)
       \<and> (Jwt_Key_Missing (st_jwt_key_path raw) \<in> set es \<longleftrightarrow> fs (st_jwt_key_path raw) = None)
       \<and> (Jwt_Key_Empty \<in> set es \<longleftrightarrow> fs (st_jwt_key_path raw) = Some [])
       \<and> (Bad_Log_Level (st_log_level raw) \<in> set es \<longleftrightarrow> py_upper (st_log_level raw) \<notin> set VALID_LOG_LEVELS)"
  by (auto simp: load_settings_def validate_master_key_path_def validate_jwt_key_path_def validate_log_level_def Let_def
      read_master_key_def read_jwt_key_def lifespan_reconciler_def b64_lenient_strict
      split: sum.splits option.splits if_splits)

lemma context_restored: "snd (snd (request_id_middleware decode encode fresh app ty hs ctx)) = ctx"
  by (auto simp: request_id_middleware_def split: prod.split option.split)

lemma undecodable_id_ends_request:
  "request_id_middleware decode encode fresh app ''http'' [(py_lower REQUEST_ID_HEADER, v)] ctx = ([], Some ''UnicodeDecodeError'', ctx)"
  if "v \<noteq> []" "decode v = None"
  using that by (simp add: request_id_middleware_def request_id_of_def)

lemma configure_logging_again: "configure_logging l2 (configure_logging l1 ls) = configure_logging l2 ls"
  by (auto simp: configure_logging_def UVICORN_LOGGERS_def fun_eq_iff)

end
