(* ===== verification/Migrations.thy ===== *)
theory Migrations
  imports Agent_Cli Ssh_Gateway
begin

text \<open>
  \<open>server/db/migrations\<close>: the revisions of the database schema and the \<open>.env\<close> loader of \<open>env.py\<close>, with the tables
  that the classes of \<open>server/db/models.py\<close> declare.  A schema is the list of its tables.  The operations follow the
  strictest databases: a table refers to tables that exist, and a table that another one refers to is not dropped.
  Alembic runs the revisions in the order of their \<open>down_revision\<close>.
\<close>

section \<open>Schemas\<close>

datatype column_type = Integer | Text | Boolean | Timestamp | Large_Binary

record column =
  col_name :: string
  col_type :: column_type
  col_nullable :: bool

record table =
  t_name :: string
  t_columns :: "column list"
  t_primary :: "string list"
  t_unique :: "string list list"
  t_foreign :: "(string \<times> string \<times> string) list"

type_synonym schema = "table list"

definition find_table :: "string \<Rightarrow> schema \<Rightarrow> table option" where
  "find_table n s = find (\<lambda>t. t_name t = n) s"

definition column_names :: "table \<Rightarrow> string list" where
  "column_names t = map col_name (t_columns t)"

text \<open>The parts of a table that its constraints name exist.\<close>

definition table_ok :: "schema \<Rightarrow> table \<Rightarrow> bool" where
  "table_ok s t \<longleftrightarrow>
     distinct (column_names t)
     \<and> list_all (\<lambda>c. c \<in> set (column_names t)) (t_primary t @ concat (t_unique t) @ map fst (t_foreign t))
     \<and> list_all (\<lambda>(_, tab, col). case find_table tab s of None \<Rightarrow> False | Some r \<Rightarrow> col \<in> set (column_names r)) (t_foreign t)"

section \<open>Operations\<close>

datatype operation =
    Create_Table table
  | Drop_Table string
  | Add_Column string column
  | Drop_Column string string

definition put_table :: "table \<Rightarrow> schema \<Rightarrow> schema" where
  "put_table t s = map (\<lambda>u. if t_name u = t_name t then t else u) s"

definition refers_to :: "string \<Rightarrow> table \<Rightarrow> bool" where
  "refers_to n t \<longleftrightarrow> n \<in> set (map (\<lambda>(_, tab, _). tab) (t_foreign t))"

fun apply_operation :: "operation \<Rightarrow> schema \<Rightarrow> schema option" where
  "apply_operation (Create_Table t) s =
     (if find_table (t_name t) s = None \<and> table_ok s t then Some (s @ [t]) else None)"
| "apply_operation (Drop_Table n) s =
     (if find_table n s = None \<or> list_ex (refers_to n) s then None else Some (filter (\<lambda>t. t_name t \<noteq> n) s))"
| "apply_operation (Add_Column n c) s =
     (case find_table n s of
        None \<Rightarrow> None
      | Some t \<Rightarrow>
          if col_name c \<in> set (column_names t) \<or> \<not> col_nullable c then None
          else Some (put_table (t\<lparr>t_columns := t_columns t @ [c]\<rparr>) s))"
| "apply_operation (Drop_Column n c) s =
     (case find_table n s of
        None \<Rightarrow> None
      | Some t \<Rightarrow>
          if c \<notin> set (column_names t) \<or> c \<in> set (t_primary t @ concat (t_unique t) @ map fst (t_foreign t)) then None
          else Some (put_table (t\<lparr>t_columns := filter (\<lambda>k. col_name k \<noteq> c) (t_columns t)\<rparr>) s))"

fun apply_all :: "operation list \<Rightarrow> schema \<Rightarrow> schema option" where
  "apply_all [] s = Some s"
| "apply_all (x # xs) s = (case apply_operation x s of None \<Rightarrow> None | Some s' \<Rightarrow> apply_all xs s')"

section \<open>Revisions\<close>

record revision =
  revision_id :: string
  down_revision :: "string option"
  upgrade_ops :: "operation list"
  downgrade_ops :: "operation list"

definition required_col :: "string \<Rightarrow> column_type \<Rightarrow> column" where
  "required_col n ty = \<lparr>col_name = n, col_type = ty, col_nullable = False\<rparr>"

definition nullable_col :: "string \<Rightarrow> column_type \<Rightarrow> column" where
  "nullable_col n ty = \<lparr>col_name = n, col_type = ty, col_nullable = True\<rparr>"

definition initial_tables :: "table list" where
  "initial_tables =
     [\<lparr>t_name = ''machines'',
       t_columns =
         [required_col ''id'' Integer, required_col ''name'' Text, required_col ''ssh_host'' Text,
          required_col ''ssh_port'' Integer, required_col ''ssh_user'' Text, required_col ''ssh_key_encrypted'' Large_Binary,
          required_col ''key_fingerprint'' Text, required_col ''agent_port'' Integer, required_col ''scripts_dir'' Text,
          required_col ''platform'' Text, nullable_col ''mac_address'' Text, required_col ''created_at'' Timestamp],
       t_primary = [''id''], t_unique = [[''name'']], t_foreign = []\<rparr>,
      \<lparr>t_name = ''users'',
       t_columns =
         [required_col ''id'' Integer, required_col ''username'' Text, required_col ''password_hash'' Text,
          required_col ''role'' Text, required_col ''created_at'' Timestamp, required_col ''disabled'' Boolean],
       t_primary = [''id''], t_unique = [[''username'']], t_foreign = []\<rparr>,
      \<lparr>t_name = ''audit_log'',
       t_columns =
         [required_col ''id'' Integer, required_col ''timestamp'' Timestamp, nullable_col ''user_id'' Integer,
          required_col ''action'' Text, required_col ''target_type'' Text, required_col ''target_id'' Text,
          required_col ''result'' Text, nullable_col ''details_json'' Text],
       t_primary = [''id''], t_unique = [], t_foreign = [(''user_id'', ''users'', ''id'')]\<rparr>,
      \<lparr>t_name = ''refresh_tokens'',
       t_columns =
         [required_col ''id'' Integer, required_col ''user_id'' Integer, required_col ''token_hash'' Text,
          required_col ''issued_at'' Timestamp, required_col ''expires_at'' Timestamp, required_col ''revoked'' Boolean],
       t_primary = [''id''], t_unique = [], t_foreign = [(''user_id'', ''users'', ''id'')]\<rparr>,
      \<lparr>t_name = ''scripts'',
       t_columns =
         [required_col ''id'' Integer, required_col ''name'' Text, required_col ''content'' Text,
          nullable_col ''meta_yaml'' Text, required_col ''md5'' Text, required_col ''persistent'' Boolean,
          required_col ''updated_at'' Timestamp, required_col ''updated_by'' Integer],
       t_primary = [''id''], t_unique = [[''name'']], t_foreign = [(''updated_by'', ''users'', ''id'')]\<rparr>,
      \<lparr>t_name = ''user_machines'',
       t_columns = [required_col ''user_id'' Integer, required_col ''machine_id'' Integer],
       t_primary = [''user_id'', ''machine_id''], t_unique = [],
       t_foreign = [(''machine_id'', ''machines'', ''id''), (''user_id'', ''users'', ''id'')]\<rparr>,
      \<lparr>t_name = ''jobs'',
       t_columns =
         [required_col ''id'' Integer, required_col ''job_uuid'' Text, required_col ''machine_id'' Integer,
          nullable_col ''script_id'' Integer, nullable_col ''built_in_action'' Text, required_col ''user_id'' Integer,
          required_col ''params_json'' Text, required_col ''status'' Text, required_col ''persistent'' Boolean,
          required_col ''started_at'' Timestamp, nullable_col ''ended_at'' Timestamp, nullable_col ''exit_code'' Integer,
          nullable_col ''log_path'' Text],
       t_primary = [''id''], t_unique = [[''job_uuid'']],
       t_foreign = [(''machine_id'', ''machines'', ''id''), (''script_id'', ''scripts'', ''id''), (''user_id'', ''users'', ''id'')]\<rparr>,
      \<lparr>t_name = ''script_target_state'',
       t_columns =
         [required_col ''machine_id'' Integer, required_col ''script_id'' Integer, required_col ''state'' Text,
          nullable_col ''approved_md5'' Text, nullable_col ''pending_md5'' Text, required_col ''last_refreshed_at'' Timestamp],
       t_primary = [''machine_id'', ''script_id''], t_unique = [],
       t_foreign = [(''machine_id'', ''machines'', ''id''), (''script_id'', ''scripts'', ''id'')]\<rparr>]"

definition initial_schema :: revision where
  "initial_schema =
     \<lparr>revision_id = ''ce55c137920e'', down_revision = None,
      upgrade_ops = map Create_Table initial_tables,
      downgrade_ops = map Drop_Table [''script_target_state'', ''jobs'', ''user_machines'', ''scripts'', ''refresh_tokens'',
        ''audit_log'', ''users'', ''machines'']\<rparr>"

definition add_machine_ssh_host_key :: revision where
  "add_machine_ssh_host_key =
     \<lparr>revision_id = ''b2f4a1c7d9e3'', down_revision = Some ''ce55c137920e'',
      upgrade_ops = [Add_Column ''machines'' (nullable_col ''ssh_host_key'' Text)],
      downgrade_ops = [Drop_Column ''machines'' ''ssh_host_key'']\<rparr>"

definition add_machine_agent_token :: revision where
  "add_machine_agent_token =
     \<lparr>revision_id = ''c3a5b2e8f1d4'', down_revision = Some ''b2f4a1c7d9e3'',
      upgrade_ops = [Add_Column ''machines'' (nullable_col ''agent_token_encrypted'' Large_Binary)],
      downgrade_ops = [Drop_Column ''machines'' ''agent_token_encrypted'']\<rparr>"

text \<open>The files of \<open>versions/\<close>, in the order of their names.\<close>

definition revisions :: "revision list" where
  "revisions = [add_machine_ssh_host_key, add_machine_agent_token, initial_schema]"

fun revision_chain :: "nat \<Rightarrow> revision list \<Rightarrow> string option \<Rightarrow> revision list" where
  "revision_chain 0 rs since = []"
| "revision_chain (Suc fuel) rs since =
     (case find (\<lambda>r. down_revision r = since) rs of
        None \<Rightarrow> [] | Some r \<Rightarrow> r # revision_chain fuel rs (Some (revision_id r)))"

definition upgrade_from :: "string option \<Rightarrow> schema \<Rightarrow> schema option" where
  "upgrade_from since = apply_all (concat (map upgrade_ops (revision_chain (length revisions) revisions since)))"

definition downgrade_to :: "string option \<Rightarrow> schema \<Rightarrow> schema option" where
  "downgrade_to since = apply_all (concat (map downgrade_ops (rev (revision_chain (length revisions) revisions since))))"

section \<open>The declared tables\<close>

text \<open>\<open>Base.metadata\<close>: \<open>Mapped[T | None]\<close> is nullable, \<open>unique=True\<close> a constraint of that column.\<close>

definition models_metadata :: "table list" where
  "models_metadata =
     [\<lparr>t_name = ''users'',
       t_columns =
         [required_col ''id'' Integer, required_col ''username'' Text, required_col ''password_hash'' Text,
          required_col ''role'' Text, required_col ''created_at'' Timestamp, required_col ''disabled'' Boolean],
       t_primary = [''id''], t_unique = [[''username'']], t_foreign = []\<rparr>,
      \<lparr>t_name = ''refresh_tokens'',
       t_columns =
         [required_col ''id'' Integer, required_col ''user_id'' Integer, required_col ''token_hash'' Text,
          required_col ''issued_at'' Timestamp, required_col ''expires_at'' Timestamp, required_col ''revoked'' Boolean],
       t_primary = [''id''], t_unique = [], t_foreign = [(''user_id'', ''users'', ''id'')]\<rparr>,
      \<lparr>t_name = ''machines'',
       t_columns =
         [required_col ''id'' Integer, required_col ''name'' Text, required_col ''ssh_host'' Text,
          required_col ''ssh_port'' Integer, required_col ''ssh_user'' Text, required_col ''ssh_key_encrypted'' Large_Binary,
          required_col ''key_fingerprint'' Text, nullable_col ''ssh_host_key'' Text,
          nullable_col ''agent_token_encrypted'' Large_Binary, required_col ''agent_port'' Integer,
          required_col ''scripts_dir'' Text, required_col ''platform'' Text, nullable_col ''mac_address'' Text,
          required_col ''created_at'' Timestamp],
       t_primary = [''id''], t_unique = [[''name'']], t_foreign = []\<rparr>,
      \<lparr>t_name = ''user_machines'',
       t_columns = [required_col ''user_id'' Integer, required_col ''machine_id'' Integer],
       t_primary = [''user_id'', ''machine_id''], t_unique = [],
       t_foreign = [(''user_id'', ''users'', ''id''), (''machine_id'', ''machines'', ''id'')]\<rparr>,
      \<lparr>t_name = ''scripts'',
       t_columns =
         [required_col ''id'' Integer, required_col ''name'' Text, required_col ''content'' Text,
          nullable_col ''meta_yaml'' Text, required_col ''md5'' Text, required_col ''persistent'' Boolean,
          required_col ''updated_at'' Timestamp, required_col ''updated_by'' Integer],
       t_primary = [''id''], t_unique = [[''name'']], t_foreign = [(''updated_by'', ''users'', ''id'')]\<rparr>,
      \<lparr>t_name = ''script_target_state'',
       t_columns =
         [required_col ''machine_id'' Integer, required_col ''script_id'' Integer, required_col ''state'' Text,
          nullable_col ''approved_md5'' Text, nullable_col ''pending_md5'' Text, required_col ''last_refreshed_at'' Timestamp],
       t_primary = [''machine_id'', ''script_id''], t_unique = [],
       t_foreign = [(''machine_id'', ''machines'', ''id''), (''script_id'', ''scripts'', ''id'')]\<rparr>,
      \<lparr>t_name = ''jobs'',
       t_columns =
         [required_col ''id'' Integer, required_col ''job_uuid'' Text, required_col ''machine_id'' Integer,
          nullable_col ''script_id'' Integer, nullable_col ''built_in_action'' Text, required_col ''user_id'' Integer,
          required_col ''params_json'' Text, required_col ''status'' Text, required_col ''persistent'' Boolean,
          required_col ''started_at'' Timestamp, nullable_col ''ended_at'' Timestamp, nullable_col ''exit_code'' Integer,
          nullable_col ''log_path'' Text],
       t_primary = [''id''], t_unique = [[''job_uuid'']],
       t_foreign = [(''machine_id'', ''machines'', ''id''), (''script_id'', ''scripts'', ''id''), (''user_id'', ''users'', ''id'')]\<rparr>,
      \<lparr>t_name = ''audit_log'',
       t_columns =
         [required_col ''id'' Integer, required_col ''timestamp'' Timestamp, nullable_col ''user_id'' Integer,
          required_col ''action'' Text, required_col ''target_type'' Text, required_col ''target_id'' Text,
          required_col ''result'' Text, nullable_col ''details_json'' Text],
       t_primary = [''id''], t_unique = [], t_foreign = [(''user_id'', ''users'', ''id'')]\<rparr>]"

text \<open>Equal up to the order of tables, columns and constraints.\<close>

definition same_table :: "table \<Rightarrow> table \<Rightarrow> bool" where
  "same_table t u \<longleftrightarrow>
     t_name t = t_name u \<and> set (t_columns t) = set (t_columns u) \<and> t_primary t = t_primary u
     \<and> set (t_unique t) = set (t_unique u) \<and> set (t_foreign t) = set (t_foreign u)"

definition same_schema :: "schema \<Rightarrow> schema \<Rightarrow> bool" where
  "same_schema s r \<longleftrightarrow>
     length s = length r \<and> distinct (map t_name s) \<and> list_all (\<lambda>t. list_ex (same_table t) r) s"

section \<open>\<open>env.py\<close>\<close>

text \<open>One line of \<open>.env\<close>: nothing, or a key and its value.  A variable of the environment takes precedence.  A key or
  value the operating system refuses (an empty key, a NUL) is outside the model.\<close>

definition partition_at :: "char \<Rightarrow> string \<Rightarrow> string \<times> string" where
  "partition_at c s = (takeWhile (\<lambda>x. x \<noteq> c) s, drop 1 (dropWhile (\<lambda>x. x \<noteq> c) s))"

definition env_line :: "string \<Rightarrow> (string \<times> string) option" where
  "env_line raw =
     (let l = py_strip raw in
      if l = [] \<or> hd l = CHR ''#'' \<or> CHR ''='' \<notin> set l then None
      else let (k, v) = partition_at (CHR ''='') l in Some (py_strip k, py_strip v))"

definition set_default :: "string \<Rightarrow> string \<Rightarrow> (string, string) dict \<Rightarrow> (string, string) dict" where
  "set_default k v env = (case map_of env k of Some _ \<Rightarrow> env | None \<Rightarrow> AList.update k v env)"

definition load_env_file :: "string option \<Rightarrow> (string, string) dict \<Rightarrow> (string, string) dict" where
  "load_env_file text env =
     (case text of
        None \<Rightarrow> env
      | Some t \<Rightarrow>
          fold (\<lambda>l e. case env_line l of None \<Rightarrow> e | Some (k, v) \<Rightarrow> set_default k v e) (split_lines [] (universal_newlines t)) env)"

definition DEFAULT_URL :: string where
  "DEFAULT_URL = ''sqlite+aiosqlite:///data/control-station.sqlite''"

definition db_url :: "(string, string) dict \<Rightarrow> string" where
  "db_url env = (case map_of env ''CSL_DATABASE_URL'' of None \<Rightarrow> DEFAULT_URL | Some u \<Rightarrow> u)"

section \<open>Properties\<close>

lemma set_default_keeps: "map_of env k = Some v \<Longrightarrow> map_of (set_default k' v' env) k = Some v"
  by (auto simp: set_default_def split: option.split)

lemma load_env_file_keeps: "map_of env k = Some v \<Longrightarrow> map_of (load_env_file text env) k = Some v"
proof -
  have "map_of (fold (\<lambda>l e. case env_line l of None \<Rightarrow> e | Some (k, v) \<Rightarrow> set_default k v e) ls env) k = Some v"
    if "map_of env k = Some v" for ls
    using that by (induction ls arbitrary: env) (auto simp: set_default_keeps split: option.split)
  then show "map_of env k = Some v \<Longrightarrow> ?thesis" by (auto simp: load_env_file_def split: option.split)
qed

text \<open>The schemas of the second and of the newest revision.\<close>

definition schema_2 :: schema where
  "schema_2 = the (apply_all (upgrade_ops add_machine_ssh_host_key) initial_tables)"

definition schema_3 :: schema where
  "schema_3 = the (upgrade_from None [])"

lemma upgrades:
  "upgrade_from None [] = Some schema_3" "same_schema schema_3 models_metadata"
  "apply_all (upgrade_ops initial_schema) [] = Some initial_tables"
  "upgrade_from (Some ''ce55c137920e'') initial_tables = Some schema_3"
  "apply_all (upgrade_ops add_machine_ssh_host_key) initial_tables = Some schema_2"
  "upgrade_from (Some ''b2f4a1c7d9e3'') schema_2 = Some schema_3"
  by code_simp+

lemma downgrades:
  "downgrade_to (Some ''ce55c137920e'') schema_3 = Some initial_tables"
  "downgrade_to (Some ''b2f4a1c7d9e3'') schema_3 = Some schema_2"
  "downgrade_to None schema_3 = Some []"
  by code_simp+


end
