(* ===== verification/Os_Processes.thy ===== *)
theory Os_Processes
  imports Process_Props Agent_Setup "HOL-Library.Word"
begin

text \<open>
  The platform helpers of \<open>agent/process_manager.py\<close>, on the answers of the operating system: \<open>_pid_alive\<close> on POSIX,
  shown to compute the \<open>pid_alive\<close> of \<open>Process_Manager\<close>; \<open>_pid_alive\<close>, the handle of a process that outlived an agent,
  and \<open>_kill_process\<close> on Windows, where the exit code of a process is a 32-bit word.
\<close>

section \<open>POSIX\<close>

text \<open>\<open>os.kill(pid, 0)\<close>, and the text of \<open>/proc/{pid}/status\<close>, \<open>None\<close> for an \<open>OSError\<close>.\<close>

datatype kill_answer = Signalled | Process_Lookup_Error | Permission_Error

definition tab :: char where
  "tab = CHR 0x09"

definition pid_alive_posix :: "kill_answer \<Rightarrow> string option \<Rightarrow> bool" where
  "pid_alive_posix k status =
     (case k of
        Process_Lookup_Error \<Rightarrow> False
      | Permission_Error \<Rightarrow> True
      | Signalled \<Rightarrow>
          (case status of
             None \<Rightarrow> True
           | Some t \<Rightarrow>
               (case find (\<lambda>l. startswith l ''State:'') (split_lines [] (universal_newlines t)) of
                  None \<Rightarrow> True | Some l \<Rightarrow> \<not> sublist (tab # ''Z'') l)))"

text \<open>What Linux answers for the processes of the model: lines before the state, the state, more lines.\<close>

definition kernel_kill :: "procs \<Rightarrow> int \<Rightarrow> kill_answer" where
  "kernel_kill ps pid = (if ps pid = None then Process_Lookup_Error else Signalled)"

definition state_line :: "pstate \<Rightarrow> string" where
  "state_line p = ''State:'' @ tab # (case p of P_Running _ \<Rightarrow> ''S (sleeping)'' | P_Exited _ \<Rightarrow> ''Z (zombie)'')"

definition kernel_status :: "string list \<Rightarrow> string list \<Rightarrow> procs \<Rightarrow> int \<Rightarrow> string option" where
  "kernel_status before after ps pid = map_option (\<lambda>p. join_lines (before @ state_line p # after)) (ps pid)"

definition status_line_ok :: "string \<Rightarrow> bool" where
  "status_line_ok l \<longleftrightarrow> list_all (\<lambda>c. \<not> is_line_break c) l \<and> \<not> startswith l ''State:''"

section \<open>Windows\<close>

type_synonym dword = "32 word"

text \<open>A process runs, or has ended while a handle keeps its entry.\<close>

datatype win_process = W_Running | W_Exited dword

type_synonym win_procs = "int \<rightharpoonup> win_process"

definition STILL_ACTIVE :: dword where
  "STILL_ACTIVE = 259"

text \<open>\<open>GetExitCodeProcess\<close>.\<close>

definition exit_code_process :: "win_process \<Rightarrow> dword" where
  "exit_code_process p = (case p of W_Running \<Rightarrow> STILL_ACTIVE | W_Exited c \<Rightarrow> c)"

definition pid_alive_windows :: "win_procs \<Rightarrow> int \<Rightarrow> bool" where
  "pid_alive_windows ps pid = (case ps pid of None \<Rightarrow> False | Some p \<Rightarrow> exit_code_process p = STILL_ACTIVE)"

text \<open>\<open>poll\<close>: a child gives its exit code, a reattached process \<open>-1\<close> once it is gone.\<close>

fun poll_windows :: "handle \<Rightarrow> win_procs \<Rightarrow> handle" where
  "poll_windows (Popen pid None) ps =
     (case ps pid of Some (W_Exited c) \<Rightarrow> Popen pid (Some (uint c)) | _ \<Rightarrow> Popen pid None)"
| "poll_windows (Reattached pid None) ps = Reattached pid (if pid_alive_windows ps pid then None else Some (-1))"
| "poll_windows h ps = h"

text \<open>\<open>taskkill /F /T\<close>: the process ends with code 1 when the agent may end it.\<close>

definition taskkill :: "bool \<Rightarrow> int \<Rightarrow> win_procs \<Rightarrow> win_procs" where
  "taskkill permitted pid ps =
     (if permitted \<and> ps pid = Some W_Running then ps(pid \<mapsto> W_Exited 1) else ps)"

text \<open>
  The wait of 10 seconds, with nothing happening meanwhile, only polls; a process that is still there is logged and left.
\<close>

definition kill_process_windows :: "bool \<Rightarrow> handle \<Rightarrow> win_procs \<Rightarrow> handle \<times> win_procs" where
  "kill_process_windows permitted h ps =
     (let ps' = taskkill permitted (handle_pid h) ps in (poll_windows h ps', ps'))"

text \<open>\<open>_popen\<close>: its own session, or its own process group.\<close>

datatype popen_group = New_Session | Creation_Flags dword

definition popen_options :: "bool \<Rightarrow> popen_group" where
  "popen_options windows = (if windows then Creation_Flags 0x200 else New_Session)"

section \<open>Properties\<close>

text \<open>On the answers of Linux, \<open>_pid_alive\<close> is the \<open>pid_alive\<close> that the model of the manager uses.\<close>

lemma pid_alive_refined:
  assumes "list_all status_line_ok before" "list_all status_line_ok after"
  shows "pid_alive_posix (kernel_kill ps pid) (kernel_status before after ps pid) = pid_alive ps pid"
proof (cases "ps pid")
  case None
  then show ?thesis by (simp add: pid_alive_posix_def kernel_kill_def pid_alive_def)
next
  case (Some p)
  let ?ls = "before @ state_line p # after"
  have st: "list_all (\<lambda>c. \<not> is_line_break c) (state_line p)" "startswith (state_line p) ''State:''"
    by (cases p; simp add: state_line_def tab_def is_line_break_def ccode_def startswith_def)+
  then have ls: "list_all (list_all (\<lambda>c. \<not> is_line_break c)) ?ls"
    using assms by (auto simp: list_all_iff status_line_ok_def)
  have "find (\<lambda>l. startswith l ''State:'') (before @ state_line p # after) = Some (state_line p)"
    using assms(1) st(2) by (induction before) (auto simp: status_line_ok_def)
  then have "pid_alive_posix (kernel_kill ps pid) (kernel_status before after ps pid) \<longleftrightarrow> \<not> sublist (tab # ''Z'') (state_line p)"
    using Some ls by (simp add: pid_alive_posix_def kernel_kill_def kernel_status_def universal_newlines_id join_lines_no_return split_join)
  also have "\<dots> \<longleftrightarrow> pid_alive ps pid"
    using Some by (cases p) (auto simp: pid_alive_def state_line_def tab_def sublist_code)
  finally show ?thesis .
qed

text \<open>On Windows a kill that is permitted ends a running process, and one that is not leaves the job's handle polling.\<close>

lemma kill_process_windows_child:
  "ps pid = Some W_Running \<Longrightarrow>
     kill_process_windows permitted (Popen pid None) ps =
       (if permitted then (Popen pid (Some 1), ps(pid \<mapsto> W_Exited 1)) else (Popen pid None, ps))"
  by (simp add: kill_process_windows_def taskkill_def)

lemma kill_process_windows_reattached:
  "ps pid = Some W_Running \<Longrightarrow>
     kill_process_windows permitted (Reattached pid None) ps =
       (if permitted then (Reattached pid (Some (-1)), ps(pid \<mapsto> W_Exited 1)) else (Reattached pid None, ps))"
  by (simp add: kill_process_windows_def taskkill_def pid_alive_windows_def exit_code_process_def STILL_ACTIVE_def)

text \<open>A process that ended with the code 259, while its entry is kept, counts as alive, and no kill changes that.\<close>

lemma exit_code_259_looks_alive:
  assumes "ps pid = Some (W_Exited 259)"
  shows "pid_alive_windows ps pid" "poll_windows (Reattached pid None) ps = Reattached pid None"
    "kill_process_windows permitted (Reattached pid None) ps = (Reattached pid None, ps)"
  using assms by (simp_all add: pid_alive_windows_def exit_code_process_def STILL_ACTIVE_def kill_process_windows_def taskkill_def)

lemma other_exit_codes_are_exact:
  "pid_alive_windows ps pid \<longleftrightarrow> ps pid \<in> {Some W_Running, Some (W_Exited 259)}"
  by (auto simp: pid_alive_windows_def exit_code_process_def STILL_ACTIVE_def split: option.split win_process.split)

end
