(* ===== verification/Api_Outputs.thy ===== *)
theory Api_Outputs
  imports Web_Admin Server_Audit Machines_Props
begin

text \<open>
  The response models of the JSON API (\<open>MachineOut\<close>, \<open>JobOut\<close>, \<open>ScriptOut\<close>) and the answers of its reading
  endpoints, of which none depends on a secret of the database.
\<close>

section \<open>Response models\<close>

record machine_out =
  mo_id :: int
  mo_name :: string
  mo_ssh_host :: string
  mo_ssh_port :: int
  mo_ssh_user :: string
  mo_agent_port :: int
  mo_platform :: string
  mo_key_fingerprint :: string
  mo_mac_address :: "string option"
  mo_created_at :: int
  mo_ssh_host_key_fingerprint :: "string option"

text \<open>A stored host key that is not base64 makes the computed field raise.\<close>

definition machine_out :: "(string \<Rightarrow> string) \<Rightarrow> machine_row \<Rightarrow> http_error + machine_out" where
  "machine_out sha256 m =
     (case host_key_fingerprint sha256 (m_ssh_host_key m) of
        Inl _ \<Rightarrow> Inl internal_error
      | Inr fp \<Rightarrow>
          Inr \<lparr>mo_id = m_id m, mo_name = m_name m, mo_ssh_host = m_ssh_host m, mo_ssh_port = m_ssh_port m,
               mo_ssh_user = m_ssh_user m, mo_agent_port = m_agent_port m, mo_platform = m_platform m,
               mo_key_fingerprint = m_key_fingerprint m, mo_mac_address = m_mac_address m, mo_created_at = m_created_at m,
               mo_ssh_host_key_fingerprint = fp\<rparr>)"

fun machines_out :: "(string \<Rightarrow> string) \<Rightarrow> machine_row list \<Rightarrow> http_error + machine_out list" where
  "machines_out sha256 [] = Inr []"
| "machines_out sha256 (m # ms) = bindR (machine_out sha256 m) (\<lambda>x. bindR (machines_out sha256 ms) (\<lambda>xs. Inr (x # xs)))"

record job_out =
  jo_id :: int
  jo_job_uuid :: string
  jo_machine_id :: int
  jo_script_id :: "int option"
  jo_user_id :: int
  jo_params :: params
  jo_status :: string
  jo_persistent :: bool
  jo_started_at :: int
  jo_ended_at :: "int option"
  jo_exit_code :: "int option"

definition job_out :: "job_row \<Rightarrow> job_out" where
  "job_out j =
     \<lparr>jo_id = jb_id j, jo_job_uuid = jb_job_uuid j, jo_machine_id = jb_machine_id j, jo_script_id = jb_script_id j,
      jo_user_id = jb_user_id j, jo_params = jb_params j, jo_status = status_text (jb_status j),
      jo_persistent = jb_persistent j, jo_started_at = jb_started_at j, jo_ended_at = jb_ended_at j,
      jo_exit_code = jb_exit_code j\<rparr>"

text \<open>\<open>ScriptOut\<close> has every column of the row.\<close>

section \<open>Reading endpoints\<close>

datatype read_request =
    R_Machines | R_Machine int
  | R_Jobs "int option" "string option" "string option" nat
  | R_Scripts | R_Script string
  | R_Audit "string option" "string option" "string option" nat nat

datatype answer =
    A_Machines "machine_out list" | A_Machine machine_out | A_Jobs "job_out list" | A_Scripts "script_row list"
  | A_Script script_row | A_Audit_Page audit_page

fun api_answer ::
  "'k auth_libs \<Rightarrow> (string \<Rightarrow> string) \<Rightarrow> int \<Rightarrow> 'k \<Rightarrow> read_request \<Rightarrow> database \<Rightarrow> http_error + answer" where
  "api_answer al sha256 now tok R_Machines db =
     bindR (list_machines al now tok (begin_session db)) (\<lambda>ms. bindR (machines_out sha256 ms) (\<lambda>xs. Inr (A_Machines xs)))"
| "api_answer al sha256 now tok (R_Machine i) db =
     bindR (get_machine al now tok i (begin_session db)) (\<lambda>m. bindR (machine_out sha256 m) (\<lambda>x. Inr (A_Machine x)))"
| "api_answer al sha256 now tok (R_Jobs mid name status limit) db =
     bindR (list_jobs_endpoint al now tok mid name status limit (begin_session db)) (\<lambda>js. Inr (A_Jobs (map job_out js)))"
| "api_answer al sha256 now tok R_Scripts db =
     bindR (list_scripts_endpoint al now tok (begin_session db)) (\<lambda>xs. Inr (A_Scripts xs))"
| "api_answer al sha256 now tok (R_Script n) db =
     bindR (get_script_endpoint al now tok n (begin_session db)) (\<lambda>x. Inr (A_Script x))"
| "api_answer al sha256 now tok (R_Audit a t u limit off) db =
     bindR (list_audit_entries al now tok a t u limit off (begin_session db)) (\<lambda>p. Inr (A_Audit_Page p))"

section \<open>No answer depends on a secret\<close>

text \<open>The database without its secrets: password hashes, encrypted keys and tokens, digests of refresh tokens.\<close>

definition public_user :: "user_row \<Rightarrow> user_row" where
  "public_user u = u\<lparr>u_password_hash := []\<rparr>"

definition public_machine :: "machine_row \<Rightarrow> machine_row" where
  "public_machine m = m\<lparr>m_ssh_key_encrypted := [], m_agent_token_encrypted := None\<rparr>"

definition public_part :: "database \<Rightarrow> database" where
  "public_part db =
     db\<lparr>users := map public_user (users db), refresh_tokens := [], machines := map public_machine (machines db)\<rparr>"

lemma public_fields [simp]:
  "u_id (public_user u) = u_id u" "u_username (public_user u) = u_username u" "u_role (public_user u) = u_role u"
  "u_disabled (public_user u) = u_disabled u" "m_id (public_machine m) = m_id m"
  "machine_out sha256 (public_machine m) = machine_out sha256 m"
  by (simp_all add: public_user_def public_machine_def machine_out_def split: sum.split)

lemma public_part_fields [simp]:
  "users (public_part db) = map public_user (users db)" "machines (public_part db) = map public_machine (machines db)"
  "user_machines (public_part db) = user_machines db" "scripts (public_part db) = scripts db"
  "job_rows (public_part db) = job_rows db" "audit_rows (public_part db) = audit_rows db"
  by (simp_all add: public_part_def)

lemma find_map: "find P (map f xs) = map_option f (find (P \<circ> f) xs)"
  by (induction xs) auto

lemma find_user_public [simp]: "find_user i (public_part db) = map_option public_user (find_user i db)"
  by (simp add: find_user_def find_map comp_def)

lemma find_machine_public [simp]: "find_machine i (public_part db) = map_option public_machine (find_machine i db)"
  by (simp add: find_machine_def find_map comp_def)

lemma current_user_public [simp]:
  "current_user al now tok (public_part db) = map_sum id public_user (current_user al now tok db)"
  by (simp add: current_user_def split: sum.split token_error.split option.split)

lemma require_admin_public [simp]:
  "require_admin al now tok (public_part db) = map_sum id public_user (require_admin al now tok db)"
  by (cases "current_user al now tok db") (simp_all add: require_admin_def)

lemma machines_out_public [simp]: "machines_out sha256 (map public_machine ms) = machines_out sha256 ms"
  by (induction ms) simp_all

lemma bookmarked_public [simp]: "bookmarked uid mid (public_part db) = bookmarked uid mid db"
  by (simp add: bookmarked_def)

lemma list_machines_public:
  "list_machines al now tok (begin_session (public_part db)) =
     map_sum id (map public_machine) (list_machines al now tok (begin_session db))"
  by (cases "current_user al now tok db") (simp_all add: list_machines_def filter_map comp_def)

lemma get_machine_public:
  "get_machine al now tok i (begin_session (public_part db)) =
     map_sum id public_machine (get_machine al now tok i (begin_session db))"
  by (cases "current_user al now tok db"; cases "find_machine i db")
    (simp_all add: get_machine_def accessible_machine_def get_machine_or_404_def assert_access_def)

lemma username_of_public [simp]: "username_of (public_part db) r = username_of db r"
  by (simp add: username_of_def option.map_comp comp_def split: option.split)

lemma api_answer_public: "api_answer al sha256 now tok r (public_part db) = api_answer al sha256 now tok r db"
proof (cases r)
  case R_Machines
  then show ?thesis by (cases "list_machines al now tok (begin_session db)") (simp_all add: list_machines_public)
next
  case (R_Machine i)
  then show ?thesis by (cases "get_machine al now tok i (begin_session db)") (simp_all add: get_machine_public)
next
  case (R_Jobs mid n st limit)
  then show ?thesis
    by (cases "current_user al now tok db"; cases n) (simp_all add: list_jobs_endpoint_def get_script_def Let_def split: option.split)
next
  case R_Scripts
  then show ?thesis by (cases "current_user al now tok db") (simp_all add: list_scripts_endpoint_def list_scripts_def)
next
  case (R_Script n)
  then show ?thesis
    by (cases "current_user al now tok db") (simp_all add: get_script_endpoint_def get_script_or_raise_def get_script_def)
next
  case (R_Audit a t u limit off)
  then show ?thesis
    by (cases "require_admin al now tok db") (simp_all add: list_audit_entries_def audit_selection_def Let_def)
qed

text \<open>
  C36. No reading endpoint of the JSON API discloses a stored secret: two databases that differ only in password
  hashes, encrypted private keys, encrypted agent tokens and refresh tokens give the same answer, error or not, to
  every request for machines, jobs, scripts and audit entries, whoever asks.
\<close>

theorem answers_disclose_no_secret:
  assumes "public_part db = public_part db'"
  shows "api_answer al sha256 now tok r db = api_answer al sha256 now tok r db'"
  using api_answer_public [of al sha256 now tok r db] api_answer_public [of al sha256 now tok r db'] assms by simp

theorem answers_disclose_no_secret_witness:
  "one_user \<noteq> one_user\<lparr>users := [example_user\<lparr>u_password_hash := ''other''\<rparr>]\<rparr>
   \<and> api_answer example_auth_libs (\<lambda>x. x) 5 example_token R_Machines one_user
     = api_answer example_auth_libs (\<lambda>x. x) 5 example_token R_Machines (one_user\<lparr>users := [example_user\<lparr>u_password_hash := ''other''\<rparr>]\<rparr>)"
proof
  show "one_user \<noteq> one_user\<lparr>users := [example_user\<lparr>u_password_hash := ''other''\<rparr>]\<rparr>"
    by (simp add: one_user_def example_user_def empty_database_def)
  have "public_part one_user = public_part (one_user\<lparr>users := [example_user\<lparr>u_password_hash := ''other''\<rparr>]\<rparr>)"
    by (simp add: public_part_def public_user_def one_user_def)
  then show "api_answer example_auth_libs (\<lambda>x. x) 5 example_token R_Machines one_user
     = api_answer example_auth_libs (\<lambda>x. x) 5 example_token R_Machines (one_user\<lparr>users := [example_user\<lparr>u_password_hash := ''other''\<rparr>]\<rparr>)"
    by (rule answers_disclose_no_secret)
qed

end
