(* ===== verification/Control_Station.thy ===== *)
theory Control_Station
  imports Web_Admin Web_Machines Job_Reconciler Server_Cli
begin

text \<open>
  The control station as one system (\<open>server/main.py\<close>): every route that the application includes, dispatched to its
  handler, and the other two writers of the database, the job reconciler and the command \<open>csl-admin\<close>.  The state is the
  database with the SSH pool and everything behind it.  A request is one session, which ends without a commit of its own.
\<close>

section \<open>Requests\<close>

text \<open>
  A route with its inputs: path and query parameters, the body, and the values its handler draws (the \<open>jti\<close> of a
  token, the nonces of an encryption, the identifier of a job).
\<close>

datatype api_route =
    Api_Health
  | Api_Login string string string
  | Api_Refresh string
  | Api_Logout
  | Api_Register string string register_input
  | Api_Machines
  | Api_Machine int
  | Api_Delete_Machine int
  | Api_Bookmark int
  | Api_Unbookmark int
  | Api_Ping int
  | Api_Agent_Status int
  | Api_Submit_Job string int string params
  | Api_Scripts
  | Api_Script string
  | Api_Create_Script string string "string option"
  | Api_Update_Script string string "string option"
  | Api_Delete_Script string
  | Api_Kill_Job string
  | Api_Job string
  | Api_Job_Stream string
  | Api_Jobs "int option" "string option" "string option" nat
  | Api_Wake int string int
  | Api_Audit "string option" "string option" "string option" nat nat

datatype web_route =
    Web_Login_Form
  | Web_Login string string string
  | Web_Logout
  | Web_Dashboard
  | Web_Ping int
  | Web_Machine int bool
  | Web_Run_Form int string
  | Web_Run string int string form
  | Web_Sync_States int
  | Web_State_Badge int string
  | Web_Restage int string
  | Web_Jobs "string option" "string option" "string option" int
  | Web_Job string
  | Web_Job_Stream string
  | Web_Kill_Job string
  | Admin_Scripts
  | Admin_Script_Form
  | Admin_Create_Script string string string
  | Admin_Edit_Form string
  | Admin_Update_Script string string string
  | Admin_Delete_Script string
  | Admin_Machines
  | Admin_Machine_Form
  | Admin_Register string string machine_form
  | Admin_Delete_Machine int
  | Admin_Users
  | Admin_Toggle_User int
  | Admin_Set_Role int string
  | Admin_Audit "string option" "string option" "string option" int

datatype route = Api api_route | Web web_route

text \<open>The credentials of a request: the bearer token of its header, its cookies.\<close>

record 'k credentials =
  cr_bearer :: "'k option"
  cr_access :: "'k option"
  cr_refresh :: "'k option"
  cr_flash :: "string option"

text \<open>The method and path of an endpoint, and the list in \<open>main.py\<close> of all there should be.\<close>

fun endpoint_of :: "api_route \<Rightarrow> string \<times> string" where
  "endpoint_of Api_Health = (''GET'', ''/healthz'')"
| "endpoint_of (Api_Login _ _ _) = (''POST'', ''/api/auth/login'')"
| "endpoint_of (Api_Refresh _) = (''POST'', ''/api/auth/refresh'')"
| "endpoint_of Api_Logout = (''POST'', ''/api/auth/logout'')"
| "endpoint_of (Api_Register _ _ _) = (''POST'', ''/api/machines'')"
| "endpoint_of Api_Machines = (''GET'', ''/api/machines'')"
| "endpoint_of (Api_Machine _) = (''GET'', ''/api/machines/{machine_id}'')"
| "endpoint_of (Api_Delete_Machine _) = (''DELETE'', ''/api/machines/{machine_id}'')"
| "endpoint_of (Api_Bookmark _) = (''POST'', ''/api/machines/{machine_id}/bookmark'')"
| "endpoint_of (Api_Unbookmark _) = (''DELETE'', ''/api/machines/{machine_id}/bookmark'')"
| "endpoint_of (Api_Ping _) = (''GET'', ''/api/machines/{machine_id}/ping'')"
| "endpoint_of (Api_Agent_Status _) = (''GET'', ''/api/machines/{machine_id}/agent-status'')"
| "endpoint_of (Api_Submit_Job _ _ _ _) = (''POST'', ''/api/machines/{machine_id}/jobs'')"
| "endpoint_of Api_Scripts = (''GET'', ''/api/scripts'')"
| "endpoint_of (Api_Script _) = (''GET'', ''/api/scripts/{name}'')"
| "endpoint_of (Api_Create_Script _ _ _) = (''POST'', ''/api/scripts'')"
| "endpoint_of (Api_Update_Script _ _ _) = (''PUT'', ''/api/scripts/{name}'')"
| "endpoint_of (Api_Delete_Script _) = (''DELETE'', ''/api/scripts/{name}'')"
| "endpoint_of (Api_Kill_Job _) = (''POST'', ''/api/jobs/{job_uuid}/kill'')"
| "endpoint_of (Api_Job _) = (''GET'', ''/api/jobs/{job_uuid}'')"
| "endpoint_of (Api_Job_Stream _) = (''GET'', ''/api/jobs/{job_uuid}/stream'')"
| "endpoint_of (Api_Jobs _ _ _ _) = (''GET'', ''/api/jobs'')"
| "endpoint_of (Api_Wake _ _ _) = (''POST'', ''/api/machines/{machine_id}/builtin/wol'')"
| "endpoint_of (Api_Audit _ _ _ _ _) = (''GET'', ''/api/audit'')"

definition EXPECTED_ENDPOINTS :: "(string \<times> string) list" where
  "EXPECTED_ENDPOINTS =
     [(''GET'', ''/healthz''),
      (''POST'', ''/api/auth/login''),
      (''POST'', ''/api/auth/refresh''),
      (''POST'', ''/api/auth/logout''),
      (''POST'', ''/api/machines''),
      (''GET'', ''/api/machines''),
      (''GET'', ''/api/machines/{machine_id}''),
      (''DELETE'', ''/api/machines/{machine_id}''),
      (''POST'', ''/api/machines/{machine_id}/bookmark''),
      (''DELETE'', ''/api/machines/{machine_id}/bookmark''),
      (''GET'', ''/api/machines/{machine_id}/ping''),
      (''GET'', ''/api/machines/{machine_id}/agent-status''),
      (''POST'', ''/api/machines/{machine_id}/jobs''),
      (''GET'', ''/api/scripts''),
      (''GET'', ''/api/scripts/{name}''),
      (''POST'', ''/api/scripts''),
      (''PUT'', ''/api/scripts/{name}''),
      (''DELETE'', ''/api/scripts/{name}''),
      (''POST'', ''/api/jobs/{job_uuid}/kill''),
      (''GET'', ''/api/jobs/{job_uuid}''),
      (''GET'', ''/api/jobs/{job_uuid}/stream''),
      (''GET'', ''/api/jobs''),
      (''POST'', ''/api/machines/{machine_id}/builtin/wol''),
      (''GET'', ''/api/audit'')]"

lemma endpoints_expected: "range endpoint_of = set EXPECTED_ENDPOINTS" "distinct EXPECTED_ENDPOINTS"
proof -
  show "distinct EXPECTED_ENDPOINTS" by code_simp
  have "endpoint_of r \<in> set EXPECTED_ENDPOINTS" for r
    by (cases r) (simp_all add: EXPECTED_ENDPOINTS_def)
  moreover have "set EXPECTED_ENDPOINTS \<subseteq> endpoint_of ` {Api_Health, Api_Login [] [] [], Api_Refresh [], Api_Logout,
      Api_Register [] [] undefined, Api_Machines, Api_Machine 0, Api_Delete_Machine 0, Api_Bookmark 0, Api_Unbookmark 0,
      Api_Ping 0, Api_Agent_Status 0, Api_Submit_Job [] 0 [] [], Api_Scripts, Api_Script [], Api_Create_Script [] [] None,
      Api_Update_Script [] [] None, Api_Delete_Script [], Api_Kill_Job [], Api_Job [], Api_Job_Stream [],
      Api_Jobs None None None 0, Api_Wake 0 [] 0, Api_Audit None None None 0 0}"
    by (simp add: EXPECTED_ENDPOINTS_def)
  ultimately show "range endpoint_of = set EXPECTED_ENDPOINTS" by blast
qed

section \<open>Answers\<close>

text \<open>
  What became of a request, without its content: answered, refused with a status, a page, sent elsewhere.  A request of
  the API without a bearer token is refused by the framework before the handler runs (\<open>HTTPBearer\<close>).
\<close>

datatype outcome = Answered | Denied nat | Page nat | Sent_To string | No_Bearer

definition api_outcome :: "http_error + 'a \<Rightarrow> outcome" where
  "api_outcome r = (case r of Inl e \<Rightarrow> Denied (he_status e) | Inr _ \<Rightarrow> Answered)"

definition web_outcome :: "'p web_response \<Rightarrow> outcome" where
  "web_outcome r = (case r of Html st p \<Rightarrow> Page st | Redirect st url fl \<Rightarrow> Sent_To url | Failed e \<Rightarrow> Denied (he_status e))"

section \<open>The application\<close>

text \<open>What the application is built on: the station's libraries, those of the script library, the socket of
  Wake-on-LAN, SHA-256, and \<open>str\<close> of a YAML value.\<close>

record ('k, 'c, 'l, 'w) application =
  ap_station :: "('k, 'c, 'l, 'w) station"
  ap_registry :: registry_libs
  ap_udp :: "string \<Rightarrow> int \<Rightarrow> 8 word list \<Rightarrow> 'w \<Rightarrow> 'w \<times> string option"
  ap_sha256 :: "string \<Rightarrow> string"
  ap_yaml_str :: "yaml \<Rightarrow> string"
  ap_hash :: "string \<Rightarrow> string option"

type_synonym ('c, 'l, 'w) control = "database \<times> ('c, 'l, 'w) wire"

text \<open>A handler that leaves the session alone, one that works on the session, one that uses the network too.\<close>

definition reads :: "outcome \<Rightarrow> ('c, 'l, 'w) server \<Rightarrow> ('c, 'l, 'w) server \<times> outcome" where
  "reads r sv = (sv, r)"

definition in_session ::
  "(session \<Rightarrow> session \<times> 'a) \<Rightarrow> ('a \<Rightarrow> outcome) \<Rightarrow> ('c, 'l, 'w) server \<Rightarrow> ('c, 'l, 'w) server \<times> outcome" where
  "in_session f out sv = (let (s, a) = f (fst sv) in ((s, snd sv), out a))"

definition on_server ::
  "(('c, 'l, 'w) server \<Rightarrow> ('c, 'l, 'w) server \<times> 'a) \<Rightarrow> ('a \<Rightarrow> outcome) \<Rightarrow> ('c, 'l, 'w) server \<Rightarrow> ('c, 'l, 'w) server \<times> outcome"
where
  "on_server f out sv = (let (sv', a) = f sv in (sv', out a))"

text \<open>The socket of Wake-on-LAN acts on what lies behind the pool.\<close>

definition wire_udp ::
  "(string \<Rightarrow> int \<Rightarrow> 8 word list \<Rightarrow> 'w \<Rightarrow> 'w \<times> string option)
     \<Rightarrow> string \<Rightarrow> int \<Rightarrow> 8 word list \<Rightarrow> ('c, 'l, 'w) wire \<Rightarrow> ('c, 'l, 'w) wire \<times> string option" where
  "wire_udp udp addr port bs v = (let (w, r) = udp addr port bs (snd v) in ((fst v, w), r))"

text \<open>The routes behind the bearer token.\<close>

fun serve_bearer ::
  "('k, 'c, 'l, 'w) application \<Rightarrow> int \<Rightarrow> 'k \<Rightarrow> api_route \<Rightarrow> ('c, 'l, 'w) server \<Rightarrow> ('c, 'l, 'w) server \<times> outcome" where
  "serve_bearer ap now tok (Api_Register n1 n2 i) sv = on_server (register_machine (ap_station ap) now n1 n2 tok i) api_outcome sv"
| "serve_bearer ap now tok Api_Machines sv =
     reads (api_outcome (list_machines (st_auth (ap_station ap)) now tok (fst sv))) sv"
| "serve_bearer ap now tok (Api_Machine mid) sv =
     reads (api_outcome (get_machine (st_auth (ap_station ap)) now tok mid (fst sv))) sv"
| "serve_bearer ap now tok (Api_Delete_Machine mid) sv =
     in_session (delete_machine (st_auth (ap_station ap)) now tok mid) api_outcome sv"
| "serve_bearer ap now tok (Api_Bookmark mid) sv =
     in_session (add_bookmark (st_auth (ap_station ap)) now tok mid) api_outcome sv"
| "serve_bearer ap now tok (Api_Unbookmark mid) sv =
     in_session (remove_bookmark (st_auth (ap_station ap)) now tok mid) api_outcome sv"
| "serve_bearer ap now tok (Api_Ping mid) sv = on_server (ping_machine (ap_station ap) now tok mid) api_outcome sv"
| "serve_bearer ap now tok (Api_Agent_Status mid) sv = on_server (agent_status (ap_station ap) now tok mid) api_outcome sv"
| "serve_bearer ap now tok (Api_Submit_Job u mid n ps) sv =
     on_server (submit_job_endpoint (ap_station ap) now u tok mid n ps) api_outcome sv"
| "serve_bearer ap now tok Api_Scripts sv =
     reads (api_outcome (list_scripts_endpoint (st_auth (ap_station ap)) now tok (fst sv))) sv"
| "serve_bearer ap now tok (Api_Script n) sv =
     reads (api_outcome (get_script_endpoint (st_auth (ap_station ap)) now tok n (fst sv))) sv"
| "serve_bearer ap now tok (Api_Create_Script n c m) sv =
     in_session (create_script_endpoint (st_auth (ap_station ap)) (ap_registry ap) now tok n c m) api_outcome sv"
| "serve_bearer ap now tok (Api_Update_Script n c m) sv =
     in_session (update_script_endpoint (st_auth (ap_station ap)) (ap_registry ap) now tok n c m) api_outcome sv"
| "serve_bearer ap now tok (Api_Delete_Script n) sv =
     in_session (delete_script_endpoint (st_auth (ap_station ap)) now tok n) api_outcome sv"
| "serve_bearer ap now tok (Api_Kill_Job u) sv = on_server (kill_job_endpoint (ap_station ap) now tok u) api_outcome sv"
| "serve_bearer ap now tok (Api_Job u) sv = on_server (get_job_endpoint (ap_station ap) now tok u) api_outcome sv"
| "serve_bearer ap now tok (Api_Job_Stream u) sv =
     on_server (stream_job_logs_endpoint (ap_station ap) now tok u) api_outcome sv"
| "serve_bearer ap now tok (Api_Jobs mid n t limit) sv =
     reads (api_outcome (list_jobs_endpoint (st_auth (ap_station ap)) now tok mid n t limit (fst sv))) sv"
| "serve_bearer ap now tok (Api_Wake mid addr port) sv =
     on_server (wake_on_lan (wire_udp (ap_udp ap)) (st_auth (ap_station ap)) now tok mid addr port) api_outcome sv"
| "serve_bearer ap now tok (Api_Audit a t u limit off) sv =
     reads (api_outcome (list_audit_entries (st_auth (ap_station ap)) now tok a t u limit off (fst sv))) sv"
| "serve_bearer ap now tok _ sv = reads Answered sv"

fun serve_api ::
  "('k, 'c, 'l, 'w) application \<Rightarrow> int \<Rightarrow> 'k credentials \<Rightarrow> api_route \<Rightarrow> ('c, 'l, 'w) server \<Rightarrow> ('c, 'l, 'w) server \<times> outcome"
where
  "serve_api ap now cr Api_Health sv = reads Answered sv"
| "serve_api ap now cr (Api_Login jti n p) sv = in_session (login (st_auth (ap_station ap)) now jti n p) api_outcome sv"
| "serve_api ap now cr (Api_Refresh jti) sv = in_session (refresh (st_auth (ap_station ap)) now jti (cr_refresh cr)) api_outcome sv"
| "serve_api ap now cr Api_Logout sv = in_session (logout (st_auth (ap_station ap)) now (cr_refresh cr)) api_outcome sv"
| "serve_api ap now cr r sv =
     (case cr_bearer cr of None \<Rightarrow> (sv, No_Bearer) | Some tok \<Rightarrow> serve_bearer ap now tok r sv)"

fun serve_web ::
  "('k, 'c, 'l, 'w) application \<Rightarrow> int \<Rightarrow> 'k credentials \<Rightarrow> web_route \<Rightarrow> ('c, 'l, 'w) server \<Rightarrow> ('c, 'l, 'w) server \<times> outcome"
where
  "serve_web ap now cr Web_Login_Form sv = reads (web_outcome (login_page (cr_access cr) (cr_flash cr))) sv"
| "serve_web ap now cr (Web_Login jti n p) sv =
     in_session (login_submit (st_auth (ap_station ap)) now jti n p) (web_outcome \<circ> snd) sv"
| "serve_web ap now cr Web_Logout sv =
     in_session (web_logout (st_auth (ap_station ap)) now (cr_refresh cr)) (web_outcome \<circ> snd) sv"
| "serve_web ap now cr Web_Dashboard sv =
     reads (web_outcome (dashboard (st_auth (ap_station ap)) now (cr_access cr) (cr_flash cr) (fst sv))) sv"
| "serve_web ap now cr (Web_Ping mid) sv = on_server (ping_badge (ap_station ap) now (cr_access cr) mid) web_outcome sv"
| "serve_web ap now cr (Web_Machine mid every) sv =
     reads (web_outcome (machine_detail (st_auth (ap_station ap)) (ap_registry ap) now (cr_access cr) (cr_flash cr) mid every (fst sv))) sv"
| "serve_web ap now cr (Web_Run_Form mid n) sv =
     reads (web_outcome (run_form (st_auth (ap_station ap)) (ap_registry ap) now (cr_access cr) mid n (fst sv))) sv"
| "serve_web ap now cr (Web_Run u mid n form) sv =
     on_server (run_submit (ap_station ap) (ap_registry ap) (ap_yaml_str ap) now u (cr_access cr) mid n form) web_outcome sv"
| "serve_web ap now cr (Web_Sync_States mid) sv = on_server (sync_states (ap_station ap) now (cr_access cr) mid) web_outcome sv"
| "serve_web ap now cr (Web_State_Badge mid n) sv =
     on_server (script_state_badge (ap_station ap) now (cr_access cr) mid n) web_outcome sv"
| "serve_web ap now cr (Web_Restage mid n) sv = on_server (restage (ap_station ap) now (cr_access cr) mid n) web_outcome sv"
| "serve_web ap now cr (Web_Jobs m n t pg) sv =
     reads (web_outcome (jobs_list (st_auth (ap_station ap)) now (cr_access cr) (cr_flash cr) m n t pg (fst sv))) sv"
| "serve_web ap now cr (Web_Job u) sv =
     reads (web_outcome (job_detail (st_auth (ap_station ap)) now (cr_access cr) (cr_flash cr) u (fst sv))) sv"
| "serve_web ap now cr (Web_Job_Stream u) sv = on_server (job_log_stream (ap_station ap) now (cr_access cr) u) web_outcome sv"
| "serve_web ap now cr (Web_Kill_Job u) sv = on_server (kill_job_web (ap_station ap) now (cr_access cr) u) web_outcome sv"
| "serve_web ap now cr Admin_Scripts sv =
     reads (web_outcome (admin_scripts (st_auth (ap_station ap)) now (cr_access cr) (cr_flash cr) (fst sv))) sv"
| "serve_web ap now cr Admin_Script_Form sv =
     reads (web_outcome (admin_script_new_form (st_auth (ap_station ap)) now (cr_access cr) (fst sv))) sv"
| "serve_web ap now cr (Admin_Create_Script n c m) sv =
     in_session (admin_script_new_submit (st_auth (ap_station ap)) (ap_registry ap) now (cr_access cr) n c m) web_outcome sv"
| "serve_web ap now cr (Admin_Edit_Form n) sv =
     reads (web_outcome (admin_script_edit_form (st_auth (ap_station ap)) now (cr_access cr) n (fst sv))) sv"
| "serve_web ap now cr (Admin_Update_Script n c m) sv =
     in_session (admin_script_edit_submit (st_auth (ap_station ap)) (ap_registry ap) now (cr_access cr) n c m) web_outcome sv"
| "serve_web ap now cr (Admin_Delete_Script n) sv =
     in_session (admin_script_delete (st_auth (ap_station ap)) now (cr_access cr) n) web_outcome sv"
| "serve_web ap now cr Admin_Machines sv =
     reads (web_outcome (admin_machines (st_auth (ap_station ap)) now (cr_access cr) (cr_flash cr) (fst sv))) sv"
| "serve_web ap now cr Admin_Machine_Form sv =
     reads (web_outcome (admin_machine_new_form (st_auth (ap_station ap)) now (cr_access cr) (fst sv))) sv"
| "serve_web ap now cr (Admin_Register n1 n2 form) sv =
     on_server (admin_machine_new_submit (ap_station ap) (ap_sha256 ap) now n1 n2 (cr_access cr) form) web_outcome sv"
| "serve_web ap now cr (Admin_Delete_Machine mid) sv =
     in_session (admin_machine_delete (st_auth (ap_station ap)) now (cr_access cr) mid) web_outcome sv"
| "serve_web ap now cr Admin_Users sv =
     reads (web_outcome (admin_users (st_auth (ap_station ap)) now (cr_access cr) (cr_flash cr) (fst sv))) sv"
| "serve_web ap now cr (Admin_Toggle_User uid) sv =
     in_session (admin_user_toggle (st_auth (ap_station ap)) now (cr_access cr) uid) web_outcome sv"
| "serve_web ap now cr (Admin_Set_Role uid role) sv =
     in_session (admin_user_role (st_auth (ap_station ap)) now (cr_access cr) uid role) web_outcome sv"
| "serve_web ap now cr (Admin_Audit a t u pg) sv =
     reads (web_outcome (admin_audit (st_auth (ap_station ap)) now (cr_access cr) (cr_flash cr) a t u pg (fst sv))) sv"

fun serve_route ::
  "('k, 'c, 'l, 'w) application \<Rightarrow> int \<Rightarrow> 'k credentials \<Rightarrow> route \<Rightarrow> ('c, 'l, 'w) server \<Rightarrow> ('c, 'l, 'w) server \<times> outcome" where
  "serve_route ap now cr (Api r) sv = serve_api ap now cr r sv"
| "serve_route ap now cr (Web r) sv = serve_web ap now cr r sv"

definition handle_request ::
  "('k, 'c, 'l, 'w) application \<Rightarrow> int \<Rightarrow> 'k credentials \<Rightarrow> route \<Rightarrow> ('c, 'l, 'w) control \<Rightarrow> ('c, 'l, 'w) control \<times> outcome" where
  "handle_request ap now cr r dv =
     (let ((s, v), out) = serve_route ap now cr r (begin_session (fst dv), snd dv) in ((finish s, v), out))"

text \<open>Everything that writes the database, one after another.\<close>

datatype 'k station_act =
    Request int "'k credentials" route
  | Reconcile
  | Admin_Command int "(string \<times> string) list option" admin_command

fun station_step :: "('k, 'c, 'l, 'w) application \<Rightarrow> 'k station_act \<Rightarrow> ('c, 'l, 'w) control \<Rightarrow> ('c, 'l, 'w) control" where
  "station_step ap (Request now cr r) dv = fst (handle_request ap now cr r dv)"
| "station_step ap Reconcile dv = reconcile_once (st_net (ap_station ap)) dv"
| "station_step ap (Admin_Command now dir c) dv =
     (fst (admin_main (ap_hash ap) (ap_registry ap) now dir c (fst dv)), snd dv)"

end
