(* ===== verification/Control_Policy.thy ===== *)
theory Control_Policy
  imports Control_Station Web_Props Jobs_Props
begin

text \<open>
  The access policy of the control station as a specification: who may write what into the database, one rule per
  elementary write (\<open>may_write\<close>), and what follows for every database that permitted writes can reach.  \<open>Control_Props\<close>
  shows that the routes of \<open>Control_Station\<close> write nothing else.
\<close>

section \<open>Who acts\<close>

datatype actor = Visitor | Member user_row | Background | Operator

text \<open>The routes that need no login, and the credential the others look at.\<close>

fun public_route :: "route \<Rightarrow> bool" where
  "public_route (Api r) =
     (case r of Api_Health \<Rightarrow> True | Api_Login _ _ _ \<Rightarrow> True | Api_Refresh _ \<Rightarrow> True | Api_Logout \<Rightarrow> True | _ \<Rightarrow> False)"
| "public_route (Web r) = (case r of Web_Login_Form \<Rightarrow> True | Web_Login _ _ _ \<Rightarrow> True | Web_Logout \<Rightarrow> True | _ \<Rightarrow> False)"

fun credential :: "route \<Rightarrow> 'k credentials \<Rightarrow> 'k option" where
  "credential (Api r) cr = cr_bearer cr"
| "credential (Web r) cr = cr_access cr"

text \<open>The enabled user whose access token was sent.\<close>

definition token_owner :: "'k auth_libs \<Rightarrow> int \<Rightarrow> 'k option \<Rightarrow> database \<Rightarrow> user_row option" where
  "token_owner al now tok db =
     (case tok of
        None \<Rightarrow> None
      | Some t \<Rightarrow>
          (case decode_access_token al now t of
             Inl e \<Rightarrow> None
           | Inr (i, r) \<Rightarrow> (case find_user i db of None \<Rightarrow> None | Some u \<Rightarrow> if u_disabled u then None else Some u)))"

text \<open>The user of a request, in terms of the token that was sent.\<close>

lemma current_user_owner: "current_user al now t db = Inr u \<longleftrightarrow> token_owner al now (Some t) db = Some u"
  by (auto simp: current_user_def token_owner_def split: sum.splits token_error.splits option.splits)

fun actor_of :: "'k auth_libs \<Rightarrow> 'k station_act \<Rightarrow> database \<Rightarrow> actor" where
  "actor_of al (Request now cr r) db =
     (if public_route r then Visitor
      else case token_owner al now (credential r cr) db of None \<Rightarrow> Visitor | Some u \<Rightarrow> Member u)"
| "actor_of al Reconcile db = Background"
| "actor_of al (Admin_Command _ _ _) db = Operator"

section \<open>The policy\<close>

definition may_use :: "user_row \<Rightarrow> int \<Rightarrow> database \<Rightarrow> bool" where
  "may_use u mid db \<longleftrightarrow> mid \<in> m_id ` set (machines db) \<and> (u_role u = ''admin'' \<or> bookmarked (u_id u) mid db)"

text \<open>A function on job rows that touches what became of the job only.\<close>

definition outcome_only :: "(job_row \<Rightarrow> job_row) \<Rightarrow> bool" where
  "outcome_only f \<longleftrightarrow> (\<forall>j. with_outcome_of j (f j) = j)"

inductive may_write :: "'k auth_libs \<Rightarrow> registry_libs \<Rightarrow> actor \<Rightarrow> database \<Rightarrow> database \<Rightarrow> bool" for al lb where
  visitor_audit: "action \<in> {''auth.login'', ''auth.logout''} \<Longrightarrow>
    may_write al lb Visitor db (add_audit_row now action tt ti r uid d db)"
| log_in: "u \<in> set (users db) \<Longrightarrow> \<not> u_disabled u \<Longrightarrow> may_write al lb Visitor db (store_refresh_token al now (u_id u) jti db)"
| revoke: "revoke_jti al jti db = Inr db' \<Longrightarrow> may_write al lb Visitor db db'"
| member_audit: "may_write al lb (Member u) db (add_audit_row now action tt ti r (Some (u_id u)) d db)"
| bookmark: "mid \<in> m_id ` set (machines db) \<Longrightarrow> \<not> bookmarked (u_id u) mid db \<Longrightarrow>
    may_write al lb (Member u) db (db\<lparr>user_machines := user_machines db @ [\<lparr>um_user_id = u_id u, um_machine_id = mid\<rparr>]\<rparr>)"
| unbookmark: "may_write al lb (Member u) db
    (db\<lparr>user_machines := filter (\<lambda>r. \<not> (um_user_id r = u_id u \<and> um_machine_id r = mid)) (user_machines db)\<rparr>)"
| note_state: "may_use u mid db \<Longrightarrow> sc \<in> set (scripts db) \<Longrightarrow>
    may_write al lb (Member u) db (current (upsert_state now mid (sc_id sc) st d (begin_session db)))"
| start_job: "may_use u mid db \<Longrightarrow> sc \<in> set (scripts db) \<Longrightarrow>
    may_write al lb (Member u) db (db\<lparr>job_rows := job_rows db @ [new_job_row uuid mid sc u ps resp db]\<rparr>)"
| follow_job: "outcome_only f \<Longrightarrow> who \<in> {Member u, Background} \<Longrightarrow> may_write al lb who db (update_job uuid f db)"
| register: "u_role u = ''admin'' \<Longrightarrow> m_id m = new_id (map m_id (machines db)) \<Longrightarrow> m_name m \<notin> m_name ` set (machines db) \<Longrightarrow>
    may_write al lb (Member u) db (db\<lparr>machines := machines db @ [m]\<rparr>)"
| remove_machine: "u_role u = ''admin'' \<Longrightarrow>
    may_write al lb (Member u) db (db\<lparr>user_machines := filter (\<lambda>r. um_machine_id r \<noteq> mid) (user_machines db),
      machines := filter (\<lambda>x. m_id x \<noteq> mid) (machines db)\<rparr>)"
| add_script: "who = Operator \<or> who = Member u \<and> u_role u = ''admin'' \<Longrightarrow> sc_id sc = new_id (map sc_id (scripts db)) \<Longrightarrow>
    sc_name sc \<notin> sc_name ` set (scripts db) \<Longrightarrow> script_row_wf lb sc \<Longrightarrow>
    may_write al lb who db (db\<lparr>scripts := scripts db @ [sc]\<rparr>)"
| change_script: "u_role u = ''admin'' \<Longrightarrow> sc \<in> set (scripts db) \<Longrightarrow> sc_id sc' = sc_id sc \<Longrightarrow> sc_name sc' = sc_name sc \<Longrightarrow>
    script_row_wf lb sc' \<Longrightarrow> sc_updated_by sc' = u_id u \<Longrightarrow>
    may_write al lb (Member u) db (db\<lparr>scripts := map (\<lambda>x. if sc_id x = sc_id sc then sc' else x) (scripts db)\<rparr>)"
| remove_script: "u_role u = ''admin'' \<Longrightarrow>
    may_write al lb (Member u) db (db\<lparr>target_states := filter (\<lambda>t. ts_script_id t \<noteq> sid) (target_states db),
      scripts := filter (\<lambda>x. sc_id x \<noteq> sid) (scripts db)\<rparr>)"
| enable: "u_role u = ''admin'' \<Longrightarrow> uid \<noteq> u_id u \<Longrightarrow>
    may_write al lb (Member u) db (set_user uid (\<lambda>x. x\<lparr>u_disabled := b\<rparr>) db)"
| change_role: "u_role u = ''admin'' \<Longrightarrow> role \<in> {''admin'', ''user''} \<Longrightarrow> uid = u_id u \<longrightarrow> role = ''admin'' \<Longrightarrow>
    may_write al lb (Member u) db (set_user uid (\<lambda>x. x\<lparr>u_role := role\<rparr>) db)"
| new_account: "find (\<lambda>u. u_username u = n) (users db) = None \<Longrightarrow>
    may_write al lb Operator db (db\<lparr>users := users db @ [new_admin now n h db]\<rparr>)"

section \<open>What permitted writes keep\<close>

text \<open>
  The tables are consistent: every primary key and every unique column is unique, every script row is valid, a bookmark
  is of a machine that exists.
\<close>

definition database_wf :: "registry_libs \<Rightarrow> database \<Rightarrow> bool" where
  "database_wf lb db \<longleftrightarrow>
     distinct (map u_id (users db)) \<and> distinct (map u_username (users db))
     \<and> distinct (map rt_id (refresh_tokens db)) \<and> machines_wf db \<and> scripts_wf lb db
     \<and> distinct (map (\<lambda>t. (ts_machine_id t, ts_script_id t)) (target_states db))
     \<and> distinct (map jb_id (job_rows db)) \<and> distinct (map au_id (audit_rows db))"

lemma new_id_unused [simp]: "new_id (map f xs) \<notin> f ` set xs"
  using new_id_fresh [of "map f xs"] by simp

lemma map_key_same:
  assumes "\<And>x. x \<in> set xs \<Longrightarrow> g (f x) = g x"
  shows "map g (map f xs) = map g xs"
  using assms by simp

lemma users_key_set_user:
  "(\<And>u. g (f u) = g u) \<Longrightarrow> map g (users (set_user i f db)) = map g (users db)"
  by (simp add: set_user_def)

lemma database_fields_set_user [simp]:
  "refresh_tokens (set_user i f db) = refresh_tokens db" "machines (set_user i f db) = machines db"
  "user_machines (set_user i f db) = user_machines db" "scripts (set_user i f db) = scripts db"
  "target_states (set_user i f db) = target_states db" "job_rows (set_user i f db) = job_rows db"
  "audit_rows (set_user i f db) = audit_rows db"
  by (simp_all add: set_user_def)

lemma database_fields_update_job [simp]:
  "refresh_tokens (update_job u f db) = refresh_tokens db" "machines (update_job u f db) = machines db"
  "user_machines (update_job u f db) = user_machines db" "scripts (update_job u f db) = scripts db"
  "target_states (update_job u f db) = target_states db" "users (update_job u f db) = users db"
  "audit_rows (update_job u f db) = audit_rows db"
  by (simp_all add: update_job_def)

lemma database_fields_store [simp]:
  "users (store_refresh_token al now i jti db) = users db" "machines (store_refresh_token al now i jti db) = machines db"
  "user_machines (store_refresh_token al now i jti db) = user_machines db"
  "scripts (store_refresh_token al now i jti db) = scripts db"
  "target_states (store_refresh_token al now i jti db) = target_states db"
  "job_rows (store_refresh_token al now i jti db) = job_rows db" "audit_rows (store_refresh_token al now i jti db) = audit_rows db"
  by (simp_all add: store_refresh_token_def)

lemma revoke_result:
  assumes "revoke_jti al jti db = Inr db'"
  obtains f where "db' = db\<lparr>refresh_tokens := map f (refresh_tokens db)\<rparr>" "\<And>r. rt_id (f r) = rt_id r"
proof -
  let ?f = "\<lambda>x. if rt_token_hash x = sha256_hex al jti then x\<lparr>rt_revoked := True\<rparr> else x"
  have "db' = db\<lparr>refresh_tokens := map id (refresh_tokens db)\<rparr> \<or> db' = db\<lparr>refresh_tokens := map ?f (refresh_tokens db)\<rparr>"
    using assms by (auto simp: revoke_jti_def split: list.splits)
  then show thesis using that [of id] that [of ?f] by auto
qed

lemma machines_wf_cong:
  "machines db = machines db' \<Longrightarrow> user_machines db = user_machines db' \<Longrightarrow> machines_wf db = machines_wf db'"
  by (simp add: machines_wf_def)

lemma outcome_only_id:
  assumes "outcome_only f"
  shows "jb_id (f j) = jb_id j" "jb_job_uuid (f j) = jb_job_uuid j"
proof -
  have "with_outcome_of j (f j) = j" using assms by (simp add: outcome_only_def)
  then have "jb_id (with_outcome_of j (f j)) = jb_id j" "jb_job_uuid (with_outcome_of j (f j)) = jb_job_uuid j" by simp_all
  then show "jb_id (f j) = jb_id j" "jb_job_uuid (f j) = jb_job_uuid j" by (simp_all add: with_outcome_of_def)
qed

lemma target_state_simps: "target_states (db\<lparr>target_states := ts\<rparr>) = ts"
  by simp

lemma upsert_keys:
  assumes "distinct (map (\<lambda>t. (ts_machine_id t, ts_script_id t)) (target_states (current s)))"
  shows "distinct (map (\<lambda>t. (ts_machine_id t, ts_script_id t)) (target_states (current (upsert_state now mid sid r d s))))"
proof -
  let ?key = "\<lambda>t. (ts_machine_id t, ts_script_id t)"
  let ?mine = "\<lambda>t. ts_machine_id t = mid \<and> ts_script_id t = sid"
  show ?thesis
  proof (cases "list_ex ?mine (target_states (current s))")
    case True
    let ?row = "\<lparr>ts_machine_id = mid, ts_script_id = sid, ts_state = r, ts_approved_md5 = d_approved_md5 d,
      ts_pending_md5 = d_pending_md5 d, ts_last_refreshed_at = now\<rparr>"
    have "map ?key (map (\<lambda>t. if ?mine t then ?row else t) (target_states (current s))) = map ?key (target_states (current s))"
      by (intro map_key_same) auto
    with True assms show ?thesis by (simp only: upsert_state_def Let_def session_simps target_state_simps if_True)
  next
    case False
    then have "(mid, sid) \<notin> ?key ` set (target_states (current s))" by (auto simp: list_ex_iff)
    with False assms show ?thesis by (simp add: upsert_state_def Let_def)
  qed
qed

lemma upsert_refresh [simp]: "refresh_tokens (current (upsert_state now mid sid r d s)) = refresh_tokens (current s)"
  by (simp add: upsert_state_def Let_def)

lemma change_script_wf:
  assumes "scripts_wf lb db" "sc \<in> set (scripts db)" "sc_id sc' = sc_id sc" "sc_name sc' = sc_name sc" "script_row_wf lb sc'"
  shows "scripts_wf lb (db\<lparr>scripts := map (\<lambda>x. if sc_id x = sc_id sc then sc' else x) (scripts db)\<rparr>)"
proof -
  let ?f = "\<lambda>x. if sc_id x = sc_id sc then sc' else x"
  have "sc_id (?f x) = sc_id x \<and> sc_name (?f x) = sc_name x" if "x \<in> set (scripts db)" for x
  proof (cases "sc_id x = sc_id sc")
    case True
    then have "x = sc" using that assms(1,2) by (auto simp: scripts_wf_def distinct_map inj_on_def)
    then show ?thesis using assms(3,4) by simp
  qed simp
  then have "map sc_id (map ?f (scripts db)) = map sc_id (scripts db)" "map sc_name (map ?f (scripts db)) = map sc_name (scripts db)"
    by (auto intro!: map_key_same simp del: map_map)
  then show ?thesis using assms(1,5) by (auto simp: scripts_wf_def list_all_iff simp del: map_map map_eq_conv)
qed

lemma may_write_wf:
  assumes "may_write al lb who db db'" "database_wf lb db"
  shows "database_wf lb db'"
  using assms
proof (cases rule: may_write.cases)
  case (revoke jti)
  from this(2) obtain f where "db' = db\<lparr>refresh_tokens := map f (refresh_tokens db)\<rparr>" "\<And>r. rt_id (f r) = rt_id r"
    by (rule revoke_result) (use that in blast)
  with assms(2) show ?thesis by (simp add: database_wf_def machines_wf_def scripts_wf_def comp_def)
next
  case (change_script u sc sc')
  with assms(2) show ?thesis
    using change_script_wf [of lb db sc sc'] by (simp add: database_wf_def machines_wf_def)
next
  case (note_state u mid sc now st d)
  with assms(2) upsert_keys [of "begin_session db" now mid "sc_id sc" st d] show ?thesis
    by (simp add: database_wf_def machines_wf_def scripts_wf_def)
next
  case (add_script u sc)
  then have "sc_id sc \<notin> sc_id ` set (scripts db)" by (simp only: new_id_unused) simp
  with add_script assms(2) show ?thesis by (simp add: database_wf_def machines_wf_def scripts_wf_def)
next
  case (register u m)
  then have "m_id m \<notin> m_id ` set (machines db)" by (simp only: new_id_unused) simp
  with register assms(2) show ?thesis by (auto simp: database_wf_def machines_wf_def scripts_wf_def list_all_iff)
next
  case (bookmark mid u)
  with assms(2) show ?thesis by (simp add: database_wf_def machines_wf_def scripts_wf_def not_bookmarked)
next
  case (remove_machine u mid)
  with assms(2) show ?thesis
    by (auto simp: database_wf_def machines_wf_def scripts_wf_def list_all_iff distinct_map_filter)
next
  case (unbookmark u mid)
  with assms(2) show ?thesis by (auto simp: database_wf_def machines_wf_def scripts_wf_def list_all_iff)
next
  case (remove_script u sid)
  with assms(2) show ?thesis
    by (auto simp: database_wf_def machines_wf_def scripts_wf_def list_all_iff distinct_map_filter)
next
  case (new_account n now h)
  then have "n \<notin> set (map u_username (users db))" by (auto simp: find_None_iff)
  with new_account assms(2) new_id_fresh [of "map u_id (users db)"] show ?thesis
    by (simp add: database_wf_def machines_wf_def scripts_wf_def new_admin_def)
next
  case (start_job u mid sc uuid ps resp)
  with assms(2) new_id_fresh [of "map jb_id (job_rows db)"] show ?thesis
    by (simp add: database_wf_def machines_wf_def scripts_wf_def new_job_row_def)
next
  case (follow_job f u uuid)
  then have "map jb_id (job_rows db') = map jb_id (job_rows db)"
    by (auto simp: update_job_def outcome_only_id intro!: map_key_same simp del: map_map)
  with follow_job assms(2) show ?thesis by (simp add: database_wf_def machines_wf_def scripts_wf_def)
next
  case (log_in u now jti)
  with assms(2) new_id_fresh [of "map rt_id (refresh_tokens db)"] show ?thesis
    by (simp add: database_wf_def machines_wf_def scripts_wf_def) (simp add: store_refresh_token_def)
next
  case (enable u uid b)
  with assms(2) show ?thesis by (simp add: database_wf_def machines_wf_def scripts_wf_def users_key_set_user)
next
  case (change_role u role uid)
  with assms(2) show ?thesis by (simp add: database_wf_def machines_wf_def scripts_wf_def users_key_set_user)
next
  case (visitor_audit action now tt ti r uid d)
  with assms(2) new_id_fresh [of "map au_id (audit_rows db)"] show ?thesis
    by (simp add: database_wf_def) (simp add: add_audit_row_def)
next
  case (member_audit u now action tt ti r d)
  with assms(2) new_id_fresh [of "map au_id (audit_rows db)"] show ?thesis
    by (simp add: database_wf_def) (simp add: add_audit_row_def)
qed

end
