(* ===== verification/Control_Writes.thy ===== *)
theory Control_Writes
  imports Control_Policy
begin

text \<open>
  Every handler writes only what the policy permits to the one who acts.  \<open>permitted\<close> says so of a session: its committed
  and its current database are reached from the start by permitted writes.
\<close>

definition permitted :: "'k auth_libs \<Rightarrow> registry_libs \<Rightarrow> actor \<Rightarrow> database \<Rightarrow> session \<Rightarrow> bool" where
  "permitted al lb who db s \<longleftrightarrow> (may_write al lb who)\<^sup>*\<^sup>* db (committed s) \<and> (may_write al lb who)\<^sup>*\<^sup>* db (current s)"

named_theorems permitted_intros \<open>sessions of permitted writes\<close>

lemma permitted_begin [permitted_intros, simp]: "permitted al lb who db (begin_session db)"
  by (simp add: permitted_def)

lemma permitted_commit [permitted_intros]: "permitted al lb who db s \<Longrightarrow> permitted al lb who db (session_commit s)"
  by (simp add: permitted_def)

lemma permitted_write:
  "permitted al lb who db s \<Longrightarrow> may_write al lb who (current s) (f (current s)) \<Longrightarrow> permitted al lb who db (on_db f s)"
  by (auto simp: permitted_def)

lemma permitted_audit [permitted_intros]:
  assumes "permitted al lb (Member u) db s" "i = u_id u"
  shows "permitted al lb (Member u) db (record_audit now a tt ti r (Some i) d c s)"
proof -
  have "permitted al lb (Member u) db (on_db (add_audit_row now a tt ti r (Some i) d) s)"
    using assms(1) by (rule permitted_write) (simp add: assms(2) member_audit)
  then show ?thesis by (simp add: record_audit_def Let_def permitted_commit)
qed

lemma permitted_visitor_audit:
  assumes "permitted al lb Visitor db s" "a \<in> {''auth.login'', ''auth.logout''}"
  shows "permitted al lb Visitor db (record_audit now a tt ti r uid d c s)"
proof -
  have "permitted al lb Visitor db (on_db (add_audit_row now a tt ti r uid d) s)"
    using assms(1) by (rule permitted_write) (rule visitor_audit [OF assms(2)])
  then show ?thesis by (simp add: record_audit_def Let_def permitted_commit)
qed

lemma permitted_finish: "permitted al lb who db s \<Longrightarrow> (may_write al lb who)\<^sup>*\<^sup>* db (finish s)"
  by (simp add: permitted_def finish_def)

section \<open>Login, refresh, logout\<close>

lemma find_user_in: "find P us = Some u \<Longrightarrow> u \<in> set us"
  by (auto simp: find_Some_iff)

lemma permitted_login_token:
  assumes "u \<in> set (users (current s))" "\<not> u_disabled u" "permitted al lb Visitor db s"
  shows "permitted al lb Visitor db (on_db (store_refresh_token al now (u_id u) jti) s)"
  using assms(3) by (rule permitted_write) (rule log_in [OF assms(1,2)])

lemma login_permitted: "permitted al lb Visitor db (fst (login al now jti n p (begin_session db)))"
proof (cases "find (\<lambda>u. u_username u = n) (users db)")
  case None
  then show ?thesis by (simp add: login_def permitted_visitor_audit)
next
  case (Some u)
  have "permitted al lb Visitor db (on_db (store_refresh_token al now (u_id u) jti) (begin_session db))" if "\<not> u_disabled u"
    by (rule permitted_login_token) (use find_user_in [OF Some] that in simp_all)
  then show ?thesis
    using Some by (auto simp: login_def Let_def intro!: permitted_visitor_audit permitted_commit)
qed

lemma login_submit_permitted: "permitted al lb Visitor db (fst (login_submit al now jti n p (begin_session db)))"
proof (cases "find (\<lambda>u. u_username u = n) (users db)")
  case (Some u)
  have "permitted al lb Visitor db (on_db (store_refresh_token al now (u_id u) jti) (begin_session db))" if "\<not> u_disabled u"
    by (rule permitted_login_token) (use find_user_in [OF Some] that in simp_all)
  then show ?thesis
    using Some by (auto simp: login_submit_def Let_def intro!: permitted_commit)
qed (simp add: login_submit_def)

lemma permitted_revoke:
  assumes "revoke_jti al jti db = Inr db'"
  shows "permitted al lb Visitor db (on_db (\<lambda>_. db') (begin_session db))"
  by (rule permitted_write [OF permitted_begin]) (use revoke [OF assms] in simp)

lemma refresh_permitted: "permitted al lb Visitor db (fst (refresh al now jti cookie (begin_session db)))"
proof (cases "snd (refresh al now jti cookie (begin_session db))")
  case (Inl e)
  then show ?thesis by (simp add: refresh_refused)
next
  case (Inr tp)
  then show ?thesis
  proof (rule refresh_accepted)
    fix token i j u db'
    assume a: "find_user i (current (begin_session db)) = Some u" "\<not> u_disabled u"
      "revoke_jti al j (current (begin_session db)) = Inr db'"
      "fst (refresh al now jti cookie (begin_session db))
        = session_commit (on_db (\<lambda>_. store_refresh_token al now (u_id u) jti db') (begin_session db))"
    have "users db' = users db" using a(3) revoke_users by auto
    with a(1) have u: "u \<in> set (users db')" by (auto simp: find_user_def dest: find_user_in)
    have "may_write al lb Visitor db db'" by (rule revoke) (use a(3) in simp)
    moreover have "may_write al lb Visitor db' (store_refresh_token al now (u_id u) jti db')" by (rule log_in [OF u a(2)])
    ultimately have "(may_write al lb Visitor)\<^sup>*\<^sup>* db (store_refresh_token al now (u_id u) jti db')"
      by (rule converse_rtranclp_into_rtranclp [OF _ r_into_rtranclp])
    then show ?thesis by (simp add: a(4) permitted_def)
  qed
qed

lemma logout_permitted: "permitted al lb Visitor db (fst (logout al now cookie (begin_session db)))"
  by (auto simp: logout_def Let_def split: option.split sum.split token_error.split
      intro!: permitted_visitor_audit permitted_revoke)

lemma web_logout_permitted: "permitted al lb Visitor db (fst (web_logout al now cookie (begin_session db)))"
  by (auto simp: web_logout_def Let_def split: option.split sum.split token_error.split
      intro!: permitted_commit permitted_revoke)

section \<open>Machines, scripts, users\<close>

lemma owner_admin: "token_owner al now (Some t) db = Some u \<Longrightarrow>
    require_admin al now t db = (if u_role u = ''admin'' then Inr u else Inl (csl_exception 403 AUTH_FORBIDDEN (Text ''Admin access required'')))"
  by (simp add: require_admin_def flip: current_user_owner)

lemma register_from_input_permitted:
  assumes "u_role u = ''admin''"
  shows "permitted al lb (Member u) db (fst (fst (register_machine_from_input st now n1 n2 i (u_id u) (begin_session db, v))))"
proof -
  obtain sv' r where reg: "register_machine_from_input st now n1 n2 i (u_id u) (begin_session db, v) = (sv', r)" by fastforce
  show ?thesis
  proof (cases r)
    case (Inl e)
    with reg register_refused show ?thesis by fastforce
  next
    case (Inr m)
    show ?thesis
    proof (rule register_accepted [OF reg [unfolded Inr]])
      fix b w' hk
      assume a: "in_name i \<notin> m_name ` set (machines (current (begin_session db)))"
        "m = new_machine (st_net st) now n1 n2 i b (m_ssh_user m) hk (current (begin_session db))"
        "sv' = (session_commit (record_audit now ''machine.register'' ''machine'' (int_str (m_id m)) ''success'' (Some (u_id u))
              [(''name'', m_name m), (''ssh_host'', m_ssh_host m), (''platform'', m_platform m)] False
              (on_db (\<lambda>db. db\<lparr>machines := machines db @ [m]\<rparr>) (begin_session db))), (fst v, w'))"
      have "m_id m = new_id (map m_id (machines db))" "m_name m = in_name i" by (subst a(2), simp)+
      with a(1) have "permitted al lb (Member u) db (on_db (\<lambda>db. db\<lparr>machines := machines db @ [m]\<rparr>) (begin_session db))"
        by (intro permitted_write [OF permitted_begin]) (simp add: register [OF assms])
      then show ?thesis by (simp add: reg a(3) permitted_intros)
    qed
  qed
qed

lemma register_permitted:
  "token_owner (st_auth st) now (Some t) db = Some u \<Longrightarrow>
     permitted al lb (Member u) db (fst (fst (register_machine st now n1 n2 t i (begin_session db, v))))"
  by (simp add: register_machine_def owner_admin register_from_input_permitted)

lemma permitted_remove_machine:
  "u_role u = ''admin'' \<Longrightarrow> permitted al lb (Member u) db
     (on_db (\<lambda>db. db\<lparr>user_machines := filter (\<lambda>r. um_machine_id r \<noteq> mid) (user_machines db),
                    machines := filter (\<lambda>x. m_id x \<noteq> mid) (machines db)\<rparr>) (begin_session db))"
  by (rule permitted_write [OF permitted_begin]) (rule remove_machine)

lemma delete_machine_permitted:
  assumes "token_owner al now (Some t) db = Some u"
  shows "permitted al lb (Member u) db (fst (delete_machine al now t mid (begin_session db)))"
  using permitted_remove_machine [of u al lb db mid]
  by (auto simp: delete_machine_def owner_admin [OF assms] Let_def permitted_intros split: sum.split)

lemma get_machine_exists: "get_machine_or_404 mid db = Inr m \<Longrightarrow> m \<in> set (machines db) \<and> m_id m = mid"
  by (auto simp: get_machine_or_404_def find_machine_def dest: find_SomeD split: option.splits)

lemma add_bookmark_permitted:
  assumes "token_owner al now (Some t) db = Some u"
  shows "permitted al lb (Member u) db (fst (add_bookmark al now t mid (begin_session db)))"
proof (cases "get_machine_or_404 mid db")
  case (Inr m)
  then have "mid \<in> m_id ` set (machines db)" using get_machine_exists by force
  then have "permitted al lb (Member u) db
      (on_db (\<lambda>db. db\<lparr>user_machines := user_machines db @ [\<lparr>um_user_id = u_id u, um_machine_id = mid\<rparr>]\<rparr>) (begin_session db))"
    if "\<not> bookmarked (u_id u) mid db"
    by (intro permitted_write [OF permitted_begin]) (simp add: bookmark that)
  with Inr assms show ?thesis by (simp add: add_bookmark_def permitted_intros flip: current_user_owner)
qed (use assms in \<open>simp add: add_bookmark_def flip: current_user_owner\<close>)

lemma remove_bookmark_permitted:
  assumes "token_owner al now (Some t) db = Some u"
  shows "permitted al lb (Member u) db (fst (remove_bookmark al now t mid (begin_session db)))"
proof -
  have "permitted al lb (Member u) db
      (on_db (\<lambda>db. db\<lparr>user_machines := filter (\<lambda>r. \<not> (um_user_id r = u_id u \<and> um_machine_id r = mid)) (user_machines db)\<rparr>)
        (begin_session db))"
    by (rule permitted_write [OF permitted_begin]) (rule unbookmark)
  with assms show ?thesis
    by (cases "get_machine_or_404 mid db") (simp_all add: remove_bookmark_def permitted_intros flip: current_user_owner)
qed

text \<open>The three operations of the library.\<close>

lemma create_script_permitted:
  assumes "who = Operator \<or> who = Member u \<and> u_role u = ''admin''" "permitted al lb who db s"
  shows "permitted al lb who db (fst (create_script lb now n c m uid s))"
  using assms(2)
  by (auto simp: create_script_def Let_def get_script_None script_row_wf_def split: sum.split
      intro!: permitted_write add_script [OF assms(1)])

lemma update_script_permitted:
  assumes "u_role u = ''admin''"
  shows "permitted al lb (Member u) db (fst (update_script lb now n c m (u_id u) (begin_session db)))"
proof (cases "get_script_or_raise n db")
  case (Inr sc)
  then have sc: "sc \<in> set (scripts db)" by (auto simp: get_script_or_raise_def dest!: get_script_Some split: option.splits)
  show ?thesis
  proof (cases "validate_meta lb m")
    case (Inr x)
    with \<open>get_script_or_raise n db = Inr sc\<close> sc show ?thesis
      by (auto simp: update_script_def Let_def script_row_wf_def
          intro!: permitted_write change_script [OF assms, where sc = sc])
  qed (use \<open>get_script_or_raise n db = Inr sc\<close> in \<open>simp add: update_script_def\<close>)
qed (simp add: update_script_def)

lemma delete_script_permitted:
  "u_role u = ''admin'' \<Longrightarrow> permitted al lb (Member u) db (fst (delete_script n (begin_session db)))"
  by (auto simp: delete_script_def split: sum.split intro!: permitted_write remove_script)

lemma create_script_endpoint_permitted:
  assumes "token_owner al now (Some t) db = Some u"
  shows "permitted al lb (Member u) db (fst (create_script_endpoint al lb now t n c m (begin_session db)))"
  using create_script_permitted [of "Member u" u al lb db "begin_session db" now n c m "u_id u"]
  by (auto simp: create_script_endpoint_def owner_admin [OF assms] case_prod_beta permitted_intros split: sum.split)

lemma update_script_endpoint_permitted:
  assumes "token_owner al now (Some t) db = Some u"
  shows "permitted al lb (Member u) db (fst (update_script_endpoint al lb now t n c m (begin_session db)))"
  using update_script_permitted [of u al lb db now n c m]
  by (auto simp: update_script_endpoint_def owner_admin [OF assms] case_prod_beta permitted_intros split: sum.split)

lemma delete_script_endpoint_permitted:
  assumes "token_owner al now (Some t) db = Some u"
  shows "permitted al lb (Member u) db (fst (delete_script_endpoint al now t n (begin_session db)))"
  using delete_script_permitted [of u al lb db n]
  by (auto simp: delete_script_endpoint_def owner_admin [OF assms] case_prod_beta permitted_intros split: sum.split)

section \<open>The administrator's pages\<close>

text \<open>The pages find the same user; one who is no administrator gets a 403.\<close>

lemma web_owner: "token_owner al now cookie db = Some u \<Longrightarrow> web_current_user al now cookie db = Inr u"
  by (cases cookie) (auto simp: token_owner_def web_current_user_def split: sum.splits option.splits if_splits)

lemma web_owner_admin: "token_owner al now cookie db = Some u \<Longrightarrow>
    web_require_admin al now cookie db = (if u_role u = ''admin'' then Inr u else Inl (Failed (http_exception 403 ''Admin access required'')))"
  by (simp add: web_require_admin_def web_owner)

lemma admin_create_permitted:
  assumes "token_owner al now cookie db = Some u"
  shows "permitted al lb (Member u) db (fst (admin_script_new_submit al lb now cookie n c m (begin_session db)))"
  using create_script_permitted [of "Member u" u al lb db "begin_session db" now n c "strip_or_none m" "u_id u"]
  by (auto simp: admin_script_new_submit_def web_owner_admin [OF assms] case_prod_beta permitted_intros split: sum.split)

lemma admin_update_permitted:
  assumes "token_owner al now cookie db = Some u"
  shows "permitted al lb (Member u) db (fst (admin_script_edit_submit al lb now cookie n c m (begin_session db)))"
  using update_script_permitted [of u al lb db now n c "strip_or_none m"]
  by (auto simp: admin_script_edit_submit_def web_owner_admin [OF assms] case_prod_beta permitted_intros split: sum.split)

lemma admin_delete_script_permitted:
  assumes "token_owner al now cookie db = Some u"
  shows "permitted al lb (Member u) db (fst (admin_script_delete al now cookie n (begin_session db)))"
  using delete_script_permitted [of u al lb db n]
  by (auto simp: admin_script_delete_def web_owner_admin [OF assms] case_prod_beta permitted_intros split: sum.split)

lemma admin_register_permitted:
  assumes "token_owner (st_auth st) now cookie db = Some u"
  shows "permitted al lb (Member u) db (fst (fst (admin_machine_new_submit st sha now n1 n2 cookie form (begin_session db, v))))"
  using register_from_input_permitted [of u al lb db st now n1 n2 "input_of_form form" v]
  by (auto simp: admin_machine_new_submit_def web_owner_admin [OF assms] case_prod_beta split: sum.split)

lemma admin_delete_machine_permitted:
  assumes "token_owner al now cookie db = Some u"
  shows "permitted al lb (Member u) db (fst (admin_machine_delete al now cookie mid (begin_session db)))"
  using permitted_remove_machine [of u al lb db mid]
  by (auto simp: admin_machine_delete_def web_owner_admin [OF assms] permitted_intros split: option.split)

lemma admin_toggle_permitted:
  assumes "token_owner al now cookie db = Some u"
  shows "permitted al lb (Member u) db (fst (admin_user_toggle al now cookie uid (begin_session db)))"
  by (auto simp: admin_user_toggle_def web_owner_admin [OF assms] find_user_def dest!: find_SomeD split: option.split
      intro!: permitted_commit permitted_write enable)

lemma admin_role_permitted:
  assumes "token_owner al now cookie db = Some u"
  shows "permitted al lb (Member u) db (fst (admin_user_role al now cookie uid role (begin_session db)))"
  by (auto simp: admin_user_role_def web_owner_admin [OF assms] find_user_def dest!: find_SomeD split: option.split
      intro!: permitted_commit permitted_write change_role)

section \<open>Routes that ask an agent\<close>

text \<open>While a route works, the tables that decide who may use a machine stay as they were.\<close>

definition at_work :: "'k auth_libs \<Rightarrow> registry_libs \<Rightarrow> user_row \<Rightarrow> database \<Rightarrow> session \<Rightarrow> bool" where
  "at_work al lb u db s \<longleftrightarrow>
     permitted al lb (Member u) db s \<and> machines (current s) = machines db
     \<and> user_machines (current s) = user_machines db \<and> scripts (current s) = scripts db"

named_theorems work_intros \<open>sessions at work\<close>

lemma at_work_permitted: "at_work al lb u db s \<Longrightarrow> permitted al lb (Member u) db s"
  by (simp add: at_work_def)

lemma at_work_begin [work_intros, simp]: "at_work al lb u db (begin_session db)"
  by (simp add: at_work_def)

lemma at_work_commit [work_intros]: "at_work al lb u db s \<Longrightarrow> at_work al lb u db (session_commit s)"
  by (simp add: at_work_def permitted_commit)

lemma at_work_audit [work_intros]: "at_work al lb u db s \<Longrightarrow> at_work al lb u db (record_audit now a tt ti r (Some (u_id u)) d c s)"
  by (simp add: at_work_def permitted_audit)

lemma at_work_use: "at_work al lb u db s \<Longrightarrow> may_use u mid (current s) = may_use u mid db"
  by (simp add: at_work_def may_use_def bookmarked_def)

lemma upsert_on_db: "upsert_state now mid sid st d s = on_db (\<lambda>db. current (upsert_state now mid sid st d (begin_session db))) s"
  by (simp add: upsert_state_def Let_def on_db_def)

lemma at_work_note [work_intros]:
  assumes "may_use u mid db" "sc \<in> set (scripts db)" "at_work al lb u db s"
  shows "at_work al lb u db (upsert_state now mid (sc_id sc) st d s)"
proof -
  have "permitted al lb (Member u) db (upsert_state now mid (sc_id sc) st d s)"
    unfolding upsert_on_db [of now mid "sc_id sc" st d s]
    by (rule permitted_write [OF at_work_permitted [OF assms(3)]], rule note_state)
      (use assms at_work_use [OF assms(3)] in \<open>simp_all add: at_work_def\<close>)
  with assms(3) show ?thesis by (simp add: at_work_def)
qed

lemma at_work_job [work_intros]:
  assumes "may_use u mid db" "sc \<in> set (scripts db)" "at_work al lb u db s"
  shows "at_work al lb u db
    (on_db (\<lambda>d. d\<lparr>job_rows := job_rows d @ [new_job_row uuid mid sc u ps resp (current s)]\<rparr>) s)"
proof -
  have "permitted al lb (Member u) db (on_db (\<lambda>d. d\<lparr>job_rows := job_rows d @ [new_job_row uuid mid sc u ps resp (current s)]\<rparr>) s)"
    by (rule permitted_write [OF at_work_permitted [OF assms(3)]])
      (use assms at_work_use [OF assms(3)] start_job [of u mid "current s" sc] in \<open>simp add: at_work_def\<close>)
  with assms(3) show ?thesis by (simp add: at_work_def)
qed

lemma outcome_only_simps [simp]:
  "outcome_only (refreshed resp)" "outcome_only (\<lambda>j. j\<lparr>jb_status := st, jb_ended_at := e\<rparr>)" "outcome_only (\<lambda>j. j\<lparr>jb_status := st\<rparr>)"
  by (simp_all add: outcome_only_def) (simp_all add: with_outcome_of_def)

lemma at_work_follow [work_intros]:
  assumes "outcome_only f" "at_work al lb u db s"
  shows "at_work al lb u db (on_db (update_job uuid f) s)"
proof -
  have "permitted al lb (Member u) db (on_db (update_job uuid f) s)"
    by (rule permitted_write [OF at_work_permitted [OF assms(2)]]) (rule follow_job [OF assms(1)], simp)
  with assms(2) show ?thesis by (simp add: at_work_def)
qed

lemma with_client_work:
  assumes "at_work al lb u db (fst sv)" "\<And>c sv. at_work al lb u db (fst sv) \<Longrightarrow> at_work al lb u db (fst (fst (body c sv)))"
  shows "at_work al lb u db (fst (fst (with_client nt m body sv)))"
proof -
  have "at_work al lb u db (fst (fst (body c (fst sv, v))))" for c v using assms(2) [of "(fst sv, v)"] assms(1) by simp
  with assms(1) show ?thesis by (auto simp: with_client_def Let_def case_prod_beta split: sum.split)
qed

lemma sync_script_work:
  assumes "may_use u (m_id m) db" "sc \<in> set (scripts db)" "at_work al lb u db (fst sv)"
  shows "at_work al lb u db (fst (fst (sync_script now m sc c sv)))"
  using assms(3) at_work_note [OF assms(1,2,3)] by (auto simp: sync_script_def Let_def case_prod_beta split: sum.split)

lemma submit_to_agent_work:
  assumes "may_use u (m_id m) db" "sc \<in> set (scripts db)" "at_work al lb u db (fst sv)"
  shows "at_work al lb u db (fst (fst (submit_to_agent now uuid u m sc name ps c sv)))"
proof -
  note sync = sync_script_work [OF assms(1,2)]
  obtain v1 r1 where 1: "ensure_agent_running c (snd sv) = (v1, r1)" by fastforce
  obtain s2 v2 r2 where 2: "sync_script now m sc c (fst sv, v1) = ((s2, v2), r2)" by (metis prod.collapse)
  have s2: "at_work al lb u db s2" using sync [of al lb "(fst sv, v1)" now c] assms(3) 2 by simp
  obtain v3 r3 where 3: "client_submit_job c (job_request_of uuid sc name ps) v2 = (v3, r3)" by fastforce
  obtain s4 v4 r4 where 4: "sync_script now m sc c (session_commit s2, v3) = ((s4, v4), r4)" by (metis prod.collapse)
  have "at_work al lb u db s4" using sync [of al lb "(session_commit s2, v3)" now c] at_work_commit [OF s2] 4 by simp
  with s2 assms(3) show ?thesis
    by (simp add: submit_to_agent_def 1 2 3 4 Let_def split: sum.split client_error.split) (auto intro: work_intros)
qed

lemma run_on_agent_work:
  assumes "may_use u (m_id m) db" "sc \<in> set (scripts db)" "at_work al lb u db (fst sv)"
  shows "at_work al lb u db (fst (fst (run_on_agent now uuid m sc name ps c sv)))"
proof -
  obtain v1 r1 where 1: "ensure_agent_running c (snd sv) = (v1, r1)" by fastforce
  obtain s2 v2 r2 where 2: "sync_script now m sc c (fst sv, v1) = ((s2, v2), r2)" by (metis prod.collapse)
  have "at_work al lb u db s2" using sync_script_work [OF assms(1,2), of al lb "(fst sv, v1)" now c] assms(3) 2 by simp
  with assms(3) show ?thesis
    by (auto simp: run_on_agent_def 1 2 case_prod_beta split: sum.split intro: work_intros)
qed

lemma sync_rows_work:
  assumes "may_use u mid db" "snd ` set rows \<subseteq> set (scripts db)" "at_work al lb u db (fst sv)"
  shows "at_work al lb u db (fst (fst (sync_rows now mid c rows sv)))"
  using assms(2,3)
proof (induction rows arbitrary: sv)
  case (Cons row rows)
  obtain t sc where row: "row = (t, sc)" by (cases row)
  obtain s v where sv: "sv = (s, v)" by (cases sv)
  have "at_work al lb u db (upsert_state now mid (sc_id sc) st d s)" for st d
    using at_work_note [OF assms(1), of sc] Cons.prems row sv by simp
  with Cons row sv show ?case
    by (auto simp: Let_def case_prod_beta split: sum.split)
qed simp

lemma sync_on_agent_work:
  assumes "may_use u mid db" "snd ` set rows \<subseteq> set (scripts db)" "at_work al lb u db (fst sv)"
  shows "at_work al lb u db (fst (fst (sync_on_agent now mid rows c sv)))"
proof -
  have "at_work al lb u db (fst (fst (sync_rows now mid c rows (fst sv, v))))" for v
    by (rule sync_rows_work [OF assms(1,2)]) (simp add: assms(3))
  with assms(3) show ?thesis by (auto simp: sync_on_agent_def case_prod_beta Let_def split: sum.split)
qed

text \<open>Questions that leave the session alone.\<close>

lemma asking_work:
  assumes "at_work al lb u db (fst sv)"
  shows "at_work al lb u db (fst (fst (ask_status uuid c sv)))" "at_work al lb u db (fst (fst (tell_kill uuid c sv)))"
    "at_work al lb u db (fst (fst (web_tell_kill uuid c sv)))" "at_work al lb u db (fst (fst (ask_state n c sv)))"
    "at_work al lb u db (fst (fst (stage_on_agent sc c sv)))"
  using assms by (auto simp: ask_status_def tell_kill_def web_tell_kill_def ask_state_def stage_on_agent_def Let_def
      case_prod_beta split: sum.split)

lemma asking_client_work:
  assumes "at_work al lb u db (fst sv)"
  shows "at_work al lb u db (fst (fst (with_client nt m (ask_status uuid) sv)))"
    "at_work al lb u db (fst (fst (with_client nt m (tell_kill uuid) sv)))"
    "at_work al lb u db (fst (fst (with_client nt m (web_tell_kill uuid) sv)))"
    "at_work al lb u db (fst (fst (with_client nt m (ask_state n) sv)))"
    "at_work al lb u db (fst (fst (with_client nt m (stage_on_agent sc) sv)))"
  using assms by (auto intro!: with_client_work asking_work)

section \<open>The users of these routes\<close>

lemma owner_machine:
  assumes "token_owner al now (Some t) db = Some u" "accessible_machine al now t mid db = Inr (u', m)"
  shows "u' = u \<and> m \<in> set (machines db) \<and> m_id m = mid \<and> may_use u mid db"
proof -
  have cu: "current_user al now t db = Inr u" using assms(1) by (simp add: current_user_owner)
  obtain x where "get_machine_or_404 mid db = Inr m" "u' = u" "assert_access u mid db = Inr x"
    using assms(2) by (auto simp: accessible_machine_def cu bindR_eq_Inr)
  with get_machine_exists [of mid db m] show ?thesis
    by (auto simp: may_use_def assert_access_def split: if_splits)
qed

lemma web_owner_machine:
  assumes "token_owner al now cookie db = Some u" "web_accessible al now cookie mid db = Inr (u', m)"
  shows "u' = u \<and> m \<in> set (machines db) \<and> m_id m = mid \<and> may_use u mid db"
proof -
  obtain x where "get_machine_or_404 mid db = Inr m" "u' = u" "assert_access u mid db = Inr x"
    using assms(2) by (auto simp: web_accessible_def web_owner [OF assms(1)] split: sum.splits)
  with get_machine_exists [of mid db m] show ?thesis
    by (auto simp: may_use_def assert_access_def split: if_splits)
qed

lemma script_or_raise_in: "get_script_or_raise n db = Inr sc \<Longrightarrow> sc \<in> set (scripts db)"
  by (auto simp: get_script_or_raise_def dest!: get_script_Some split: option.splits)

lemma submit_job_work:
  assumes "token_owner (st_auth st) now (Some t) db = Some u"
  shows "at_work al lb u db (fst (fst (submit_job_endpoint st now uuid t mid n ps (begin_session db, v))))"
proof (cases "accessible_machine (st_auth st) now t mid db")
  case (Inr um)
  obtain u' m where um: "um = (u', m)" by (cases um)
  note m = owner_machine [OF assms Inr [unfolded um]]
  show ?thesis
  proof (cases "get_script_or_raise n db")
    case (Inr sc)
    note sc = script_or_raise_in [OF Inr]
    obtain s1 v1 r where w: "with_client (st_net st) m (submit_to_agent now uuid u m sc n ps) (begin_session db, v) = ((s1, v1), r)"
      by (metis prod.collapse)
    have "at_work al lb u db (fst (fst (with_client (st_net st) m (submit_to_agent now uuid u m sc n ps) (begin_session db, v))))"
      using m sc by (intro with_client_work submit_to_agent_work) simp_all
    then have s1: "at_work al lb u db s1" by (simp add: w)
    with m sc show ?thesis
      using \<open>accessible_machine (st_auth st) now t mid db = Inr um\<close> Inr
      by (auto simp: submit_job_endpoint_def um w Let_def split: sum.split intro!: at_work_commit at_work_audit at_work_job)
  qed (use \<open>accessible_machine (st_auth st) now t mid db = Inr um\<close> um in \<open>simp add: submit_job_endpoint_def\<close>)
qed (simp add: submit_job_endpoint_def)

lemma get_job_work: "at_work al lb u db (fst (fst (get_job_endpoint st now t uuid (begin_session db, v))))"
  using asking_client_work(1) [of al lb u db "(begin_session db, v)"]
  by (auto simp: get_job_endpoint_def case_prod_beta split: sum.split option.split
      intro!: at_work_commit at_work_follow)

lemma kill_job_work:
  assumes "token_owner (st_auth st) now (Some t) db = Some u"
  shows "at_work al lb u db (fst (fst (kill_job_endpoint st now t uuid (begin_session db, v))))"
  using assms asking_client_work(2) [of al lb u db "(begin_session db, v)"]
  by (auto simp: kill_job_endpoint_def case_prod_beta Let_def split: sum.split simp flip: current_user_owner
      intro!: at_work_commit at_work_audit at_work_follow)

lemma wake_permitted:
  assumes "token_owner al now (Some t) db = Some u"
  shows "permitted al lb (Member u) db (fst (fst (wake_on_lan udp al now t mid addr port (begin_session db, v))))"
proof (cases "accessible_machine al now t mid db")
  case (Inr um)
  obtain u' m where um: "um = (u', m)" by (cases um)
  with owner_machine [OF assms Inr [unfolded um]] Inr show ?thesis
    by (auto simp: wake_on_lan_def Let_def case_prod_beta split: option.split intro!: permitted_audit)
qed (simp add: wake_on_lan_def)

lemma run_submit_work:
  assumes "token_owner (st_auth st) now cookie db = Some u"
  shows "at_work al lb u db (fst (fst (run_submit st rl str_of now uuid cookie mid n form (begin_session db, v))))"
proof (cases "web_accessible (st_auth st) now cookie mid db :: run_dialog web_response + user_row \<times> machine_row")
  case (Inr um)
  obtain u' m where um: "um = (u', m)" by (cases um)
  note m = web_owner_machine [OF assms Inr [unfolded um]]
  show ?thesis
  proof (cases "get_script_or_raise n db")
    case (Inr sc)
    note sc = script_or_raise_in [OF Inr]
    have w: "at_work al lb u db (fst (fst (with_client (st_net st) m (run_on_agent now uuid m sc n ps) (begin_session db, v))))" for ps
      using m sc by (intro with_client_work run_on_agent_work) simp_all
    show ?thesis
    proof (cases "form_params str_of form (meta_params rl sc) []")
      case None
      with Inr m \<open>web_accessible (st_auth st) now cookie mid db = Inr um\<close> show ?thesis by (simp add: run_submit_def um)
    next
      case (Some ps)
      obtain s1 v1 r where c: "with_client (st_net st) m (run_on_agent now uuid m sc n ps) (begin_session db, v) = ((s1, v1), r)"
        by (metis prod.collapse)
      have "at_work al lb u db s1" using w [of ps] by (simp add: c)
      with Some Inr m sc \<open>web_accessible (st_auth st) now cookie mid db = Inr um\<close> show ?thesis
        by (auto simp: run_submit_def um c Let_def split: sum.split run_outcome.split intro!: at_work_commit at_work_job)
    qed
  qed (use \<open>web_accessible (st_auth st) now cookie mid db = Inr um\<close> um in \<open>simp add: run_submit_def\<close>)
qed (simp add: run_submit_def)

lemma staged_scripts_in: "snd ` set (staged_scripts mid db) \<subseteq> set (scripts db)"
  by (auto simp: staged_scripts_def)

lemma sync_states_work:
  assumes "token_owner (st_auth st) now cookie db = Some u"
  shows "at_work al lb u db (fst (fst (sync_states st now cookie mid (begin_session db, v))))"
proof (cases "web_accessible (st_auth st) now cookie mid db :: badge list web_response + user_row \<times> machine_row")
  case (Inr um)
  obtain u' m where um: "um = (u', m)" by (cases um)
  note m = web_owner_machine [OF assms Inr [unfolded um]]
  have "at_work al lb u db (fst (fst (with_client (st_net st) m (sync_on_agent now mid (staged_scripts mid db)) (begin_session db, v))))"
    using m staged_scripts_in by (intro with_client_work sync_on_agent_work) simp_all
  with Inr show ?thesis by (auto simp: sync_states_def um case_prod_beta Let_def split: sum.split intro!: at_work_commit)
qed (simp add: sync_states_def)

lemma state_badge_work:
  assumes "token_owner (st_auth st) now cookie db = Some u"
  shows "at_work al lb u db (fst (fst (script_state_badge st now cookie mid n (begin_session db, v))))"
proof (cases "web_accessible (st_auth st) now cookie mid db :: badge web_response + user_row \<times> machine_row")
  case (Inr um)
  obtain u' m where um: "um = (u', m)" by (cases um)
  note m = web_owner_machine [OF assms Inr [unfolded um]]
  have "at_work al lb u db (fst (fst (with_client (st_net st) m (ask_state n) (begin_session db, v))))"
    by (rule asking_client_work) simp
  with Inr m show ?thesis
    by (auto simp: script_state_badge_def um case_prod_beta Let_def dest!: get_script_Some split: sum.split option.split
        intro!: at_work_commit at_work_note)
qed (simp add: script_state_badge_def)

lemma restage_work:
  assumes "token_owner (st_auth st) now cookie db = Some u"
  shows "at_work al lb u db (fst (fst (restage st now cookie mid n (begin_session db, v))))"
proof (cases "web_accessible (st_auth st) now cookie mid db :: badge web_response + user_row \<times> machine_row")
  case (Inr um)
  obtain u' m where um: "um = (u', m)" by (cases um)
  note m = web_owner_machine [OF assms Inr [unfolded um]]
  have "at_work al lb u db (fst (fst (with_client (st_net st) m (stage_on_agent sc) (begin_session db, v))))" for sc
    by (rule asking_client_work) simp
  with Inr m show ?thesis
    by (auto simp: restage_def um case_prod_beta Let_def dest!: get_script_Some split: sum.split option.split
        intro!: at_work_commit at_work_note)
qed (simp add: restage_def)

lemma kill_job_web_work: "at_work al lb u db (fst (fst (kill_job_web st now cookie uuid (begin_session db, v))))"
  using asking_client_work(3) [of al lb u db "(begin_session db, v)"]
  by (auto simp: kill_job_web_def case_prod_beta Let_def split: sum.split option.split
      intro!: at_work_commit at_work_follow)

section \<open>Every request\<close>

text \<open>Routes that keep the session.\<close>

lemma keeps_session:
  "fst (fst (ping_machine st now t mid sv)) = fst sv" "fst (fst (agent_status st now t mid sv)) = fst sv"
  "fst (fst (stream_job_logs_endpoint st now t uuid sv)) = fst sv" "fst (fst (ping_badge st now cookie mid sv)) = fst sv"
  "fst (fst (job_log_stream st now cookie uuid sv)) = fst sv"
  by (simp_all add: ping_machine_def agent_status_def stream_job_logs_endpoint_def ping_badge_def job_log_stream_def
      Let_def case_prod_beta split: sum.split ssh_error.split option.split prod.split)

lemma in_session_fst: "fst (fst (in_session f out sv)) = fst (f (fst sv))"
  by (simp add: in_session_def case_prod_beta)

lemma on_server_fst: "fst (fst (on_server f out sv)) = fst (fst (f sv))"
  by (simp add: on_server_def case_prod_beta)

lemma reads_fst: "fst (fst (reads out sv)) = fst sv"
  by (simp add: reads_def)

lemmas mode_fst = in_session_fst on_server_fst reads_fst

lemma serve_bearer_permitted:
  assumes "token_owner (st_auth (ap_station ap)) now (Some t) db = Some u"
  shows "permitted (st_auth (ap_station ap)) (ap_registry ap) (Member u) db
    (fst (fst (serve_bearer ap now t r (begin_session db, v))))"
  using register_permitted [OF assms] delete_machine_permitted [OF assms] add_bookmark_permitted [OF assms]
    remove_bookmark_permitted [OF assms] create_script_endpoint_permitted [OF assms]
    update_script_endpoint_permitted [OF assms] delete_script_endpoint_permitted [OF assms]
    at_work_permitted [OF submit_job_work [OF assms]] at_work_permitted [OF kill_job_work [OF assms]]
    at_work_permitted [OF get_job_work] wake_permitted [OF assms]
  by (cases r) (simp_all add: mode_fst keeps_session)

lemma serve_web_permitted:
  assumes "token_owner (st_auth (ap_station ap)) now (cr_access cr) db = Some u" "\<not> public_route (Web r)"
  shows "permitted (st_auth (ap_station ap)) (ap_registry ap) (Member u) db
    (fst (fst (serve_web ap now cr r (begin_session db, v))))"
  using assms(2) at_work_permitted [OF run_submit_work [OF assms(1)]] at_work_permitted [OF sync_states_work [OF assms(1)]]
    at_work_permitted [OF state_badge_work [OF assms(1)]] at_work_permitted [OF restage_work [OF assms(1)]]
    at_work_permitted [OF kill_job_web_work] admin_create_permitted [OF assms(1)] admin_update_permitted [OF assms(1)]
    admin_delete_script_permitted [OF assms(1)] admin_register_permitted [OF assms(1)]
    admin_delete_machine_permitted [OF assms(1)] admin_toggle_permitted [OF assms(1)] admin_role_permitted [OF assms(1)]
  by (cases r) (simp_all add: mode_fst keeps_session)

lemma serve_public_permitted:
  assumes "public_route r"
  shows "permitted (st_auth (ap_station ap)) (ap_registry ap) Visitor db (fst (fst (serve_route ap now cr r (begin_session db, v))))"
proof (cases r)
  case (Api a)
  with assms show ?thesis
    by (cases a) (simp_all add: mode_fst login_permitted refresh_permitted logout_permitted)
next
  case (Web w)
  with assms show ?thesis
    by (cases w) (simp_all add: mode_fst login_submit_permitted web_logout_permitted)
qed

section \<open>The reconciler and the command line\<close>

definition background_writes :: "'k auth_libs \<Rightarrow> registry_libs \<Rightarrow> database \<Rightarrow> database \<Rightarrow> bool" where
  "background_writes al lb = (may_write al lb Background)\<^sup>*\<^sup>*"

lemma background_follow: "background_writes al lb db db' \<Longrightarrow> outcome_only f \<Longrightarrow> background_writes al lb db (update_job uuid f db')"
  unfolding background_writes_def by (rule rtranclp.rtrancl_into_rtrancl) (auto intro: follow_job)

lemma reconcile_job_writes:
  "background_writes al lb db (fst dv) \<Longrightarrow> background_writes al lb db (fst (reconcile_job c j dv))"
  by (auto simp: reconcile_job_def Let_def case_prod_beta intro: background_follow split: sum.split)

lemma fold_keeps: "P s \<Longrightarrow> (\<And>x s. P s \<Longrightarrow> P (f x s)) \<Longrightarrow> P (fold f xs s)"
  by (induction xs arbitrary: s) simp_all

lemma reconcile_jobs_write:
  assumes "background_writes al lb db (fst dv)"
  shows "background_writes al lb db (fst (fold (reconcile_job c) js dv))"
  by (rule fold_keeps [where P = "\<lambda>dv. background_writes al lb db (fst dv)", OF assms]) (rule reconcile_job_writes)

lemma reconcile_machine_writes:
  fixes nt :: "('c, 'l, 'w) net"
  assumes "background_writes al lb db (fst dv)"
  shows "background_writes al lb db (fst (reconcile_machine nt jobs m dv))"
proof -
  have "background_writes al lb db (fst (fold (reconcile_job c) js (fst dv, v)))"
    for c :: "('c, 'l, 'w) client" and js v
    by (rule reconcile_jobs_write) (simp add: assms)
  with assms show ?thesis by (auto simp: reconcile_machine_def Let_def case_prod_beta split: sum.split)
qed

lemma reconcile_once_writes: "background_writes al lb db (fst (reconcile_once nt (db, v)))"
  unfolding reconcile_once_def Let_def
  by (rule fold_keeps [where P = "\<lambda>dv. background_writes al lb db (fst dv)"])
    (simp add: background_writes_def, rule reconcile_machine_writes)

lemma seed_loop_permitted:
  "permitted al lb Operator db s \<Longrightarrow> permitted al lb Operator db (fst (seed_loop lb now uid bs cr sk s))"
proof (induction bs arbitrary: cr sk s)
  case (Cons b bs)
  have "permitted al lb Operator db (fst (create_script lb now (bs_name b) (bs_content b) (bs_meta_yaml b) uid s))"
    by (rule create_script_permitted) (simp_all add: Cons.prems)
  with Cons show ?case
    by (cases "create_script lb now (bs_name b) (bs_content b) (bs_meta_yaml b) uid s") (auto split: sum.split)
qed simp

lemma admin_command_writes:
  "(may_write al lb Operator)\<^sup>*\<^sup>* db (fst (admin_main hash lb now dir c db))"
proof (cases c)
  case (Create_Admin ty)
  show ?thesis
  proof (cases "o_end (snd (create_admin hash now ty db)) = Returns")
    case True
    then obtain h where "find (\<lambda>u. u_username u = py_strip (ty_username ty)) (users db) = None"
      "fst (create_admin hash now ty db) = db\<lparr>users := users db @ [new_admin now (py_strip (ty_username ty)) h db]\<rparr>"
      by (metis create_admin_Returns prod.collapse)
    then show ?thesis by (simp add: Create_Admin r_into_rtranclp new_account)
  next
    case False
    then have "fst (create_admin hash now ty db) = db" by (metis create_admin_fails prod.collapse)
    then show ?thesis by (simp add: Create_Admin)
  qed
next
  case Seed_Scripts
  have "permitted al lb Operator db (fst (seed_builtin_scripts lb now i dir (begin_session db)))" for i
    by (simp add: seed_builtin_scripts_def seed_loop_permitted)
  then have "permitted al lb Operator db s" if "seed_builtin_scripts lb now i dir (begin_session db) = (s, r)" for i s r
    by (metis that fst_conv)
  then show ?thesis
    by (auto simp: Seed_Scripts seed_scripts_def split: option.split prod.split sum.split
        intro!: permitted_finish permitted_commit)
qed

end
