(* ===== verification/Control_Props.thy ===== *)
theory Control_Props
  imports Control_Writes
begin

text \<open>
  The control station obeys its policy: without a login nothing happens, and every request, reconciliation and
  administrative command is a sequence of permitted writes.  What permitted writes keep holds along every run.
\<close>

section \<open>Without a login\<close>

text \<open>What is answered then: 401 or the login page, and 500 for a signed token whose claims cannot be read.\<close>

definition refusal :: "'k auth_libs \<Rightarrow> int \<Rightarrow> 'k \<Rightarrow> http_error" where
  "refusal al now t = (if decode_access_token al now t = Inl Claim_Error then internal_error else credentials_exception)"

definition refusal_page :: "'k auth_libs \<Rightarrow> int \<Rightarrow> 'k option \<Rightarrow> 'p web_response" where
  "refusal_page al now cookie =
     (if (\<exists>t. cookie = Some t \<and> decode_access_token al now t = Inl Claim_Error) then Failed internal_error else to_login)"

lemma refusal_status: "he_status (refusal al now t) \<in> {401, 500}"
  by (simp add: refusal_def credentials_exception_def internal_error_def csl_exception_def http_exception_def)

lemma refusal_page_outcome: "web_outcome (refusal_page al now cookie) \<in> {Sent_To ''/login'', Denied 500}"
  by (simp add: refusal_page_def to_login_def web_outcome_def internal_error_def http_exception_def)

lemma no_owner_api:
  assumes "token_owner al now (Some t) db = None"
  shows "current_user al now t db = Inl (refusal al now t)" "require_admin al now t db = Inl (refusal al now t)"
    "accessible_machine al now t mid db = Inl (refusal al now t)"
proof -
  show c: "current_user al now t db = Inl (refusal al now t)"
    using assms by (auto simp: current_user_def token_owner_def refusal_def split: sum.split token_error.split option.splits if_splits)
  show "require_admin al now t db = Inl (refusal al now t)" by (simp add: require_admin_def c)
  show "accessible_machine al now t mid db = Inl (refusal al now t)" by (simp add: accessible_machine_def c)
qed

lemma no_owner_web_user:
  "token_owner al now cookie db = None \<Longrightarrow> web_current_user al now cookie db = Inl (refusal_page al now cookie)"
  by (cases cookie) (auto simp: web_current_user_def token_owner_def refusal_page_def
      split: sum.splits token_error.split option.splits if_splits)

lemma no_owner_web:
  assumes "token_owner al now cookie db = None"
  shows "web_require_admin al now cookie db = Inl (refusal_page al now cookie)"
    "web_accessible al now cookie mid db = Inl (refusal_page al now cookie)"
  by (simp_all add: web_require_admin_def web_accessible_def no_owner_web_user [OF assms])

lemmas serve_modes = reads_def in_session_def on_server_def

lemma stranger_bearer:
  assumes "token_owner (st_auth (ap_station ap)) now (Some t) (current s) = None" "\<not> public_route (Api r)"
  shows "serve_bearer ap now t r (s, v) = ((s, v), Denied (he_status (refusal (st_auth (ap_station ap)) now t)))"
  using assms(2) no_owner_api [OF assms(1)]
  by (cases r) (simp_all add: serve_modes api_outcome_def register_machine_def list_machines_def get_machine_def
        delete_machine_def add_bookmark_def remove_bookmark_def ping_machine_def agent_status_def submit_job_endpoint_def
        list_scripts_endpoint_def get_script_endpoint_def create_script_endpoint_def update_script_endpoint_def
        delete_script_endpoint_def kill_job_endpoint_def get_job_endpoint_def stream_job_logs_endpoint_def
        list_jobs_endpoint_def wake_on_lan_def list_audit_entries_def)

lemma stranger_web:
  assumes "token_owner (st_auth (ap_station ap)) now (cr_access cr) (current s) = None" "\<not> public_route (Web r)"
  shows "\<exists>out. serve_web ap now cr r (s, v) = ((s, v), out) \<and> out \<in> {Sent_To ''/login'', Denied 500}"
  using assms(2)
  by (cases r) (simp_all add: refusal_page_outcome [simplified] no_owner_web_user [OF assms(1)] no_owner_web [OF assms(1)]
      serve_modes Let_def dashboard_def ping_badge_def machine_detail_def run_form_def run_submit_def
      sync_states_def script_state_badge_def restage_def jobs_list_def job_detail_def job_log_stream_def kill_job_web_def
      admin_scripts_def admin_script_new_form_def admin_script_new_submit_def admin_script_edit_form_def
      admin_script_edit_submit_def admin_script_delete_def admin_machines_def admin_machine_new_form_def
      admin_machine_new_submit_def admin_machine_delete_def admin_users_def admin_user_toggle_def admin_user_role_def
      admin_audit_def)

lemma serve_api_bearer:
  "\<not> public_route (Api r) \<Longrightarrow>
     serve_api ap now cr r sv = (case cr_bearer cr of None \<Rightarrow> (sv, No_Bearer) | Some t \<Rightarrow> serve_bearer ap now t r sv)"
  by (cases r) (simp_all split: option.split)

lemma stranger_refused:
  assumes "\<not> public_route r" "token_owner (st_auth (ap_station ap)) now (credential r cr) db = None"
  shows "\<exists>out. handle_request ap now cr r (db, v) = ((db, v), out)
    \<and> out \<in> {No_Bearer, Denied 401, Denied 500, Sent_To ''/login''}"
proof -
  have "\<exists>out. serve_route ap now cr r (begin_session db, v) = ((begin_session db, v), out)
      \<and> out \<in> {No_Bearer, Denied 401, Denied 500, Sent_To ''/login''}"
  proof (cases r)
    case (Api a)
    show ?thesis
    proof (cases "cr_bearer cr")
      case None
      with Api assms(1) show ?thesis by (simp add: serve_api_bearer)
    next
      case (Some t)
      with Api assms(2) have "token_owner (st_auth (ap_station ap)) now (Some t) (current (begin_session db)) = None" by simp
      from stranger_bearer [OF this] Api assms(1) Some refusal_status [of "st_auth (ap_station ap)" now t] show ?thesis
        by (auto simp: serve_api_bearer)
    qed
  next
    case (Web w)
    with assms(2) have "token_owner (st_auth (ap_station ap)) now (cr_access cr) (current (begin_session db)) = None" by simp
    from stranger_web [OF this] Web assms(1) show ?thesis by fastforce
  qed
  then show ?thesis by (auto simp: handle_request_def)
qed

text \<open>
  C6. Without a login nothing happens: a request to any route of the API or the web, except login, logout, refresh and
  health, that does not carry an unexpired access token of an enabled user changes nothing, neither in the
  database nor on any machine, and is answered by a refusal (401, or the login page; 500 for a signed token whose
  claims cannot be read).
\<close>

theorem strangers_change_nothing:
  assumes "\<not> public_route r"
    and "\<And>t i role u. credential r cr = Some t \<Longrightarrow> decode_access_token (st_auth (ap_station ap)) now t = Inr (i, role)
      \<Longrightarrow> find_user i db = Some u \<Longrightarrow> u_disabled u"
  shows "\<exists>out. handle_request ap now cr r (db, v) = ((db, v), out)
    \<and> out \<in> {No_Bearer, Denied 401, Denied 500, Sent_To ''/login''}"
  by (rule stranger_refused [OF assms(1)]) (use assms(2) in \<open>auto simp: token_owner_def split: option.split sum.split\<close>)

section \<open>Every write is permitted\<close>

lemma handle_request_eq:
  "fst (fst (handle_request ap now cr r (db, v))) = finish (fst (fst (serve_route ap now cr r (begin_session db, v))))"
  by (simp add: handle_request_def case_prod_beta)

lemma step_writes:
  "(may_write (st_auth (ap_station ap)) (ap_registry ap) (actor_of (st_auth (ap_station ap)) act (fst dv)))\<^sup>*\<^sup>*
     (fst dv) (fst (station_step ap act dv))"
proof (cases act)
  case (Request now cr r)
  let ?al = "st_auth (ap_station ap)"
  obtain db v where dv: "dv = (db, v)" by (cases dv)
  show ?thesis
  proof (cases "public_route r")
    case True
    then show ?thesis
      using permitted_finish [OF serve_public_permitted [OF True]] by (simp add: Request dv handle_request_eq)
  next
    case False
    show ?thesis
    proof (cases "token_owner ?al now (credential r cr) db")
      case None
      from stranger_refused [OF False None, of v] obtain out
        where "handle_request ap now cr r (db, v) = ((db, v), out)" by blast
      then show ?thesis by (simp add: Request dv)
    next
      case (Some u)
      have "permitted ?al (ap_registry ap) (Member u) db (fst (fst (serve_route ap now cr r (begin_session db, v))))"
      proof (cases r)
        case (Api a)
        with Some obtain t where t: "cr_bearer cr = Some t" by (cases "cr_bearer cr") (auto simp: token_owner_def)
        with Api Some False serve_bearer_permitted [of ap now t db u a v] show ?thesis by (simp add: serve_api_bearer)
      next
        case (Web w)
        with Some False serve_web_permitted [of ap now cr db u w v] show ?thesis by simp
      qed
      from permitted_finish [OF this] Some False show ?thesis by (simp add: Request dv handle_request_eq)
    qed
  qed
next
  case Reconcile
  obtain db v where dv: "dv = (db, v)" by (cases dv)
  from reconcile_once_writes [of "st_auth (ap_station ap)" "ap_registry ap" db "st_net (ap_station ap)" v] Reconcile dv
  show ?thesis by (simp add: background_writes_def)
next
  case (Admin_Command now dir c)
  then show ?thesis by (simp add: admin_command_writes)
qed

text \<open>
  C7. The control station implements its access policy: whatever is requested, with whatever credentials, and whatever the
  network answers, the database that a request, a reconciliation or an administrative command leaves is reached by
  writes which the policy permits to the one who acts: a visitor, the enabled user whose token was sent, the
  reconciler, the operator at the command line.
\<close>

theorem every_write_permitted:
  "(may_write (st_auth (ap_station ap)) (ap_registry ap) (actor_of (st_auth (ap_station ap)) act (fst dv)))\<^sup>*\<^sup>*
     (fst dv) (fst (station_step ap act dv))"
  by (rule step_writes)

section \<open>What holds along every run\<close>

text \<open>A property that permitted writes keep is one that every step keeps.\<close>

lemma step_keeps:
  assumes "P (fst dv)"
    and "\<And>db db'. P db \<Longrightarrow> may_write (st_auth (ap_station ap)) (ap_registry ap) (actor_of (st_auth (ap_station ap)) act (fst dv)) db db'
      \<Longrightarrow> P db'"
  shows "P (fst (station_step ap act dv))"
  using step_writes [of ap act dv]
proof (induction rule: rtranclp_induct)
  case base
  show ?case by (rule assms(1))
next
  case (step y z)
  show ?case by (rule assms(2) [OF step.IH step.hyps(2)])
qed

interpretation tables: act_system "station_step ap" "\<lambda>dv. database_wf (ap_registry ap) (fst dv)" for ap
  by unfold_locales (rule step_keeps, auto intro: may_write_wf)

text \<open>
  C9. From the empty database, along every run of requests, reconciliations and administrative commands, the tables are
  consistent: every primary key and every unique name is unique, a bookmark is unique and of a machine that exists,
  there is one cached state for a script on a machine, and every script of the library has the MD5 of its content,
  valid metadata, and the flag its metadata says.
\<close>

theorem station_database_consistent:
  "database_wf (ap_registry ap) (fst (run (station_step ap) acts (empty_database, v)))"
  by (rule tables.run_inv) (simp add: database_wf_def machines_wf_def scripts_wf_def empty_database_def)

text \<open>The part of an account that nothing changes, and the audit log: both only grow.\<close>

definition account :: "user_row \<Rightarrow> int \<times> string \<times> string \<times> int" where
  "account u = (u_id u, u_username u, u_password_hash u, u_created_at u)"

lemma write_accounts:
  assumes "may_write al lb who db db'"
  shows "prefix (map account (users db)) (map account (users db')) \<and> (who \<noteq> Operator \<longrightarrow> map account (users db') = map account (users db))
    \<and> prefix (audit_rows db) (audit_rows db')"
  using assms
proof (cases rule: may_write.cases)
  case (revoke jti)
  then show ?thesis by (simp add: revoke_users)
qed (simp_all add: users_key_set_user account_def add_audit_row_def)

lemma accounts_same: "may_write al lb who db db' \<Longrightarrow> who \<noteq> Operator \<Longrightarrow> map account (users db') = map account (users db)"
  using write_accounts by blast

definition grown :: "database \<Rightarrow> database \<Rightarrow> bool" where
  "grown db db' \<longleftrightarrow> prefix (map account (users db)) (map account (users db')) \<and> prefix (audit_rows db) (audit_rows db')"

lemma grown_step: "grown db (fst dv) \<Longrightarrow> grown db (fst (station_step ap act dv))"
  by (erule step_keeps) (meson grown_def prefix_order.trans write_accounts)

interpretation growing: act_system "station_step ap" "\<lambda>dv. grown db (fst dv)" for ap db
  by unfold_locales (rule grown_step)

fun no_operator :: "'k station_act \<Rightarrow> bool" where
  "no_operator (Admin_Command _ _ _) = False"
| "no_operator act = True"

lemma actor_not_operator: "no_operator act \<Longrightarrow> actor_of al act db \<noteq> Operator"
  by (cases act) (auto split: option.split)

interpretation accounts: frame_system "station_step ap" "\<lambda>_. True" no_operator "\<lambda>dv. map account (users (fst dv))" for ap
proof (unfold_locales, goal_cases)
  case (2 s act)
  have "map account (users (fst (station_step ap act s))) = map account (users (fst s))"
    by (rule step_keeps [where P = "\<lambda>db. map account (users db) = map account (users (fst s))"])
      (simp_all add: accounts_same [OF _ actor_not_operator [OF 2(2)]])
  then show ?case .
qed simp

text \<open>
  C10. Along every run, no account is ever removed, renamed or given another password, and no row of the audit log is
  ever changed or removed: both only grow, and accounts are created by the operator's command alone.
\<close>

theorem accounts_and_audit_log_kept:
  "prefix (map account (users (fst dv))) (map account (users (fst (run (station_step ap) acts dv))))
   \<and> prefix (audit_rows (fst dv)) (audit_rows (fst (run (station_step ap) acts dv)))
   \<and> (list_all no_operator acts \<longrightarrow>
        map account (users (fst (run (station_step ap) acts dv))) = map account (users (fst dv)))"
proof -
  have "grown (fst dv) (fst (run (station_step ap) acts dv))"
    by (rule growing.run_inv) (simp add: grown_def)
  then show ?thesis using accounts.run_view [where s = dv and as = acts] by (simp add: grown_def)
qed

section \<open>There is always an administrator\<close>

definition actor_ok :: "actor \<Rightarrow> database \<Rightarrow> bool" where
  "actor_ok who db \<longleftrightarrow> (\<forall>u. who = Member u \<longrightarrow> u \<in> set (users db) \<and> \<not> u_disabled u)"

lemma actor_of_ok: "actor_ok (actor_of al act db) db"
  by (cases act) (auto simp: actor_ok_def token_owner_def find_user_def dest: find_SomeD
      split: option.splits sum.splits if_splits)

lemma write_admin:
  assumes "may_write al lb who db db'" "has_admin db \<and> actor_ok who db"
  shows "has_admin db' \<and> actor_ok who db'"
  using assms(1)
proof (cases rule: may_write.cases)
  case (enable u uid b)
  then have "u \<in> set (users db)" "\<not> u_disabled u" using assms(2) by (simp_all add: actor_ok_def)
  then have "u \<in> set (users db')" using enable by (auto intro: set_user_keeps)
  with enable \<open>\<not> u_disabled u\<close> show ?thesis by (auto simp: actor_ok_def intro: has_adminI)
next
  case (change_role u role uid)
  then have u: "u \<in> set (users db)" "\<not> u_disabled u" using assms(2) by (simp_all add: actor_ok_def)
  have "(if u_id u = uid then u\<lparr>u_role := role\<rparr> else u) = u" using change_role by simp
  with set_user_member [OF u(1), of uid "\<lambda>x. x\<lparr>u_role := role\<rparr>"] change_role have "u \<in> set (users db')" by simp
  with change_role u(2) show ?thesis by (auto simp: actor_ok_def intro: has_adminI)
next
  case (revoke jti)
  with assms(2) show ?thesis by (simp add: actor_ok_def has_admin_def revoke_users)
qed (use assms(2) in \<open>auto simp: actor_ok_def has_admin_def\<close>)

lemma step_admin: "has_admin (fst dv) \<Longrightarrow> has_admin (fst (station_step ap act dv))"
  using step_keeps [where P = "\<lambda>db. has_admin db \<and> actor_ok (actor_of (st_auth (ap_station ap)) act (fst dv)) db" and dv = dv and act = act and ap = ap]
    actor_of_ok [of "st_auth (ap_station ap)" act "fst dv"] write_admin by blast

interpretation administrators: act_system "station_step ap" "\<lambda>dv. has_admin (fst dv)" for ap
  by unfold_locales (rule step_admin)

text \<open>
  C11. The station never loses its administrators: whatever is requested, by whomever, and whatever else happens, an
  enabled administrator remains.
\<close>

theorem station_keeps_administrator:
  assumes "has_admin (fst dv)"
  shows "has_admin (fst (run (station_step ap) acts dv))"
  using assms by (rule administrators.run_inv)

section \<open>What an ordinary user can do\<close>

text \<open>
  What a user without rights may cause, as seen from the start: bookmarks of his own, what became of jobs, jobs and audit
  rows in his name, and newer cached states.
\<close>

definition own_job :: "user_row \<Rightarrow> database \<Rightarrow> job_row \<Rightarrow> bool" where
  "own_job u db j \<longleftrightarrow> jb_user_id j = u_id u \<and> jb_machine_id j \<in> m_id ` set (machines db) \<and> jb_script_id j \<in> (Some \<circ> sc_id) ` set (scripts db)"

definition confined :: "user_row \<Rightarrow> database \<Rightarrow> database \<Rightarrow> bool" where
  "confined u db db' \<longleftrightarrow>
     users db' = users db \<and> machines db' = machines db \<and> scripts db' = scripts db \<and> refresh_tokens db' = refresh_tokens db
     \<and> filter (\<lambda>r. um_user_id r \<noteq> u_id u) (user_machines db') = filter (\<lambda>r. um_user_id r \<noteq> u_id u) (user_machines db)
     \<and> list_all2 (\<lambda>j j'. with_outcome_of j j' = j) (job_rows db) (take (length (job_rows db)) (job_rows db'))
     \<and> list_all (own_job u db) (drop (length (job_rows db)) (job_rows db'))
     \<and> prefix (audit_rows db) (audit_rows db')
     \<and> list_all (\<lambda>a. au_user_id a = Some (u_id u)) (drop (length (audit_rows db)) (audit_rows db'))"

lemma confined_refl: "confined u db db"
  by (simp add: confined_def list_all2_refl)

lemma outcome_only_keeps:
  assumes "outcome_only f"
  shows "with_outcome_of j (f j') = with_outcome_of j j'" "own_job u db (f j') = own_job u db j'"
proof -
  have "with_outcome_of j' (f j') = j'" using assms by (simp add: outcome_only_def)
  then have "with_outcome_of j (with_outcome_of j' (f j')) = with_outcome_of j j'"
    "own_job u db (with_outcome_of j' (f j')) = own_job u db j'" by simp_all
  then show "with_outcome_of j (f j') = with_outcome_of j j'" "own_job u db (f j') = own_job u db j'"
    by (simp, simp add: own_job_def with_outcome_of_def)
qed

lemma filter_stronger: "(\<And>x. P x \<Longrightarrow> Q x) \<Longrightarrow> filter P (filter Q xs) = filter P xs"
  by (induction xs) auto

lemma write_confined:
  assumes "may_write al lb (Member u) db1 db2" "confined u db db1" "u_role u \<noteq> ''admin''"
  shows "confined u db db2"
  using assms(1)
proof (cases rule: may_write.cases)
  case (follow_job f u' uuid)
  have "list_all2 (\<lambda>j j'. with_outcome_of j j' = j) js (map (\<lambda>j. if jb_job_uuid j = uuid then f j else j) old)"
    if "list_all2 (\<lambda>j j'. with_outcome_of j j' = j) js old" for js old
    using that by (simp add: list_all2_map2) (erule list_all2_mono, simp add: outcome_only_keeps [OF follow_job(2)])
  moreover have "list_all (own_job u db) (map (\<lambda>j. if jb_job_uuid j = uuid then f j else j) new)" if "list_all (own_job u db) new" for new
    using that by (auto simp: list_all_iff outcome_only_keeps [OF follow_job(2)])
  ultimately show ?thesis
    using assms(2) follow_job by (simp add: confined_def) (simp add: update_job_def take_map drop_map)
next
  case (start_job mid sc uuid ps resp)
  have n: "length (job_rows db) \<le> length (job_rows db1)"
    using assms(2) by (auto simp: confined_def dest!: list_all2_lengthD)
  have "own_job u db (new_job_row uuid mid sc u ps resp db1)"
    using start_job assms(2) by (simp add: own_job_def new_job_row_def may_use_def confined_def)
  with n start_job assms(2) show ?thesis by (simp add: confined_def)
next
  case (member_audit now action tt ti r d)
  with assms(2) prefix_length_le [of "audit_rows db" "audit_rows db1"] show ?thesis
    by (simp add: confined_def) (simp add: add_audit_row_def)
next
  case (unbookmark mid)
  have "filter (\<lambda>r. um_user_id r \<noteq> u_id u) (user_machines db2) = filter (\<lambda>r. um_user_id r \<noteq> u_id u) (user_machines db1)"
    unfolding unbookmark by (simp del: filter_filter) (rule filter_stronger, simp)
  with assms(2) unbookmark show ?thesis by (simp add: confined_def)
next
  case (bookmark mid)
  then have "filter (\<lambda>r. um_user_id r \<noteq> u_id u) (user_machines db2) = filter (\<lambda>r. um_user_id r \<noteq> u_id u) (user_machines db1)"
    by simp
  with assms(2) bookmark show ?thesis by (simp add: confined_def)
next
  case (note_state mid sc now st d)
  with assms(2) show ?thesis by (simp add: confined_def)
qed (use assms(3) in \<open>blast+\<close>)

text \<open>
  C8. An ordinary user is confined: whatever request an enabled user who is no administrator sends, the accounts,
  the machines, the script library, the sessions of other users and their bookmarks stay as they are; what is added
  are jobs in his name, on a machine and of a script that exist, and audit rows in his name; and of a job that was there
  only the outcome can change.
\<close>

theorem ordinary_user_confined:
  assumes "\<not> public_route r" "token_owner (st_auth (ap_station ap)) now (credential r cr) db = Some u" "u_role u \<noteq> ''admin''"
  shows "confined u db (fst (fst (handle_request ap now cr r (db, v))))"
proof -
  have "confined u db (fst (station_step ap (Request now cr r) (db, v)))"
    by (rule step_keeps [where P = "confined u db"])
      (use assms in \<open>simp_all add: confined_refl write_confined\<close>)
  then show ?thesis by simp
qed

section \<open>Bookmarks and access\<close>

text \<open>
  Access to a machine is a bookmark, and anyone with a login may set one: a single request gives every user the
  rights on every machine that exists.
\<close>

lemma anyone_bookmarks_himself_in:
  assumes "token_owner (st_auth (ap_station ap)) now (cr_bearer cr) db = Some u" "mid \<in> m_id ` set (machines db)"
  shows "may_use u mid (fst (station_step ap (Request now cr (Api (Api_Bookmark mid))) (db, v)))"
proof -
  obtain t where t: "cr_bearer cr = Some t" using assms(1) by (cases "cr_bearer cr") (auto simp: token_owner_def)
  have c: "current_user (st_auth (ap_station ap)) now t db = Inr u"
    using assms(1) t by (auto simp: token_owner_def current_user_def split: sum.splits option.splits if_splits)
  obtain m where m: "find_machine mid db = Some m"
    using assms(2) by (cases "find_machine mid db") (auto simp: find_machine_def find_None_iff)
  show ?thesis
    using assms(2) by (auto simp: t c m add_bookmark_def handle_request_def in_session_def may_use_def bookmarked_def
        get_machine_or_404_def finish_def commit_def begin_session_def Let_def)
qed

section \<open>Examples\<close>

definition example_application :: "(claims, unit, unit, unit) application" where
  "example_application =
     \<lparr>ap_station = example_control, ap_registry = example_registry_libs, ap_udp = (\<lambda>a p bs w. (w, None)),
      ap_sha256 = (\<lambda>x. x), ap_yaml_str = (\<lambda>y. []), ap_hash = Some\<rparr>"

definition example_credentials :: "claims credentials" where
  "example_credentials = \<lparr>cr_bearer = Some example_token, cr_access = Some example_token, cr_refresh = None, cr_flash = None\<rparr>"

text \<open>The token names the user 1, whoever that is now.\<close>

lemma example_decoded:
  "decode_access_token (st_auth (ap_station example_application)) 5 example_token = Inr (1, ''admin'')"
  by (simp add: example_application_def example_control_def decode_access_token_def decode_token_def example_token_def
      create_access_token_def example_auth_libs_def ACCESS_TOKEN_EXPIRE_MINUTES_def)

theorem strangers_change_nothing_witness:
  "\<exists>out. handle_request example_application 5 example_credentials (Web (Admin_Set_Role 1 ''admin''))
       (one_user\<lparr>users := [example_user\<lparr>u_disabled := True\<rparr>]\<rparr>, ([], ()))
     = ((one_user\<lparr>users := [example_user\<lparr>u_disabled := True\<rparr>]\<rparr>, ([], ())), out)
     \<and> out \<in> {No_Bearer, Denied 401, Denied 500, Sent_To ''/login''}"
proof (rule strangers_change_nothing)
  fix t i role u
  assume "credential (Web (Admin_Set_Role 1 ''admin'')) example_credentials = Some t"
    "decode_access_token (st_auth (ap_station example_application)) 5 t = Inr (i, role)"
    "find_user i (one_user\<lparr>users := [example_user\<lparr>u_disabled := True\<rparr>]\<rparr>) = Some u"
  then show "u_disabled u"
    by (auto simp: example_credentials_def example_decoded find_user_def split: if_splits)
qed simp

theorem accounts_and_audit_log_kept_witness:
  "map account (users (fst (run (station_step example_application)
     [Request 5 example_credentials (Web (Admin_Toggle_User 1)), Reconcile,
      Request 6 example_credentials (Api (Api_Login ''j2'' ''bob'' ''x''))] (one_user, ([], ())))))
   = map account (users one_user)"
proof -
  let ?acts = "[Request 5 example_credentials (Web (Admin_Toggle_User 1)), Reconcile,
      Request 6 example_credentials (Api (Api_Login ''j2'' ''bob'' ''x''))]"
  have "list_all no_operator ?acts" by simp
  with accounts_and_audit_log_kept [of "(one_user, ([], ()))" example_application ?acts] show ?thesis by simp
qed

theorem station_keeps_administrator_witness:
  "has_admin (fst (run (station_step example_application)
     [Request 5 example_credentials (Web (Admin_Toggle_User 1)), Reconcile,
      Request 6 example_credentials (Web (Admin_Set_Role 1 ''user''))] (one_user, ([], ()))))"
  by (rule station_keeps_administrator) (simp add: has_admin_def one_user_def example_user_def)

text \<open>An ordinary user tries to make himself an administrator.\<close>

theorem ordinary_user_confined_witness:
  "users (fst (fst (handle_request example_application 5 example_credentials (Web (Admin_Set_Role 1 ''admin''))
       (one_user\<lparr>users := [example_user\<lparr>u_role := ''user''\<rparr>]\<rparr>, ([], ()))))) = [example_user\<lparr>u_role := ''user''\<rparr>]"
proof -
  let ?u = "example_user\<lparr>u_role := ''user''\<rparr>" and ?r = "Web (Admin_Set_Role 1 ''admin'')"
  let ?db = "one_user\<lparr>users := [?u]\<rparr>"
  have "token_owner (st_auth (ap_station example_application)) 5 (credential ?r example_credentials) ?db = Some ?u"
    by (simp add: token_owner_def example_credentials_def example_decoded find_user_def example_user_def)
  from ordinary_user_confined [OF _ this, where v = "([], ())"]
  have "confined ?u ?db (fst (fst (handle_request example_application 5 example_credentials ?r (?db, ([], ())))))"
    by simp
  then show ?thesis by (simp add: confined_def)
qed

end
