(* ===== verification/Spec2Isabelle.thy ===== *)
theory Spec2Isabelle
  imports Script_Name Approvals_Props Runner_Props Process_Props Log_Props Agent_Main_Props Registry_Props
    Registration Approvals_Spec Station_Props Jobs_Props Machines_Props Server_Audit Magic_Packet Web_Props Agent_Cli_Props
    Agent_Policy Enrolment Agent_Command Server_Cli Server_Settings Migrations Os_Processes Api_Outputs Control_Props
begin

text \<open>
  A verification library for control-station-lite: a control station (\<open>src/control_station_lite/server\<close>) that
  runs scripts of its library on target machines, and an agent (\<open>src/control_station_lite/agent\<close>) on every
  target, which runs a script only after the owner of the machine approved that version of it.  Paths below are
  relative to \<open>src/control_station_lite\<close>.

  \<^bold>\<open>The parts and how they interact.\<close>  A browser or an API client talks to the control station (web routes, JSON
  API), which keeps users, machines, scripts, jobs, cached approval states and an audit log in a database.  To
  run a script it opens an SSH connection to the machine (pool), starts the agent through the forced command of
  its key (gateway), and speaks HTTP to it through a tunnel (agent client): it asks for the state of the script,
  stages it when it is unknown or outdated, and submits the job pinned to the MD5 it wants.  The agent keeps
  \<open>approvals.json\<close>, the directories of approved and of staged scripts, and its persistent jobs; the owner works
  on the same files with \<open>csl-agent approvals\<close> and \<open>csl-agent policy\<close>.

  \<^bold>\<open>Shared.\<close>
  \<^item> \<open>Prelude\<close>: Python text, dictionaries, numbers and exceptions, and the lemma collections \<open>py_simps\<close> and
    \<open>inv_intros\<close>.  \<open>Transition_Systems\<close>: runs of a step function and the locales \<open>act_system\<close>, \<open>guarded_system\<close>,
    \<open>frame_system\<close>, \<open>grant_system\<close>, \<open>refinement_system\<close>, which every component with an invariant interprets.
  \<^item> \<open>Script_Name\<close> (\<open>shared/script_name.py\<close>), \<open>Models\<close> (\<open>shared/models.py\<close>), \<open>Script_Meta\<close>
    (\<open>shared/script_meta.py\<close>, \<open>shared/_validation.py\<close>), \<open>Registration\<close> (\<open>shared/registration.py\<close>, base64 included).

  \<^bold>\<open>The agent.\<close>
  \<^item> \<open>Agent_Disk\<close>, \<open>Approvals\<close> (\<open>agent/approvals.py\<close>): a manager is its memory and the disk it shares; one
    definition per method, \<open>commit\<close> being the common tail of the mutating ones.  \<open>Approvals_Lemmas\<close>,
    \<open>Approvals_System\<close> (agent and owner on one installation), \<open>Approvals_Props\<close>, and \<open>Approvals_Spec\<close>, the abstract
    approval protocol that the manager is shown to implement.
  \<^item> \<open>Script_Runner\<close>, \<open>Runner_Props\<close> (\<open>agent/script_runner.py\<close>): validation of parameters, choice of the file,
    integrity check, environment.  The locale \<open>approval_source\<close> is what the runner needs of the manager.
  \<^item> \<open>Process_Manager\<close>, \<open>Process_Props\<close> (\<open>agent/process_manager.py\<close>, \<open>agent/state.py\<close>): persistent jobs and their
    recovery after a restart, \<open>Os_Processes\<close> (its platform helpers, on the answers of POSIX and Windows).  \<open>Log_Stream\<close>, \<open>Log_Props\<close> (\<open>agent/log_stream.py\<close>); \<open>Lifecycle\<close>
    (\<open>agent/lifecycle.py\<close>, with the locale \<open>has_running_count\<close>); \<open>Agent_Config\<close> (\<open>agent/config.py\<close>,
    \<open>agent/paths.py\<close>).
  \<^item> \<open>Agent_Main\<close>, \<open>Agent_Main_Props\<close> (\<open>agent/main.py\<close>): every endpoint behind its middleware, and the agent as a whole.
  \<^item> \<open>Agent_Cli\<close>, \<open>Agent_Cli_Props\<close> (\<open>agent/cli/cmd_approvals.py\<close>, \<open>cmd_policy.py\<close>): the owner's commands and what
    they print; \<open>Agent_Policy\<close>: the policy command up to the staging of the agent that starts next, which alone reads
    the new list.  \<open>Ssh_Gateway\<close> (\<open>shared/ssh_commands.py\<close>, \<open>agent/cli/cmd_ssh_gateway.py\<close>, the key entry of
    \<open>cmd_init.py\<close>).
  \<^item> \<open>Agent_Setup\<close> (\<open>agent/cli/cmd_setup.py\<close>, \<open>shared/platform_info.py\<close>), \<open>Service_Installer\<close>
    (\<open>agent/service_installer.py\<close>), \<open>Agent_Init\<close> with \<open>Agent_Init_Props\<close> (\<open>agent/cli/cmd_init.py\<close>): a machine is its text
    files and the rest of its state, on which the commands of the operating system, a parameter, act; a step on it may
    raise (\<open>andthen\<close> is the sequence).  \<open>Agent_Command\<close> (\<open>agent/cli/_main.py\<close>): which handler a command line reaches.

  \<^bold>\<open>The control station.\<close>
  \<^item> \<open>Server_Db\<close> (\<open>server/db\<close>, \<open>server/core/audit.py\<close>): a table is a list of rows, a session has a committed and a
    current database; an operation that ends without a commit is rolled back (\<open>finish\<close>).  \<open>Server_Errors\<close>
    (\<open>server/core/errors.py\<close>), \<open>Server_Auth\<close> with \<open>Server_Auth_Props\<close> (\<open>server/auth\<close>, \<open>server/api/auth.py\<close>),
    \<open>Script_Registry\<close> with \<open>Registry_Props\<close> (\<open>server/core/script_registry.py\<close>, \<open>builtin_scripts.py\<close>,
    \<open>server/api/scripts.py\<close>), \<open>Crypto\<close> (\<open>server/core/crypto.py\<close>).
  \<^item> \<open>Ssh_Pool\<close> (\<open>server/core/ssh.py\<close>), \<open>Agent_Client\<close> (\<open>server/core/agent_client.py\<close>): the network is the parameter
    \<open>net\<close>; a \<open>wire\<close> is the pool with the state of everything behind it.  \<open>Script_Sync\<close>
    (\<open>server/core/script_sync.py\<close>), \<open>Server_Machines\<close> with \<open>Machines_Props\<close> (\<open>server/api/machines.py\<close>), \<open>Server_Jobs\<close>
    with \<open>Jobs_Props\<close> (\<open>server/api/jobs.py\<close>), \<open>Job_Reconciler\<close> (\<open>server/core/job_reconciler.py\<close>), \<open>Magic_Packet\<close>,
    \<open>Server_Audit\<close> (\<open>server/api/builtin.py\<close>, \<open>audit.py\<close>).  \<open>Api_Outputs\<close>: the response models, and that no answer
    of a reading endpoint depends on a secret.
  \<^item> \<open>Agent_Service\<close> is the contract between the station and an agent, a locale over the client's network, in which
    the station's submission is verified once.  \<open>Station\<close> builds the network whose machines run the agent of
    \<open>Agent_Main\<close> and interprets the locale on it; \<open>Station_Props\<close> has the end-to-end property.
  \<^item> \<open>Web_Deps\<close>, \<open>Web_Run\<close>, \<open>Web_Machines\<close>, \<open>Web_Admin\<close> with \<open>Web_Props\<close> (\<open>server/web\<close>): every web route; a page is its
    status and the context its template gets.  \<open>Py_Float\<close>: \<open>float\<close> of a form field.
  \<^item> \<open>Server_Settings\<close> (\<open>server/config.py\<close>, \<open>middleware.py\<close>, \<open>logging_config.py\<close>, \<open>api/health.py\<close>, \<open>main.py\<close>),
    \<open>Server_Cli\<close> (\<open>server/cli.py\<close>), \<open>Migrations\<close> (\<open>server/db/migrations\<close>, and the tables of \<open>server/db/models.py\<close>
    as a schema; \<open>revision_chain\<close> has one unit of fuel per revision).
  \<^item> \<open>Control_Station\<close> (\<open>server/main.py\<close>): the routes of the whole application, each with its inputs, and the handler
    that serves it (\<open>handle_request\<close>: one session per request); \<open>station_step\<close> adds the reconciler and \<open>csl-admin\<close>, the
    other writers of the database.  \<open>Control_Policy\<close> is the abstract specification: \<open>may_write\<close>, an inductive relation,
    lists the writes each actor may make (a visitor, a member, the reconciler, the operator).  \<open>Control_Writes\<close>: every
    handler is a sequence of permitted writes.  \<open>Control_Props\<close>: so is every step, and what permitted writes keep
    (consistent tables, accounts, the audit log, an administrator) holds along every run.
  \<^item> \<open>Enrolment\<close>: \<open>csl-agent init\<close> on a target and its registration at the station, together.

  \<^bold>\<open>What the theorems show.\<close>  Approval: a script runs only in a version the owner approved (or lists for automatic
  approval), through every component, \<open>Approvals_Props\<close>, \<open>Runner_Props\<close>, \<open>Process_Props\<close>, \<open>Agent_Main_Props\<close>, up to
  the job the station records, \<open>Station_Props\<close>; the manager implements the abstract protocol, \<open>Approvals_Spec\<close>.
  Jobs: records are consistent, ended ones are final, restarts keep the live ones, logs are streamed completely,
  the agent shuts down when idle and only then.  The station: tokens, the consistency of the tables along every
  run, who may change and see what, what a submission and a reconciliation leave in the database.  The web
  changes what the API changes.  The application as a whole implements its access policy, \<open>Control_Props\<close>: without a
  login nothing happens, an ordinary user changes nothing that is not his, and the last administrator is never locked out.  Set-up: what \<open>init\<close> prints fits what it
  leaves on the target, a second run changes nothing, and a target registered with the bundle serves the station
  and nobody else (\<open>Enrolment\<close>); the created administrator can log in; accepted settings have usable keys; the
  migrations build the declared tables.

  \<^bold>\<open>Parameters.\<close>  What is not in the repository is an argument: PyYAML and pydantic's field parsing (\<open>libs\<close>,
  \<open>config_libs\<close>), the operating system's commands and the key generator of \<open>init\<close> (\<open>system\<close>, \<open>init_env\<close>), the JSON codecs of \<open>approvals.json\<close> and \<open>running.json\<close> (\<open>codec_ok\<close>: what is written is read back),
  jose and bcrypt (\<open>auth_libs_ok\<close>, \<open>decode_stable\<close>), AES-GCM (\<open>aead_ok\<close>), asyncssh and httpx (\<open>net\<close>), the hash
  functions, the operating system's processes and clock (arguments or the states of a run).  A hypothesis of a theorem
  about one of them has a witness that meets it.

  \<^bold>\<open>Bounds and termination.\<close>  Recursion is structural or has a measure; the two endless loops are given the list
  of their turns (\<open>Lifecycle.run_loop\<close>, \<open>Log_Stream.tail_turns\<close>), and \<open>Log_Props.finished_log_streamed\<close> states that
  the stream of a finished log ends after the turns it needs, \<open>Agent_Main_Props.idle_shutdown_exact\<close> when the idle loop
  does.  The polling of a starting agent is bounded by the code's own count.  Python's integers are \<open>int\<close>, a float is an
  exact rational, infinite or not-a-number, bytes on the wire are \<open>8 word\<close>.

  \<^bold>\<open>Not modelled.\<close>  Concurrency inside one process: a request is atomic, as the locks and the single event loop make
  it for the parts modelled; several processes over one disk are interleaved at method granularity.  File modes,
  file-system errors and directories; the manager itself on Windows.  The HTML of the templates, the text
  of help pages and of unified diffs, the log records of the agent.  \<open>argparse\<close>, FastAPI's matching of paths and request
  validation (a request of the API without a bearer token is refused by \<open>HTTPBearer\<close>, the outcome \<open>No_Bearer\<close>), Alembic's connection (\<open>run_migrations_*\<close> of \<open>env.py\<close>), \<open>uvicorn\<close>.  \<open>server/api/admin.py\<close> has no routes.
\<close>

end
